(* ===== verification/Prelude.thy ===== *)
theory Prelude
  imports Main "HOL-Library.Word" "HOL-Library.Monad_Syntax"
begin

text \<open>
  Shared vocabulary of the development: the machine types of the Go code, the error values
  that its functions return, run-time panics, little-endian integers as
  \<^verbatim>\<open>encoding/binary\<close> writes them, and Go strings as byte sequences.

  Two kinds of failure are kept apart. A Go function that returns an \<^verbatim>\<open>error\<close> has a
  result of a sum type (\<open>Inl\<close> the error) or a pair with an optional error. A run-time
  panic (an index or slice bound out of range, a nil dereference) ends the process; it
  is the value \<open>None\<close> of the type \<open>'a go\<close>, which is composed with the option monad.
\<close>

unbundle bit_operations_syntax

named_theorems panic_simps \<open>when a computation panics, and what it returns otherwise\<close>
named_theorems codec_simps \<open>decoding what the matching encoder wrote\<close>

section \<open>Machine types\<close>

type_synonym byte = "8 word"
type_synonym bytes = "8 word list"
type_synonym u16 = "16 word"
type_synonym u32 = "32 word"
type_synonym u64 = "64 word"

type_synonym 'a go = "'a option"

abbreviation panic :: "'a go" where "panic \<equiv> None"

section \<open>Error values\<close>

text \<open>
  The sentinel errors of the packages, errors of the environment (system calls and
  third-party packages), errors made from text only (\<^verbatim>\<open>fmt.Errorf\<close> without \<^verbatim>\<open>%w\<close>) and errors
  that wrap another one (\<^verbatim>\<open>%w\<close>). \<open>errors_is\<close> is \<^verbatim>\<open>errors.Is\<close>.
\<close>

datatype gerr =
    EOF
  | ErrUnexpectedEOF
  | ErrInvalidMagic
  | ErrInvalidVersion
  | ErrHeaderAlreadyParsed
  | ErrInvalidCommandChecksum
  | ErrHeaderAlreadySent
  | ErrUnsupported
  | ErrSkipCommand
  | ErrNotSupported
  | ErrInvalidSendCommand
  | ErrNotFound
  | ErrRootMountNotFound
  | ErrStopTreeIteration
  | ErrStopWalk
  | ErrEncryptionNotSupported
  | ErrMissingAttr u16
  | ErrNotExist string
  | EnvErr string
  | ErrText string
  | Errorf string gerr

fun errors_is :: "gerr \<Rightarrow> gerr \<Rightarrow> bool" where
  "errors_is (Errorf m e) t = (Errorf m e = t \<or> errors_is e t)"
| "errors_is e t = (e = t)"

lemma errors_is_refl [simp]: "errors_is e e"
  by (cases e) auto

section \<open>Little-endian integers\<close>

text \<open>
  \<open>le_enc n w\<close> is the \<open>n\<close> bytes that \<^verbatim>\<open>binary.LittleEndian\<close> writes for \<open>w\<close>;
  \<open>le_dec\<close> reads them back.
\<close>

fun le_enc :: "nat \<Rightarrow> 'a::len word \<Rightarrow> bytes" where
  "le_enc 0 w = []"
| "le_enc (Suc n) w = ucast w # le_enc n (drop_bit 8 w)"

fun le_dec :: "bytes \<Rightarrow> 'a::len word" where
  "le_dec [] = 0"
| "le_dec (b # bs) = ucast b OR push_bit 8 (le_dec bs)"

lemma length_le_enc [simp]: "length (le_enc n w) = n"
  by (induction n arbitrary: w) auto

text \<open>For evaluation on literals.\<close>

lemma le_enc_2: "le_enc 2 w = [ucast w, ucast (drop_bit 8 w)]"
  and le_enc_4: "le_enc 4 w
    = [ucast w, ucast (drop_bit 8 w), ucast (drop_bit 16 w), ucast (drop_bit 24 w)]"
  and le_enc_8: "le_enc 8 w
    = [ucast w, ucast (drop_bit 8 w), ucast (drop_bit 16 w), ucast (drop_bit 24 w),
       ucast (drop_bit 32 w), ucast (drop_bit 40 w), ucast (drop_bit 48 w), ucast (drop_bit 56 w)]"
  by (simp_all add: numeral_eq_Suc drop_bit_drop_bit)

lemmas le_enc_eval = le_enc_2 le_enc_4 le_enc_8

lemma bit_le_dec_enc:
  "bit (le_dec (le_enc n (w :: 'a::len word)) :: 'a word) i
     \<longleftrightarrow> i < 8 * n \<and> i < LENGTH('a) \<and> bit w i"
proof (induction n arbitrary: w i)
  case (Suc n)
  show ?case
    by (cases "i < 8") (auto simp: bit_simps Suc.IH not_less)
qed simp

lemma le_dec_enc: "LENGTH('a) \<le> 8 * n \<Longrightarrow> le_dec (le_enc n w) = (w :: 'a::len word)"
  by (rule bit_word_eqI) (simp add: bit_le_dec_enc)

lemmas le_dec_enc_widths [simp, codec_simps] =
  le_dec_enc [where 'a = 16 and n = 2, simplified]
  le_dec_enc [where 'a = 32 and n = 4, simplified]
  le_dec_enc [where 'a = 64 and n = 8, simplified]

lemma unat_ucast_16_32 [simp]: "unat (ucast (w :: u16) :: u32) = unat w"
proof -
  have "unat w < 2 ^ 16" using unsigned_less [of w] by simp
  then show ?thesis by (simp add: unsigned_ucast_eq take_bit_nat_eq_self)
qed

lemma le_enc_cong:
  "(\<And>i. i < 8 * n \<Longrightarrow> bit v i = bit w i) \<Longrightarrow> le_enc n v = le_enc n (w :: 'a::len word)"
proof (induction n arbitrary: v w)
  case (Suc n)
  have "(ucast v :: byte) = ucast w"
    using Suc.prems by (intro bit_word_eqI) (auto simp: bit_simps)
  moreover have "le_enc n (drop_bit 8 v) = le_enc n (drop_bit 8 w)"
    using Suc.prems by (intro Suc.IH) (simp add: bit_simps)
  ultimately show ?case by simp
qed simp

lemma bit_le_dec_bound: "bit (le_dec bs :: 'a::len word) n \<Longrightarrow> n < 8 * length bs"
proof (induction bs arbitrary: n)
  case (Cons b bs)
  show ?case
  proof (cases "n < 8")
    case False
    with Cons.prems have "bit (le_dec bs :: 'a word) (n - 8)"
      by (auto simp: bit_simps dest: bit_imp_le_length)
    from Cons.IH [OF this] False show ?thesis by simp
  qed simp
qed simp

lemma le_enc_dec:
  "8 * length bs \<le> LENGTH('a) \<Longrightarrow> le_enc (length bs) (le_dec bs :: 'a::len word) = bs"
proof (induction bs)
  case (Cons b bs)
  let ?w = "ucast b OR push_bit 8 (le_dec bs) :: 'a word"
  have "(ucast ?w :: byte) = b"
    using Cons.prems by (intro bit_word_eqI) (auto simp: bit_simps)
  moreover have "le_enc (length bs) (drop_bit 8 ?w) = le_enc (length bs) (le_dec bs :: 'a word)"
    using Cons.prems by (intro le_enc_cong) (auto simp: bit_simps dest: bit_imp_le_length)
  ultimately show ?case using Cons by simp
qed simp

lemma le_dec_inj:
  assumes "length xs = length ys" and "8 * length xs \<le> LENGTH('a)"
    and "(le_dec xs :: 'a::len word) = le_dec ys"
  shows "xs = ys"
  using le_enc_dec [of xs, where 'a = 'a] le_enc_dec [of ys, where 'a = 'a] assms by metis

section \<open>Go strings\<close>

text \<open>
  A Go string is a byte sequence; \<^verbatim>\<open>[]byte(s)\<close> and \<^verbatim>\<open>string(b)\<close> copy the bytes. HOL's
  \<open>char\<close> has exactly the 256 byte values.
\<close>

definition bytes_of_string :: "string \<Rightarrow> bytes" where
  "bytes_of_string s = map of_char s"

definition string_of_bytes :: "bytes \<Rightarrow> string" where
  "string_of_bytes b = map (\<lambda>x. char_of (unat x)) b"

lemma string_of_bytes_of_string [simp, codec_simps]: "string_of_bytes (bytes_of_string s) = s"
proof -
  have "char_of (unat (of_char c :: byte)) = c" for c
  proof -
    have "(of_char c :: byte) = of_nat (of_char c)" by (simp add: of_nat_of_char)
    then have "unat (of_char c :: byte) = of_char c mod 256" by (simp only: unat_of_nat) simp
    then show ?thesis by simp
  qed
  then show ?thesis
    by (simp add: string_of_bytes_def bytes_of_string_def o_def map_idI)
qed

lemma length_bytes_of_string [simp]: "length (bytes_of_string s) = length s"
  by (simp add: bytes_of_string_def)

lemma length_string_of_bytes [simp]: "length (string_of_bytes b) = length b"
  by (simp add: string_of_bytes_def)

section \<open>Lists, sums and options\<close>

lemma map_sum_eq_Inr [simp]: "map_sum f g x = Inr y \<longleftrightarrow> (\<exists>z. x = Inr z \<and> y = g z)"
  by (cases x) auto

lemma map_sum_eq_Inl [simp]: "map_sum f g x = Inl y \<longleftrightarrow> (\<exists>z. x = Inl z \<and> y = f z)"
  by (cases x) auto

lemma take_append_exact [simp]: "n = length xs \<Longrightarrow> take n (xs @ ys) = xs"
  by simp

lemma drop_append_exact [simp]: "n = length xs \<Longrightarrow> drop n (xs @ ys) = ys"
  by simp

end
