(* ===== verification/Queue.thy ===== *)
theory Queue
  imports Prelude
begin

text \<open>
  The concurrent queue of functions (\<^verbatim>\<open>pkg/cmd/queue/queue.go\<close>) as a step relation: the
  goroutine of the caller, which pushes functions and then waits, the goroutine of \<^verbatim>\<open>run\<close> and
  one goroutine for each function. What holds a mutex is one step; reads without it are
  steps of their own. A function is a number and returns the error that \<open>outcome\<close> gives.
\<close>

section \<open>The goroutines\<close>

datatype caller = Pushing | WaitGroup | Selecting | Returned "gerr option"

text \<open>
  \<open>AtTop\<close> is the head of the loop, \<open>Popping\<close> follows a check that found the queue not empty,
  \<open>SawEmpty\<close> one that found it empty, \<open>Draining\<close> is the final wait for the functions.
\<close>

datatype runner = AtTop | Popping | SawEmpty | Draining | Exited

datatype worker = Running | Sending gerr | Releasing | Finishing | Finished

record queue_state =
  todo :: "nat list"
  pushed :: "nat list"
  jobs :: "nat list"
  current :: nat
  errs :: "gerr list"
  wg :: nat
  waiting :: bool
  cancelled :: bool
  caller_at :: caller
  runner_at :: runner
  workers :: "(nat \<times> worker) list"

definition NewConcurrentQueue :: "nat list \<Rightarrow> queue_state" where
  "NewConcurrentQueue js = \<lparr>todo = js, pushed = [], jobs = [], current = 0, errs = [], wg = 0,
     waiting = False, cancelled = False, caller_at = Pushing, runner_at = AtTop, workers = []\<rparr>"

text \<open>The check of \<^verbatim>\<open>run\<close>; a concurrency of -1 is unlimited. The channel holds one error more.\<close>

definition may_start :: "int \<Rightarrow> queue_state \<Rightarrow> bool" where
  "may_start conc q \<longleftrightarrow> conc = - 1 \<or> int (current q) < conc"

definition set_worker :: "nat \<Rightarrow> worker \<Rightarrow> queue_state \<Rightarrow> queue_state" where
  "set_worker i w q = q\<lparr>workers := (workers q)[i := (fst (workers q ! i), w)]\<rparr>"

definition worker_is :: "nat \<Rightarrow> worker \<Rightarrow> queue_state \<Rightarrow> bool" where
  "worker_is i w q \<longleftrightarrow> i < length (workers q) \<and> snd (workers q ! i) = w"

inductive qstep :: "int \<Rightarrow> (nat \<Rightarrow> gerr option) \<Rightarrow> queue_state \<Rightarrow> queue_state \<Rightarrow> bool"
  for conc :: int and outcome :: "nat \<Rightarrow> gerr option" where
  push: "caller_at q = Pushing \<Longrightarrow> todo q = j # js \<Longrightarrow>
     qstep conc outcome q (q\<lparr>todo := js, pushed := pushed q @ [j], jobs := jobs q @ [j]\<rparr>)"
| lock_waiting: "caller_at q = Pushing \<Longrightarrow> todo q = [] \<Longrightarrow>
     qstep conc outcome q (q\<lparr>waiting := True, caller_at := WaitGroup\<rparr>)"
| wait_group: "caller_at q = WaitGroup \<Longrightarrow> wg q = 0 \<Longrightarrow>
     qstep conc outcome q (q\<lparr>caller_at := Selecting\<rparr>)"
| receive_error: "caller_at q = Selecting \<Longrightarrow> errs q = e # es \<Longrightarrow>
     qstep conc outcome q (q\<lparr>errs := es, caller_at := Returned (Some e)\<rparr>)"
| receive_done: "caller_at q = Selecting \<Longrightarrow> cancelled q \<Longrightarrow>
     qstep conc outcome q (q\<lparr>caller_at := Returned None\<rparr>)"
| check_some: "runner_at q = AtTop \<Longrightarrow> may_start conc q \<Longrightarrow> jobs q \<noteq> [] \<Longrightarrow>
     qstep conc outcome q (q\<lparr>runner_at := Popping\<rparr>)"
| start: "runner_at q = Popping \<Longrightarrow> jobs q = j # js \<Longrightarrow>
     qstep conc outcome q (q\<lparr>runner_at := AtTop, jobs := js, current := current q + 1,
       wg := wg q + 1, workers := workers q @ [(j, Running)]\<rparr>)"
| check_none: "runner_at q = AtTop \<Longrightarrow> may_start conc q \<Longrightarrow> jobs q = [] \<Longrightarrow>
     qstep conc outcome q (q\<lparr>runner_at := SawEmpty\<rparr>)"
| trylock: "runner_at q = SawEmpty \<Longrightarrow> \<not> waiting q \<Longrightarrow>
     qstep conc outcome q (q\<lparr>runner_at := AtTop\<rparr>)"
| trylock_fails: "runner_at q = SawEmpty \<Longrightarrow> waiting q \<Longrightarrow>
     qstep conc outcome q (q\<lparr>runner_at := Draining\<rparr>)"
| runner_exit: "runner_at q = Draining \<Longrightarrow> wg q = 0 \<Longrightarrow>
     qstep conc outcome q (q\<lparr>runner_at := Exited, cancelled := True\<rparr>)"
| returns_nil: "worker_is i Running q \<Longrightarrow> outcome (fst (workers q ! i)) = None \<Longrightarrow>
     qstep conc outcome q (set_worker i Releasing q)"
| returns_error: "worker_is i Running q \<Longrightarrow> outcome (fst (workers q ! i)) = Some e \<Longrightarrow>
     qstep conc outcome q (set_worker i (Sending e) q)"
| send: "worker_is i (Sending e) q \<Longrightarrow> int (length (errs q)) < conc + 1 \<Longrightarrow>
     qstep conc outcome q ((set_worker i Releasing q)\<lparr>errs := errs q @ [e]\<rparr>)"
| hand_over: "worker_is i (Sending e) q \<Longrightarrow> caller_at q = Selecting \<Longrightarrow> errs q = [] \<Longrightarrow>
     qstep conc outcome q ((set_worker i Releasing q)\<lparr>caller_at := Returned (Some e)\<rparr>)"
| release: "worker_is i Releasing q \<Longrightarrow>
     qstep conc outcome q ((set_worker i Finishing q)\<lparr>current := current q - 1\<rparr>)"
| finish: "worker_is i Finishing q \<Longrightarrow>
     qstep conc outcome q ((set_worker i Finished q)\<lparr>wg := wg q - 1\<rparr>)"

inductive qreach :: "int \<Rightarrow> (nat \<Rightarrow> gerr option) \<Rightarrow> nat list \<Rightarrow> queue_state \<Rightarrow> bool"
  for conc :: int and outcome :: "nat \<Rightarrow> gerr option" and js :: "nat list" where
  init: "qreach conc outcome js (NewConcurrentQueue js)"
| step: "qreach conc outcome js q \<Longrightarrow> qstep conc outcome q q' \<Longrightarrow> qreach conc outcome js q'"

section \<open>Counting goroutines\<close>

definition tally :: "(nat \<times> worker \<Rightarrow> bool) \<Rightarrow> (nat \<times> worker) list \<Rightarrow> nat" where
  "tally P ws = length (filter P ws)"

lemma tally_append [simp]: "tally P (ws @ [w]) = tally P ws + (if P w then 1 else 0)"
  by (simp add: tally_def)

lemma tally_Nil [simp]: "tally P [] = 0"
  by (simp add: tally_def)

lemma tally_update:
  "i < length ws \<Longrightarrow> tally P (ws[i := w]) + (if P (ws ! i) then 1 else 0)
     = tally P ws + (if P w then 1 else 0)"
proof (induction ws arbitrary: i)
  case (Cons v ws)
  then show ?case by (cases i) (auto simp: tally_def)
qed simp

lemma tally_0: "tally P ws = 0 \<longleftrightarrow> (\<forall>w\<in>set ws. \<not> P w)"
  by (auto simp: tally_def filter_empty_conv)

lemma tally_mono: "(\<And>w. w \<in> set ws \<Longrightarrow> P w \<Longrightarrow> Q w) \<Longrightarrow> tally P ws \<le> tally Q ws"
proof (induction ws)
  case (Cons w ws)
  then show ?case by (auto simp: tally_def le_SucI)
qed simp

text \<open>A function occupies a slot until its goroutine has decremented the counter.\<close>

fun holds_slot :: "nat \<times> worker \<Rightarrow> bool" where
  "holds_slot (j, w) \<longleftrightarrow> w \<noteq> Finishing \<and> w \<noteq> Finished"

fun unfinished :: "nat \<times> worker \<Rightarrow> bool" where
  "unfinished (j, w) \<longleftrightarrow> w \<noteq> Finished"

fun failing :: "(nat \<Rightarrow> gerr option) \<Rightarrow> nat \<times> worker \<Rightarrow> bool" where
  "failing outcome (j, w) \<longleftrightarrow> outcome j \<noteq> None"

fun reported :: "(nat \<Rightarrow> gerr option) \<Rightarrow> nat \<times> worker \<Rightarrow> bool" where
  "reported outcome (j, w) \<longleftrightarrow> outcome j \<noteq> None \<and> w \<in> {Releasing, Finishing, Finished}"

text \<open>What every reachable state satisfies: of the lists and counters, and of the goroutines.\<close>

definition counts_inv :: "int \<Rightarrow> nat list \<Rightarrow> queue_state \<Rightarrow> bool" where
  "counts_inv conc js q \<longleftrightarrow>
     pushed q @ todo q = js \<and> map fst (workers q) @ jobs q = pushed q
     \<and> current q = tally holds_slot (workers q) \<and> wg q = tally unfinished (workers q)
     \<and> (conc \<noteq> - 1 \<longrightarrow> int (current q) \<le> conc)
     \<and> (runner_at q = Popping \<longrightarrow> may_start conc q \<and> jobs q \<noteq> [])"

definition places_inv :: "queue_state \<Rightarrow> bool" where
  "places_inv q \<longleftrightarrow>
     (runner_at q = Exited \<longrightarrow> (\<forall>w\<in>set (workers q). snd w = Finished))
     \<and> (cancelled q \<longleftrightarrow> runner_at q = Exited)
     \<and> (caller_at q = Returned None \<longrightarrow> cancelled q)
     \<and> (caller_at q \<noteq> Pushing \<longrightarrow> todo q = []) \<and> (waiting q \<longleftrightarrow> caller_at q \<noteq> Pushing)"

definition errors_inv :: "int \<Rightarrow> (nat \<Rightarrow> gerr option) \<Rightarrow> queue_state \<Rightarrow> bool" where
  "errors_inv conc outcome q \<longleftrightarrow>
     (\<forall>e\<in>set (errs q). \<exists>j\<in>set (map fst (workers q)). outcome j = Some e)
     \<and> (\<forall>w\<in>set (workers q). \<forall>e. snd w = Sending e \<longrightarrow> outcome (fst w) = Some e)
     \<and> (\<forall>e. caller_at q = Returned (Some e) \<longrightarrow> (\<exists>j\<in>set (map fst (workers q)). outcome j = Some e))
     \<and> length (errs q) \<le> tally (reported outcome) (workers q) \<and> int (length (errs q)) \<le> conc + 1
     \<and> (caller_at q \<in> {Pushing, WaitGroup} \<longrightarrow>
          length (errs q) = tally (reported outcome) (workers q))"

lemmas queue_inv_defs = counts_inv_def places_inv_def errors_inv_def

lemma set_worker_simps [simp]:
  "todo (set_worker i w q) = todo q" "pushed (set_worker i w q) = pushed q"
  "jobs (set_worker i w q) = jobs q" "current (set_worker i w q) = current q"
  "errs (set_worker i w q) = errs q" "wg (set_worker i w q) = wg q"
  "waiting (set_worker i w q) = waiting q" "cancelled (set_worker i w q) = cancelled q"
  "caller_at (set_worker i w q) = caller_at q" "runner_at (set_worker i w q) = runner_at q"
  "length (workers (set_worker i w q)) = length (workers q)"
  by (simp_all add: set_worker_def)

lemma set_worker_jobs [simp]: "map fst (workers (set_worker i w q)) = map fst (workers q)"
  by (cases "i < length (workers q)")
     (auto simp: set_worker_def map_update intro!: nth_equalityI simp: nth_list_update)

lemma set_worker_fst [simp]: "fst ` set (workers (set_worker i w q)) = fst ` set (workers q)"
  by (metis set_worker_jobs list.set_map)

lemma set_worker_tally:
  assumes "worker_is i v q"
  shows "tally P (workers (set_worker i w q)) + (if P (fst (workers q ! i), v) then 1 else 0)
    = tally P (workers q) + (if P (fst (workers q ! i), w) then 1 else 0)"
proof -
  have "workers q ! i = (fst (workers q ! i), v)" and i: "i < length (workers q)"
    using assms by (auto simp: worker_is_def prod_eq_iff)
  then show ?thesis
    using tally_update [OF i, of P "(fst (workers q ! i), w)"] by (simp add: set_worker_def)
qed

lemma worker_is_mem: "worker_is i w q \<Longrightarrow> (fst (workers q ! i), w) \<in> set (workers q)"
  by (metis nth_mem prod.collapse worker_is_def)

lemma set_worker_mem:
  "x \<in> set (workers (set_worker i w q)) \<Longrightarrow> x \<in> set (workers q) \<or> x = (fst (workers q ! i), w)"
  by (auto simp: set_worker_def dest: set_update_subset_insert [THEN subsetD])

lemma may_start_mono: "may_start conc q \<Longrightarrow> current q' \<le> current q \<Longrightarrow> may_start conc q'"
  by (auto simp: may_start_def)

section \<open>The invariant\<close>

lemma counts_inv_step:
  assumes "qstep conc outcome q q'" "counts_inv conc js q"
  shows "counts_inv conc js q'"
  using assms
proof (cases rule: qstep.cases)
  case (returns_nil i)
  then show ?thesis
    using assms(2) set_worker_tally [of i Running q holds_slot Releasing]
      set_worker_tally [of i Running q unfinished Releasing]
    by (auto simp: counts_inv_def may_start_def)
next
  case (returns_error i e)
  then show ?thesis
    using assms(2) set_worker_tally [of i Running q holds_slot "Sending e"]
      set_worker_tally [of i Running q unfinished "Sending e"]
    by (auto simp: counts_inv_def may_start_def)
next
  case (send i e)
  then show ?thesis
    using assms(2) set_worker_tally [of i "Sending e" q holds_slot Releasing]
      set_worker_tally [of i "Sending e" q unfinished Releasing]
    by (auto simp: counts_inv_def may_start_def)
next
  case (hand_over i e)
  then show ?thesis
    using assms(2) set_worker_tally [of i "Sending e" q holds_slot Releasing]
      set_worker_tally [of i "Sending e" q unfinished Releasing]
    by (auto simp: counts_inv_def may_start_def)
next
  case (release i)
  then show ?thesis
    using assms(2) set_worker_tally [of i Releasing q holds_slot Finishing]
      set_worker_tally [of i Releasing q unfinished Finishing]
    by (auto simp: counts_inv_def may_start_def)
next
  case (finish i)
  then show ?thesis
    using assms(2) set_worker_tally [of i Finishing q holds_slot Finished]
      set_worker_tally [of i Finishing q unfinished Finished]
    by (auto simp: counts_inv_def may_start_def)
qed (auto simp: counts_inv_def may_start_def)

lemma places_inv_step:
  assumes "qstep conc outcome q q'" "counts_inv conc js q" "places_inv q"
  shows "places_inv q'"
proof -
  have idle: "wg q = 0 \<Longrightarrow> \<forall>w\<in>set (workers q). snd w = Finished"
    using assms(2) by (auto simp: counts_inv_def tally_0)
  have move: "places_inv (set_worker i w q)" if "worker_is i v q" "v \<noteq> Finished" for i v w
  proof -
    have "runner_at q \<noteq> Exited"
      using assms(3) worker_is_mem [OF that(1)] that(2) by (auto simp: places_inv_def)
    then show ?thesis using assms(3) by (auto simp: places_inv_def)
  qed
  show ?thesis
    using assms(1)
  proof (cases rule: qstep.cases)
    case (returns_nil i)
    then show ?thesis using move by simp
  next
    case (returns_error i e)
    then show ?thesis using move by simp
  next
    case (send i e)
    then show ?thesis using move [of i "Sending e" Releasing] by (auto simp: places_inv_def)
  next
    case (hand_over i e)
    then show ?thesis using move [of i "Sending e" Releasing] by (auto simp: places_inv_def)
  next
    case (release i)
    then show ?thesis using move [of i Releasing Finishing] by (auto simp add: places_inv_def)
  next
    case (finish i)
    then show ?thesis using move [of i Finishing Finished] by (auto simp add: places_inv_def)
  qed (use assms(3) idle in \<open>auto simp: places_inv_def\<close>)
qed

lemma sending_true:
  assumes "\<forall>x\<in>set (workers q). \<forall>e. snd x = Sending e \<longrightarrow> outcome (fst x) = Some e"
    "\<forall>e. w = Sending e \<longrightarrow> outcome (fst (workers q ! i)) = Some e"
  shows "\<forall>x\<in>set (workers (set_worker i w q)). \<forall>e. snd x = Sending e \<longrightarrow> outcome (fst x) = Some e"
proof
  fix x assume "x \<in> set (workers (set_worker i w q))"
  then consider "x \<in> set (workers q)" | "x = (fst (workers q ! i), w)"
    using set_worker_mem by blast
  then show "\<forall>e. snd x = Sending e \<longrightarrow> outcome (fst x) = Some e"
    by cases (use assms in auto)
qed

lemma errors_inv_set_worker:
  assumes "worker_is i v q" "errors_inv conc outcome q"
    "reported outcome (fst (workers q ! i), w) = reported outcome (fst (workers q ! i), v)"
    "\<forall>e. w = Sending e \<longrightarrow> outcome (fst (workers q ! i)) = Some e"
  shows "errors_inv conc outcome (set_worker i w q)"
proof -
  have "\<forall>x\<in>set (workers (set_worker i w q)). \<forall>e. snd x = Sending e \<longrightarrow> outcome (fst x) = Some e"
    by (intro sending_true [of q] assms(4)) (use assms(2) in \<open>simp add: errors_inv_def\<close>)
  moreover have "tally (reported outcome) (workers (set_worker i w q))
      = tally (reported outcome) (workers q)"
    using set_worker_tally [OF assms(1), of "reported outcome" w] assms(3) by simp
  ultimately show ?thesis
    using assms(2) by (auto simp: errors_inv_def simp del: reported.simps)
qed

lemma sending_reported:
  assumes "worker_is i (Sending e) q" "errors_inv conc outcome q"
  shows "outcome (fst (workers q ! i)) = Some e"
    "\<exists>x\<in>set (workers q). outcome (fst x) = Some e"
    "tally (reported outcome) (workers (set_worker i Releasing q))
       = Suc (tally (reported outcome) (workers q))"
    "\<forall>x\<in>set (workers (set_worker i Releasing q)). \<forall>e. snd x = Sending e \<longrightarrow> outcome (fst x) = Some e"
proof -
  have mem: "(fst (workers q ! i), Sending e) \<in> set (workers q)"
    using worker_is_mem [OF assms(1)] .
  then show out: "outcome (fst (workers q ! i)) = Some e"
    using assms(2) by (fastforce simp: errors_inv_def)
  show "\<exists>x\<in>set (workers q). outcome (fst x) = Some e"
    using mem out by (intro bexI [OF _ mem]) simp
  show "tally (reported outcome) (workers (set_worker i Releasing q))
       = Suc (tally (reported outcome) (workers q))"
    using set_worker_tally [OF assms(1), of "reported outcome" Releasing] out by simp
  show "\<forall>x\<in>set (workers (set_worker i Releasing q)). \<forall>e. snd x = Sending e \<longrightarrow> outcome (fst x) = Some e"
    by (intro sending_true [of q]) (use assms(2) in \<open>simp_all add: errors_inv_def\<close>)
qed

lemma errors_inv_step:
  assumes "qstep conc outcome q q'" "errors_inv conc outcome q"
  shows "errors_inv conc outcome q'"
  using assms(1)
proof (cases rule: qstep.cases)
  case (returns_nil i)
  then show ?thesis using assms(2) by (auto intro: errors_inv_set_worker)
next
  case (returns_error i e)
  then show ?thesis using assms(2) by (auto intro: errors_inv_set_worker)
next
  case (send i e)
  then show ?thesis
    using assms(2) sending_reported [OF send(2) assms(2)]
    by (simp add: errors_inv_def del: reported.simps split del: if_split)
next
  case (hand_over i e)
  then show ?thesis
    using assms(2) sending_reported [OF hand_over(2) assms(2)]
    by (auto simp: errors_inv_def simp del: reported.simps)
next
  case (release i)
  have "errors_inv conc outcome (set_worker i Finishing q)"
    by (rule errors_inv_set_worker [OF release(2) assms(2)]) auto
  then show ?thesis using release by (simp add: errors_inv_def)
next
  case (finish i)
  have "errors_inv conc outcome (set_worker i Finished q)"
    by (rule errors_inv_set_worker [OF finish(2) assms(2)]) auto
  then show ?thesis using finish by (simp add: errors_inv_def)
qed (use assms(2) in \<open>auto simp: errors_inv_def\<close>)

definition queue_inv :: "int \<Rightarrow> (nat \<Rightarrow> gerr option) \<Rightarrow> nat list \<Rightarrow> queue_state \<Rightarrow> bool" where
  "queue_inv conc outcome js q \<longleftrightarrow>
     counts_inv conc js q \<and> places_inv q \<and> errors_inv conc outcome q"

lemma queue_inv_step: "qstep conc outcome q q' \<Longrightarrow> queue_inv conc outcome js q \<Longrightarrow>
    queue_inv conc outcome js q'"
  by (meson counts_inv_step errors_inv_step places_inv_step queue_inv_def)

lemma queue_inv_reach:
  assumes "qreach conc outcome js q" "- 1 \<le> conc"
  shows "queue_inv conc outcome js q"
  using assms(1)
proof (induction rule: qreach.induct)
  case init
  then show ?case
    using assms(2) by (auto simp: queue_inv_def queue_inv_defs NewConcurrentQueue_def)
qed (rule queue_inv_step)

section \<open>Safety\<close>

text \<open>C7:
  In every state that the queue can reach, at most the configured number of functions is
  running; the functions start in the order in which they were pushed, each at most once; an
  error that \<^verbatim>\<open>Wait\<close> returns is one of a started function, and when \<^verbatim>\<open>Wait\<close> returns nil all
  started functions have finished.
\<close>

theorem queue_safe:
  assumes "qreach conc outcome js q" "- 1 \<le> conc"
  shows "(conc = - 1 \<or> int (tally holds_slot (workers q)) \<le> conc)
    \<and> (\<exists>rest. js = map fst (workers q) @ rest)
    \<and> (\<forall>e. caller_at q = Returned (Some e) \<longrightarrow> (\<exists>j\<in>set (map fst (workers q)). outcome j = Some e))
    \<and> (caller_at q = Returned None \<longrightarrow> (\<forall>w\<in>set (workers q). snd w = Finished))"
proof -
  have inv: "queue_inv conc outcome js q" by (rule queue_inv_reach [OF assms])
  have "js = map fst (workers q) @ (jobs q @ todo q)"
    using inv by (simp add: queue_inv_def counts_inv_def del: append_assoc add: append_assoc [symmetric])
  moreover have "conc = - 1 \<or> int (tally holds_slot (workers q)) \<le> conc"
    using inv by (auto simp: queue_inv_def counts_inv_def)
  moreover have "\<forall>e. caller_at q = Returned (Some e) \<longrightarrow> (\<exists>j\<in>set (map fst (workers q)). outcome j = Some e)"
    using inv by (simp add: queue_inv_def errors_inv_def)
  moreover have "caller_at q = Returned None \<longrightarrow> (\<forall>w\<in>set (workers q). snd w = Finished)"
    using inv by (auto simp: queue_inv_def places_inv_def)
  ultimately show ?thesis by blast
qed

section \<open>Deadlock\<close>

lemma started_failing_mono:
  assumes "qstep conc outcome q q'"
  shows "tally (failing outcome) (workers q) \<le> tally (failing outcome) (workers q')"
proof -
  have same: "tally (failing outcome) (workers (set_worker i w q)) = tally (failing outcome) (workers q)"
    if "worker_is i v q" for i v w
    using set_worker_tally [OF that, of "failing outcome" w] by simp
  show ?thesis
    using assms by (cases rule: qstep.cases) (auto simp: same)
qed

definition too_many :: "int \<Rightarrow> (nat \<Rightarrow> gerr option) \<Rightarrow> queue_state \<Rightarrow> bool" where
  "too_many conc outcome q \<longleftrightarrow> caller_at q \<in> {Pushing, WaitGroup}
     \<and> conc + 1 < int (tally (failing outcome) (workers q))"

lemma too_many_step:
  assumes "qstep conc outcome q q'" "errors_inv conc outcome q" "wg q = tally unfinished (workers q)"
    "too_many conc outcome q"
  shows "too_many conc outcome q'"
proof -
  have busy: "wg q \<noteq> 0"
  proof
    assume "wg q = 0"
    then have "\<forall>w\<in>set (workers q). snd w = Finished"
      using assms(3) by (auto simp: tally_0)
    then have "tally (failing outcome) (workers q) \<le> tally (reported outcome) (workers q)"
      by (intro tally_mono) auto
    then show False
      using assms(2,4) by (auto simp: errors_inv_def too_many_def)
  qed
  have "caller_at q' \<in> {Pushing, WaitGroup}"
    using assms(1)
    by (cases rule: qstep.cases) (use busy assms(4) in \<open>auto simp: too_many_def\<close>)
  then show ?thesis
    using started_failing_mono [OF assms(1)] assms(4) by (auto simp: too_many_def)
qed

text \<open>C12:
  Deadlock. If more than concurrency + 1 of the functions that were started fail before
  \<^verbatim>\<open>Wait\<close> has passed its wait group, the channel of errors is full, a goroutine blocks on it
  forever and \<^verbatim>\<open>Wait\<close> never returns, whatever happens later.
\<close>

theorem queue_deadlock:
  assumes "(qstep conc outcome)\<^sup>*\<^sup>* q q'" "qreach conc outcome js q" "- 1 \<le> conc"
    "caller_at q \<in> {Pushing, WaitGroup}"
    "conc + 1 < int (tally (failing outcome) (workers q))"
  shows "caller_at q' \<in> {Pushing, WaitGroup}"
proof -
  have "queue_inv conc outcome js q' \<and> too_many conc outcome q'"
    using assms(1)
  proof (induction rule: rtranclp_induct)
    case base
    then show ?case using queue_inv_reach [OF assms(2,3)] assms(4,5) by (simp add: too_many_def)
  next
    case (step q1 q2)
    then have "errors_inv conc outcome q1" "wg q1 = tally unfinished (workers q1)"
      by (simp_all add: queue_inv_def counts_inv_def)
    then show ?case using step queue_inv_step too_many_step by blast
  qed
  then show ?thesis by (simp add: too_many_def)
qed

section \<open>Progress\<close>

fun stage :: "nat \<times> worker \<Rightarrow> nat" where
  "stage (j, Running) = 4" | "stage (j, Sending e) = 3" | "stage (j, Releasing) = 2"
| "stage (j, Finishing) = 1" | "stage (j, Finished) = 0"

fun runner_stage :: "runner \<Rightarrow> nat" where
  "runner_stage AtTop = 4" | "runner_stage Popping = 3" | "runner_stage SawEmpty = 2"
| "runner_stage Draining = 1" | "runner_stage Exited = 0"

fun caller_stage :: "caller \<Rightarrow> nat" where
  "caller_stage Pushing = 3" | "caller_stage WaitGroup = 2" | "caller_stage Selecting = 1"
| "caller_stage (Returned r) = 0"

definition left :: "queue_state \<Rightarrow> nat" where
  "left q = 12 * length (todo q) + 10 * length (jobs q) + sum_list (map stage (workers q))
     + runner_stage (runner_at q) + caller_stage (caller_at q)"

lemma step_left:
  "qstep conc outcome q q' \<Longrightarrow> left q' < left q \<Longrightarrow> \<exists>q'. qstep conc outcome q q' \<and> left q' < left q"
  by blast

lemma sum_list_update_at:
  "i < length ws \<Longrightarrow> sum_list (map f (ws[i := w])) + f (ws ! i) = sum_list (map f ws) + (f w :: nat)"
proof (induction ws arbitrary: i)
  case (Cons v ws)
  then show ?case by (cases i) fastforce+
qed simp

lemma left_set_worker:
  assumes "worker_is i v q" "stage (fst (workers q ! i), w) < stage (fst (workers q ! i), v)"
  shows "sum_list (map stage (workers (set_worker i w q))) < sum_list (map stage (workers q))"
proof -
  have "workers q ! i = (fst (workers q ! i), v)" and i: "i < length (workers q)"
    using assms(1) by (auto simp: worker_is_def prod_eq_iff)
  then show ?thesis
    using sum_list_update_at [OF i, of stage "(fst (workers q ! i), w)"] assms(2)
    by (simp add: set_worker_def)
qed

lemma tally_less:
  assumes "\<And>w. w \<in> set ws \<Longrightarrow> P w \<Longrightarrow> Q w" "x \<in> set ws" "Q x" "\<not> P x"
  shows "tally P ws < tally Q ws"
proof -
  obtain us vs where ws: "ws = us @ x # vs" using assms(2) by (meson split_list)
  have "tally P us \<le> tally Q us" "tally P vs \<le> tally Q vs"
    using assms(1) ws by (auto intro!: tally_mono)
  then show ?thesis using assms(3,4) by (simp add: ws tally_def)
qed

definition failures :: "(nat \<Rightarrow> gerr option) \<Rightarrow> nat list \<Rightarrow> nat" where
  "failures outcome js = length (filter (\<lambda>j. outcome j \<noteq> None) js)"

lemma failures_started:
  "tally (failing outcome) ws = failures outcome (map fst ws)"
  by (induction ws) (auto simp: tally_def failures_def)

lemma channel_has_room:
  assumes "queue_inv conc outcome js q" "int (failures outcome js) \<le> conc + 1"
    "worker_is i (Sending e) q"
  shows "int (length (errs q)) < conc + 1"
proof -
  have "errors_inv conc outcome q" and c: "counts_inv conc js q"
    using assms(1) by (auto simp: queue_inv_def)
  then have out: "outcome (fst (workers q ! i)) = Some e"
    using sending_reported(1) [OF assms(3)] by blast
  have "tally (reported outcome) (workers q) < tally (failing outcome) (workers q)"
    by (rule tally_less [where x = "(fst (workers q ! i), Sending e)"])
       (use out worker_is_mem [OF assms(3)] in auto)
  moreover have "js = map fst (workers q) @ (jobs q @ todo q)"
    using c by (simp add: counts_inv_def del: append_assoc add: append_assoc [symmetric])
  then have "tally (failing outcome) (workers q) \<le> failures outcome js"
    by (simp add: failures_started) (simp add: failures_def)
  ultimately show ?thesis
    using \<open>errors_inv conc outcome q\<close> assms(2) by (simp add: errors_inv_def)
qed

lemma worker_progress:
  assumes "queue_inv conc outcome js q" "int (failures outcome js) \<le> conc + 1"
    "x \<in> set (workers q)" "snd x \<noteq> Finished"
  shows "\<exists>q'. qstep conc outcome q q' \<and> left q' < left q"
proof -
  obtain i where i: "i < length (workers q)" "workers q ! i = x"
    using assms(3) by (auto simp: in_set_conv_nth)
  then have w: "worker_is i (snd x) q" by (simp add: worker_is_def)
  show ?thesis
  proof (cases "snd x")
    case Running
    show ?thesis
    proof (cases "outcome (fst x)")
      case None
      then show ?thesis
        using w Running i left_set_worker [of i Running q Releasing]
        by (intro step_left [OF qstep.returns_nil]) (auto simp: left_def)
    next
      case (Some e)
      then show ?thesis
        using w Running i left_set_worker [of i Running q "Sending e"]
        by (intro step_left [OF qstep.returns_error]) (auto simp: left_def)
    qed
  next
    case (Sending e)
    then have "int (length (errs q)) < conc + 1"
      using channel_has_room [OF assms(1,2)] w by auto
    then show ?thesis
      using w Sending left_set_worker [of i "Sending e" q Releasing]
      by (intro step_left [OF qstep.send]) (auto simp: left_def)
  next
    case Releasing
    then show ?thesis
      using w left_set_worker [of i Releasing q Finishing]
      by (intro step_left [OF qstep.release]) (auto simp: left_def)
  next
    case Finishing
    then show ?thesis
      using w left_set_worker [of i Finishing q Finished]
      by (intro step_left [OF qstep.finish]) (auto simp: left_def)
  qed (use assms(4) in simp)
qed

lemma runner_progress:
  assumes "queue_inv conc outcome js q" "1 \<le> conc \<or> conc = - 1"
    "\<forall>x\<in>set (workers q). snd x = Finished" "caller_at q \<noteq> Pushing" "runner_at q \<noteq> Exited"
  shows "\<exists>q'. qstep conc outcome q q' \<and> left q' < left q"
proof -
  have zero: "wg q = 0" "current q = 0" and w: "waiting q"
    using assms(1,3,4) by (auto simp: queue_inv_def counts_inv_def places_inv_def tally_0)
  have m: "may_start conc q"
    using zero assms(2) by (auto simp: may_start_def)
  show ?thesis
  proof (cases "runner_at q")
    case AtTop
    show ?thesis
    proof (cases "jobs q = []")
      case True
      then show ?thesis using AtTop m
        by (intro step_left [OF qstep.check_none]) (auto simp: left_def)
    next
      case False
      then show ?thesis using AtTop m
        by (intro step_left [OF qstep.check_some]) (auto simp: left_def)
    qed
  next
    case Popping
    then obtain j js' where "jobs q = j # js'"
      using assms(1) by (auto simp: queue_inv_def counts_inv_def neq_Nil_conv)
    then show ?thesis using Popping
      by (intro step_left [OF qstep.start]) (auto simp: left_def)
  next
    case SawEmpty
    then show ?thesis using w
      by (intro step_left [OF qstep.trylock_fails]) (auto simp: left_def)
  next
    case Draining
    then show ?thesis using zero
      by (intro step_left [OF qstep.runner_exit]) (auto simp: left_def)
  qed (use assms(5) in simp)
qed

lemma queue_progress:
  assumes "queue_inv conc outcome js q" "1 \<le> conc \<or> conc = - 1"
    "int (failures outcome js) \<le> conc + 1" "\<forall>r. caller_at q \<noteq> Returned r"
  shows "\<exists>q'. qstep conc outcome q q' \<and> left q' < left q"
proof (cases "caller_at q = Pushing")
  case True
  show ?thesis
  proof (cases "todo q")
    case Nil
    then show ?thesis using True
      by (intro step_left [OF qstep.lock_waiting]) (auto simp: left_def)
  next
    case (Cons j js')
    then show ?thesis using True
      by (intro step_left [OF qstep.push]) (auto simp: left_def)
  qed
next
  case False
  show ?thesis
  proof (cases "(\<exists>x\<in>set (workers q). snd x \<noteq> Finished) \<or> runner_at q \<noteq> Exited")
    case True
    then show ?thesis
      using worker_progress [OF assms(1,3)] runner_progress [OF assms(1,2) _ False] by blast
  next
    case idle: False
    then have "wg q = 0" "cancelled q"
      using assms(1) by (auto simp: queue_inv_def counts_inv_def places_inv_def tally_0)
    then show ?thesis
    proof (cases "caller_at q")
      case WaitGroup
      then show ?thesis using \<open>wg q = 0\<close>
        by (intro step_left [OF qstep.wait_group]) (auto simp: left_def)
    next
      case Selecting
      then show ?thesis using \<open>cancelled q\<close>
        by (intro step_left [OF qstep.receive_done]) (auto simp: left_def)
    qed (use False assms(4) in auto)
  qed
qed

text \<open>C11:
  As long as at most concurrency + 1 of the functions fail, the queue cannot get stuck: from
  every state that it can reach, \<^verbatim>\<open>Wait\<close> can still return.
\<close>

theorem queue_can_return:
  assumes "qreach conc outcome js q" "1 \<le> conc \<or> conc = - 1"
    "int (failures outcome js) \<le> conc + 1"
  shows "\<exists>q' r. (qstep conc outcome)\<^sup>*\<^sup>* q q' \<and> caller_at q' = Returned r"
proof -
  have "queue_inv conc outcome js q"
    using queue_inv_reach [OF assms(1)] assms(2) by auto
  then show ?thesis
  proof (induction "left q" arbitrary: q rule: less_induct)
    case less
    show ?case
    proof (cases "\<exists>r. caller_at q = Returned r")
      case False
      then obtain q' where q': "qstep conc outcome q q'" "left q' < left q"
        using queue_progress [OF less(2) assms(2,3)] by blast
      then obtain q'' r where "(qstep conc outcome)\<^sup>*\<^sup>* q' q''" "caller_at q'' = Returned r"
        using less(1) queue_inv_step [OF q'(1) less(2)] by blast
      then show ?thesis using q'(1) by (meson converse_rtranclp_into_rtranclp)
    qed blast
  qed
qed

section \<open>What is lost\<close>

lemma qreach_steps: "(qstep conc outcome)\<^sup>*\<^sup>* q q' \<Longrightarrow> qreach conc outcome js q \<Longrightarrow> qreach conc outcome js q'"
  by (induction rule: rtranclp_induct) (auto intro: qreach.step)

lemma push_all:
  "(qstep conc outcome)\<^sup>*\<^sup>* (q\<lparr>todo := js, pushed := ps, jobs := bs, caller_at := Pushing\<rparr>)
     (q\<lparr>todo := [], pushed := ps @ js, jobs := bs @ js, caller_at := Pushing\<rparr>)"
proof (induction js arbitrary: ps bs)
  case (Cons j js)
  let ?q = "q\<lparr>todo := j # js, pushed := ps, jobs := bs, caller_at := Pushing\<rparr>"
  have eq: "q\<lparr>todo := js, pushed := ps @ [j], jobs := bs @ [j], caller_at := Pushing\<rparr>
      = ?q\<lparr>todo := js, pushed := pushed ?q @ [j], jobs := jobs ?q @ [j]\<rparr>"
    by simp
  have "qstep conc outcome ?q (q\<lparr>todo := js, pushed := ps @ [j], jobs := bs @ [j], caller_at := Pushing\<rparr>)"
    unfolding eq by (rule qstep.push) simp_all
  then show ?case
    using Cons [where ps = "ps @ [j]" and bs = "bs @ [j]"] by (simp add: converse_rtranclp_into_rtranclp)
qed simp

text \<open>Lost functions. \<^verbatim>\<open>Wait\<close> can return nil although not one of the pushed functions was started:
  \<^verbatim>\<open>run\<close> finds the queue empty, then all functions are pushed and \<^verbatim>\<open>Wait\<close> takes its lock,
  and only then \<^verbatim>\<open>run\<close> tries that lock, which now ends it.
\<close>

theorem queue_loses_functions:
  assumes "1 \<le> conc \<or> conc = - 1"
  shows "\<exists>q. qreach conc outcome js q \<and> caller_at q = Returned None \<and> workers q = [] \<and> jobs q = js"
proof -
  define q0 where "q0 = NewConcurrentQueue js"
  define q1 where "q1 = q0\<lparr>runner_at := SawEmpty\<rparr>"
  define q2 where "q2 = q1\<lparr>todo := [], pushed := js, jobs := js\<rparr>"
  define q3 where "q3 = q2\<lparr>waiting := True, caller_at := WaitGroup\<rparr>"
  define q4 where "q4 = q3\<lparr>runner_at := Draining\<rparr>"
  define q5 where "q5 = q4\<lparr>runner_at := Exited, cancelled := True\<rparr>"
  define q6 where "q6 = q5\<lparr>caller_at := Selecting\<rparr>"
  note defs = q0_def q1_def q2_def q3_def q4_def q5_def q6_def NewConcurrentQueue_def
  have "qreach conc outcome js q0" unfolding q0_def by (rule qreach.init)
  moreover have "qstep conc outcome q0 q1" unfolding q1_def
    by (rule qstep.check_none) (use assms in \<open>auto simp: defs may_start_def\<close>)
  ultimately have "qreach conc outcome js q1" by (rule qreach.step)
  moreover have "(qstep conc outcome)\<^sup>*\<^sup>* q1 q2"
    using push_all [where q = q1 and ps = "[]" and bs = "[]" and js = js] by (simp add: defs)
  ultimately have "qreach conc outcome js q2" by (metis qreach_steps)
  moreover have "qstep conc outcome q2 q3" unfolding q3_def
    by (rule qstep.lock_waiting) (simp_all add: defs)
  ultimately have "qreach conc outcome js q3" by (rule qreach.step)
  moreover have "qstep conc outcome q3 q4" unfolding q4_def
    by (rule qstep.trylock_fails) (simp_all add: defs)
  ultimately have "qreach conc outcome js q4" by (rule qreach.step)
  moreover have "qstep conc outcome q4 q5" unfolding q5_def
    by (rule qstep.runner_exit) (simp_all add: defs)
  ultimately have "qreach conc outcome js q5" by (rule qreach.step)
  moreover have "qstep conc outcome q5 q6" unfolding q6_def
    by (rule qstep.wait_group) (simp_all add: defs)
  ultimately have "qreach conc outcome js q6" by (rule qreach.step)
  moreover have "qstep conc outcome q6 (q6\<lparr>caller_at := Returned None\<rparr>)"
    by (rule qstep.receive_done) (simp_all add: defs)
  ultimately have "qreach conc outcome js (q6\<lparr>caller_at := Returned None\<rparr>)" by (rule qreach.step)
  then show ?thesis by (intro exI conjI) (assumption, simp_all add: defs)
qed

lemma queue_loses_functions_witness:
  "\<exists>q. qreach 1 (\<lambda>_. None) [7, 8] q \<and> caller_at q = Returned None \<and> workers q = [] \<and> jobs q = [7, 8]"
  by (rule queue_loses_functions) simp

lemma queue_can_return_witness:
  "\<exists>q' r. (qstep 1 (\<lambda>_. None))\<^sup>*\<^sup>* (NewConcurrentQueue [7, 8]) q' \<and> caller_at q' = Returned r"
  by (rule queue_can_return [OF qreach.init]) (simp_all add: failures_def)

text \<open>The runner takes one function after the other; the run of one function up to its slot.\<close>

lemma run_failing:
  assumes "1 \<le> conc" "outcome j = Some e" "jobs q = j # js" "runner_at q = AtTop" "current q = 0"
    "int (length (errs q)) < conc + 1"
  shows "(qstep conc outcome)\<^sup>*\<^sup>* q (q\<lparr>jobs := js, wg := wg q, current := 0, errs := errs q @ [e],
    workers := workers q @ [(j, Finished)]\<rparr>)"
proof -
  let ?i = "length (workers q)"
  define q1 where "q1 = q\<lparr>runner_at := Popping\<rparr>"
  define q2 where "q2 = q1\<lparr>runner_at := AtTop, jobs := js, current := current q1 + 1,
       wg := wg q1 + 1, workers := workers q1 @ [(j, Running)]\<rparr>"
  define q3 where "q3 = set_worker ?i (Sending e) q2"
  define q4 where "q4 = (set_worker ?i Releasing q3)\<lparr>errs := errs q3 @ [e]\<rparr>"
  define q5 where "q5 = (set_worker ?i Finishing q4)\<lparr>current := current q4 - 1\<rparr>"
  define q6 where "q6 = (set_worker ?i Finished q5)\<lparr>wg := wg q5 - 1\<rparr>"
  note defs = q1_def q2_def q3_def q4_def q5_def q6_def
  have "qstep conc outcome q q1" unfolding q1_def
    by (rule qstep.check_some) (use assms in \<open>auto simp: may_start_def\<close>)
  moreover have "qstep conc outcome q1 q2" unfolding q2_def
    by (rule qstep.start) (use assms in \<open>auto simp: q1_def\<close>)
  moreover have "qstep conc outcome q2 q3" unfolding q3_def
    by (rule qstep.returns_error) (use assms in \<open>auto simp: q1_def q2_def worker_is_def\<close>)
  moreover have "qstep conc outcome q3 q4" unfolding q4_def
    by (rule qstep.send) (use assms in \<open>auto simp: q1_def q2_def q3_def worker_is_def set_worker_def\<close>)
  moreover have "qstep conc outcome q4 q5" unfolding q5_def
    by (rule qstep.release)
       (auto simp: q1_def q2_def q3_def q4_def worker_is_def set_worker_def)
  moreover have "qstep conc outcome q5 q6" unfolding q6_def
    by (rule qstep.finish)
       (auto simp: q1_def q2_def q3_def q4_def q5_def worker_is_def set_worker_def)
  ultimately have "(qstep conc outcome)\<^sup>*\<^sup>* q q6"
    by (meson converse_rtranclp_into_rtranclp rtranclp.rtrancl_refl)
  moreover have "q6 = q\<lparr>jobs := js, wg := wg q, current := 0, errs := errs q @ [e],
    workers := workers q @ [(j, Finished)]\<rparr>"
    using assms(4,5) by (simp add: defs set_worker_def)
  ultimately show ?thesis by simp
qed

lemma stuck_state:
  "\<exists>q. qreach 1 (\<lambda>_. Some (ErrText ''failed'')) [7, 8, 9] q \<and> caller_at q = Pushing
     \<and> tally (failing (\<lambda>_. Some (ErrText ''failed''))) (workers q) = 3"
proof -
  let ?e = "ErrText ''failed''"
  define step where "step = qstep 1 (\<lambda>_. Some ?e)"
  define q0 where "q0 = NewConcurrentQueue [7, 8, 9]"
  define q1 where "q1 = q0\<lparr>todo := [], pushed := [7, 8, 9], jobs := [7, 8, 9]\<rparr>"
  define q2 where "q2 = q1\<lparr>jobs := [8, 9], errs := [?e], workers := [(7, Finished)]\<rparr>"
  define q3 where "q3 = q1\<lparr>jobs := [9], errs := [?e, ?e], workers := [(7, Finished), (8, Finished)]\<rparr>"
  define q4 where "q4 = q3\<lparr>runner_at := Popping\<rparr>"
  note defs = q0_def q1_def q2_def q3_def q4_def NewConcurrentQueue_def
  have "step\<^sup>*\<^sup>* q0 q1"
    using push_all [where conc = 1 and q = q0 and ps = "[]" and bs = "[]" and js = "[7, 8, 9]"] by (simp add: step_def defs)
  moreover have "step\<^sup>*\<^sup>* q1 q2"
    using run_failing [of 1 "\<lambda>_. Some ?e" 7 ?e q1 "[8, 9]"] by (simp add: step_def defs)
  moreover have "step\<^sup>*\<^sup>* q2 q3"
    using run_failing [of 1 "\<lambda>_. Some ?e" 8 ?e q2 "[9]"] by (simp add: step_def defs)
  moreover have "step q3 q4" unfolding q4_def step_def
    by (rule qstep.check_some) (simp_all add: defs may_start_def)
  moreover have "step q4 (q4\<lparr>runner_at := AtTop, jobs := [], current := current q4 + 1,
       wg := wg q4 + 1, workers := workers q4 @ [(9, Running)]\<rparr>)" unfolding step_def
    by (rule qstep.start) (simp_all add: defs)
  ultimately have "step\<^sup>*\<^sup>* q0 (q4\<lparr>runner_at := AtTop, jobs := [], current := current q4 + 1,
       wg := wg q4 + 1, workers := workers q4 @ [(9, Running)]\<rparr>)"
    by (meson rtranclp.rtrancl_into_rtrancl rtranclp_trans)
  moreover have "qreach 1 (\<lambda>_. Some ?e) [7, 8, 9] q0" unfolding q0_def by (rule qreach.init)
  ultimately have "qreach 1 (\<lambda>_. Some ?e) [7, 8, 9] (q4\<lparr>runner_at := AtTop, jobs := [],
       current := current q4 + 1, wg := wg q4 + 1, workers := workers q4 @ [(9, Running)]\<rparr>)"
    unfolding step_def by (rule qreach_steps)
  then show ?thesis by (intro exI conjI) (assumption, simp_all add: defs tally_def)
qed

lemma queue_deadlock_witness:
  "\<exists>q. qreach 1 (\<lambda>_. Some (ErrText ''failed'')) [7, 8, 9] q \<and>
     {q'. (qstep 1 (\<lambda>_. Some (ErrText ''failed'')))\<^sup>*\<^sup>* q q'} \<subseteq> {q'. caller_at q' \<in> {Pushing, WaitGroup}}"
proof -
  obtain q where q: "qreach 1 (\<lambda>_. Some (ErrText ''failed'')) [7, 8, 9] q" "caller_at q = Pushing"
      "tally (failing (\<lambda>_. Some (ErrText ''failed''))) (workers q) = 3"
    using stuck_state by blast
  have "caller_at q' \<in> {Pushing, WaitGroup}"
    if "(qstep 1 (\<lambda>_. Some (ErrText ''failed'')))\<^sup>*\<^sup>* q q'" for q'
    by (rule queue_deadlock [OF that q(1)]) (simp_all add: q(2,3))
  then show ?thesis using q(1) by blast
qed

lemma queue_safe_witness:
  "\<exists>q. qreach 1 (\<lambda>_. Some (ErrText ''failed'')) [7, 8, 9] q \<and> tally holds_slot (workers q) \<le> 1
     \<and> length (workers q) = 3"
proof -
  obtain q where q: "qreach 1 (\<lambda>_. Some (ErrText ''failed'')) [7, 8, 9] q"
      "tally (failing (\<lambda>_. Some (ErrText ''failed''))) (workers q) = 3"
    using stuck_state by blast
  then have "length (workers q) \<le> 3" "tally holds_slot (workers q) \<le> 1"
    using queue_safe [OF q(1)] by (auto dest!: arg_cong [where f = length])
  moreover have "3 \<le> length (workers q)"
    using q(2) by (metis length_filter_le tally_def)
  ultimately show ?thesis using q(1) by (intro exI [of _ q]) auto
qed

end
