(* ===== verification/Crc32c.thy ===== *)
theory Crc32c
  imports Prelude
begin

text \<open>
  The checksum of the stream commands (\<^verbatim>\<open>pkg/sendstream/crc32.go\<close>): the table
  \<open>crc32q\<close>, the loop \<open>btrfsCrc32c\<close>, and the checksum of a command, which covers its header
  with a zeroed checksum field followed by its payload. The lemmas show that the table is
  the table of the reflected CRC-32C polynomial, that the table-driven loop computes the
  same function as the bitwise definition, and which corruptions the check is certain to
  detect. Command headers are declared here because the checksum covers them
  (\<^verbatim>\<open>CmdHeader\<close> of \<^verbatim>\<open>pkg/sendstream/commands.go\<close>).
\<close>

section \<open>Command headers\<close>

record CmdHeader =
  Len :: u32
  Cmd :: u16
  Crc :: u32

definition CmdHeader_IsZero :: "CmdHeader \<Rightarrow> bool" where
  "CmdHeader_IsZero c \<longleftrightarrow> Len c = 0 \<and> Cmd c = 0 \<and> Crc c = 0"

definition zero_CmdHeader :: CmdHeader where
  "zero_CmdHeader = \<lparr>Len = 0, Cmd = 0, Crc = 0\<rparr>"

text \<open>\<^verbatim>\<open>binary.Write(w, binary.LittleEndian, &hdr)\<close>: the fields in order, ten bytes.\<close>

definition enc_CmdHeader :: "CmdHeader \<Rightarrow> bytes" where
  "enc_CmdHeader h = le_enc 4 (Len h) @ le_enc 2 (Cmd h) @ le_enc 4 (Crc h)"

definition dec_CmdHeader :: "bytes \<Rightarrow> CmdHeader" where
  "dec_CmdHeader b = \<lparr>Len = le_dec (take 4 b), Cmd = le_dec (take 2 (drop 4 b)),
     Crc = le_dec (take 4 (drop 6 b))\<rparr>"

lemma length_enc_CmdHeader [simp]: "length (enc_CmdHeader h) = 10"
  by (simp add: enc_CmdHeader_def)

lemma enc_CmdHeader_not_Nil [simp]: "enc_CmdHeader h \<noteq> []"
  using length_enc_CmdHeader [of h] by fastforce

lemma dec_enc_CmdHeader [simp, codec_simps]: "dec_CmdHeader (enc_CmdHeader h) = h"
  by (simp add: dec_CmdHeader_def enc_CmdHeader_def)

section \<open>The table and the loop\<close>

definition crc32q :: "u32 list" where
  "crc32q = [
    0x00000000, 0xF26B8303, 0xE13B70F7, 0x1350F3F4,
    0xC79A971F, 0x35F1141C, 0x26A1E7E8, 0xD4CA64EB,
    0x8AD958CF, 0x78B2DBCC, 0x6BE22838, 0x9989AB3B,
    0x4D43CFD0, 0xBF284CD3, 0xAC78BF27, 0x5E133C24,
    0x105EC76F, 0xE235446C, 0xF165B798, 0x030E349B,
    0xD7C45070, 0x25AFD373, 0x36FF2087, 0xC494A384,
    0x9A879FA0, 0x68EC1CA3, 0x7BBCEF57, 0x89D76C54,
    0x5D1D08BF, 0xAF768BBC, 0xBC267848, 0x4E4DFB4B,
    0x20BD8EDE, 0xD2D60DDD, 0xC186FE29, 0x33ED7D2A,
    0xE72719C1, 0x154C9AC2, 0x061C6936, 0xF477EA35,
    0xAA64D611, 0x580F5512, 0x4B5FA6E6, 0xB93425E5,
    0x6DFE410E, 0x9F95C20D, 0x8CC531F9, 0x7EAEB2FA,
    0x30E349B1, 0xC288CAB2, 0xD1D83946, 0x23B3BA45,
    0xF779DEAE, 0x05125DAD, 0x1642AE59, 0xE4292D5A,
    0xBA3A117E, 0x4851927D, 0x5B016189, 0xA96AE28A,
    0x7DA08661, 0x8FCB0562, 0x9C9BF696, 0x6EF07595,
    0x417B1DBC, 0xB3109EBF, 0xA0406D4B, 0x522BEE48,
    0x86E18AA3, 0x748A09A0, 0x67DAFA54, 0x95B17957,
    0xCBA24573, 0x39C9C670, 0x2A993584, 0xD8F2B687,
    0x0C38D26C, 0xFE53516F, 0xED03A29B, 0x1F682198,
    0x5125DAD3, 0xA34E59D0, 0xB01EAA24, 0x42752927,
    0x96BF4DCC, 0x64D4CECF, 0x77843D3B, 0x85EFBE38,
    0xDBFC821C, 0x2997011F, 0x3AC7F2EB, 0xC8AC71E8,
    0x1C661503, 0xEE0D9600, 0xFD5D65F4, 0x0F36E6F7,
    0x61C69362, 0x93AD1061, 0x80FDE395, 0x72966096,
    0xA65C047D, 0x5437877E, 0x4767748A, 0xB50CF789,
    0xEB1FCBAD, 0x197448AE, 0x0A24BB5A, 0xF84F3859,
    0x2C855CB2, 0xDEEEDFB1, 0xCDBE2C45, 0x3FD5AF46,
    0x7198540D, 0x83F3D70E, 0x90A324FA, 0x62C8A7F9,
    0xB602C312, 0x44694011, 0x5739B3E5, 0xA55230E6,
    0xFB410CC2, 0x092A8FC1, 0x1A7A7C35, 0xE811FF36,
    0x3CDB9BDD, 0xCEB018DE, 0xDDE0EB2A, 0x2F8B6829,
    0x82F63B78, 0x709DB87B, 0x63CD4B8F, 0x91A6C88C,
    0x456CAC67, 0xB7072F64, 0xA457DC90, 0x563C5F93,
    0x082F63B7, 0xFA44E0B4, 0xE9141340, 0x1B7F9043,
    0xCFB5F4A8, 0x3DDE77AB, 0x2E8E845F, 0xDCE5075C,
    0x92A8FC17, 0x60C37F14, 0x73938CE0, 0x81F80FE3,
    0x55326B08, 0xA759E80B, 0xB4091BFF, 0x466298FC,
    0x1871A4D8, 0xEA1A27DB, 0xF94AD42F, 0x0B21572C,
    0xDFEB33C7, 0x2D80B0C4, 0x3ED04330, 0xCCBBC033,
    0xA24BB5A6, 0x502036A5, 0x4370C551, 0xB11B4652,
    0x65D122B9, 0x97BAA1BA, 0x84EA524E, 0x7681D14D,
    0x2892ED69, 0xDAF96E6A, 0xC9A99D9E, 0x3BC21E9D,
    0xEF087A76, 0x1D63F975, 0x0E330A81, 0xFC588982,
    0xB21572C9, 0x407EF1CA, 0x532E023E, 0xA145813D,
    0x758FE5D6, 0x87E466D5, 0x94B49521, 0x66DF1622,
    0x38CC2A06, 0xCAA7A905, 0xD9F75AF1, 0x2B9CD9F2,
    0xFF56BD19, 0x0D3D3E1A, 0x1E6DCDEE, 0xEC064EED,
    0xC38D26C4, 0x31E6A5C7, 0x22B65633, 0xD0DDD530,
    0x0417B1DB, 0xF67C32D8, 0xE52CC12C, 0x1747422F,
    0x49547E0B, 0xBB3FFD08, 0xA86F0EFC, 0x5A048DFF,
    0x8ECEE914, 0x7CA56A17, 0x6FF599E3, 0x9D9E1AE0,
    0xD3D3E1AB, 0x21B862A8, 0x32E8915C, 0xC083125F,
    0x144976B4, 0xE622F5B7, 0xF5720643, 0x07198540,
    0x590AB964, 0xAB613A67, 0xB831C993, 0x4A5A4A90,
    0x9E902E7B, 0x6CFBAD78, 0x7FAB5E8C, 0x8DC0DD8F,
    0xE330A81A, 0x115B2B19, 0x020BD8ED, 0xF0605BEE,
    0x24AA3F05, 0xD6C1BC06, 0xC5914FF2, 0x37FACCF1,
    0x69E9F0D5, 0x9B8273D6, 0x88D28022, 0x7AB90321,
    0xAE7367CA, 0x5C18E4C9, 0x4F48173D, 0xBD23943E,
    0xF36E6F75, 0x0105EC76, 0x12551F82, 0xE03E9C81,
    0x34F4F86A, 0xC69F7B69, 0xD5CF889D, 0x27A40B9E,
    0x79B737BA, 0x8BDCB4B9, 0x988C474D, 0x6AE7C44E,
    0xBE2DA0A5, 0x4C4623A6, 0x5F16D052, 0xAD7D5351]"

definition crc_step :: "u32 \<Rightarrow> byte \<Rightarrow> u32" where
  "crc_step crc val = crc32q ! unat (ucast crc XOR val) XOR drop_bit 8 crc"

definition btrfsCrc32c :: "u32 \<Rightarrow> bytes \<Rightarrow> u32" where
  "btrfsCrc32c seed data = foldl crc_step seed data"

definition calculateCrc32 :: "CmdHeader \<Rightarrow> bytes \<Rightarrow> u32" where
  "calculateCrc32 hdr data = btrfsCrc32c 0 (enc_CmdHeader hdr @ data)"

definition validateCrc32 :: "CmdHeader \<Rightarrow> bytes \<Rightarrow> gerr option" where
  "validateCrc32 hdr data =
     (if Crc hdr \<noteq> calculateCrc32 (hdr\<lparr>Crc := 0\<rparr>) data
      then Some (Errorf ''checksum'' ErrInvalidCommandChecksum) else None)"

section \<open>The bitwise definition\<close>

text \<open>
  The reflected CRC-32C register: shift right by one bit, and subtract the polynomial
  \<open>0x82F63B78\<close> when a one was shifted out. A byte is added to the low end of the
  register and eight steps follow.
\<close>

definition crc_bit :: "u32 \<Rightarrow> u32" where
  "crc_bit c = drop_bit 1 c XOR (if bit c 0 then 0x82F63B78 else 0)"

definition crc_byte :: "u32 \<Rightarrow> byte \<Rightarrow> u32" where
  "crc_byte c b = (crc_bit ^^ 8) (c XOR ucast b)"

definition crc32c_bitwise :: "u32 \<Rightarrow> bytes \<Rightarrow> u32" where
  "crc32c_bitwise seed data = foldl crc_byte seed data"

lemma length_crc32q [simp]: "length crc32q = 256"
  by (simp add: crc32q_def)

lemma crc_bit_XOR: "crc_bit (a XOR b) = crc_bit a XOR crc_bit b"
  by (rule bit_word_eqI) (auto simp: crc_bit_def bit_simps)

lemma crc_bits_XOR: "(crc_bit ^^ n) (a XOR b) = (crc_bit ^^ n) a XOR (crc_bit ^^ n) b"
  by (induction n) (simp_all add: crc_bit_XOR)

text \<open>Nothing is subtracted while the bits shifted out are zero.\<close>

lemma crc_bits_shift: "(\<And>i. i < n \<Longrightarrow> \<not> bit c i) \<Longrightarrow> (crc_bit ^^ n) c = drop_bit n c"
proof (induction n)
  case (Suc n)
  then have "\<not> bit (drop_bit n c) 0" by (simp add: bit_simps)
  with Suc show ?case by (simp add: crc_bit_def drop_bit_drop_bit add.commute)
qed simp

lemma crc_bits_shift_back:
  assumes "\<And>n. bit x n \<Longrightarrow> n < 24"
  shows "(crc_bit ^^ 8) (push_bit 8 x) = x"
proof -
  have "(crc_bit ^^ 8) (push_bit 8 x) = drop_bit 8 (push_bit 8 x)"
    by (rule crc_bits_shift) (auto simp: bit_simps)
  also have "\<dots> = x"
  proof (rule bit_word_eqI)
    fix n
    show "bit (drop_bit 8 (push_bit 8 x)) n = bit x n"
      using assms [of n] by (auto simp: bit_simps)
  qed
  finally show ?thesis .
qed

text \<open>
  The table holds the eight steps of every byte value. By linearity the entries from \<open>2 ^ k\<close> to
  \<open>2 ^ (k + 1)\<close> are those before them with the entry of \<open>2 ^ k\<close> added.
\<close>

fun crc_entries :: "nat \<Rightarrow> u32 list" where
  "crc_entries 0 = [0]"
| "crc_entries (Suc k) = crc_entries k @ map (\<lambda>x. (crc_bit ^^ 8) (2 ^ k) XOR x) (crc_entries k)"

lemma power_add_XOR:
  assumes "j < 2 ^ k" "k < 32"
  shows "2 ^ k + of_nat j = (2 ^ k XOR of_nat j :: u32)"
proof (rule disjunctive_add_eq_xor)
  have "\<not> bit (of_nat j :: u32) k"
    using assms by (simp add: bit_of_nat_iff bit_nat_def)
  then show "2 ^ k AND of_nat j = (0 :: u32)"
    by (intro bit_word_eqI) (auto simp: bit_simps)
qed

lemma crc_entries: "k < 32 \<Longrightarrow> map (\<lambda>i. (crc_bit ^^ 8) (of_nat i)) [0..<2 ^ k] = crc_entries k"
proof (induction k)
  case 0
  then show ?case by (simp add: crc_bit_def eval_nat_numeral)
next
  case (Suc k)
  have "[0..<2 ^ Suc k] = [0..<2 ^ k] @ map (\<lambda>j. 2 ^ k + j) [0..<2 ^ k]"
    using upt_add_eq_append [of 0 "2 ^ k" "2 ^ k"] map_add_upt [of "2 ^ k" "2 ^ k"]
    by (simp add: mult_2 add.commute)
  moreover have "(crc_bit ^^ 8) (of_nat (2 ^ k + j)) = (crc_bit ^^ 8) (2 ^ k) XOR (crc_bit ^^ 8) (of_nat j)"
    if "j < 2 ^ k" for j
    using power_add_XOR [OF that] Suc.prems by (simp flip: crc_bits_XOR)
  ultimately show ?case using Suc by (simp flip: Suc.IH)
qed

lemma crc_bits8: "(crc_bit ^^ 8) c =
    crc_bit (crc_bit (crc_bit (crc_bit (crc_bit (crc_bit (crc_bit (crc_bit c)))))))"
  by (simp add: eval_nat_numeral)

lemma crc_bit_num: "crc_bit c = (if even c then c div 2 else c div 2 XOR 0x82F63B78)"
  by (simp add: crc_bit_def bit_0 drop_bit_eq_div)

lemma crc32q_table: "map (\<lambda>i. (crc_bit ^^ 8) (of_nat i)) [0..<256] = crc32q"
proof -
  have "(crc_bit ^^ 8) 1 = 0xf26b8303" "(crc_bit ^^ 8) 2 = 0xe13b70f7" "(crc_bit ^^ 8) 4 = 0xc79a971f"
    "(crc_bit ^^ 8) 8 = 0x8ad958cf" "(crc_bit ^^ 8) 16 = 0x105ec76f" "(crc_bit ^^ 8) 32 = 0x20bd8ede"
    "(crc_bit ^^ 8) 64 = 0x417b1dbc" "(crc_bit ^^ 8) 128 = 0x82f63b78"
    unfolding crc_bits8 by (simp_all add: crc_bit_num)
  then have "crc_entries 8 = crc32q"
    unfolding crc32q_def by (simp add: numeral_eq_Suc)
  then show ?thesis using crc_entries [of 8] by simp
qed

lemma crc32q_nth: "crc32q ! unat (b :: byte) = (crc_bit ^^ 8) (ucast b)"
proof -
  have "unat b < 256"
    using unsigned_less [of b] by simp
  then have "crc32q ! unat b = (crc_bit ^^ 8) (of_nat (unat b))"
    by (simp flip: crc32q_table)
  then show ?thesis by simp
qed

lemma crc_step_bitwise: "crc_step c b = crc_byte c b"
proof -
  let ?lo = "ucast (ucast c :: byte) :: u32"
  let ?hi = "push_bit 8 (drop_bit 8 c)"
  have c: "c = ?lo XOR ?hi"
    by (rule bit_word_eqI) (auto simp: bit_simps dest: bit_imp_le_length)
  have hi: "(crc_bit ^^ 8) ?hi = drop_bit 8 c"
    by (rule crc_bits_shift_back) (auto simp: bit_simps dest: bit_imp_le_length)
  have "crc_byte c b = (crc_bit ^^ 8) ((?lo XOR ucast b) XOR ?hi)"
    unfolding crc_byte_def by (subst c) (simp add: ac_simps)
  also have "\<dots> = (crc_bit ^^ 8) (ucast (ucast c XOR b)) XOR drop_bit 8 c"
    by (simp add: crc_bits_XOR hi flip: unsigned_xor_eq)
  finally show ?thesis by (simp add: crc_step_def crc32q_nth)
qed


text \<open>C9: The table-driven checksum loop computes the reflected CRC-32C register update bit by
  bit, for every seed and every input: the 256 table entries and the loop together are an
  exact optimisation of the polynomial definition.\<close>

theorem btrfsCrc32c_bitwise: "btrfsCrc32c seed data = crc32c_bitwise seed data"
  by (induction data arbitrary: seed)
    (simp_all add: btrfsCrc32c_def crc32c_bitwise_def crc_step_bitwise)

lemma btrfsCrc32c_append: "btrfsCrc32c s (xs @ ys) = btrfsCrc32c (btrfsCrc32c s xs) ys"
  by (simp add: btrfsCrc32c_def)

section \<open>Which corruptions are detected\<close>

text \<open>
  A step is a bijection on the register, because the polynomial has its top bit set. So
  the registers that two inputs leave behind stay different while both inputs go on with
  the same bytes, and a run of at most four bytes acts on the register injectively.
\<close>

lemma crc_bit_inj: "crc_bit a = crc_bit b \<Longrightarrow> a = b"
proof -
  assume eq: "crc_bit a = crc_bit b"
  have top: "bit (crc_bit c) 31 = bit c 0" for c
    by (auto simp: crc_bit_def bit_simps dest: bit_imp_le_length)
  have lo: "bit a 0 = bit b 0" using eq by (simp flip: top)
  have "drop_bit 1 a = drop_bit 1 b"
  proof -
    have "drop_bit 1 c = crc_bit c XOR (if bit c 0 then 0x82F63B78 else 0)" for c
      by (rule bit_word_eqI) (auto simp: crc_bit_def bit_simps)
    then show ?thesis using eq lo by simp
  qed
  then have hi: "bit a (Suc n) = bit b (Suc n)" for n
    using bit_drop_bit_eq [of 1 a] bit_drop_bit_eq [of 1 b] by (simp add: fun_eq_iff)
  show "a = b"
  proof (rule bit_word_eqI)
    fix n show "bit a n = bit b n" using lo hi by (cases n) auto
  qed
qed

lemma crc_bits_inj: "(crc_bit ^^ n) a = (crc_bit ^^ n) b \<Longrightarrow> a = b"
  by (induction n) (auto dest: crc_bit_inj)

lemma crc_byte_inj_register: "crc_byte a x = crc_byte b x \<Longrightarrow> a = b"
proof -
  assume "crc_byte a x = crc_byte b x"
  then have "a XOR ucast x = b XOR ucast x"
    unfolding crc_byte_def by (rule crc_bits_inj)
  then have "(a XOR ucast x) XOR ucast x = (b XOR ucast x) XOR ucast x" by simp
  then show "a = b" by (simp only: xor.assoc xor_self_eq xor.right_neutral)
qed

lemma btrfsCrc32c_inj_register: "btrfsCrc32c a xs = btrfsCrc32c b xs \<Longrightarrow> a = b"
proof (induction xs arbitrary: a b)
  case (Cons x xs)
  then have "crc_step a x = crc_step b x" by (simp add: btrfsCrc32c_def)
  then show ?case by (simp add: crc_step_bitwise) (rule crc_byte_inj_register)
qed (simp add: btrfsCrc32c_def)

text \<open>Up to four bytes are added to the register before the steps that follow them.\<close>

lemma btrfsCrc32c_short:
  "length bs \<le> 4 \<Longrightarrow> btrfsCrc32c s bs = (crc_bit ^^ (8 * length bs)) (s XOR le_dec bs)"
proof (induction bs arbitrary: s)
  case (Cons b bs)
  have "bit (le_dec bs :: u32) n \<Longrightarrow> n < 24" for n
    using bit_le_dec_bound [of bs n, where 'a = 32] Cons.prems by simp
  then have "(crc_bit ^^ 8) (push_bit 8 (le_dec bs)) = le_dec bs"
    by (rule crc_bits_shift_back)
  moreover have "(crc_bit ^^ (8 * length (b # bs))) x
      = (crc_bit ^^ (8 * length bs)) ((crc_bit ^^ 8) x)" for x
  proof -
    have "8 * length (b # bs) = 8 * length bs + 8" by simp
    then show ?thesis by (simp only: funpow_add o_apply)
  qed
  moreover have "btrfsCrc32c s (b # bs) = btrfsCrc32c (crc_byte s b) bs"
    by (simp add: btrfsCrc32c_def crc_step_bitwise)
  moreover have "ucast b OR push_bit 8 (le_dec bs) = ucast b XOR push_bit 8 (le_dec bs :: u32)"
    by (rule bit_word_eqI) (auto simp: bit_simps dest: bit_imp_le_length)
  ultimately show ?case
    using Cons by (simp add: crc_byte_def crc_bits_XOR ac_simps del: mult_Suc_right)
qed (simp add: btrfsCrc32c_def)

lemma btrfsCrc32c_short_inj:
  assumes "length ys = length xs" and "length xs \<le> 4"
    and "btrfsCrc32c s xs = btrfsCrc32c s ys"
  shows "xs = ys"
proof -
  have "(crc_bit ^^ (8 * length xs)) (s XOR le_dec xs)
      = (crc_bit ^^ (8 * length xs)) (s XOR le_dec ys)"
    using assms by (simp add: btrfsCrc32c_short)
  then have "s XOR le_dec xs = s XOR le_dec ys" by (rule crc_bits_inj)
  then have "s XOR (s XOR le_dec xs) = s XOR (s XOR le_dec ys)" by simp
  then have "(le_dec xs :: u32) = le_dec ys" by (simp flip: xor.assoc)
  then show ?thesis using assms by (intro le_dec_inj) auto
qed

text \<open>A payload that passes the checksum and is then changed within four consecutive bytes (a
  burst of up to 32 bits) is rejected, and so is a header whose command number is changed.\<close>

lemma validateCrc32_burst:
  assumes valid: "validateCrc32 hdr (pre @ xs @ post) = None"
    and len: "length ys = length xs" "length xs \<le> 4" and diff: "ys \<noteq> xs"
  shows "validateCrc32 hdr (pre @ ys @ post) = Some (Errorf ''checksum'' ErrInvalidCommandChecksum)"
proof -
  let ?s = "btrfsCrc32c 0 (enc_CmdHeader (hdr\<lparr>Crc := 0\<rparr>) @ pre)"
  have split: "calculateCrc32 (hdr\<lparr>Crc := 0\<rparr>) (pre @ zs @ post)
      = btrfsCrc32c (btrfsCrc32c ?s zs) post" for zs
    by (simp add: calculateCrc32_def btrfsCrc32c_append)
  have "btrfsCrc32c (btrfsCrc32c ?s xs) post \<noteq> btrfsCrc32c (btrfsCrc32c ?s ys) post"
    using btrfsCrc32c_inj_register btrfsCrc32c_short_inj len diff by metis
  then show ?thesis
    using valid by (auto simp: validateCrc32_def split split: if_splits)
qed

lemma le_enc_2_inj: "le_enc 2 v = le_enc 2 w \<Longrightarrow> v = (w :: u16)"
  using le_dec_enc_widths(1) by metis

lemma validateCrc32_cmd:
  assumes valid: "validateCrc32 hdr data = None" and diff: "c \<noteq> Cmd hdr"
  shows "validateCrc32 (hdr\<lparr>Cmd := c\<rparr>) data
    = Some (Errorf ''checksum'' ErrInvalidCommandChecksum)"
proof -
  let ?s = "btrfsCrc32c 0 (le_enc 4 (Len hdr))" and ?post = "le_enc 4 (0 :: u32) @ data"
  have split: "calculateCrc32 (hdr\<lparr>Cmd := d, Crc := 0\<rparr>) data
      = btrfsCrc32c (btrfsCrc32c ?s (le_enc 2 d)) ?post" for d
    by (simp add: calculateCrc32_def enc_CmdHeader_def btrfsCrc32c_append)
  have "btrfsCrc32c (btrfsCrc32c ?s (le_enc 2 c)) ?post
      \<noteq> btrfsCrc32c (btrfsCrc32c ?s (le_enc 2 (Cmd hdr))) ?post"
    using btrfsCrc32c_inj_register btrfsCrc32c_short_inj [of "le_enc 2 c" "le_enc 2 (Cmd hdr)" ?s]
      le_enc_2_inj [of c "Cmd hdr"] diff by fastforce
  moreover have "calculateCrc32 (hdr\<lparr>Crc := 0\<rparr>) data
      = btrfsCrc32c (btrfsCrc32c ?s (le_enc 2 (Cmd hdr))) ?post"
    by (simp add: calculateCrc32_def enc_CmdHeader_def btrfsCrc32c_append)
  ultimately show ?thesis
    using valid by (simp add: validateCrc32_def split split: if_splits)
qed

end
