(* ===== verification/Commands.thy ===== *)
theory Commands
  imports Crc32c
begin

text \<open>
  The commands of a send stream (\<^verbatim>\<open>pkg/sendstream/commands.go\<close>): the command and attribute
  numbers, the attribute map \<open>CmdAttrs\<close> with its getters and setters, the constructors
  \<open>New*Command\<close>, and \<open>BinarySize\<close> and \<open>Encode\<close>. A Go map is a HOL map; a missing key reads
  as the nil slice (\<open>attr_get\<close>). Ranging over a Go map visits the keys in an order that the
  language leaves open, so the two functions that range take the order as an argument, a
  list that \<open>range_order\<close> holds of. The getters of integers panic on a value that is too
  short, as \<^verbatim>\<open>binary.LittleEndian.Uint64\<close> does. The lemmas give the encoding in closed form.
\<close>

section \<open>Numbers\<close>

type_synonym SendCommand = u16
type_synonym SendAttribute = u16
type_synonym uuid = bytes

text \<open>\<^verbatim>\<open>BTRFS_SEND_STREAM_MAGIC\<close> is \<^verbatim>\<open>btrfs-stream\<close> and a zero byte.\<close>

definition BTRFS_SEND_STREAM_MAGIC :: string where
  "BTRFS_SEND_STREAM_MAGIC = ''btrfs-stream'' @ [CHR 0x00]"

definition BTRFS_SEND_STREAM_VERSION :: u32 where [simp]: "BTRFS_SEND_STREAM_VERSION = 2"

text \<open>The array is filled by \<^verbatim>\<open>copy\<close>, which stops at the shorter side and leaves zeros.\<close>

definition BTRFS_SEND_STREAM_MAGIC_ENCODED :: bytes where
  "BTRFS_SEND_STREAM_MAGIC_ENCODED =
     (let s = bytes_of_string BTRFS_SEND_STREAM_MAGIC
      in take 13 s @ replicate (13 - length s) 0)"

definition BTRFS_SEND_C_UNSPEC :: SendCommand where [simp]: "BTRFS_SEND_C_UNSPEC = 0"
definition BTRFS_SEND_C_SUBVOL :: SendCommand where [simp]: "BTRFS_SEND_C_SUBVOL = 1"
definition BTRFS_SEND_C_SNAPSHOT :: SendCommand where [simp]: "BTRFS_SEND_C_SNAPSHOT = 2"
definition BTRFS_SEND_C_MKFILE :: SendCommand where [simp]: "BTRFS_SEND_C_MKFILE = 3"
definition BTRFS_SEND_C_MKDIR :: SendCommand where [simp]: "BTRFS_SEND_C_MKDIR = 4"
definition BTRFS_SEND_C_MKNOD :: SendCommand where [simp]: "BTRFS_SEND_C_MKNOD = 5"
definition BTRFS_SEND_C_MKFIFO :: SendCommand where [simp]: "BTRFS_SEND_C_MKFIFO = 6"
definition BTRFS_SEND_C_MKSOCK :: SendCommand where [simp]: "BTRFS_SEND_C_MKSOCK = 7"
definition BTRFS_SEND_C_SYMLINK :: SendCommand where [simp]: "BTRFS_SEND_C_SYMLINK = 8"
definition BTRFS_SEND_C_RENAME :: SendCommand where [simp]: "BTRFS_SEND_C_RENAME = 9"
definition BTRFS_SEND_C_LINK :: SendCommand where [simp]: "BTRFS_SEND_C_LINK = 10"
definition BTRFS_SEND_C_UNLINK :: SendCommand where [simp]: "BTRFS_SEND_C_UNLINK = 11"
definition BTRFS_SEND_C_RMDIR :: SendCommand where [simp]: "BTRFS_SEND_C_RMDIR = 12"
definition BTRFS_SEND_C_SET_XATTR :: SendCommand where [simp]: "BTRFS_SEND_C_SET_XATTR = 13"
definition BTRFS_SEND_C_REMOVE_XATTR :: SendCommand where [simp]: "BTRFS_SEND_C_REMOVE_XATTR = 14"
definition BTRFS_SEND_C_WRITE :: SendCommand where [simp]: "BTRFS_SEND_C_WRITE = 15"
definition BTRFS_SEND_C_CLONE :: SendCommand where [simp]: "BTRFS_SEND_C_CLONE = 16"
definition BTRFS_SEND_C_TRUNCATE :: SendCommand where [simp]: "BTRFS_SEND_C_TRUNCATE = 17"
definition BTRFS_SEND_C_CHMOD :: SendCommand where [simp]: "BTRFS_SEND_C_CHMOD = 18"
definition BTRFS_SEND_C_CHOWN :: SendCommand where [simp]: "BTRFS_SEND_C_CHOWN = 19"
definition BTRFS_SEND_C_UTIMES :: SendCommand where [simp]: "BTRFS_SEND_C_UTIMES = 20"
definition BTRFS_SEND_C_END :: SendCommand where [simp]: "BTRFS_SEND_C_END = 21"
definition BTRFS_SEND_C_UPDATE_EXTENT :: SendCommand where [simp]: "BTRFS_SEND_C_UPDATE_EXTENT = 22"
definition BTRFS_SEND_C_MAX_V1 :: SendCommand where [simp]: "BTRFS_SEND_C_MAX_V1 = 22"
definition BTRFS_SEND_C_FALLOCATE :: SendCommand where [simp]: "BTRFS_SEND_C_FALLOCATE = 23"
definition BTRFS_SEND_C_FILEATTR :: SendCommand where [simp]: "BTRFS_SEND_C_FILEATTR = 24"
definition BTRFS_SEND_C_ENCODED_WRITE :: SendCommand where [simp]: "BTRFS_SEND_C_ENCODED_WRITE = 25"
definition BTRFS_SEND_C_MAX_V2 :: SendCommand where [simp]: "BTRFS_SEND_C_MAX_V2 = 25"
definition BTRFS_SEND_C_ENABLE_VERITY :: SendCommand where [simp]: "BTRFS_SEND_C_ENABLE_VERITY = 26"
definition BTRFS_SEND_C_MAX_V3 :: SendCommand where [simp]: "BTRFS_SEND_C_MAX_V3 = 26"
definition BTRFS_SEND_C_MAX :: SendCommand where [simp]: "BTRFS_SEND_C_MAX = 26"

definition BTRFS_SEND_A_UNSPEC :: SendAttribute where [simp]: "BTRFS_SEND_A_UNSPEC = 0"
definition BTRFS_SEND_A_UUID :: SendAttribute where [simp]: "BTRFS_SEND_A_UUID = 1"
definition BTRFS_SEND_A_CTRANSID :: SendAttribute where [simp]: "BTRFS_SEND_A_CTRANSID = 2"
definition BTRFS_SEND_A_INO :: SendAttribute where [simp]: "BTRFS_SEND_A_INO = 3"
definition BTRFS_SEND_A_SIZE :: SendAttribute where [simp]: "BTRFS_SEND_A_SIZE = 4"
definition BTRFS_SEND_A_MODE :: SendAttribute where [simp]: "BTRFS_SEND_A_MODE = 5"
definition BTRFS_SEND_A_UID :: SendAttribute where [simp]: "BTRFS_SEND_A_UID = 6"
definition BTRFS_SEND_A_GID :: SendAttribute where [simp]: "BTRFS_SEND_A_GID = 7"
definition BTRFS_SEND_A_RDEV :: SendAttribute where [simp]: "BTRFS_SEND_A_RDEV = 8"
definition BTRFS_SEND_A_CTIME :: SendAttribute where [simp]: "BTRFS_SEND_A_CTIME = 9"
definition BTRFS_SEND_A_MTIME :: SendAttribute where [simp]: "BTRFS_SEND_A_MTIME = 10"
definition BTRFS_SEND_A_ATIME :: SendAttribute where [simp]: "BTRFS_SEND_A_ATIME = 11"
definition BTRFS_SEND_A_OTIME :: SendAttribute where [simp]: "BTRFS_SEND_A_OTIME = 12"
definition BTRFS_SEND_A_XATTR_NAME :: SendAttribute where [simp]: "BTRFS_SEND_A_XATTR_NAME = 13"
definition BTRFS_SEND_A_XATTR_DATA :: SendAttribute where [simp]: "BTRFS_SEND_A_XATTR_DATA = 14"
definition BTRFS_SEND_A_PATH :: SendAttribute where [simp]: "BTRFS_SEND_A_PATH = 15"
definition BTRFS_SEND_A_PATH_TO :: SendAttribute where [simp]: "BTRFS_SEND_A_PATH_TO = 16"
definition BTRFS_SEND_A_PATH_LINK :: SendAttribute where [simp]: "BTRFS_SEND_A_PATH_LINK = 17"
definition BTRFS_SEND_A_FILE_OFFSET :: SendAttribute where [simp]: "BTRFS_SEND_A_FILE_OFFSET = 18"
definition BTRFS_SEND_A_DATA :: SendAttribute where [simp]: "BTRFS_SEND_A_DATA = 19"
definition BTRFS_SEND_A_CLONE_UUID :: SendAttribute where [simp]: "BTRFS_SEND_A_CLONE_UUID = 20"
definition BTRFS_SEND_A_CLONE_CTRANSID :: SendAttribute where [simp]: "BTRFS_SEND_A_CLONE_CTRANSID = 21"
definition BTRFS_SEND_A_CLONE_PATH :: SendAttribute where [simp]: "BTRFS_SEND_A_CLONE_PATH = 22"
definition BTRFS_SEND_A_CLONE_OFFSET :: SendAttribute where [simp]: "BTRFS_SEND_A_CLONE_OFFSET = 23"
definition BTRFS_SEND_A_CLONE_LEN :: SendAttribute where [simp]: "BTRFS_SEND_A_CLONE_LEN = 24"
definition BTRFS_SEND_A_MAX_V1 :: SendAttribute where [simp]: "BTRFS_SEND_A_MAX_V1 = 24"
definition BTRFS_SEND_A_FALLOCATE_MODE :: SendAttribute where [simp]: "BTRFS_SEND_A_FALLOCATE_MODE = 25"
definition BTRFS_SEND_A_FILEATTR :: SendAttribute where [simp]: "BTRFS_SEND_A_FILEATTR = 26"
definition BTRFS_SEND_A_UNENCODED_FILE_LEN :: SendAttribute where [simp]: "BTRFS_SEND_A_UNENCODED_FILE_LEN = 27"
definition BTRFS_SEND_A_UNENCODED_LEN :: SendAttribute where [simp]: "BTRFS_SEND_A_UNENCODED_LEN = 28"
definition BTRFS_SEND_A_UNENCODED_OFFSET :: SendAttribute where [simp]: "BTRFS_SEND_A_UNENCODED_OFFSET = 29"
definition BTRFS_SEND_A_COMPRESSION :: SendAttribute where [simp]: "BTRFS_SEND_A_COMPRESSION = 30"
definition BTRFS_SEND_A_ENCRYPTION :: SendAttribute where [simp]: "BTRFS_SEND_A_ENCRYPTION = 31"
definition BTRFS_SEND_A_MAX_V2 :: SendAttribute where [simp]: "BTRFS_SEND_A_MAX_V2 = 31"
definition BTRFS_SEND_A_VERITY_ALGORITHM :: SendAttribute where [simp]: "BTRFS_SEND_A_VERITY_ALGORITHM = 32"
definition BTRFS_SEND_A_VERITY_BLOCK_SIZE :: SendAttribute where [simp]: "BTRFS_SEND_A_VERITY_BLOCK_SIZE = 33"
definition BTRFS_SEND_A_VERITY_SALT_DATA :: SendAttribute where [simp]: "BTRFS_SEND_A_VERITY_SALT_DATA = 34"
definition BTRFS_SEND_A_VERITY_SIG_DATA :: SendAttribute where [simp]: "BTRFS_SEND_A_VERITY_SIG_DATA = 35"
definition BTRFS_SEND_A_MAX_V3 :: SendAttribute where [simp]: "BTRFS_SEND_A_MAX_V3 = 35"
definition BTRFS_SEND_A_MAX :: SendAttribute where [simp]: "BTRFS_SEND_A_MAX = 35"

record StreamHeader =
  Magic :: bytes
  Version :: u32

section \<open>Attribute maps\<close>

type_synonym CmdAttrs = "SendAttribute \<rightharpoonup> bytes"

definition NewCmdAttrs :: CmdAttrs where
  "NewCmdAttrs = Map.empty"

definition attr_get :: "CmdAttrs \<Rightarrow> SendAttribute \<Rightarrow> bytes" where
  "attr_get c k = (case c k of None \<Rightarrow> [] | Some v \<Rightarrow> v)"

definition LE_Uint64 :: "bytes \<Rightarrow> u64 go" where
  "LE_Uint64 b = (if length b < 8 then panic else Some (le_dec (take 8 b)))"

definition LE_Uint32 :: "bytes \<Rightarrow> u32 go" where
  "LE_Uint32 b = (if length b < 4 then panic else Some (le_dec (take 4 b)))"

text \<open>
  A \<^verbatim>\<open>time.Time\<close> as the code uses it: its Unix second, a 64-bit two's complement number, and
  its nanosecond within the second. \<^verbatim>\<open>time.Unix\<close> carries whole seconds over.
\<close>

record gotime =
  UnixSec :: u64
  Nanosecond :: u32

definition valid_time :: "gotime \<Rightarrow> bool" where
  "valid_time t \<longleftrightarrow> Nanosecond t < 1000000000"

record BtrfsTimespec =
  Sec :: u64
  Nsec :: u32

definition Timespec_Time :: "BtrfsTimespec \<Rightarrow> gotime" where
  "Timespec_Time b = \<lparr>UnixSec = Sec b + ucast (Nsec b div 1000000000),
     Nanosecond = Nsec b mod 1000000000\<rparr>"

definition enc_timespec :: "u64 \<Rightarrow> u32 \<Rightarrow> bytes" where
  "enc_timespec s ns = le_enc 8 s @ le_enc 4 ns"

text \<open>\<^verbatim>\<open>binary.Read\<close> from a byte slice into the struct: twelve bytes, or an error.\<close>

definition binary_Read_timespec :: "bytes \<Rightarrow> gerr + BtrfsTimespec" where
  "binary_Read_timespec b =
     (if b = [] then Inl EOF
      else if length b < 12 then Inl ErrUnexpectedEOF
      else Inr \<lparr>Sec = le_dec (take 8 b), Nsec = le_dec (take 4 (drop 8 b))\<rparr>)"

section \<open>Getters and setters\<close>

text \<open>
  The UUID getters call \<^verbatim>\<open>uuid.FromBytes\<close> of \<^verbatim>\<open>github.com/google/uuid\<close>, which is an argument of
  the model; a \<^verbatim>\<open>uuid.UUID\<close> is an array of sixteen bytes.
\<close>

definition GetFileOffset :: "CmdAttrs \<Rightarrow> u64 go" where
  "GetFileOffset c = LE_Uint64 (attr_get c BTRFS_SEND_A_FILE_OFFSET)"

definition SetFileOffset :: "CmdAttrs \<Rightarrow> u64 \<Rightarrow> CmdAttrs" where
  "SetFileOffset c off = c(BTRFS_SEND_A_FILE_OFFSET \<mapsto> le_enc 8 off)"

definition GetCtransid :: "CmdAttrs \<Rightarrow> u64 go" where
  "GetCtransid c = LE_Uint64 (attr_get c BTRFS_SEND_A_CTRANSID)"

definition SetCtransid :: "CmdAttrs \<Rightarrow> u64 \<Rightarrow> CmdAttrs" where
  "SetCtransid c ctransid = c(BTRFS_SEND_A_CTRANSID \<mapsto> le_enc 8 ctransid)"

definition GetCloneCtransid :: "CmdAttrs \<Rightarrow> u64 go" where
  "GetCloneCtransid c = LE_Uint64 (attr_get c BTRFS_SEND_A_CLONE_CTRANSID)"

definition SetCloneCtransid :: "CmdAttrs \<Rightarrow> u64 \<Rightarrow> CmdAttrs" where
  "SetCloneCtransid c ctransid = c(BTRFS_SEND_A_CLONE_CTRANSID \<mapsto> le_enc 8 ctransid)"

definition GetIno :: "CmdAttrs \<Rightarrow> u64 go" where
  "GetIno c = LE_Uint64 (attr_get c BTRFS_SEND_A_INO)"

definition SetIno :: "CmdAttrs \<Rightarrow> u64 \<Rightarrow> CmdAttrs" where
  "SetIno c ino = c(BTRFS_SEND_A_INO \<mapsto> le_enc 8 ino)"

definition GetMode64 :: "CmdAttrs \<Rightarrow> u64 go" where
  "GetMode64 c = LE_Uint64 (attr_get c BTRFS_SEND_A_MODE)"

definition SetMode64 :: "CmdAttrs \<Rightarrow> u64 \<Rightarrow> CmdAttrs" where
  "SetMode64 c mode = c(BTRFS_SEND_A_MODE \<mapsto> le_enc 8 mode)"

definition GetRdev :: "CmdAttrs \<Rightarrow> u64 go" where
  "GetRdev c = LE_Uint64 (attr_get c BTRFS_SEND_A_RDEV)"

definition SetRdev :: "CmdAttrs \<Rightarrow> u64 \<Rightarrow> CmdAttrs" where
  "SetRdev c rdev = c(BTRFS_SEND_A_RDEV \<mapsto> le_enc 8 rdev)"

definition GetUnencodedFileLen :: "CmdAttrs \<Rightarrow> u64 go" where
  "GetUnencodedFileLen c = LE_Uint64 (attr_get c BTRFS_SEND_A_UNENCODED_FILE_LEN)"

definition SetUnencodedFileLen :: "CmdAttrs \<Rightarrow> u64 \<Rightarrow> CmdAttrs" where
  "SetUnencodedFileLen c len = c(BTRFS_SEND_A_UNENCODED_FILE_LEN \<mapsto> le_enc 8 len)"

definition GetUnencodedLen :: "CmdAttrs \<Rightarrow> u64 go" where
  "GetUnencodedLen c = LE_Uint64 (attr_get c BTRFS_SEND_A_UNENCODED_LEN)"

definition SetUnencodedLen :: "CmdAttrs \<Rightarrow> u64 \<Rightarrow> CmdAttrs" where
  "SetUnencodedLen c len = c(BTRFS_SEND_A_UNENCODED_LEN \<mapsto> le_enc 8 len)"

definition GetUnencodedOffset :: "CmdAttrs \<Rightarrow> u64 go" where
  "GetUnencodedOffset c = LE_Uint64 (attr_get c BTRFS_SEND_A_UNENCODED_OFFSET)"

definition SetUnencodedOffset :: "CmdAttrs \<Rightarrow> u64 \<Rightarrow> CmdAttrs" where
  "SetUnencodedOffset c off = c(BTRFS_SEND_A_UNENCODED_OFFSET \<mapsto> le_enc 8 off)"

definition GetCloneLen :: "CmdAttrs \<Rightarrow> u64 go" where
  "GetCloneLen c = LE_Uint64 (attr_get c BTRFS_SEND_A_CLONE_LEN)"

definition SetCloneLen :: "CmdAttrs \<Rightarrow> u64 \<Rightarrow> CmdAttrs" where
  "SetCloneLen c len = c(BTRFS_SEND_A_CLONE_LEN \<mapsto> le_enc 8 len)"

definition GetCloneOffset :: "CmdAttrs \<Rightarrow> u64 go" where
  "GetCloneOffset c = LE_Uint64 (attr_get c BTRFS_SEND_A_CLONE_OFFSET)"

definition SetCloneOffset :: "CmdAttrs \<Rightarrow> u64 \<Rightarrow> CmdAttrs" where
  "SetCloneOffset c off = c(BTRFS_SEND_A_CLONE_OFFSET \<mapsto> le_enc 8 off)"

definition GetCloneCTransid :: "CmdAttrs \<Rightarrow> u64 go" where
  "GetCloneCTransid c = LE_Uint64 (attr_get c BTRFS_SEND_A_CLONE_CTRANSID)"

definition SetCloneCTransid :: "CmdAttrs \<Rightarrow> u64 \<Rightarrow> CmdAttrs" where
  "SetCloneCTransid c ctransid = c(BTRFS_SEND_A_CLONE_CTRANSID \<mapsto> le_enc 8 ctransid)"

definition GetSize :: "CmdAttrs \<Rightarrow> u64 go" where
  "GetSize c = LE_Uint64 (attr_get c BTRFS_SEND_A_SIZE)"

definition SetSize :: "CmdAttrs \<Rightarrow> u64 \<Rightarrow> CmdAttrs" where
  "SetSize c sz = c(BTRFS_SEND_A_SIZE \<mapsto> le_enc 8 sz)"

definition GetUid :: "CmdAttrs \<Rightarrow> u64 go" where
  "GetUid c = LE_Uint64 (attr_get c BTRFS_SEND_A_UID)"

definition SetUid :: "CmdAttrs \<Rightarrow> u64 \<Rightarrow> CmdAttrs" where
  "SetUid c uid = c(BTRFS_SEND_A_UID \<mapsto> le_enc 8 uid)"

definition GetGid :: "CmdAttrs \<Rightarrow> u64 go" where
  "GetGid c = LE_Uint64 (attr_get c BTRFS_SEND_A_GID)"

definition SetGid :: "CmdAttrs \<Rightarrow> u64 \<Rightarrow> CmdAttrs" where
  "SetGid c gid = c(BTRFS_SEND_A_GID \<mapsto> le_enc 8 gid)"

definition GetMode32 :: "CmdAttrs \<Rightarrow> u32 go" where
  "GetMode32 c = LE_Uint32 (attr_get c BTRFS_SEND_A_MODE)"

definition SetMode32 :: "CmdAttrs \<Rightarrow> u32 \<Rightarrow> CmdAttrs" where
  "SetMode32 c mode = c(BTRFS_SEND_A_MODE \<mapsto> le_enc 4 mode)"

definition GetCompressionType :: "CmdAttrs \<Rightarrow> u32 go" where
  "GetCompressionType c = LE_Uint32 (attr_get c BTRFS_SEND_A_COMPRESSION)"

definition SetCompressionType :: "CmdAttrs \<Rightarrow> u32 \<Rightarrow> CmdAttrs" where
  "SetCompressionType c ct = c(BTRFS_SEND_A_COMPRESSION \<mapsto> le_enc 4 ct)"

definition GetEncryptionType :: "CmdAttrs \<Rightarrow> u32 go" where
  "GetEncryptionType c = LE_Uint32 (attr_get c BTRFS_SEND_A_ENCRYPTION)"

definition SetEncryptionType :: "CmdAttrs \<Rightarrow> u32 \<Rightarrow> CmdAttrs" where
  "SetEncryptionType c et = c(BTRFS_SEND_A_ENCRYPTION \<mapsto> le_enc 4 et)"

definition GetVerityBlockSize :: "CmdAttrs \<Rightarrow> u32 go" where
  "GetVerityBlockSize c = LE_Uint32 (attr_get c BTRFS_SEND_A_VERITY_BLOCK_SIZE)"

definition SetVerityBlockSize :: "CmdAttrs \<Rightarrow> u32 \<Rightarrow> CmdAttrs" where
  "SetVerityBlockSize c blockSize = c(BTRFS_SEND_A_VERITY_BLOCK_SIZE \<mapsto> le_enc 4 blockSize)"

definition GetFallocateMode :: "CmdAttrs \<Rightarrow> u32 go" where
  "GetFallocateMode c = LE_Uint32 (attr_get c BTRFS_SEND_A_FALLOCATE_MODE)"

definition SetFallocateMode :: "CmdAttrs \<Rightarrow> u32 \<Rightarrow> CmdAttrs" where
  "SetFallocateMode c mode = c(BTRFS_SEND_A_FALLOCATE_MODE \<mapsto> le_enc 4 mode)"

definition GetFileAttr :: "CmdAttrs \<Rightarrow> u32 go" where
  "GetFileAttr c = LE_Uint32 (attr_get c BTRFS_SEND_A_FILEATTR)"

definition SetFileAttr :: "CmdAttrs \<Rightarrow> u32 \<Rightarrow> CmdAttrs" where
  "SetFileAttr c fileattr = c(BTRFS_SEND_A_FILEATTR \<mapsto> le_enc 4 fileattr)"

definition GetPath :: "CmdAttrs \<Rightarrow> string" where
  "GetPath c = string_of_bytes (attr_get c BTRFS_SEND_A_PATH)"

definition SetPath :: "CmdAttrs \<Rightarrow> string \<Rightarrow> CmdAttrs" where
  "SetPath c path = c(BTRFS_SEND_A_PATH \<mapsto> bytes_of_string path)"

definition GetPathLink :: "CmdAttrs \<Rightarrow> string" where
  "GetPathLink c = string_of_bytes (attr_get c BTRFS_SEND_A_PATH_LINK)"

definition SetPathLink :: "CmdAttrs \<Rightarrow> string \<Rightarrow> CmdAttrs" where
  "SetPathLink c path = c(BTRFS_SEND_A_PATH_LINK \<mapsto> bytes_of_string path)"

definition GetPathTo :: "CmdAttrs \<Rightarrow> string" where
  "GetPathTo c = string_of_bytes (attr_get c BTRFS_SEND_A_PATH_TO)"

definition SetPathTo :: "CmdAttrs \<Rightarrow> string \<Rightarrow> CmdAttrs" where
  "SetPathTo c path = c(BTRFS_SEND_A_PATH_TO \<mapsto> bytes_of_string path)"

definition GetClonePath :: "CmdAttrs \<Rightarrow> string" where
  "GetClonePath c = string_of_bytes (attr_get c BTRFS_SEND_A_CLONE_PATH)"

definition SetClonePath :: "CmdAttrs \<Rightarrow> string \<Rightarrow> CmdAttrs" where
  "SetClonePath c path = c(BTRFS_SEND_A_CLONE_PATH \<mapsto> bytes_of_string path)"

definition GetXattrName :: "CmdAttrs \<Rightarrow> string" where
  "GetXattrName c = string_of_bytes (attr_get c BTRFS_SEND_A_XATTR_NAME)"

definition SetXattrName :: "CmdAttrs \<Rightarrow> string \<Rightarrow> CmdAttrs" where
  "SetXattrName c name = c(BTRFS_SEND_A_XATTR_NAME \<mapsto> bytes_of_string name)"

definition GetData :: "CmdAttrs \<Rightarrow> bytes" where
  "GetData c = attr_get c BTRFS_SEND_A_DATA"

definition SetData :: "CmdAttrs \<Rightarrow> bytes \<Rightarrow> CmdAttrs" where
  "SetData c bb = c(BTRFS_SEND_A_DATA \<mapsto> bb)"

definition GetXattrData :: "CmdAttrs \<Rightarrow> bytes" where
  "GetXattrData c = attr_get c BTRFS_SEND_A_XATTR_DATA"

definition SetXattrData :: "CmdAttrs \<Rightarrow> bytes \<Rightarrow> CmdAttrs" where
  "SetXattrData c data = c(BTRFS_SEND_A_XATTR_DATA \<mapsto> data)"

definition GetVeritySalt :: "CmdAttrs \<Rightarrow> bytes" where
  "GetVeritySalt c = attr_get c BTRFS_SEND_A_VERITY_SALT_DATA"

definition SetVeritySalt :: "CmdAttrs \<Rightarrow> bytes \<Rightarrow> CmdAttrs" where
  "SetVeritySalt c salt = c(BTRFS_SEND_A_VERITY_SALT_DATA \<mapsto> salt)"

definition GetVeritySig :: "CmdAttrs \<Rightarrow> bytes" where
  "GetVeritySig c = attr_get c BTRFS_SEND_A_VERITY_SIG_DATA"

definition SetVeritySig :: "CmdAttrs \<Rightarrow> bytes \<Rightarrow> CmdAttrs" where
  "SetVeritySig c sig = c(BTRFS_SEND_A_VERITY_SIG_DATA \<mapsto> sig)"

definition GetUUID :: "(bytes \<Rightarrow> gerr + uuid) \<Rightarrow> CmdAttrs \<Rightarrow> gerr + uuid" where
  "GetUUID FromBytes c = FromBytes (attr_get c BTRFS_SEND_A_UUID)"

definition SetUUID :: "CmdAttrs \<Rightarrow> uuid \<Rightarrow> CmdAttrs" where
  "SetUUID c uu = c(BTRFS_SEND_A_UUID \<mapsto> uu)"

definition GetCloneUUID :: "(bytes \<Rightarrow> gerr + uuid) \<Rightarrow> CmdAttrs \<Rightarrow> gerr + uuid" where
  "GetCloneUUID FromBytes c = FromBytes (attr_get c BTRFS_SEND_A_CLONE_UUID)"

definition SetCloneUUID :: "CmdAttrs \<Rightarrow> uuid \<Rightarrow> CmdAttrs" where
  "SetCloneUUID c uu = c(BTRFS_SEND_A_CLONE_UUID \<mapsto> uu)"

definition GetAtime :: "CmdAttrs \<Rightarrow> gerr + gotime" where
  "GetAtime c = map_sum id Timespec_Time (binary_Read_timespec (attr_get c BTRFS_SEND_A_ATIME))"

definition SetAtime :: "CmdAttrs \<Rightarrow> gotime \<Rightarrow> CmdAttrs" where
  "SetAtime c atime = c(BTRFS_SEND_A_ATIME \<mapsto> enc_timespec (UnixSec atime) (Nanosecond atime))"

definition GetMtime :: "CmdAttrs \<Rightarrow> gerr + gotime" where
  "GetMtime c = map_sum id Timespec_Time (binary_Read_timespec (attr_get c BTRFS_SEND_A_MTIME))"

definition SetMtime :: "CmdAttrs \<Rightarrow> gotime \<Rightarrow> CmdAttrs" where
  "SetMtime c mtime = c(BTRFS_SEND_A_MTIME \<mapsto> enc_timespec (UnixSec mtime) (Nanosecond mtime))"

definition GetOtime :: "CmdAttrs \<Rightarrow> gerr + gotime" where
  "GetOtime c = map_sum id Timespec_Time (binary_Read_timespec (attr_get c BTRFS_SEND_A_OTIME))"

definition SetOtime :: "CmdAttrs \<Rightarrow> gotime \<Rightarrow> CmdAttrs" where
  "SetOtime c otime = c(BTRFS_SEND_A_OTIME \<mapsto> enc_timespec (UnixSec otime) (Nanosecond otime))"

definition GetCtime :: "CmdAttrs \<Rightarrow> gerr + gotime" where
  "GetCtime c = map_sum id Timespec_Time (binary_Read_timespec (attr_get c BTRFS_SEND_A_CTIME))"

definition SetCtime :: "CmdAttrs \<Rightarrow> gotime \<Rightarrow> CmdAttrs" where
  "SetCtime c ctime = c(BTRFS_SEND_A_CTIME \<mapsto> enc_timespec (UnixSec ctime) (Nanosecond ctime))"

definition GetVerityAlgorithm :: "CmdAttrs \<Rightarrow> byte go" where
  "GetVerityAlgorithm c = (case attr_get c BTRFS_SEND_A_VERITY_ALGORITHM of [] \<Rightarrow> panic | b # _ \<Rightarrow> Some b)"

definition SetVerityAlgorithm :: "CmdAttrs \<Rightarrow> byte \<Rightarrow> CmdAttrs" where
  "SetVerityAlgorithm c algorithm = c(BTRFS_SEND_A_VERITY_ALGORITHM \<mapsto> [algorithm])"

lemmas attr_defs = attr_get_def LE_Uint64_def LE_Uint32_def NewCmdAttrs_def
  GetFileOffset_def SetFileOffset_def GetCtransid_def SetCtransid_def GetCloneCtransid_def
  SetCloneCtransid_def GetIno_def SetIno_def GetMode64_def SetMode64_def GetRdev_def SetRdev_def
  GetUnencodedFileLen_def SetUnencodedFileLen_def GetUnencodedLen_def SetUnencodedLen_def
  GetUnencodedOffset_def SetUnencodedOffset_def GetCloneLen_def SetCloneLen_def
  GetCloneOffset_def SetCloneOffset_def GetCloneCTransid_def SetCloneCTransid_def GetSize_def
  SetSize_def GetUid_def SetUid_def GetGid_def SetGid_def GetMode32_def SetMode32_def
  GetCompressionType_def SetCompressionType_def GetEncryptionType_def SetEncryptionType_def
  GetVerityBlockSize_def SetVerityBlockSize_def GetFallocateMode_def SetFallocateMode_def
  GetFileAttr_def SetFileAttr_def GetPath_def SetPath_def GetPathLink_def SetPathLink_def
  GetPathTo_def SetPathTo_def GetClonePath_def SetClonePath_def GetXattrName_def
  SetXattrName_def GetData_def SetData_def GetXattrData_def SetXattrData_def GetVeritySalt_def
  SetVeritySalt_def GetVeritySig_def SetVeritySig_def GetUUID_def SetUUID_def GetCloneUUID_def
  SetCloneUUID_def GetAtime_def SetAtime_def GetMtime_def SetMtime_def GetOtime_def SetOtime_def
  GetCtime_def SetCtime_def GetVerityAlgorithm_def SetVerityAlgorithm_def

lemma time_roundtrip [simp, codec_simps]:
  assumes "valid_time t"
  shows "map_sum id Timespec_Time (binary_Read_timespec (enc_timespec (UnixSec t) (Nanosecond t)))
    = Inr t"
proof -
  have "Nanosecond t div 1000000000 = 0" "Nanosecond t mod 1000000000 = Nanosecond t"
    using assms by (simp_all add: valid_time_def word_less_nat_alt word_arith_nat_div
        word_arith_nat_mod div_less mod_less)
  moreover have "length (enc_timespec (UnixSec t) (Nanosecond t)) = 12"
    by (simp add: enc_timespec_def)
  moreover from this have "enc_timespec (UnixSec t) (Nanosecond t) \<noteq> []" by auto
  ultimately show ?thesis
    by (simp add: binary_Read_timespec_def Timespec_Time_def) (simp add: enc_timespec_def)
qed

section \<open>Constructors of commands\<close>

text \<open>\<^verbatim>\<open>CompressionType\<close> is an integer type of \<^verbatim>\<open>pkg/btrfs\<close>.\<close>

record EncodedWriteOp =
  Offset :: u64
  OpData :: bytes
  UnencodedFileLength :: u64
  UnencodedLength :: u64
  UnencodedOffset :: u64
  Compression :: u32
  Encryption :: u32

definition NewSubvolCommand :: "string \<Rightarrow> uuid \<Rightarrow> u64 \<Rightarrow> SendCommand \<times> CmdAttrs" where
  "NewSubvolCommand path uu ctransid =
    (let attrs = NewCmdAttrs;
         attrs = SetPath attrs path;
         attrs = SetUUID attrs uu;
         attrs = SetCtransid attrs ctransid
     in (BTRFS_SEND_C_SUBVOL, attrs))"

definition NewSnapshotCommand :: "string \<Rightarrow> uuid \<Rightarrow> u64 \<Rightarrow> uuid \<Rightarrow> u64 \<Rightarrow> SendCommand \<times> CmdAttrs" where
  "NewSnapshotCommand path uu ctransid cloneUU cloneCtransid =
    (let attrs = NewCmdAttrs;
         attrs = SetPath attrs path;
         attrs = SetUUID attrs uu;
         attrs = SetCtransid attrs ctransid;
         attrs = SetCloneUUID attrs cloneUU;
         attrs = SetCloneCtransid attrs cloneCtransid
     in (BTRFS_SEND_C_SNAPSHOT, attrs))"

definition NewMkfileCommand :: "string \<Rightarrow> u64 \<Rightarrow> SendCommand \<times> CmdAttrs" where
  "NewMkfileCommand path ino =
    (let attrs = NewCmdAttrs;
         attrs = SetPath attrs path;
         attrs = SetIno attrs ino
     in (BTRFS_SEND_C_MKFILE, attrs))"

definition NewMkdirCommand :: "string \<Rightarrow> u64 \<Rightarrow> SendCommand \<times> CmdAttrs" where
  "NewMkdirCommand path ino =
    (let attrs = NewCmdAttrs;
         attrs = SetPath attrs path;
         attrs = SetIno attrs ino
     in (BTRFS_SEND_C_MKDIR, attrs))"

definition NewMknodCommand :: "string \<Rightarrow> u64 \<Rightarrow> u32 \<Rightarrow> u64 \<Rightarrow> SendCommand \<times> CmdAttrs" where
  "NewMknodCommand path ino mode rdev =
    (let attrs = NewCmdAttrs;
         attrs = SetPath attrs path;
         attrs = SetIno attrs ino;
         attrs = SetMode32 attrs mode;
         attrs = SetRdev attrs rdev
     in (BTRFS_SEND_C_MKNOD, attrs))"

definition NewMkfifoCommand :: "string \<Rightarrow> u64 \<Rightarrow> SendCommand \<times> CmdAttrs" where
  "NewMkfifoCommand path ino =
    (let attrs = NewCmdAttrs;
         attrs = SetPath attrs path;
         attrs = SetIno attrs ino
     in (BTRFS_SEND_C_MKFIFO, attrs))"

definition NewMksockCommand :: "string \<Rightarrow> u64 \<Rightarrow> SendCommand \<times> CmdAttrs" where
  "NewMksockCommand path ino =
    (let attrs = NewCmdAttrs;
         attrs = SetPath attrs path;
         attrs = SetIno attrs ino
     in (BTRFS_SEND_C_MKSOCK, attrs))"

definition NewSymlinkCommand :: "string \<Rightarrow> string \<Rightarrow> u64 \<Rightarrow> SendCommand \<times> CmdAttrs" where
  "NewSymlinkCommand path link ino =
    (let attrs = NewCmdAttrs;
         attrs = SetPath attrs path;
         attrs = SetIno attrs ino;
         attrs = SetPathLink attrs link
     in (BTRFS_SEND_C_SYMLINK, attrs))"

definition NewRenameCommand :: "string \<Rightarrow> string \<Rightarrow> SendCommand \<times> CmdAttrs" where
  "NewRenameCommand path pathTo =
    (let attrs = NewCmdAttrs;
         attrs = SetPath attrs path;
         attrs = SetPathTo attrs pathTo
     in (BTRFS_SEND_C_RENAME, attrs))"

definition NewLinkCommand :: "string \<Rightarrow> string \<Rightarrow> SendCommand \<times> CmdAttrs" where
  "NewLinkCommand path link =
    (let attrs = NewCmdAttrs;
         attrs = SetPath attrs path;
         attrs = SetPathLink attrs link
     in (BTRFS_SEND_C_LINK, attrs))"

definition NewUnlinkCommand :: "string \<Rightarrow> SendCommand \<times> CmdAttrs" where
  "NewUnlinkCommand path =
    (let attrs = NewCmdAttrs;
         attrs = SetPath attrs path
     in (BTRFS_SEND_C_UNLINK, attrs))"

definition NewRmdirCommand :: "string \<Rightarrow> SendCommand \<times> CmdAttrs" where
  "NewRmdirCommand path =
    (let attrs = NewCmdAttrs;
         attrs = SetPath attrs path
     in (BTRFS_SEND_C_RMDIR, attrs))"

definition NewWriteCommand :: "string \<Rightarrow> u64 \<Rightarrow> bytes \<Rightarrow> SendCommand \<times> CmdAttrs" where
  "NewWriteCommand path offset data =
    (let attrs = NewCmdAttrs;
         attrs = SetPath attrs path;
         attrs = SetFileOffset attrs offset;
         attrs = SetData attrs data
     in (BTRFS_SEND_C_WRITE, attrs))"

definition NewEncodedWriteCommand :: "string \<Rightarrow> EncodedWriteOp \<Rightarrow> SendCommand \<times> CmdAttrs" where
  "NewEncodedWriteCommand path op =
    (let attrs = NewCmdAttrs;
         attrs = SetPath attrs path;
         attrs = SetFileOffset attrs (Offset op);
         attrs = SetData attrs (OpData op);
         attrs = SetUnencodedFileLen attrs (UnencodedFileLength op);
         attrs = SetUnencodedLen attrs (UnencodedLength op);
         attrs = SetUnencodedOffset attrs (UnencodedOffset op);
         attrs = SetCompressionType attrs (Compression op);
         attrs = SetEncryptionType attrs (Encryption op)
     in (BTRFS_SEND_C_ENCODED_WRITE, attrs))"

definition NewCloneCommand :: "string \<Rightarrow> u64 \<Rightarrow> u64 \<Rightarrow> uuid \<Rightarrow> u64 \<Rightarrow> string \<Rightarrow> u64 \<Rightarrow> SendCommand \<times> CmdAttrs" where
  "NewCloneCommand path offset cloneLen cloneUUID cloneCtransid clonePath cloneOffset =
    (let attrs = NewCmdAttrs;
         attrs = SetPath attrs path;
         attrs = SetFileOffset attrs offset;
         attrs = SetCloneLen attrs cloneLen;
         attrs = SetCloneUUID attrs cloneUUID;
         attrs = SetCloneCtransid attrs cloneCtransid;
         attrs = SetClonePath attrs clonePath;
         attrs = SetCloneOffset attrs cloneOffset
     in (BTRFS_SEND_C_CLONE, attrs))"

definition NewSetXattrCommand :: "string \<Rightarrow> string \<Rightarrow> bytes \<Rightarrow> SendCommand \<times> CmdAttrs" where
  "NewSetXattrCommand path name data =
    (let attrs = NewCmdAttrs;
         attrs = SetPath attrs path;
         attrs = SetXattrName attrs name;
         attrs = SetXattrData attrs data
     in (BTRFS_SEND_C_SET_XATTR, attrs))"

definition NewRemoveXattrCommand :: "string \<Rightarrow> string \<Rightarrow> SendCommand \<times> CmdAttrs" where
  "NewRemoveXattrCommand path name =
    (let attrs = NewCmdAttrs;
         attrs = SetPath attrs path;
         attrs = SetXattrName attrs name
     in (BTRFS_SEND_C_REMOVE_XATTR, attrs))"

definition NewTruncateCommand :: "string \<Rightarrow> u64 \<Rightarrow> SendCommand \<times> CmdAttrs" where
  "NewTruncateCommand path sz =
    (let attrs = NewCmdAttrs;
         attrs = SetPath attrs path;
         attrs = SetSize attrs sz
     in (BTRFS_SEND_C_TRUNCATE, attrs))"

definition NewChmodCommand :: "string \<Rightarrow> u64 \<Rightarrow> SendCommand \<times> CmdAttrs" where
  "NewChmodCommand path mode =
    (let attrs = NewCmdAttrs;
         attrs = SetPath attrs path;
         attrs = SetMode64 attrs mode
     in (BTRFS_SEND_C_CHMOD, attrs))"

definition NewChownCommand :: "string \<Rightarrow> u64 \<Rightarrow> u64 \<Rightarrow> SendCommand \<times> CmdAttrs" where
  "NewChownCommand path uid gid =
    (let attrs = NewCmdAttrs;
         attrs = SetPath attrs path;
         attrs = SetUid attrs uid;
         attrs = SetGid attrs gid
     in (BTRFS_SEND_C_CHOWN, attrs))"

definition NewUtimesCommand :: "string \<Rightarrow> gotime \<Rightarrow> gotime \<Rightarrow> gotime \<Rightarrow> SendCommand \<times> CmdAttrs" where
  "NewUtimesCommand path atime mtime ctime =
    (let attrs = NewCmdAttrs;
         attrs = SetPath attrs path;
         attrs = SetAtime attrs atime;
         attrs = SetMtime attrs mtime;
         attrs = SetCtime attrs ctime
     in (BTRFS_SEND_C_UTIMES, attrs))"

definition NewUpdateExtentCommand :: "string \<Rightarrow> u64 \<Rightarrow> u64 \<Rightarrow> SendCommand \<times> CmdAttrs" where
  "NewUpdateExtentCommand path offset sz =
    (let attrs = NewCmdAttrs;
         attrs = SetPath attrs path;
         attrs = SetFileOffset attrs offset;
         attrs = SetSize attrs sz
     in (BTRFS_SEND_C_UPDATE_EXTENT, attrs))"

definition NewEnableVerityCommand :: "string \<Rightarrow> byte \<Rightarrow> u32 \<Rightarrow> bytes \<Rightarrow> bytes \<Rightarrow> SendCommand \<times> CmdAttrs" where
  "NewEnableVerityCommand path alg blockSize salt sig =
    (let attrs = NewCmdAttrs;
         attrs = SetPath attrs path;
         attrs = SetVerityAlgorithm attrs alg;
         attrs = SetVerityBlockSize attrs blockSize;
         attrs = SetVeritySalt attrs salt;
         attrs = SetVeritySig attrs sig
     in (BTRFS_SEND_C_ENABLE_VERITY, attrs))"

definition NewFallocateCommand :: "string \<Rightarrow> u32 \<Rightarrow> u64 \<Rightarrow> u64 \<Rightarrow> SendCommand \<times> CmdAttrs" where
  "NewFallocateCommand path mode offset sz =
    (let attrs = NewCmdAttrs;
         attrs = SetPath attrs path;
         attrs = SetFallocateMode attrs mode;
         attrs = SetFileOffset attrs offset;
         attrs = SetSize attrs sz
     in (BTRFS_SEND_C_FALLOCATE, attrs))"

definition NewFileAttrCommand :: "string \<Rightarrow> u32 \<Rightarrow> SendCommand \<times> CmdAttrs" where
  "NewFileAttrCommand path attr =
    (let attrs = NewCmdAttrs;
         attrs = SetPath attrs path;
         attrs = SetFileAttr attrs attr
     in (BTRFS_SEND_C_FILEATTR, attrs))"

definition NewEndCommand :: "SendCommand \<times> CmdAttrs" where
  "NewEndCommand = (BTRFS_SEND_C_END, NewCmdAttrs)"

lemmas new_defs =
  NewSubvolCommand_def NewSnapshotCommand_def NewMkfileCommand_def NewMkdirCommand_def
  NewMknodCommand_def NewMkfifoCommand_def NewMksockCommand_def NewSymlinkCommand_def
  NewRenameCommand_def NewLinkCommand_def NewUnlinkCommand_def NewRmdirCommand_def
  NewWriteCommand_def NewEncodedWriteCommand_def NewCloneCommand_def NewSetXattrCommand_def
  NewRemoveXattrCommand_def NewTruncateCommand_def NewChmodCommand_def NewChownCommand_def
  NewUtimesCommand_def NewUpdateExtentCommand_def NewEnableVerityCommand_def
  NewFallocateCommand_def NewFileAttrCommand_def NewEndCommand_def

section \<open>Encoding\<close>

definition range_order :: "CmdAttrs \<Rightarrow> SendAttribute list \<Rightarrow> bool" where
  "range_order c ord \<longleftrightarrow> distinct ord \<and> set ord = dom c"

fun BinarySize_loop :: "CmdAttrs \<Rightarrow> SendAttribute list \<Rightarrow> u32 \<Rightarrow> u32" where
  "BinarySize_loop c [] sz = sz"
| "BinarySize_loop c (k # ks) sz =
     (let v = attr_get c k;
          sz = sz + 2;
          sz = (if k \<noteq> BTRFS_SEND_A_DATA then sz + 2 else sz)
      in BinarySize_loop c ks (sz + of_nat (length v)))"

definition BinarySize :: "SendAttribute list \<Rightarrow> CmdAttrs \<Rightarrow> u32" where
  "BinarySize ord c = BinarySize_loop c ord 0"

text \<open>
  Writes to a \<^verbatim>\<open>bytes.Buffer\<close> do not fail. The length field is \<^verbatim>\<open>uint16(len(v))\<close>, which wraps.
\<close>

fun Encode_loop :: "CmdAttrs \<Rightarrow> SendAttribute list \<Rightarrow> bytes \<Rightarrow> bytes" where
  "Encode_loop c [] buf = buf"
| "Encode_loop c (k # ks) buf =
     (if k = BTRFS_SEND_A_DATA then Encode_loop c ks buf
      else let v = attr_get c k
           in Encode_loop c ks (buf @ le_enc 2 k @ le_enc 2 (of_nat (length v) :: u16) @ v))"

definition Encode :: "SendAttribute list \<Rightarrow> CmdAttrs \<Rightarrow> gerr + bytes" where
  "Encode ord c =
     (let buf = Encode_loop c ord [];
          buf = (case c BTRFS_SEND_A_DATA of
                   Some data \<Rightarrow> buf @ le_enc 2 BTRFS_SEND_A_DATA @ data
                 | None \<Rightarrow> buf)
      in Inr buf)"

text \<open>The encoding in closed form: one chunk per attribute, the data chunk last.\<close>

definition attr_chunk :: "CmdAttrs \<Rightarrow> SendAttribute \<Rightarrow> bytes" where
  "attr_chunk c k = le_enc 2 k @ le_enc 2 (of_nat (length (attr_get c k)) :: u16) @ attr_get c k"

definition data_chunk :: "CmdAttrs \<Rightarrow> bytes" where
  "data_chunk c = (case c BTRFS_SEND_A_DATA of None \<Rightarrow> []
     | Some d \<Rightarrow> le_enc 2 BTRFS_SEND_A_DATA @ d)"

abbreviation plain_keys :: "SendAttribute list \<Rightarrow> SendAttribute list" where
  "plain_keys \<equiv> filter (\<lambda>k. k \<noteq> BTRFS_SEND_A_DATA)"

lemma Encode_loop_concat:
  "Encode_loop c ord buf = buf @ concat (map (attr_chunk c) (plain_keys ord))"
  by (induction ord arbitrary: buf) (auto simp: attr_chunk_def Let_def)

lemma Encode_chunks:
  "Encode ord c = Inr (concat (map (attr_chunk c) (plain_keys ord)) @ data_chunk c)"
  by (simp add: Encode_def Encode_loop_concat data_chunk_def Let_def split: option.splits)

lemma BinarySize_loop_sum:
  "BinarySize_loop c ord n = n + of_nat (\<Sum>k\<leftarrow>ord. (if k = BTRFS_SEND_A_DATA then 2 else 4)
     + length (attr_get c k))"
  by (induction ord arbitrary: n) (auto simp: Let_def)

lemma length_attr_chunk: "length (attr_chunk c k) = 4 + length (attr_get c k)"
  by (simp add: attr_chunk_def)

lemma sum_split_data:
  assumes "distinct ord"
  shows "(\<Sum>k\<leftarrow>ord. (if k = BTRFS_SEND_A_DATA then 2 else 4) + length (attr_get c k))
    = length (concat (map (attr_chunk c) (plain_keys ord)))
      + (if BTRFS_SEND_A_DATA \<in> set ord then 2 + length (attr_get c BTRFS_SEND_A_DATA) else 0)"
  using assms by (induction ord) (auto simp: length_attr_chunk)

text \<open>The length put into the header is the length of the payload (modulo $2^{32}$), whatever
  the orders in which the two functions see the attributes.\<close>

lemma length_data_chunk: "length (data_chunk c)
    = (if BTRFS_SEND_A_DATA \<in> dom c then 2 + length (attr_get c BTRFS_SEND_A_DATA) else 0)"
  by (auto simp: data_chunk_def attr_get_def split: option.splits)

lemma length_plain_chunks:
  assumes "range_order c ord" "range_order c ord'"
  shows "length (concat (map (attr_chunk c) (plain_keys ord)))
    = length (concat (map (attr_chunk c) (plain_keys ord')))"
proof -
  have "length (concat (map (attr_chunk c) (plain_keys o1)))
      = (\<Sum>k\<in>dom c - {BTRFS_SEND_A_DATA}. 4 + length (attr_get c k))"
    if "range_order c o1" for o1
  proof -
    from that have "distinct (plain_keys o1)" "set (plain_keys o1) = dom c - {BTRFS_SEND_A_DATA}"
      by (auto simp: range_order_def)
    then show ?thesis
      by (simp add: length_concat o_def length_attr_chunk sum_list_distinct_conv_sum_set)
  qed
  then show ?thesis using assms by simp
qed

lemma BinarySize_Encode:
  assumes "range_order c ord" "range_order c ord'" "Encode ord' c = Inr b"
  shows "BinarySize ord c = of_nat (length b)"
proof -
  have "length b = (\<Sum>k\<leftarrow>ord. (if k = BTRFS_SEND_A_DATA then 2 else 4) + length (attr_get c k))"
    using assms length_plain_chunks [OF assms(1,2)]
    by (auto simp only: sum_split_data range_order_def Encode_chunks length_append
        length_data_chunk sum.inject)
  then show ?thesis
    by (simp only: BinarySize_def BinarySize_loop_sum add_0)
qed

end
