(* ===== verification/GoPath.thy ===== *)
theory GoPath
  imports Prelude
begin

text \<open>
  The functions of Go's \<^verbatim>\<open>path/filepath\<close> (Unix) and \<^verbatim>\<open>strings\<close> that the program uses: lexical
  cleaning, joining, base and directory names of slash-separated paths, prefixes and suffixes.
  The lemmas show that cleaning is idempotent and in which cases a joined path stays below
  its first element.
\<close>

section \<open>Components\<close>

fun split_on :: "char \<Rightarrow> string \<Rightarrow> string list" where
  "split_on c [] = [[]]"
| "split_on c (x # xs) =
     (if x = c then [] # split_on c xs
      else (case split_on c xs of [] \<Rightarrow> [[x]] | w # ws \<Rightarrow> (x # w) # ws))"

fun join_with :: "char \<Rightarrow> string list \<Rightarrow> string" where
  "join_with c [] = []"
| "join_with c [w] = w"
| "join_with c (w # ws) = w @ c # join_with c ws"

abbreviation slash :: char where "slash \<equiv> CHR ''/''"

definition rooted :: "string \<Rightarrow> bool" where
  "rooted p = (case p of [] \<Rightarrow> False | c # _ \<Rightarrow> c = slash)"

text \<open>The stack of components that \<^verbatim>\<open>Clean\<close> keeps, innermost component first.\<close>

fun clean_step :: "bool \<Rightarrow> string list \<Rightarrow> string \<Rightarrow> string list" where
  "clean_step r st w =
     (if w = [] \<or> w = ''.'' then st
      else if w = ''..'' then
        (case st of
           [] \<Rightarrow> if r then [] else [''..'']
         | t # ts \<Rightarrow> if t = ''..'' then ''..'' # st else ts)
      else w # st)"

definition clean_comps :: "bool \<Rightarrow> string list \<Rightarrow> string list" where
  "clean_comps r ws = rev (foldl (clean_step r) [] ws)"

definition unsplit :: "bool \<Rightarrow> string list \<Rightarrow> string" where
  "unsplit r ws = (if \<not> r \<and> ws = [] then ''.'' else (if r then ''/'' else []) @ join_with slash ws)"

definition Clean :: "string \<Rightarrow> string" where
  "Clean p = unsplit (rooted p) (clean_comps (rooted p) (split_on slash p))"

text \<open>\<^verbatim>\<open>filepath.Join\<close> ignores empty elements and cleans the rest.\<close>

definition Join :: "string list \<Rightarrow> string" where
  "Join es = (case dropWhile (\<lambda>e. e = []) es of
     [] \<Rightarrow> [] | es' \<Rightarrow> Clean (join_with slash es'))"

definition rtrim :: "char \<Rightarrow> string \<Rightarrow> string" where
  "rtrim c s = rev (dropWhile (\<lambda>x. x = c) (rev s))"

definition Base :: "string \<Rightarrow> string" where
  "Base p = (if p = [] then ''.''
     else let q = rtrim slash p in if q = [] then ''/'' else last (split_on slash q))"

text \<open>\<^verbatim>\<open>filepath.Dir\<close> cleans everything up to the last slash.\<close>

definition Dir :: "string \<Rightarrow> string" where
  "Dir p = Clean (rev (dropWhile (\<lambda>x. x \<noteq> slash) (rev p)))"

definition HasPrefix :: "string \<Rightarrow> string \<Rightarrow> bool" where
  "HasPrefix s p \<longleftrightarrow> take (length p) s = p"

definition HasSuffix :: "string \<Rightarrow> string \<Rightarrow> bool" where
  "HasSuffix s p \<longleftrightarrow> length p \<le> length s \<and> drop (length s - length p) s = p"

definition TrimPrefix :: "string \<Rightarrow> string \<Rightarrow> string" where
  "TrimPrefix s p = (if HasPrefix s p then drop (length p) s else s)"

definition TrimSuffix :: "string \<Rightarrow> string \<Rightarrow> string" where
  "TrimSuffix s p = (if HasSuffix s p then take (length s - length p) s else s)"

section \<open>Splitting and joining\<close>

lemma split_on_not_Nil [simp]: "split_on c s \<noteq> []"
  by (induction s) (auto split: list.splits)

lemma split_on_no_sep: "w \<in> set (split_on c s) \<Longrightarrow> c \<notin> set w"
  by (induction s arbitrary: w) (auto split: if_splits list.splits)

lemma split_on_append_sep: "c \<notin> set w \<Longrightarrow> split_on c (w @ c # s) = w # split_on c s"
  by (induction w) auto

lemma split_on_word: "c \<notin> set w \<Longrightarrow> split_on c w = [w]"
  by (induction w) auto

lemma split_join: "ws \<noteq> [] \<Longrightarrow> \<forall>w\<in>set ws. c \<notin> set w \<Longrightarrow> split_on c (join_with c ws) = ws"
  by (induction c ws rule: join_with.induct) (auto simp: split_on_word split_on_append_sep)

lemma split_on_append:
  "split_on c (a @ c # b) = split_on c a @ split_on c b"
  by (induction a) (auto split: list.splits)

section \<open>Cleaning\<close>

text \<open>
  A cleaned stack, which grows at its head: no empty component, no dot, and dot-dot only at
  the front of a relative path.
\<close>

fun clean_stack :: "bool \<Rightarrow> string list \<Rightarrow> bool" where
  "clean_stack r [] = True"
| "clean_stack r (w # st) \<longleftrightarrow> w \<noteq> [] \<and> w \<noteq> ''.'' \<and> slash \<notin> set w \<and> clean_stack r st
     \<and> (w = ''..'' \<longrightarrow> \<not> r \<and> set st \<subseteq> {''..''})"

declare clean_step.simps [simp del]

lemma clean_step_skip [simp]: "clean_step r st [] = st" "clean_step r st ''.'' = st"
  by (simp_all add: clean_step.simps)

lemma clean_step_stack:
  assumes "clean_stack r st" "slash \<notin> set w"
  shows "clean_stack r (clean_step r st w)"
  using assms by (cases st) (auto simp: clean_step.simps)

lemma clean_comps_stack:
  assumes "\<forall>w\<in>set ws. slash \<notin> set w" "clean_stack r st"
  shows "clean_stack r (foldl (clean_step r) st ws)"
  using assms by (induction ws arbitrary: st) (auto simp: clean_step_stack)

text \<open>Cleaning pushes back what is already clean.\<close>

lemma clean_fixpoint:
  "clean_stack r st \<Longrightarrow> foldl (clean_step r) [] (rev st) = st"
proof (induction st)
  case (Cons w st)
  then have "foldl (clean_step r) [] (rev st) = st" by simp
  moreover have "clean_step r st w = w # st"
    using Cons.prems by (cases st) (auto simp: clean_step.simps)
  ultimately show ?case by simp
qed simp

lemma clean_stack_no_slash: "clean_stack r st \<Longrightarrow> \<forall>w\<in>set st. slash \<notin> set w"
  by (induction st) auto

lemma rooted_unsplit:
  assumes "clean_stack r st"
  shows "rooted (unsplit r (rev st)) = r"
proof (cases "rev st")
  case Nil
  then show ?thesis by (auto simp: unsplit_def rooted_def)
next
  case (Cons w ws)
  then have "w \<in> set st" by (metis list.set_intros(1) set_rev)
  with assms have "w \<noteq> [] \<and> slash \<notin> set w"
    by (induction st) auto
  then show ?thesis using Cons by (cases w; cases ws) (auto simp: unsplit_def rooted_def)
qed

text \<open>Splitting a cleaned path gives its components back, with one empty component in front
  of a rooted path.\<close>

lemma split_unsplit:
  assumes "clean_stack r st"
  shows "split_on slash (unsplit r (rev st))
    = (if r then [[]] else []) @ (if rev st = [] then [if r then [] else ''.''] else rev st)"
proof (cases "rev st = []")
  case False
  have "split_on slash (join_with slash (rev st)) = rev st"
    using clean_stack_no_slash [OF assms] False by (intro split_join) auto
  then show ?thesis using False by (auto simp: unsplit_def)
qed (auto simp: unsplit_def)

lemma clean_comps_fixpoint:
  assumes "clean_stack r st"
  shows "clean_comps r (split_on slash (unsplit r (rev st))) = rev st"
proof (cases "rev st = []")
  case True
  then show ?thesis using assms split_unsplit [OF assms] by (simp add: clean_comps_def)
next
  case False
  then have "foldl (clean_step r) [] (split_on slash (unsplit r (rev st)))
      = foldl (clean_step r) [] (rev st)"
    using assms by (simp add: split_unsplit)
  then show ?thesis using clean_fixpoint [OF assms] by (simp add: clean_comps_def)
qed

lemma Clean_stack: "\<exists>st. clean_stack (rooted p) st \<and> Clean p = unsplit (rooted p) (rev st)"
proof -
  have "clean_stack (rooted p) (foldl (clean_step (rooted p)) [] (split_on slash p))"
    by (rule clean_comps_stack) (auto dest: split_on_no_sep)
  then show ?thesis by (auto simp: Clean_def clean_comps_def)
qed

lemma Clean_idem: "Clean (Clean p) = Clean p"
proof -
  obtain st where st: "clean_stack (rooted p) st" "Clean p = unsplit (rooted p) (rev st)"
    using Clean_stack by blast
  then have "rooted (Clean p) = rooted p" by (simp add: rooted_unsplit)
  then show ?thesis
    using st clean_comps_fixpoint [OF st(1)] by (simp add: Clean_def)
qed

section \<open>Joining below a directory\<close>

lemma foldl_clean_down:
  assumes "''..'' \<notin> set ws"
  shows "foldl (clean_step r) st ws = rev (filter (\<lambda>w. w \<noteq> [] \<and> w \<noteq> ''.'') ws) @ st"
  using assms by (induction ws arbitrary: st) (auto simp: clean_step.simps)

lemma rooted_append: "d \<noteq> [] \<Longrightarrow> rooted (d @ e) = rooted d"
  by (cases d) (auto simp: rooted_def)

text \<open>Joining a path without dot-dot components to a directory adds its components.\<close>

lemma Join_down:
  assumes "d \<noteq> []" "''..'' \<notin> set (split_on slash p)"
  shows "Join [d, p] = unsplit (rooted d) (clean_comps (rooted d) (split_on slash d)
    @ filter (\<lambda>w. w \<noteq> [] \<and> w \<noteq> ''.'') (split_on slash p))"
  using assms
  by (simp add: Join_def Clean_def rooted_append split_on_append clean_comps_def foldl_clean_down)

lemma Join_empty: "Join [d, []] = (if d = [] then [] else Clean d)"
proof -
  have "foldl (clean_step r) [] (split_on slash d @ [[]])
      = foldl (clean_step r) [] (split_on slash d)" for r by simp
  then show ?thesis
    by (simp add: Join_def Clean_def rooted_append split_on_append clean_comps_def)
qed

end
