(* ===== verification/Receiver.thy ===== *)
theory Receiver
  imports Commands GoPath
begin

text \<open>
  The interface between the stream processor and the receivers
  (\<^verbatim>\<open>pkg/receive/receivers/receiver.go\<close>, \<^verbatim>\<open>pkg/receive/context.go\<close>,
  \<^verbatim>\<open>pkg/sendstream/subvolume.go\<close>): the methods of \<^verbatim>\<open>Receiver\<close> as calls with their arguments, a
  receiver as the function that executes calls on its state, with optional \<open>PreOp\<close> and
  \<open>PostOp\<close>, and the context that is passed along. Logging is left out.
\<close>

section \<open>The context\<close>

record ReceivingSubvolume =
  SubvolPath :: string
  SubvolUUID :: uuid
  SubvolCtransid :: u64

definition ReceivingSubvolume_ResolvePath :: "ReceivingSubvolume \<Rightarrow> string \<Rightarrow> string" where
  "ReceivingSubvolume_ResolvePath r path = Join [SubvolPath r, path]"

record receiveCtx =
  maxErrors :: int
  honorEndCmd :: bool
  forceDecompress :: bool
  ctxIgnoreChecksums :: bool
  startOffset :: u64
  currentOffset :: u64
  currentSubvolInfo :: "ReceivingSubvolume option"

text \<open>
  What the interface \<^verbatim>\<open>ReceiveContext\<close> shows of it to a receiver: the results of its methods
  \<open>CurrentOffset\<close> and \<open>CurrentSubvolume\<close>. \<open>view\<close> is the implementation of the interface by
  \<^verbatim>\<open>receiveCtx\<close>.
\<close>

record ReceiveContext =
  CurrentOffset :: u64
  CurrentSubvolume :: "ReceivingSubvolume option"

definition view :: "receiveCtx \<Rightarrow> ReceiveContext" where
  "view r = \<lparr>CurrentOffset = currentOffset r, CurrentSubvolume = currentSubvolInfo r\<rparr>"

text \<open>The method of a nil \<^verbatim>\<open>*ReceivingSubvolume\<close> reads its \<^verbatim>\<open>Path\<close> and panics.\<close>

definition ResolvePath :: "ReceiveContext \<Rightarrow> string \<Rightarrow> string go" where
  "ResolvePath r path = (case CurrentSubvolume r of
     None \<Rightarrow> panic | Some sv \<Rightarrow> Some (ReceivingSubvolume_ResolvePath sv path))"

section \<open>Receivers\<close>

datatype rcall =
    Subvol string uuid u64
  | Snapshot string uuid u64 uuid u64
  | Mkfile string u64
  | Mkdir string u64
  | Mknod string u64 u32 u64
  | Mkfifo string u64
  | Mksock string u64
  | Symlink string u64 string
  | Rename string string
  | Link string string
  | Unlink string
  | Rmdir string
  | Write string u64 bytes
  | EncodedWrite string EncodedWriteOp
  | Clone string u64 u64 uuid u64 string u64
  | SetXattr string string bytes
  | RemoveXattr string string
  | Truncate string u64
  | Chmod string u64
  | Chown string u64 u64
  | Utimes string gotime gotime gotime
  | UpdateExtent string u64 u64
  | EnableVerity string byte u32 bytes bytes
  | Fallocate string u32 u64 u64
  | Fileattr string u32
  | FinishSubvolume

type_synonym 's rmethod = "ReceiveContext \<Rightarrow> rcall \<Rightarrow> 's \<Rightarrow> (gerr option \<times> 's) go"
type_synonym 's hook = "ReceiveContext \<Rightarrow> CmdHeader \<Rightarrow> CmdAttrs \<Rightarrow> 's \<Rightarrow> (gerr option \<times> 's) go"

record 's receiver =
  recv :: "'s rmethod"
  PreOp :: "'s hook option"
  PostOp :: "'s hook option"

text \<open>
  The functions of libraries on the receiving side: \<^verbatim>\<open>uuid.FromBytes\<close> and those of the three
  decompressors (\<^verbatim>\<open>compress/zlib\<close>, \<^verbatim>\<open>rasky/go-lzo\<close>, \<^verbatim>\<open>klauspost/compress/zstd\<close>). A reader that
  decompresses is what it gives and the error behind that, \<open>EOF\<close> at the end of good data.
\<close>

type_synonym zreader = "bytes \<times> gerr"

record ext =
  FromBytes :: "bytes \<Rightarrow> gerr + uuid"
  zlib_NewReader :: "bytes \<Rightarrow> gerr + zreader"
  lzo_Decompress1X :: "bytes \<Rightarrow> int \<Rightarrow> int \<Rightarrow> gerr + bytes"
  zstd_NewReader :: "bytes \<Rightarrow> gerr + zreader"

text \<open>What the documentation of \<^verbatim>\<open>uuid.FromBytes\<close> says: an error unless the slice has length 16.\<close>

definition uuid_lib :: "ext \<Rightarrow> bool" where
  "uuid_lib X \<longleftrightarrow> (\<forall>b. (length b = 16 \<longrightarrow> FromBytes X b = Inr b)
     \<and> (length b \<noteq> 16 \<longrightarrow> (\<exists>e. FromBytes X b = Inl e)))"

text \<open>An instance, whose decompressors only copy.\<close>

definition sample_ext :: ext where
  "sample_ext = \<lparr>FromBytes = (\<lambda>b. if length b = 16 then Inr b else Inl (EnvErr ''invalid UUID'')),
     zlib_NewReader = (\<lambda>b. Inr (b, EOF)), lzo_Decompress1X = (\<lambda>b _ _. Inr b),
     zstd_NewReader = (\<lambda>b. Inr (b, EOF))\<rparr>"

lemma uuid_lib_sample: "uuid_lib sample_ext"
  by (auto simp: uuid_lib_def sample_ext_def)

text \<open>A receiver that records its calls, for examples.\<close>

definition recorder :: "rcall list receiver" where
  "recorder = \<lparr>recv = (\<lambda>ctx c s. Some (None, s @ [c])), PreOp = None, PostOp = None\<rparr>"

definition sample_ctx :: receiveCtx where
  "sample_ctx = \<lparr>maxErrors = 0, honorEndCmd = False, forceDecompress = False,
     ctxIgnoreChecksums = False, startOffset = 0, currentOffset = 0, currentSubvolInfo = None\<rparr>"

section \<open>Decompression\<close>

text \<open>\<^verbatim>\<open>io.ReadAll\<close>; what was read before an error is not used.\<close>

definition read_all :: "zreader \<Rightarrow> gerr + bytes" where
  "read_all r = (if snd r = EOF then Inr (fst r) else Inl (snd r))"

definition decompressZlip :: "ext \<Rightarrow> bytes \<Rightarrow> gerr + bytes" where
  "decompressZlip X data = (case zlib_NewReader X data of Inl err \<Rightarrow> Inl err | Inr r \<Rightarrow> read_all r)"

definition decompressLzo :: "ext \<Rightarrow> bytes \<Rightarrow> int \<Rightarrow> int \<Rightarrow> gerr + bytes" where
  "decompressLzo X data encodedLen unencodedLen = lzo_Decompress1X X data encodedLen unencodedLen"

definition decompressZstd :: "ext \<Rightarrow> bytes \<Rightarrow> gerr + bytes" where
  "decompressZstd X data = (case zstd_NewReader X data of Inl err \<Rightarrow> Inl err | Inr r \<Rightarrow> read_all r)"

definition CompressionNone :: u32 where [simp]: "CompressionNone = 0"
definition CompressionZLib :: u32 where [simp]: "CompressionZLib = 1"
definition CompressionZSTD :: u32 where [simp]: "CompressionZSTD = 2"
definition CompressionLZO4k :: u32 where [simp]: "CompressionLZO4k = 3"
definition CompressionLZO8k :: u32 where [simp]: "CompressionLZO8k = 4"
definition CompressionLZO16k :: u32 where [simp]: "CompressionLZO16k = 5"
definition CompressionLZO32k :: u32 where [simp]: "CompressionLZO32k = 6"
definition CompressionLZO64k :: u32 where [simp]: "CompressionLZO64k = 7"

definition Decompress :: "ext \<Rightarrow> EncodedWriteOp \<Rightarrow> gerr + bytes" where
  "Decompress X e =
     (let ct = Compression e
      in if ct = CompressionNone then Inr (OpData e)
         else if ct = CompressionZLib then decompressZlip X (OpData e)
         else if ct = CompressionLZO4k \<or> ct = CompressionLZO8k \<or> ct = CompressionLZO16k
           \<or> ct = CompressionLZO32k \<or> ct = CompressionLZO64k
         then decompressLzo X (OpData e) (int (length (OpData e))) (sint (UnencodedLength e))
         else if ct = CompressionZSTD then decompressZstd X (OpData e)
         else Inl (ErrText ''Decompress: unknown compression type''))"

section \<open>Where resolved paths lie\<close>

text \<open>Path confinement and its limit: a path of the stream without dot-dot components is
  resolved to a path the cleaned path of the current subvolume or to a path below it,
  whose cleaned components it extends.\<close>

theorem ResolvePath_below:
  assumes "CurrentSubvolume ctx = Some sv" "SubvolPath sv \<noteq> []"
    and "''..'' \<notin> set (split_on slash p)"
  shows "\<exists>ws. ''..'' \<notin> set ws \<and> ResolvePath ctx p = Some (unsplit (rooted (SubvolPath sv))
    (clean_comps (rooted (SubvolPath sv)) (split_on slash (SubvolPath sv)) @ ws))"
  by (rule exI [where x = "filter (\<lambda>w. w \<noteq> [] \<and> w \<noteq> ''.'') (split_on slash p)"])
    (use assms in \<open>simp add: ResolvePath_def ReceivingSubvolume_ResolvePath_def Join_down\<close>)

lemma ResolvePath_below_witness:
  "\<exists>ws. ''..'' \<notin> set ws \<and> ResolvePath \<lparr>CurrentOffset = 0, CurrentSubvolume = Some \<lparr>SubvolPath = ''snap'', SubvolUUID = [], SubvolCtransid = 0\<rparr>\<rparr> ''a/./b''
    = Some (unsplit False (clean_comps False [''snap''] @ ws))"
  using ResolvePath_below [where ctx = "\<lparr>CurrentOffset = 0, CurrentSubvolume = Some \<lparr>SubvolPath = ''snap'', SubvolUUID = [], SubvolCtransid = 0\<rparr>\<rparr>"
      and sv = "\<lparr>SubvolPath = ''snap'', SubvolUUID = [], SubvolCtransid = 0\<rparr>" and p = "''a/./b''"]
  by (simp add: rooted_def)

text \<open>The stream can name paths outside the subvolume: leading dot-dot components leave it.\<close>

theorem ResolvePath_escapes:
  "ResolvePath (ctx\<lparr>CurrentSubvolume := Some (sv\<lparr>SubvolPath := ''snap''\<rparr>)\<rparr>) ''../../etc''
    = Some ''../etc''"
  by (simp add: ResolvePath_def ReceivingSubvolume_ResolvePath_def Join_def Clean_def rooted_def
      clean_comps_def clean_step.simps unsplit_def)

end
