(* ===== verification/SendOps.thy ===== *)
theory SendOps
  imports Receiver
begin

text \<open>
  The handlers of the send commands (\<^verbatim>\<open>pkg/receive/send_ops.go\<close>): each checks that its
  attributes are present, decodes them and calls one method of the receiver. A handler takes
  the third-party functions, the receiver, the attributes, the context and the state of the
  receiver, and returns an optional error with the new context and state, or panics.
\<close>

section \<open>Attributes and calls\<close>

type_synonym 's processFunc =
  "ext \<Rightarrow> 's receiver \<Rightarrow> CmdAttrs \<Rightarrow> receiveCtx \<Rightarrow> 's \<Rightarrow> (gerr option \<times> receiveCtx \<times> 's) go"

fun ensureAttrs :: "CmdAttrs \<Rightarrow> SendAttribute list \<Rightarrow> gerr option" where
  "ensureAttrs attrs [] = None"
| "ensureAttrs attrs (key # keys) =
     (if attrs key = None then Some (ErrMissingAttr key) else ensureAttrs attrs keys)"

text \<open>The first statement of every handler.\<close>

definition ensured :: "string \<Rightarrow> CmdAttrs \<Rightarrow> SendAttribute list \<Rightarrow> receiveCtx \<Rightarrow> 's \<Rightarrow>
    (gerr option \<times> receiveCtx \<times> 's) go \<Rightarrow> (gerr option \<times> receiveCtx \<times> 's) go" where
  "ensured name attrs keys ctx s body =
     (case ensureAttrs attrs keys of
        Some err \<Rightarrow> Some (Some (Errorf name err), ctx, s)
      | None \<Rightarrow> body)"

definition call :: "'s receiver \<Rightarrow> rcall \<Rightarrow> receiveCtx \<Rightarrow> 's \<Rightarrow> (gerr option \<times> receiveCtx \<times> 's) go"
where
  "call R c ctx s = do { (err, s) \<leftarrow> recv R (view ctx) c s; Some (err, ctx, s) }"

text \<open>The subvolume in progress is finished before the next one starts.\<close>

definition finish_current :: "'s receiver \<Rightarrow> receiveCtx \<Rightarrow> 's \<Rightarrow> (gerr option \<times> receiveCtx \<times> 's) go"
where
  "finish_current R ctx s =
     (if currentSubvolInfo ctx \<noteq> None then do {
        (err, s) \<leftarrow> recv R (view ctx) FinishSubvolume s;
        (case err of
           Some e \<Rightarrow> Some (Some e, ctx, s)
         | None \<Rightarrow> Some (None, ctx\<lparr>currentSubvolInfo := None\<rparr>, s)) }
      else Some (None, ctx, s))"

section \<open>Subvolumes and snapshots\<close>

definition processSubvol :: "'s processFunc" where
  "processSubvol X R attrs ctx s =
     ensured ''processSubvol'' attrs
       [BTRFS_SEND_A_PATH, BTRFS_SEND_A_UUID, BTRFS_SEND_A_CTRANSID] ctx s (do {
       (ferr, ctx, s) \<leftarrow> finish_current R ctx s;
       case ferr of
         Some e \<Rightarrow> Some (Some (Errorf ''processSubvol: error finishing in-process subvolume'' e), ctx, s)
       | None \<Rightarrow> do {
           let path = GetPath attrs;
           ctransid \<leftarrow> GetCtransid attrs;
           case GetUUID (FromBytes X) attrs of
             Inl e \<Rightarrow> Some (Some (Errorf ''processSubvol: error parsing uuid'' e), ctx, s)
           | Inr uuid \<Rightarrow>
               call R (Subvol path uuid ctransid)
                 (ctx\<lparr>currentSubvolInfo := Some \<lparr>SubvolPath = path, SubvolUUID = uuid,
                    SubvolCtransid = ctransid\<rparr>\<rparr>) s }})"

definition processSnapshot :: "'s processFunc" where
  "processSnapshot X R attrs ctx s =
     ensured ''processSnapshot'' attrs
       [BTRFS_SEND_A_PATH, BTRFS_SEND_A_UUID, BTRFS_SEND_A_CTRANSID,
        BTRFS_SEND_A_CLONE_UUID, BTRFS_SEND_A_CLONE_CTRANSID] ctx s (do {
       (ferr, ctx, s) \<leftarrow> finish_current R ctx s;
       case ferr of
         Some e \<Rightarrow> Some (Some (Errorf ''processSnapshot: error finishing in-process subvolume'' e), ctx, s)
       | None \<Rightarrow>
           (let path = GetPath attrs in
            case GetUUID (FromBytes X) attrs of
              Inl e \<Rightarrow> Some (Some (Errorf ''processSnapshot: error parsing uuid'' e), ctx, s)
            | Inr snapuuid \<Rightarrow> do {
                ctransid \<leftarrow> GetCtransid attrs;
                case GetCloneUUID (FromBytes X) attrs of
                  Inl e \<Rightarrow> Some (Some (Errorf ''processSnapshot: error parsing clone uuid'' e), ctx, s)
                | Inr cloneUUID \<Rightarrow> do {
                    cloneCtransid \<leftarrow> GetCloneCtransid attrs;
                    call R (Snapshot path snapuuid ctransid cloneUUID cloneCtransid)
                      (ctx\<lparr>currentSubvolInfo := Some \<lparr>SubvolPath = path, SubvolUUID = snapuuid,
                         SubvolCtransid = ctransid\<rparr>\<rparr>) s }}) })"

section \<open>Creating and removing files\<close>

definition processMkfile :: "'s processFunc" where
  "processMkfile X R attrs ctx s =
     ensured ''processMkfile'' attrs [BTRFS_SEND_A_PATH, BTRFS_SEND_A_INO] ctx s (do {
       let path = GetPath attrs;
       ino \<leftarrow> GetIno attrs;
       call R (Mkfile path ino) ctx s })"

text \<open>The error text of \<open>processMkdir\<close> names \<open>processMkfile\<close>, as in the source.\<close>

definition processMkdir :: "'s processFunc" where
  "processMkdir X R attrs ctx s =
     ensured ''processMkfile'' attrs [BTRFS_SEND_A_PATH, BTRFS_SEND_A_INO] ctx s (do {
       let path = GetPath attrs;
       ino \<leftarrow> GetIno attrs;
       call R (Mkdir path ino) ctx s })"

definition processMknod :: "'s processFunc" where
  "processMknod X R attrs ctx s =
     ensured ''processMknod'' attrs
       [BTRFS_SEND_A_PATH, BTRFS_SEND_A_INO, BTRFS_SEND_A_MODE, BTRFS_SEND_A_RDEV] ctx s (do {
       let path = GetPath attrs;
       ino \<leftarrow> GetIno attrs;
       mode \<leftarrow> GetMode32 attrs;
       rdev \<leftarrow> GetRdev attrs;
       call R (Mknod path ino mode rdev) ctx s })"

definition processMkfifo :: "'s processFunc" where
  "processMkfifo X R attrs ctx s =
     ensured ''processMkfifo'' attrs [BTRFS_SEND_A_PATH, BTRFS_SEND_A_INO] ctx s (do {
       let path = GetPath attrs;
       ino \<leftarrow> GetIno attrs;
       call R (Mkfifo path ino) ctx s })"

definition processMksock :: "'s processFunc" where
  "processMksock X R attrs ctx s =
     ensured ''processMksock'' attrs [BTRFS_SEND_A_PATH, BTRFS_SEND_A_INO] ctx s (do {
       let path = GetPath attrs;
       ino \<leftarrow> GetIno attrs;
       call R (Mksock path ino) ctx s })"

definition processSymlink :: "'s processFunc" where
  "processSymlink X R attrs ctx s =
     ensured ''processSymlink'' attrs
       [BTRFS_SEND_A_PATH, BTRFS_SEND_A_INO, BTRFS_SEND_A_PATH_LINK] ctx s (do {
       let path = GetPath attrs;
       ino \<leftarrow> GetIno attrs;
       let pathLink = GetPathLink attrs;
       call R (Symlink path ino pathLink) ctx s })"

definition processRename :: "'s processFunc" where
  "processRename X R attrs ctx s =
     ensured ''processRename'' attrs [BTRFS_SEND_A_PATH, BTRFS_SEND_A_PATH_TO] ctx s
       (call R (Rename (GetPath attrs) (GetPathTo attrs)) ctx s)"

definition processLink :: "'s processFunc" where
  "processLink X R attrs ctx s =
     ensured ''processLink'' attrs [BTRFS_SEND_A_PATH, BTRFS_SEND_A_PATH_LINK] ctx s
       (call R (Link (GetPath attrs) (GetPathLink attrs)) ctx s)"

definition processUnlink :: "'s processFunc" where
  "processUnlink X R attrs ctx s =
     ensured ''processUnlink'' attrs [BTRFS_SEND_A_PATH] ctx s
       (call R (Unlink (GetPath attrs)) ctx s)"

definition processRmdir :: "'s processFunc" where
  "processRmdir X R attrs ctx s =
     ensured ''processRmdir'' attrs [BTRFS_SEND_A_PATH] ctx s
       (call R (Rmdir (GetPath attrs)) ctx s)"

section \<open>File contents\<close>

definition processWrite :: "'s processFunc" where
  "processWrite X R attrs ctx s =
     ensured ''processWrite'' attrs
       [BTRFS_SEND_A_PATH, BTRFS_SEND_A_FILE_OFFSET, BTRFS_SEND_A_DATA] ctx s (do {
       let path = GetPath attrs;
       offset \<leftarrow> GetFileOffset attrs;
       let data = GetData attrs;
       call R (Write path offset data) ctx s })"

text \<open>Writing the decompressed data instead of the encoded data.\<close>

definition write_decompressed :: "ext \<Rightarrow> 's receiver \<Rightarrow> string \<Rightarrow> EncodedWriteOp \<Rightarrow> receiveCtx \<Rightarrow> 's \<Rightarrow>
    (gerr option \<times> receiveCtx \<times> 's) go" where
  "write_decompressed X R path op ctx s =
     (case Decompress X op of
        Inl e \<Rightarrow> Some (Some (Errorf ''processEncodedWrite: failed to decompress data'' e), ctx, s)
      | Inr data \<Rightarrow> call R (Write path (Offset op) data) ctx s)"

text \<open>Compression and encryption are optional attributes, zero when absent.\<close>

definition processEncodedWrite :: "'s processFunc" where
  "processEncodedWrite X R attrs ctx s =
     ensured ''processEncodedWrite'' attrs
       [BTRFS_SEND_A_PATH, BTRFS_SEND_A_FILE_OFFSET, BTRFS_SEND_A_UNENCODED_FILE_LEN,
        BTRFS_SEND_A_UNENCODED_LEN, BTRFS_SEND_A_UNENCODED_OFFSET, BTRFS_SEND_A_DATA] ctx s (do {
       let path = GetPath attrs;
       offset \<leftarrow> GetFileOffset attrs;
       fileLen \<leftarrow> GetUnencodedFileLen attrs;
       len \<leftarrow> GetUnencodedLen attrs;
       off \<leftarrow> GetUnencodedOffset attrs;
       compression \<leftarrow> (if 0 < length (attr_get attrs BTRFS_SEND_A_COMPRESSION)
                      then GetCompressionType attrs else Some 0);
       encryption \<leftarrow> (if 0 < length (attr_get attrs BTRFS_SEND_A_ENCRYPTION)
                     then GetEncryptionType attrs else Some 0);
       let op = \<lparr>Offset = offset, OpData = GetData attrs, UnencodedFileLength = fileLen,
         UnencodedLength = len, UnencodedOffset = off, Compression = compression,
         Encryption = encryption\<rparr>;
       if forceDecompress ctx then write_decompressed X R path op ctx s
       else do {
         (err, s) \<leftarrow> recv R (view ctx) (EncodedWrite path op) s;
         (case err of
            Some e \<Rightarrow> if errors_is e ErrNotSupported then write_decompressed X R path op ctx s
                     else Some (Some e, ctx, s)
          | None \<Rightarrow> Some (None, ctx, s)) }})"

definition processClone :: "'s processFunc" where
  "processClone X R attrs ctx s =
     ensured ''processClone'' attrs
       [BTRFS_SEND_A_PATH, BTRFS_SEND_A_FILE_OFFSET, BTRFS_SEND_A_CLONE_LEN,
        BTRFS_SEND_A_CLONE_UUID, BTRFS_SEND_A_CLONE_CTRANSID, BTRFS_SEND_A_CLONE_PATH,
        BTRFS_SEND_A_CLONE_OFFSET] ctx s
       (case FromBytes X (attr_get attrs BTRFS_SEND_A_CLONE_UUID) of
          Inl e \<Rightarrow> Some (Some (Errorf ''processClone: error parsing cloneUUID'' e), ctx, s)
        | Inr cloneUUID \<Rightarrow> do {
            let path = GetPath attrs;
            offset \<leftarrow> GetFileOffset attrs;
            cloneLen \<leftarrow> GetCloneLen attrs;
            cloneCTransID \<leftarrow> GetCloneCTransid attrs;
            let clonePath = GetClonePath attrs;
            cloneOffset \<leftarrow> GetCloneOffset attrs;
            call R (Clone path offset cloneLen cloneUUID cloneCTransID clonePath cloneOffset) ctx s })"

section \<open>Metadata\<close>

definition processSetXattr :: "'s processFunc" where
  "processSetXattr X R attrs ctx s =
     ensured ''processSetXattr'' attrs
       [BTRFS_SEND_A_PATH, BTRFS_SEND_A_XATTR_NAME, BTRFS_SEND_A_XATTR_DATA] ctx s
       (call R (SetXattr (GetPath attrs) (GetXattrName attrs) (GetXattrData attrs)) ctx s)"

definition processRemoveXattr :: "'s processFunc" where
  "processRemoveXattr X R attrs ctx s =
     ensured ''processRemoveXattr'' attrs [BTRFS_SEND_A_PATH, BTRFS_SEND_A_XATTR_NAME] ctx s
       (call R (RemoveXattr (GetPath attrs) (GetXattrName attrs)) ctx s)"

definition processTruncate :: "'s processFunc" where
  "processTruncate X R attrs ctx s =
     ensured ''processTruncate'' attrs [BTRFS_SEND_A_PATH, BTRFS_SEND_A_SIZE] ctx s (do {
       let path = GetPath attrs;
       sz \<leftarrow> GetSize attrs;
       call R (Truncate path sz) ctx s })"

definition processChmod :: "'s processFunc" where
  "processChmod X R attrs ctx s =
     ensured ''processChmod'' attrs [BTRFS_SEND_A_PATH, BTRFS_SEND_A_MODE] ctx s (do {
       let path = GetPath attrs;
       mode \<leftarrow> GetMode64 attrs;
       call R (Chmod path mode) ctx s })"

definition processChown :: "'s processFunc" where
  "processChown X R attrs ctx s =
     ensured ''processChown'' attrs
       [BTRFS_SEND_A_PATH, BTRFS_SEND_A_UID, BTRFS_SEND_A_GID] ctx s (do {
       let path = GetPath attrs;
       uid \<leftarrow> GetUid attrs;
       gid \<leftarrow> GetGid attrs;
       call R (Chown path uid gid) ctx s })"

definition processUtimes :: "'s processFunc" where
  "processUtimes X R attrs ctx s =
     ensured ''processUtimes'' attrs
       [BTRFS_SEND_A_PATH, BTRFS_SEND_A_ATIME, BTRFS_SEND_A_MTIME, BTRFS_SEND_A_CTIME] ctx s
       (let path = GetPath attrs in
        case GetAtime attrs of
          Inl e \<Rightarrow> Some (Some (Errorf ''processUtimes: error parsing atime'' e), ctx, s)
        | Inr atime \<Rightarrow>
            (case GetMtime attrs of
               Inl e \<Rightarrow> Some (Some (Errorf ''processUtimes: error parsing mtime'' e), ctx, s)
             | Inr mtime \<Rightarrow>
                 (case GetCtime attrs of
                    Inl e \<Rightarrow> Some (Some (Errorf ''processUtimes: error parsing ctime'' e), ctx, s)
                  | Inr ctime \<Rightarrow> call R (Utimes path atime mtime ctime) ctx s)))"

definition processUpdateExtent :: "'s processFunc" where
  "processUpdateExtent X R attrs ctx s =
     ensured ''processUpdateExtent'' attrs
       [BTRFS_SEND_A_PATH, BTRFS_SEND_A_FILE_OFFSET, BTRFS_SEND_A_SIZE] ctx s (do {
       let path = GetPath attrs;
       offset \<leftarrow> GetFileOffset attrs;
       sz \<leftarrow> GetSize attrs;
       call R (UpdateExtent path offset sz) ctx s })"

definition processEnableVerity :: "'s processFunc" where
  "processEnableVerity X R attrs ctx s =
     ensured ''processEnableVerity'' attrs
       [BTRFS_SEND_A_PATH, BTRFS_SEND_A_VERITY_ALGORITHM, BTRFS_SEND_A_VERITY_BLOCK_SIZE,
        BTRFS_SEND_A_VERITY_SALT_DATA, BTRFS_SEND_A_VERITY_SIG_DATA] ctx s (do {
       let path = GetPath attrs;
       blockSize \<leftarrow> GetVerityBlockSize attrs;
       let salt = GetVeritySalt attrs;
       let sig = GetVeritySig attrs;
       algorithm \<leftarrow> GetVerityAlgorithm attrs;
       call R (EnableVerity path algorithm blockSize salt sig) ctx s })"

definition processFallocate :: "'s processFunc" where
  "processFallocate X R attrs ctx s =
     ensured ''processFallocate'' attrs
       [BTRFS_SEND_A_PATH, BTRFS_SEND_A_FALLOCATE_MODE, BTRFS_SEND_A_FILE_OFFSET,
        BTRFS_SEND_A_SIZE] ctx s (do {
       let path = GetPath attrs;
       mode \<leftarrow> GetFallocateMode attrs;
       offset \<leftarrow> GetFileOffset attrs;
       sz \<leftarrow> GetSize attrs;
       call R (Fallocate path mode offset sz) ctx s })"

definition processFileattr :: "'s processFunc" where
  "processFileattr X R attrs ctx s =
     ensured ''processFileattr'' attrs [BTRFS_SEND_A_PATH, BTRFS_SEND_A_FILEATTR] ctx s (do {
       let path = GetPath attrs;
       fileattr \<leftarrow> GetFileAttr attrs;
       call R (Fileattr path fileattr) ctx s })"

section \<open>The dispatch table\<close>

definition processFuncs :: "SendCommand \<Rightarrow> 's processFunc option" where
  "processFuncs = map_of [
     (BTRFS_SEND_C_SUBVOL, processSubvol),
     (BTRFS_SEND_C_SNAPSHOT, processSnapshot),
     (BTRFS_SEND_C_MKFILE, processMkfile),
     (BTRFS_SEND_C_MKDIR, processMkdir),
     (BTRFS_SEND_C_MKNOD, processMknod),
     (BTRFS_SEND_C_MKFIFO, processMkfifo),
     (BTRFS_SEND_C_MKSOCK, processMksock),
     (BTRFS_SEND_C_SYMLINK, processSymlink),
     (BTRFS_SEND_C_RENAME, processRename),
     (BTRFS_SEND_C_LINK, processLink),
     (BTRFS_SEND_C_UNLINK, processUnlink),
     (BTRFS_SEND_C_RMDIR, processRmdir),
     (BTRFS_SEND_C_WRITE, processWrite),
     (BTRFS_SEND_C_ENCODED_WRITE, processEncodedWrite),
     (BTRFS_SEND_C_CLONE, processClone),
     (BTRFS_SEND_C_SET_XATTR, processSetXattr),
     (BTRFS_SEND_C_REMOVE_XATTR, processRemoveXattr),
     (BTRFS_SEND_C_TRUNCATE, processTruncate),
     (BTRFS_SEND_C_CHMOD, processChmod),
     (BTRFS_SEND_C_CHOWN, processChown),
     (BTRFS_SEND_C_UTIMES, processUtimes),
     (BTRFS_SEND_C_UPDATE_EXTENT, processUpdateExtent),
     (BTRFS_SEND_C_ENABLE_VERITY, processEnableVerity),
     (BTRFS_SEND_C_FALLOCATE, processFallocate),
     (BTRFS_SEND_C_FILEATTR, processFileattr)]"

section \<open>What a command means\<close>

text \<open>
  The specification of the handlers: the constructor of \<open>pkg/sendstream\<close> that makes the command
  of a call, and what receiving that command does. Most commands are one call. A new
  subvolume first finishes the one in progress; an encoded write is decompressed when that
  is forced or when the receiver does not support it.
\<close>

fun command_of :: "rcall \<Rightarrow> SendCommand \<times> CmdAttrs" where
  "command_of (Subvol p u t) = NewSubvolCommand p u t"
| "command_of (Snapshot p u t cu ct) = NewSnapshotCommand p u t cu ct"
| "command_of (Mkfile p i) = NewMkfileCommand p i"
| "command_of (Mkdir p i) = NewMkdirCommand p i"
| "command_of (Mknod p i m r) = NewMknodCommand p i m r"
| "command_of (Mkfifo p i) = NewMkfifoCommand p i"
| "command_of (Mksock p i) = NewMksockCommand p i"
| "command_of (Symlink p i l) = NewSymlinkCommand p l i"
| "command_of (Rename p q) = NewRenameCommand p q"
| "command_of (Link p l) = NewLinkCommand p l"
| "command_of (Unlink p) = NewUnlinkCommand p"
| "command_of (Rmdir p) = NewRmdirCommand p"
| "command_of (Write p off d) = NewWriteCommand p off d"
| "command_of (EncodedWrite p op) = NewEncodedWriteCommand p op"
| "command_of (Clone p off n u t cp co) = NewCloneCommand p off n u t cp co"
| "command_of (SetXattr p n d) = NewSetXattrCommand p n d"
| "command_of (RemoveXattr p n) = NewRemoveXattrCommand p n"
| "command_of (Truncate p n) = NewTruncateCommand p n"
| "command_of (Chmod p m) = NewChmodCommand p m"
| "command_of (Chown p u g) = NewChownCommand p u g"
| "command_of (Utimes p a m c) = NewUtimesCommand p a m c"
| "command_of (UpdateExtent p off n) = NewUpdateExtentCommand p off n"
| "command_of (EnableVerity p a b salt sig) = NewEnableVerityCommand p a b salt sig"
| "command_of (Fallocate p m off n) = NewFallocateCommand p m off n"
| "command_of (Fileattr p a) = NewFileAttrCommand p a"
| "command_of FinishSubvolume = NewEndCommand"

text \<open>What the Go types guarantee of the arguments.\<close>

fun valid_call :: "rcall \<Rightarrow> bool" where
  "valid_call (Subvol p u t) \<longleftrightarrow> length u = 16"
| "valid_call (Snapshot p u t cu ct) \<longleftrightarrow> length u = 16 \<and> length cu = 16"
| "valid_call (Clone p off n u t cp co) \<longleftrightarrow> length u = 16"
| "valid_call (Utimes p a m c) \<longleftrightarrow> valid_time a \<and> valid_time m \<and> valid_time c"
| "valid_call _ \<longleftrightarrow> True"

definition begin_subvol :: "'s receiver \<Rightarrow> string \<Rightarrow> uuid \<Rightarrow> u64 \<Rightarrow> string \<Rightarrow> rcall \<Rightarrow> receiveCtx \<Rightarrow> 's \<Rightarrow>
    (gerr option \<times> receiveCtx \<times> 's) go" where
  "begin_subvol R p u t msg c ctx s = do {
     (ferr, ctx, s) \<leftarrow> finish_current R ctx s;
     case ferr of
       Some e \<Rightarrow> Some (Some (Errorf msg e), ctx, s)
     | None \<Rightarrow> call R c (ctx\<lparr>currentSubvolInfo :=
         Some \<lparr>SubvolPath = p, SubvolUUID = u, SubvolCtransid = t\<rparr>\<rparr>) s }"

fun deliver :: "ext \<Rightarrow> 's receiver \<Rightarrow> rcall \<Rightarrow> receiveCtx \<Rightarrow> 's \<Rightarrow> (gerr option \<times> receiveCtx \<times> 's) go"
where
  "deliver X R (Subvol p u t) ctx s =
     begin_subvol R p u t ''processSubvol: error finishing in-process subvolume'' (Subvol p u t) ctx s"
| "deliver X R (Snapshot p u t cu ct) ctx s =
     begin_subvol R p u t ''processSnapshot: error finishing in-process subvolume''
       (Snapshot p u t cu ct) ctx s"
| "deliver X R (EncodedWrite p op) ctx s =
     (if forceDecompress ctx then write_decompressed X R p op ctx s
      else do {
        (err, s) \<leftarrow> recv R (view ctx) (EncodedWrite p op) s;
        (case err of
           Some e \<Rightarrow> if errors_is e ErrNotSupported then write_decompressed X R p op ctx s
                    else Some (Some e, ctx, s)
         | None \<Rightarrow> Some (None, ctx, s)) })"
| "deliver X R c ctx s = call R c ctx s"

lemmas process_defs = processFuncs_def processSubvol_def processSnapshot_def processMkfile_def
  processMkdir_def processMknod_def processMkfifo_def processMksock_def processSymlink_def
  processRename_def processLink_def processUnlink_def processRmdir_def processWrite_def
  processEncodedWrite_def processClone_def processSetXattr_def processRemoveXattr_def
  processTruncate_def processChmod_def processChown_def processUtimes_def
  processUpdateExtent_def processEnableVerity_def processFallocate_def processFileattr_def

lemma EncodedWriteOp_eta: "\<lparr>Offset = Offset r, OpData = OpData r,
    UnencodedFileLength = UnencodedFileLength r, UnencodedLength = UnencodedLength r,
    UnencodedOffset = UnencodedOffset r, Compression = Compression r,
    Encryption = Encryption r\<rparr> = (r :: EncodedWriteOp)"
  by (cases r) simp

lemma handler_delivers:
  assumes "uuid_lib X" "valid_call c" "c \<noteq> FinishSubvolume"
  shows "\<exists>f. processFuncs (fst (command_of c)) = Some f
    \<and> f X R (snd (command_of c)) ctx s = deliver X R c ctx s"
proof -
  have u: "FromBytes X u = Inr u" if "length u = 16" for u
    using assms(1) that by (simp add: uuid_lib_def)
  show ?thesis
    using assms(2,3)
    by (cases c)
      (simp_all add: process_defs new_defs attr_defs ensured_def begin_subvol_def Let_def u
        EncodedWriteOp_eta cong: option.case_cong if_cong)
qed

text \<open>C3: The handlers implement the specification: for every call with valid arguments, the
  command that \<open>pkg/sendstream\<close> constructs for it has a handler, and the handler decodes
  exactly the arguments and delivers the call to the receiver (first finishing a subvolume in
  progress, or falling back to decompressed writes, where the specification says so).\<close>

theorem process_implements_deliver:
  assumes "uuid_lib X" "valid_call c" "c \<noteq> FinishSubvolume"
  shows "\<exists>f. processFuncs (fst (command_of c)) = Some f
    \<and> f X R (snd (command_of c)) ctx s = deliver X R c ctx s"
  using assms by (rule handler_delivers)

lemma process_implements_deliver_witness:
  "\<exists>f. processFuncs (fst (command_of (Mknod ''dev'' 257 8592 1025))) = Some f
    \<and> f sample_ext recorder (snd (command_of (Mknod ''dev'' 257 8592 1025))) sample_ctx []
      = Some (None, sample_ctx, [Mknod ''dev'' 257 8592 1025])"
  using process_implements_deliver [OF uuid_lib_sample, of "Mknod ''dev'' 257 8592 1025"
      recorder sample_ctx "[]"]
  by (simp add: call_def recorder_def)

section \<open>Errors and panics\<close>

lemma ensureAttrs_None_iff: "ensureAttrs attrs ks = None \<longleftrightarrow> (\<forall>k\<in>set ks. attrs k \<noteq> None)"
  by (induction ks) auto

lemma ensureAttrs_Some: "ensureAttrs attrs ks = Some e \<Longrightarrow>
    \<exists>k\<in>set ks. attrs k = None \<and> e = ErrMissingAttr k"
  by (induction ks) (auto split: if_splits)

text \<open>The attributes without which a command is refused.\<close>

definition required :: "SendCommand \<Rightarrow> SendAttribute list" where
  "required cmd = the (map_of [
     (1, [15, 1, 2]), (2, [15, 1, 2, 20, 21]), (3, [15, 3]), (4, [15, 3]), (5, [15, 3, 5, 8]),
     (6, [15, 3]), (7, [15, 3]), (8, [15, 3, 17]), (9, [15, 16]), (10, [15, 17]), (11, [15]),
     (12, [15]), (13, [15, 13, 14]), (14, [15, 13]), (15, [15, 18, 19]),
     (16, [15, 18, 24, 20, 21, 22, 23]), (17, [15, 4]), (18, [15, 5]), (19, [15, 6, 7]),
     (20, [15, 11, 10, 9]), (22, [15, 18, 4]), (23, [15, 25, 18, 4]), (24, [15, 26]),
     (25, [15, 18, 27, 28, 29, 19]), (26, [15, 32, 33, 34, 35])] cmd)"

lemma processFuncs_dom: "processFuncs cmd = Some f \<Longrightarrow>
    cmd \<in> {1, 2, 3, 4, 5, 6, 7, 8, 9, 10, 11, 12, 13, 14, 15, 16, 17, 18, 19, 20, 22, 23, 24, 25, 26}"
  by (auto simp: processFuncs_def split: if_splits)

lemma handler_missing:
  assumes "processFuncs cmd = Some f" "ensureAttrs attrs (required cmd) = Some e"
  shows "\<exists>name. f X R attrs ctx s = Some (Some (Errorf name e), ctx, s)"
  using processFuncs_dom [OF assms(1)] assms
  by (auto simp: required_def process_defs ensured_def simp del: ensureAttrs.simps)

text \<open>A command that lacks a required attribute is refused with an error that names a
  missing attribute; the receiver is not called and neither the context nor the state of the
  receiver changes.\<close>

theorem process_missing_attribute:
  assumes "processFuncs cmd = Some f" "k \<in> set (required cmd)" "attrs k = None"
  shows "\<exists>name k'. attrs k' = None \<and> k' \<in> set (required cmd)
    \<and> f X R attrs ctx s = Some (Some (Errorf name (ErrMissingAttr k')), ctx, s)"
proof -
  obtain e where "ensureAttrs attrs (required cmd) = Some e"
    using ensureAttrs_None_iff [of attrs "required cmd"] assms(2,3) by blast
  with ensureAttrs_Some [OF this] handler_missing [OF assms(1) this] show ?thesis by metis
qed

lemma process_missing_attribute_witness:
  "\<exists>name k'. ([15 \<mapsto> [97]] :: CmdAttrs) k' = None \<and> k' \<in> set (required 4)
    \<and> processMkdir sample_ext recorder [15 \<mapsto> [97]] sample_ctx []
        = Some (Some (Errorf name (ErrMissingAttr k')), sample_ctx, [])"
  by (rule process_missing_attribute [where k = 3]) (simp_all add: processFuncs_def required_def)

text \<open>How long an attribute has to be for the getter that a handler applies to it.\<close>

definition attr_width :: "SendCommand \<Rightarrow> SendAttribute \<Rightarrow> nat" where
  "attr_width cmd k =
     (if k = 5 then (if cmd = 5 then 4 else 8)
      else if k \<in> {2, 3, 4, 6, 7, 8, 18, 21, 23, 24, 27, 28, 29} then 8
      else if k \<in> {25, 26, 33} then 4
      else if k = 32 then 1 else 0)"

definition wide_enough :: "SendCommand \<Rightarrow> CmdAttrs \<Rightarrow> bool" where
  "wide_enough cmd attrs \<longleftrightarrow>
     (\<forall>k\<in>set (required cmd). attr_width cmd k \<le> length (attr_get attrs k))
     \<and> (cmd = 25 \<longrightarrow> (\<forall>k\<in>{30, 31}. attr_get attrs k = [] \<or> 4 \<le> length (attr_get attrs k)))"

lemma LE_no_panic [panic_simps]:
  "8 \<le> length b \<Longrightarrow> LE_Uint64 b = Some (le_dec (take 8 b))"
  "4 \<le> length b \<Longrightarrow> LE_Uint32 b = Some (le_dec (take 4 b))"
  by (simp_all add: LE_Uint64_def LE_Uint32_def)

lemmas getter_defs = GetPath_def GetPathLink_def GetPathTo_def GetClonePath_def GetXattrName_def
  GetData_def GetXattrData_def GetVeritySalt_def GetVeritySig_def GetUUID_def GetCloneUUID_def
  GetFileOffset_def GetCtransid_def GetCloneCtransid_def GetIno_def GetMode64_def GetMode32_def
  GetRdev_def GetUnencodedFileLen_def GetUnencodedLen_def GetUnencodedOffset_def GetCloneLen_def
  GetCloneOffset_def GetCloneCTransid_def GetSize_def GetUid_def GetGid_def GetCompressionType_def
  GetEncryptionType_def GetVerityBlockSize_def GetFallocateMode_def GetFileAttr_def
  GetVerityAlgorithm_def

lemma optional_getters:
  "attr_get a 30 = [] \<or> 4 \<le> length (attr_get a 30) \<Longrightarrow>
     \<exists>v. (if 0 < length (attr_get a 30) then GetCompressionType a else Some 0) = Some v"
  "attr_get a 31 = [] \<or> 4 \<le> length (attr_get a 31) \<Longrightarrow>
     \<exists>v. (if 0 < length (attr_get a 31) then GetEncryptionType a else Some 0) = Some v"
  by (auto simp: panic_simps GetCompressionType_def GetEncryptionType_def)

text \<open>C35: No handler panics on its own: if the integer attributes of a command are at least as
  long as their types (and the methods of the receiver do not panic), every handler returns,
  with whatever other contents the attributes have.\<close>

theorem process_no_panic:
  assumes "processFuncs cmd = Some f" "wide_enough cmd attrs"
    and "\<And>ctx c s. recv R ctx c s \<noteq> None"
  shows "\<exists>r. f X R attrs ctx s = Some r"
proof -
  define t where "t ctx c s = the (recv R ctx c s)" for ctx c s
  have t: "recv R ctx c s = Some (t ctx c s)" for ctx c s
    using assms(3) [of ctx c s] by (simp add: t_def)
  define w where "w p op ctx s = the (write_decompressed X R p op ctx s)" for p op ctx s
  have w: "write_decompressed X R p op ctx s = Some (w p op ctx s)" for p op ctx s
    by (simp add: w_def write_decompressed_def call_def t split: sum.split prod.split)
  obtain e c' s' where fin: "finish_current R ctx s = Some (e, c', s')"
    by (cases "finish_current R ctx s")
      (auto simp: finish_current_def t split: option.splits if_splits prod.splits)
  have f: "f = the (processFuncs cmd)" using assms(1) by simp
  show ?thesis
  proof (cases "cmd = 25")
    case True
    with assms(2) obtain v v' where v:
      "(if 0 < length (attr_get attrs 30) then GetCompressionType attrs else Some 0) = Some v"
      "(if 0 < length (attr_get attrs 31) then GetEncryptionType attrs else Some 0) = Some v'"
      using optional_getters [of attrs] by (fastforce simp: wide_enough_def)
    have "f X R attrs ctx s \<noteq> None"
      unfolding f using assms(2) True
      by (simp add: v process_defs getter_defs required_def wide_enough_def attr_width_def
          panic_simps ensured_def w t Let_def cong: option.case_cong del: length_greater_0_conv not_None_eq
          split: option.split prod.split)
    then show ?thesis by simp
  next
    case False
    have "f X R attrs ctx s \<noteq> None"
      unfolding f using processFuncs_dom [OF assms(1)] assms(2) False
      by (elim insertE emptyE)
        (simp_all add: process_defs getter_defs required_def wide_enough_def attr_width_def
          panic_simps ensured_def call_def fin t Let_def Suc_le_length_iff
          cong: option.case_cong if_cong sum.case_cong
          split: option.split sum.split prod.split list.split, auto)
    then show ?thesis by simp
  qed
qed

lemma process_no_panic_witness:
  "\<exists>r. processMkfile sample_ext recorder [15 \<mapsto> [97], 3 \<mapsto> [1, 2, 3, 4, 5, 6, 7, 8, 9]]
    sample_ctx [] = Some r"
  by (rule process_no_panic [where cmd = 3])
    (simp_all add: processFuncs_def wide_enough_def required_def attr_width_def attr_get_def
      recorder_def)

text \<open>The converse: a command whose attributes are all present but where an integer
  attribute is shorter than its type makes the handler panic instead of returning an error
  (commands that take only integers, strings and data).\<close>

theorem process_short_attribute_panics:
  assumes "cmd \<in> {3, 4, 5, 6, 7, 8, 15, 17, 18, 19, 22, 23, 24}" "processFuncs cmd = Some f"
    and "ensureAttrs attrs (required cmd) = None"
    and "k \<in> set (required cmd)" "length (attr_get attrs k) < attr_width cmd k"
  shows "f X R attrs ctx s = panic"
proof -
  have f: "f = the (processFuncs cmd)" using assms(2) by simp
  have LE: "length b < 8 \<Longrightarrow> LE_Uint64 b = None" "length b < 4 \<Longrightarrow> LE_Uint32 b = None" for b
    by (simp_all add: LE_Uint64_def LE_Uint32_def)
  show ?thesis
    unfolding f using assms(1,3,4,5)
    by (elim insertE emptyE)
      (simp_all add: process_defs getter_defs required_def attr_width_def ensured_def Let_def
        del: ensureAttrs.simps,
       (auto simp: LE split: Option.bind_splits)+)
qed

lemma process_short_attribute_panics_witness:
  "processMkfile sample_ext recorder [15 \<mapsto> [97], 3 \<mapsto> [1, 2, 3, 4]] sample_ctx [] = panic"
  by (rule process_short_attribute_panics [where cmd = 3 and k = 3])
    (simp_all add: processFuncs_def required_def attr_width_def attr_get_def)

end
