(* ===== verification/Writer.thy ===== *)
theory Writer
  imports Scanner
begin

text \<open>
  The stream writer (\<^verbatim>\<open>pkg/sendstream/writer.go\<close>). The destination is an \<^verbatim>\<open>io.Writer\<close>: its state
  and its \<^verbatim>\<open>Write\<close> method are arguments. The locale \<open>io_writer\<close> states what the writer relies
  on, and \<^verbatim>\<open>bytes.Buffer\<close> is an instance. The lemmas give the bytes that a command puts on
  the wire, and show that the scanner reads back the commands that were written, whatever
  the orders in which the attribute maps were traversed.
\<close>

section \<open>The writer\<close>

type_synonym 'w write_fn = "bytes \<Rightarrow> 'w \<Rightarrow> gerr option \<times> 'w"

record 'w Writer =
  Dest :: 'w
  headerSent :: bool

definition NewWriter :: "'w \<Rightarrow> 'w Writer" where
  "NewWriter d = \<lparr>Dest = d, headerSent = False\<rparr>"

definition stream_header :: StreamHeader where
  "stream_header =
     \<lparr>Magic = BTRFS_SEND_STREAM_MAGIC_ENCODED, Version = BTRFS_SEND_STREAM_VERSION\<rparr>"

definition writer_write :: "'w write_fn \<Rightarrow> bytes \<Rightarrow> 'w Writer \<Rightarrow> gerr option \<times> 'w Writer" where
  "writer_write wr b w = (let (e, d) = wr b (Dest w) in (e, w\<lparr>Dest := d\<rparr>))"

definition SendHeader :: "'w write_fn \<Rightarrow> 'w Writer \<Rightarrow> gerr option \<times> 'w Writer" where
  "SendHeader wr w =
     (if headerSent w then (Some ErrHeaderAlreadySent, w)
      else (case writer_write wr (enc_StreamHeader stream_header) w of
              (Some e, w) \<Rightarrow> (Some e, w)
            | (None, w) \<Rightarrow> (None, w\<lparr>headerSent := True\<rparr>)))"

text \<open>
  \<open>ordS\<close> and \<open>ordE\<close> are the orders in which \<open>BinarySize\<close> and \<open>Encode\<close> range over the attributes.
\<close>

definition WriteCommand :: "'w write_fn \<Rightarrow> SendAttribute list \<Rightarrow> SendAttribute list \<Rightarrow>
    SendCommand \<Rightarrow> CmdAttrs \<Rightarrow> 'w Writer \<Rightarrow> gerr option \<times> 'w Writer" where
  "WriteCommand wr ordS ordE cmd attrs w =
     (case (if headerSent w then (None, w) else SendHeader wr w) of
        (Some e, w) \<Rightarrow> (Some e, w)
      | (None, w) \<Rightarrow>
          (let cmdHeader = \<lparr>Len = BinarySize ordS attrs, Cmd = cmd, Crc = 0\<rparr>
           in case Encode ordE attrs of
                Inl e \<Rightarrow> (Some e, w)
              | Inr data \<Rightarrow>
                  (let cmdHeader = cmdHeader\<lparr>Crc := calculateCrc32 cmdHeader data\<rparr>
                   in case writer_write wr (enc_CmdHeader cmdHeader) w of
                        (Some e, w) \<Rightarrow> (Some e, w)
                      | (None, w) \<Rightarrow> writer_write wr data w)))"

definition End :: "'w write_fn \<Rightarrow> 'w Writer \<Rightarrow> gerr option \<times> 'w Writer" where
  "End wr w =
     (case (if headerSent w then (None, w) else SendHeader wr w) of
        (Some e, w) \<Rightarrow> (Some e, w)
      | (None, w) \<Rightarrow> (let (cmd, attrs) = NewEndCommand in WriteCommand wr [] [] cmd attrs w))"

section \<open>What goes over the wire\<close>

text \<open>A command as it is written: its number, its attributes and the two traversal orders.\<close>

type_synonym written = "SendCommand \<times> CmdAttrs \<times> SendAttribute list \<times> SendAttribute list"

definition payload :: "CmdAttrs \<Rightarrow> SendAttribute list \<Rightarrow> bytes" where
  "payload c ord = concat (map (attr_chunk c) (plain_keys ord)) @ data_chunk c"

lemma Encode_payload: "Encode ord c = Inr (payload c ord)"
  by (simp only: Encode_chunks payload_def)

definition wire_header :: "SendCommand \<Rightarrow> CmdAttrs \<Rightarrow> SendAttribute list \<Rightarrow> CmdHeader" where
  "wire_header cmd c ord =
     (let h = \<lparr>Len = of_nat (length (payload c ord)), Cmd = cmd, Crc = 0\<rparr>
      in h\<lparr>Crc := calculateCrc32 h (payload c ord)\<rparr>)"

fun wire_command :: "written \<Rightarrow> bytes" where
  "wire_command (cmd, c, ordS, ordE) = enc_CmdHeader (wire_header cmd c ordE) @ payload c ordE"

fun valid_written :: "written \<Rightarrow> bool" where
  "valid_written (cmd, c, ordS, ordE) \<longleftrightarrow> range_order c ordS \<and> range_order c ordE"

text \<open>
  What fits the format: every attribute but the data attribute has a 16-bit length, and the
  command has a 32-bit length.
\<close>

fun fits :: "written \<Rightarrow> bool" where
  "fits (cmd, c, ordS, ordE) \<longleftrightarrow>
     (\<forall>k\<in>set ordE. k \<noteq> BTRFS_SEND_A_DATA \<longrightarrow> length (attr_get c k) < 65536)
     \<and> length (payload c ordE) < 4294967296"

fun write_commands :: "'w write_fn \<Rightarrow> written list \<Rightarrow> 'w Writer \<Rightarrow> gerr option \<times> 'w Writer" where
  "write_commands wr [] w = (None, w)"
| "write_commands wr ((cmd, c, ordS, ordE) # cs) w =
     (case WriteCommand wr ordS ordE cmd c w of
        (Some e, w) \<Rightarrow> (Some e, w)
      | (None, w) \<Rightarrow> write_commands wr cs w)"

locale io_writer =
  fixes wr :: "'w write_fn" and sent :: "'w \<Rightarrow> bytes"
  assumes write_ok: "wr b s = (None, s') \<Longrightarrow> sent s' = sent s @ b"
    and write_fail: "wr b s = (Some e, s') \<Longrightarrow> \<exists>n \<le> length b. sent s' = sent s @ take n b"
begin

definition pending :: "'w Writer \<Rightarrow> bytes" where
  "pending w = (if headerSent w then [] else enc_StreamHeader stream_header)"

lemma writer_write_ok: "writer_write wr b w = (None, w') \<Longrightarrow>
    sent (Dest w') = sent (Dest w) @ b \<and> headerSent w' = headerSent w"
  by (auto simp: writer_write_def dest: write_ok split: prod.splits)

lemma writer_write_fail: "writer_write wr b w = (Some e, w') \<Longrightarrow>
    \<exists>n \<le> length b. sent (Dest w') = sent (Dest w) @ take n b"
  by (auto simp: writer_write_def dest: write_fail split: prod.splits)

lemma header_ok: "(if headerSent w then (None, w) else SendHeader wr w) = (None, w') \<Longrightarrow>
    headerSent w' \<and> sent (Dest w') = sent (Dest w) @ pending w"
  by (auto simp: SendHeader_def pending_def dest!: writer_write_ok split: if_splits prod.splits
      option.splits)

lemma header_fail: "(if headerSent w then (None, w) else SendHeader wr w) = (Some e, w') \<Longrightarrow>
    \<exists>n \<le> length (pending w). sent (Dest w') = sent (Dest w) @ take n (pending w)"
  by (auto simp: SendHeader_def pending_def dest!: writer_write_fail split: if_splits prod.splits
      option.splits)

lemma WriteCommand_ok:
  assumes "valid_written (cmd, c, ordS, ordE)" and "WriteCommand wr ordS ordE cmd c w = (None, w')"
  shows "sent (Dest w') = sent (Dest w) @ pending w @ wire_command (cmd, c, ordS, ordE)
    \<and> headerSent w'"
proof -
  have "BinarySize ordS c = of_nat (length (payload c ordE))"
    using assms(1) by (intro BinarySize_Encode) (auto simp: Encode_payload)
  then show ?thesis
    using assms(2)
    by (auto simp: WriteCommand_def Encode_payload Let_def wire_header_def
        dest!: writer_write_ok header_ok split: option.splits prod.splits)
qed

lemma write_commands_ok:
  assumes "list_all valid_written cs" and "write_commands wr cs w = (None, w')"
  shows "sent (Dest w') = sent (Dest w) @ (if cs = [] then [] else pending w)
    @ concat (map wire_command cs)"
  using assms
proof (induction cs arbitrary: w)
  case (Cons x cs)
  obtain cmd c ordS ordE where x: "x = (cmd, c, ordS, ordE)" by (cases x)
  obtain w1 where w1: "WriteCommand wr ordS ordE cmd c w = (None, w1)"
    "write_commands wr cs w1 = (None, w')"
    using Cons.prems x by (auto split: prod.splits option.splits)
  have "pending w1 = []"
    using WriteCommand_ok [OF _ w1(1)] Cons.prems x by (simp add: pending_def)
  then show ?case
    using WriteCommand_ok [OF _ w1(1)] Cons.IH [OF _ w1(2)] Cons.prems x by simp
qed simp

text \<open>A failing write leaves a prefix of the command behind, never other bytes.\<close>

lemma WriteCommand_fail:
  assumes "valid_written (cmd, c, ordS, ordE)"
    and "WriteCommand wr ordS ordE cmd c w = (Some e, w')"
  shows "\<exists>n. sent (Dest w')
    = sent (Dest w) @ take n (pending w @ wire_command (cmd, c, ordS, ordE))"
proof -
  define hb where "hb = enc_CmdHeader (wire_header cmd c ordE)"
  have size: "BinarySize ordS c = of_nat (length (payload c ordE))"
    using assms(1) by (intro BinarySize_Encode) (auto simp: Encode_payload)
  obtain e1 w1 where h: "(if headerSent w then (None, w) else SendHeader wr w) = (e1, w1)"
    by fastforce
  show ?thesis
  proof (cases e1)
    case (Some e')
    with h header_fail [of w e' w1] obtain n
      where n: "n \<le> length (pending w)" "sent (Dest w1) = sent (Dest w) @ take n (pending w)"
      by auto
    have "w' = w1" using assms(2) h Some by (simp add: WriteCommand_def)
    with n have "sent (Dest w')
        = sent (Dest w) @ take n (pending w @ wire_command (cmd, c, ordS, ordE))"
      by simp
    then show ?thesis by blast
  next
    case None
    have w1: "sent (Dest w1) = sent (Dest w) @ pending w" using header_ok [of w w1] h None by simp
    obtain e2 w2 where h2: "writer_write wr hb w1 = (e2, w2)" by fastforce
    show ?thesis
    proof (cases e2)
      case (Some e')
      with h h2 None assms(2) size have "w' = w2"
        by (simp add: WriteCommand_def Encode_payload Let_def hb_def
            wire_header_def)
      with writer_write_fail h2 Some w1 obtain n
        where "n \<le> length hb" "sent (Dest w') = sent (Dest w) @ pending w @ take n hb" by fastforce
      then have "sent (Dest w') = sent (Dest w) @ take (length (pending w) + n)
          (pending w @ wire_command (cmd, c, ordS, ordE))"
        by (simp add: hb_def)
      then show ?thesis by blast
    next
      case None
      with h h2 \<open>e1 = None\<close> assms(2) size have "writer_write wr (payload c ordE) w2 = (Some e, w')"
        by (simp add: WriteCommand_def Encode_payload Let_def hb_def
            wire_header_def)
      with writer_write_fail [OF this] writer_write_ok [of hb w1 w2] h2 None w1 obtain n
        where "sent (Dest w') = sent (Dest w) @ pending w @ hb @ take n (payload c ordE)" by auto
      then have "sent (Dest w') = sent (Dest w) @ take (length (pending w @ hb) + n)
          (pending w @ wire_command (cmd, c, ordS, ordE))"
        by (simp add: hb_def)
      then show ?thesis by blast
    qed
  qed
qed

end

section \<open>\<^verbatim>\<open>bytes.Buffer\<close> and bounded pipes as destinations\<close>

definition Buffer_Write :: "bytes write_fn" where
  "Buffer_Write b s = (None, s @ b)"

text \<open>
  A destination that takes a limited number of bytes and then fails, as a pipe whose reader
  goes away: what it took, and how much it still takes.
\<close>

fun pipe_Write :: "(bytes \<times> nat) write_fn" where
  "pipe_Write b (s, n) =
     (if length b \<le> n then (None, (s @ b, n - length b))
      else (Some (EnvErr ''broken pipe''), (s @ take n b, 0)))"

interpretation buf: io_writer Buffer_Write "\<lambda>s. s"
  by unfold_locales (auto simp: Buffer_Write_def)

lemma pipe_Write_prefix:
  "pipe_Write b s = (Some e, s') \<Longrightarrow> snd s \<le> length b \<and> fst s' = fst s @ take (snd s) b"
  by (cases s) (auto split: if_splits)

interpretation pipe: io_writer pipe_Write fst
  by unfold_locales (auto split: if_splits dest: pipe_Write_prefix)

end
