(* ===== verification/Roundtrip.thy ===== *)
theory Roundtrip
  imports Writer
begin

text \<open>
  The writer and the scanner together: a stream that the writer produced is scanned back
  into the same commands, whatever the traversal orders of the attribute maps; truncation
  and corruption of a stream are reported; and the parse errors of malformed attributes.
\<close>

section \<open>Decoding one command\<close>

lemma binary_Read_u16_enc [simp, codec_simps]: "binary_Read_u16 (le_enc 2 (k :: u16) @ b) = Inr k"
  by (simp add: binary_Read_u16_def ReadFull_def)

lemma attributes_loop_end: "length data \<le> pos \<Longrightarrow> attributes_loop data pos a = Some (Inr a)"
  by (simp add: attributes_loop.simps)

lemma attributes_loop_chunk:
  assumes "k \<noteq> BTRFS_SEND_A_DATA" "length v < 65536"
    and "data = pre @ le_enc 2 k @ le_enc 2 (of_nat (length v) :: u16) @ v @ post"
  shows "attributes_loop data (length pre) a
    = attributes_loop data (length pre + 4 + length v) (a(k \<mapsto> v))"
proof -
  have "unat (of_nat (length v) :: u16) = length v"
    using assms(2) by (simp add: unat_of_nat)
  then have "unat (ucast (of_nat (length v) :: u16) :: u32) = length v"
    by simp
  moreover have "drop (length pre) data = le_enc 2 k @ le_enc 2 (of_nat (length v) :: u16) @ v @ post"
    "drop (length pre + 2) data = le_enc 2 (of_nat (length v) :: u16) @ v @ post"
    "drop (length pre + 4) data = v @ post"
    using assms(3) by simp_all
  ultimately show ?thesis
    using assms(1,3) by (subst attributes_loop.simps) (simp del: drop_append)
qed

lemma attributes_loop_data:
  assumes "data = pre @ le_enc 2 BTRFS_SEND_A_DATA @ d" "length data < 4294967296"
  shows "attributes_loop data (length pre) a = Some (Inr (a(BTRFS_SEND_A_DATA \<mapsto> d)))"
proof -
  have "unat (of_nat (length d) :: u32) = length d"
    using assms by (simp add: unat_of_nat)
  moreover have "drop (length pre) data = le_enc 2 BTRFS_SEND_A_DATA @ d"
    "drop (length pre + 2) data = d"
    using assms(1) by simp_all
  ultimately show ?thesis
    using assms by (subst attributes_loop.simps)
      (simp del: drop_append BTRFS_SEND_A_DATA_def add: attributes_loop_end)
qed

lemma attributes_loop_payload:
  assumes "\<forall>k\<in>set ks. k \<noteq> BTRFS_SEND_A_DATA \<longrightarrow> length (attr_get c k) < 65536"
    and "data = pre @ payload c ks" "length data < 4294967296"
  shows "attributes_loop data (length pre) a
    = Some (Inr (\<lambda>k. if k = BTRFS_SEND_A_DATA \<and> k \<in> dom c then c k
        else if k \<noteq> BTRFS_SEND_A_DATA \<and> k \<in> set ks then Some (attr_get c k) else a k))"
  using assms
proof (induction ks arbitrary: pre a)
  case Nil
  show ?case
  proof (cases "c BTRFS_SEND_A_DATA")
    case None
    then have "payload c [] = []" by (simp add: payload_def data_chunk_def)
    with Nil have "length data \<le> length pre" by simp
    then show ?thesis using None by (auto simp: attributes_loop_end fun_eq_iff)
  next
    case (Some d)
    have "data = pre @ le_enc 2 BTRFS_SEND_A_DATA @ d"
      using Nil Some by (simp add: payload_def data_chunk_def)
    from attributes_loop_data [OF this Nil(3)] show ?thesis
      using Some by (auto simp: fun_eq_iff)
  qed
next
  case (Cons k ks)
  show ?case
  proof (cases "k = BTRFS_SEND_A_DATA")
    case True
    then have "data = pre @ payload c ks" using Cons.prems by (simp add: payload_def)
    with Cons.IH [OF _ this] Cons.prems True show ?thesis by (auto simp: fun_eq_iff)
  next
    case False
    let ?v = "attr_get c k"
    have data: "data = (pre @ attr_chunk c k) @ payload c ks"
      using Cons.prems False by (simp add: payload_def)
    have "attributes_loop data (length pre) a
        = attributes_loop data (length pre + 4 + length ?v) (a(k \<mapsto> ?v))"
      using False Cons.prems(1) data by (intro attributes_loop_chunk [where post = "payload c ks"])
        (simp_all add: attr_chunk_def)
    also have "length pre + 4 + length ?v = length (pre @ attr_chunk c k)"
      by (simp add: length_attr_chunk)
    also have "attributes_loop data \<dots> (a(k \<mapsto> ?v)) = Some (Inr (\<lambda>k'.
        if k' = BTRFS_SEND_A_DATA \<and> k' \<in> dom c then c k'
        else if k' \<noteq> BTRFS_SEND_A_DATA \<and> k' \<in> set ks then Some (attr_get c k')
        else (a(k \<mapsto> ?v)) k'))"
      using Cons.prems by (intro Cons.IH data) auto
    finally show ?thesis using False by (auto simp: fun_eq_iff)
  qed
qed

lemma attributes_loop_Encode:
  assumes "range_order c ord" "fits (cmd, c, o2, ord)"
  shows "attributes_loop (payload c ord) 0 NewCmdAttrs = Some (Inr c)"
proof -
  have "attributes_loop (payload c ord) (length ([] :: bytes)) NewCmdAttrs
    = Some (Inr (\<lambda>k. if k = BTRFS_SEND_A_DATA \<and> k \<in> dom c then c k
        else if k \<noteq> BTRFS_SEND_A_DATA \<and> k \<in> set ord then Some (attr_get c k) else NewCmdAttrs k))"
    using assms by (intro attributes_loop_payload) auto
  also have "\<dots> = Some (Inr c)"
    using assms by (auto simp: fun_eq_iff range_order_def attr_get_def NewCmdAttrs_def domIff
        split: option.splits)
  finally show ?thesis by simp
qed

section \<open>Scanning what was written\<close>

abbreviation scanner_at :: "bool \<Rightarrow> bytes \<Rightarrow> gerr \<Rightarrow> CmdHeader \<Rightarrow> CmdAttrs \<Rightarrow> Scanner" where
  "scanner_at ign b e h a \<equiv> \<lparr>Reader = \<lparr>Rest = b, RErr = e\<rparr>, ignoreChecksums = ign,
     headerParsed = True, scanErr = None, curHdr = h, curAttrs = a\<rparr>"

lemma validateCrc32_wire_header [simp]: "validateCrc32 (wire_header cmd c ord) (payload c ord) = None"
  by (simp add: validateCrc32_def wire_header_def Let_def)

lemma Len_wire_header: "length (payload c ord) < 4294967296 \<Longrightarrow>
    unat (Len (wire_header cmd c ord)) = length (payload c ord)"
  by (simp add: wire_header_def Let_def unat_of_nat)

lemma ReadCommand_wire:
  assumes "valid_written x" "fits x" "x = (cmd, c, ordS, ordE)"
  shows "ReadCommand (scanner_at ign (wire_command x @ rest) e h a)
    = Some (Inr (wire_header cmd c ordE, c), scanner_at ign rest e h a)"
  using assms attributes_loop_Encode [of c ordE cmd ordS] Len_wire_header [of c ordE cmd]
  by (simp add: ReadCommand_def readCommandHeader_def readCommandAttributes_def
      scanner_read_def ReadFull_def Let_def)

lemma Scan_wire:
  assumes "valid_written x" "fits x" "x = (cmd, c, ordS, ordE)"
  shows "Scan (scanner_at ign (wire_command x @ rest) e h a)
    = Some (True, scanner_at ign rest e (wire_header cmd c ordE) c)"
  using ReadCommand_wire [OF assms] by (simp add: Scan_def Let_def)

fun delivered :: "written \<Rightarrow> CmdHeader \<times> CmdAttrs" where
  "delivered (cmd, c, ordS, ordE) = (wire_header cmd c ordE, c)"

text \<open>How the scanner ends on a reader that is exhausted.\<close>

definition end_err :: "CmdHeader \<Rightarrow> gerr \<Rightarrow> gerr option" where
  "end_err h e = (if \<not> CmdHeader_IsZero h \<and> Cmd h = BTRFS_SEND_C_END \<and> errors_is e EOF
     then None else Some e)"

lemma scan_all_step:
  assumes "valid_written x" "fits x"
  shows "scan_all (scanner_at ign (wire_command x @ b) e h a) = do {
      (cs', e') \<leftarrow> scan_all (scanner_at ign b e (fst (delivered x)) (snd (delivered x)));
      Some (delivered x # cs', e') }"
proof -
  obtain cmd c ordS ordE where x: "x = (cmd, c, ordS, ordE)" by (cases x)
  have "Scan (scanner_at ign (wire_command x @ b) e h a)
      = Some (True, scanner_at ign b e (wire_header cmd c ordE) c)"
    using assms x by (intro Scan_wire)
  then show ?thesis
    using x by (subst scan_all.simps) (simp add: Command_def)
qed

lemma scan_all_stop:
  "Scan s = Some (False, s') \<Longrightarrow> scan_all s = Some ([], scanErr s')"
  by (simp add: scan_all.simps [of s] Err_def)

text \<open>Scanning through complete commands up to a point where the scanner stops.\<close>

lemma scan_all_wire_append:
  assumes "list_all valid_written cs" "list_all fits cs"
    and stop: "\<And>a'. \<exists>s'. Scan (scanner_at ign rest e (if cs = [] then h else fst (delivered (last cs))) a')
      = Some (False, s') \<and> scanErr s' = err"
  shows "scan_all (scanner_at ign (concat (map wire_command cs) @ rest) e h a)
    = Some (map delivered cs, err)"
  using assms
proof (induction cs arbitrary: h a)
  case Nil
  then show ?case using scan_all_stop by fastforce
next
  case (Cons x cs)
  have "scan_all (scanner_at ign (concat (map wire_command cs) @ rest) e
      (fst (delivered x)) (snd (delivered x))) = Some (map delivered cs, err)"
    using Cons.prems by (intro Cons.IH) (auto split: if_splits)
  with Cons.prems show ?case by (simp add: scan_all_step)
qed

lemma Scan_exhausted:
  "\<exists>s'. Scan (scanner_at ign [] e h a) = Some (False, s') \<and> scanErr s' = end_err h e"
  by (simp add: Scan_def ReadCommand_def
      readCommandHeader_def scanner_read_def ReadFull_def Let_def end_err_def)

lemma scan_all_wire:
  assumes "list_all valid_written cs" "list_all fits cs"
  shows "scan_all (scanner_at ign (concat (map wire_command cs)) e h a)
    = Some (map delivered cs, end_err (if cs = [] then h else fst (delivered (last cs))) e)"
  using scan_all_wire_append [OF assms Scan_exhausted] by simp

lemma wire_magic [simp]: "length BTRFS_SEND_STREAM_MAGIC_ENCODED = 13"
  by (simp add: BTRFS_SEND_STREAM_MAGIC_ENCODED_def BTRFS_SEND_STREAM_MAGIC_def Let_def)

lemma magic_string [simp]:
  "string_of_bytes BTRFS_SEND_STREAM_MAGIC_ENCODED = BTRFS_SEND_STREAM_MAGIC"
proof -
  have "length (bytes_of_string BTRFS_SEND_STREAM_MAGIC) = 13"
    by (simp add: BTRFS_SEND_STREAM_MAGIC_def)
  then show ?thesis by (simp add: BTRFS_SEND_STREAM_MAGIC_ENCODED_def Let_def)
qed

lemma readHeader_wire:
  "readHeader (NewScanner \<lparr>Rest = enc_StreamHeader stream_header @ b, RErr = e\<rparr> ign)
    = (stream_header, None, scanner_at ign b e zero_CmdHeader Map.empty)"
  by (simp add: readHeader_def NewScanner_def scanner_read_def ReadFull_def enc_StreamHeader_def
      dec_StreamHeader_def stream_header_def Let_def)

lemma scan_all_new:
  "scan_all (NewScanner \<lparr>Rest = enc_StreamHeader stream_header @ b, RErr = e\<rparr> ign)
    = scan_all (scanner_at ign b e zero_CmdHeader Map.empty)"
proof -
  have "Scan (NewScanner \<lparr>Rest = enc_StreamHeader stream_header @ b, RErr = e\<rparr> ign)
      = Scan (scanner_at ign b e zero_CmdHeader Map.empty)"
    by (simp add: Scan_def readHeader_wire)
      (simp add: NewScanner_def Let_def)
  then show ?thesis
    by (subst (1 2) scan_all.simps) simp
qed


text \<open>C1: What the writer puts into a buffer, the scanner reads back: for every sequence of
  commands that fits the format (16-bit attribute lengths, 32-bit command lengths), with the
  attribute maps traversed in any orders, all writes succeed and scanning the buffer delivers
  the same commands with the same attributes, in order; \<open>Err\<close> is nil if the last command is
  END and \<open>EOF\<close> otherwise.\<close>

theorem writer_scanner_roundtrip:
  assumes "list_all valid_written cs" "list_all fits cs" "cs \<noteq> []"
  shows "\<exists>w res. write_commands Buffer_Write cs (NewWriter []) = (None, w)
    \<and> scan_all (NewScanner \<lparr>Rest = Dest w, RErr = EOF\<rparr> ign)
        = Some (res, if fst (last cs) = BTRFS_SEND_C_END then None else Some EOF)
    \<and> map (\<lambda>(h, c). (Cmd h, c)) res = map (\<lambda>(cmd, c, _, _). (cmd, c)) cs"
proof -
  have ok: "\<exists>w'. WriteCommand Buffer_Write o1 o2 cmd c w = (None, w')" for o1 o2 cmd c w
    by (auto simp: WriteCommand_def SendHeader_def writer_write_def Buffer_Write_def Encode_payload
        Let_def)
  have "\<exists>w'. write_commands Buffer_Write cs' w = (None, w')" for cs' w
  proof (induction cs' arbitrary: w)
    case (Cons x cs')
    obtain cmd c o1 o2 where x: "x = (cmd, c, o1, o2)" by (cases x)
    obtain w1 where "WriteCommand Buffer_Write o1 o2 cmd c w = (None, w1)" using ok by blast
    with Cons x show ?case by simp
  qed simp
  then obtain w where w: "write_commands Buffer_Write cs (NewWriter []) = (None, w)" by blast
  from buf.write_commands_ok [OF assms(1) w] assms(3)
  have "Dest w = enc_StreamHeader stream_header @ concat (map wire_command cs)"
    by (simp add: NewWriter_def buf.pending_def)
  moreover have "end_err (fst (delivered (last cs))) EOF
      = (if fst (last cs) = BTRFS_SEND_C_END then None else Some EOF)"
    by (cases "last cs") (auto simp: end_err_def CmdHeader_IsZero_def wire_header_def Let_def)
  moreover have "map (\<lambda>(h, c). (Cmd h, c)) (map delivered cs) = map (\<lambda>(cmd, c, _, _). (cmd, c)) cs"
    by (auto simp: wire_header_def Let_def)
  ultimately show ?thesis
    using w assms scan_all_wire [OF assms(1,2)] by (simp add: scan_all_new)
qed

lemma writer_scanner_roundtrip_witness:
  "\<exists>w res. write_commands Buffer_Write
      [(15, [15 \<mapsto> [47, 97], 18 \<mapsto> le_enc 8 (7 :: u64), 19 \<mapsto> [1, 2, 3]], [15, 18, 19], [19, 18, 15]),
       (21, Map.empty, [], [])] (NewWriter []) = (None, w)
    \<and> scan_all (NewScanner \<lparr>Rest = Dest w, RErr = EOF\<rparr> False) = Some (res, None)
    \<and> map (\<lambda>(h, c). (Cmd h, c)) res
        = [(15, [15 \<mapsto> [47, 97], 18 \<mapsto> le_enc 8 (7 :: u64), 19 \<mapsto> [1, 2, 3]]), (21, Map.empty)]"
  using writer_scanner_roundtrip [where ign = False and
      cs = "[(15, [15 \<mapsto> [47, 97], 18 \<mapsto> le_enc 8 (7 :: u64), 19 \<mapsto> [1, 2, 3]], [15, 18, 19], [19, 18, 15]),
       (21, Map.empty, [], [])]"]
  by (simp add: range_order_def attr_get_def payload_def data_chunk_def length_attr_chunk
      insert_commute)

text \<open>A stream that is cut inside a command delivers exactly the commands before it. The
  scan then ends with \<open>ErrUnexpectedEOF\<close> (or the reader's own error); only when the cut is at
  the start of the command or right behind its header does the scanner see a plain \<open>EOF\<close>,
  which after an END command it takes for the end of the stream.\<close>

theorem scan_truncated:
  assumes "list_all valid_written cs" "list_all fits cs"
    and "valid_written x" "fits x" "n < length (wire_command x)"
  shows "scan_all (NewScanner \<lparr>Rest = enc_StreamHeader stream_header @ concat (map wire_command cs)
        @ take n (wire_command x), RErr = e\<rparr> ign)
    = Some (map delivered cs,
        end_err (if cs = [] then zero_CmdHeader else fst (delivered (last cs)))
          (if n = 0 \<or> n = 10 \<or> e \<noteq> EOF then e else ErrUnexpectedEOF))"
proof -
  obtain cmd c ordS ordE where x: "x = (cmd, c, ordS, ordE)" by (cases x)
  let ?e = "if n = 0 \<or> n = 10 \<or> e \<noteq> EOF then e else ErrUnexpectedEOF"
  let ?h = "if cs = [] then zero_CmdHeader else fst (delivered (last cs))"
  have len: "unat (Len (wire_header cmd c ordE)) = length (payload c ordE)"
    using assms(4) x by (intro Len_wire_header) simp
  have "\<exists>r. ReadCommand (scanner_at ign (take n (wire_command x)) e h a)
      = Some (Inl ?e, (scanner_at ign [] e h a)\<lparr>Reader := r\<rparr>)" for h a
  proof (cases "n < 10")
    case True
    then show ?thesis
      using x by (auto simp: ReadCommand_def readCommandHeader_def scanner_read_def ReadFull_def
          take_eq_Nil)
  next
    case False
    then have "take n (wire_command x)
        = enc_CmdHeader (wire_header cmd c ordE) @ take (n - 10) (payload c ordE)"
      using x by simp
    moreover have "n - 10 < length (payload c ordE)" using assms(5) False x by simp
    ultimately show ?thesis
      using False len
      by (auto simp: ReadCommand_def readCommandHeader_def readCommandAttributes_def
          scanner_read_def ReadFull_def Let_def)
  qed
  then obtain r where r: "\<And>h a. ReadCommand (scanner_at ign (take n (wire_command x)) e h a)
      = Some (Inl ?e, (scanner_at ign [] e h a)\<lparr>Reader := r h a\<rparr>)" by metis
  have "\<exists>s'. Scan (scanner_at ign (take n (wire_command x)) e h a) = Some (False, s')
      \<and> scanErr s' = end_err h ?e" for h a
    using r [of h a] by (simp add: Scan_def Let_def end_err_def del: if_split split: if_split_asm)
  from scan_all_wire_append [where h = zero_CmdHeader, OF assms(1,2) this] show ?thesis
    by (simp add: scan_all_new)
qed



lemma scan_truncated_witness:
  "scan_all (NewScanner \<lparr>Rest = enc_StreamHeader stream_header @ concat (map wire_command
        [(21, Map.empty, [], [])]) @ take 10 (wire_command (12, [15 \<mapsto> [47, 97]], [15], [15])),
        RErr = EOF\<rparr> False)
    = Some (map delivered [(21, Map.empty, [], [])], None)"
  by (subst scan_truncated)
    (simp_all add: attr_get_def payload_def data_chunk_def attr_chunk_def range_order_def
      end_err_def CmdHeader_IsZero_def wire_header_def Let_def)

text \<open>An attribute that declares more bytes than its command has left makes the scanner
  panic (slice bounds out of range) instead of returning an error, even when the checksum of
  the command is right.\<close>

theorem scan_panics_on_overlong_attribute:
  assumes "k \<noteq> BTRFS_SEND_A_DATA" "length v < unat (n :: u16)"
    and "b = le_enc 2 k @ le_enc 2 n @ v" "unat (Len hdr) = length b" "validateCrc32 hdr b = None"
  shows "scan_all (NewScanner \<lparr>Rest = enc_StreamHeader stream_header @ enc_CmdHeader hdr @ b @ rest,
      RErr = e\<rparr> ign) = panic"
proof -
  have "drop 2 b = le_enc 2 n @ v" "drop 4 b = v" using assms(3) by simp_all
  then have "attributes_loop b 0 NewCmdAttrs = panic"
    using assms(1-3) by (subst attributes_loop.simps) (simp del: drop_append)
  then have "Scan (scanner_at ign (enc_CmdHeader hdr @ b @ rest) e zero_CmdHeader Map.empty) = panic"
    using assms(4,5) by (simp add: Scan_def ReadCommand_def readCommandHeader_def
        readCommandAttributes_def scanner_read_def ReadFull_def Let_def)
  then show ?thesis
    by (subst scan_all_new) (simp add: scan_all.simps)
qed

lemma scan_panics_on_overlong_attribute_witness:
  "scan_all (NewScanner \<lparr>Rest = enc_StreamHeader stream_header @ enc_CmdHeader
      \<lparr>Len = 5, Cmd = 12, Crc = calculateCrc32 \<lparr>Len = 5, Cmd = 12, Crc = 0\<rparr> [15, 0, 2, 0, 47]\<rparr>
      @ [15, 0, 2, 0, 47] @ [], RErr = EOF\<rparr> False) = panic"
  by (rule scan_panics_on_overlong_attribute [where k = 15 and v = "[47]" and n = 2])
    (simp_all add: validateCrc32_def le_enc_eval)

lemma Scan_consumes:
  assumes "Scan s = Some (True, s')"
  shows "length (Rest (Reader s')) + 10 \<le> length (Rest (Reader s))"
proof -
  have rc: "length (Rest (Reader t')) + 10 \<le> length (Rest (Reader t))"
    if "ReadCommand t = Some (Inr c, t')" for t c t'
    using that by (auto simp: ReadCommand_def readCommandHeader_def readCommandAttributes_def Let_def
      split: prod.splits sum.splits option.splits if_splits Option.bind_splits
      dest!: scanner_read_props)
  obtain h e s1 where h: "readHeader s = (h, e, s1)" by (cases "readHeader s") auto
  note le = readHeader_progress [OF h]
  from assms le show ?thesis
    by (auto simp: Scan_def h Let_def split: if_splits option.splits Option.bind_splits
        sum.splits dest!: rc)
qed


end
