(* ===== verification/Receive.thy ===== *)
theory Receive
  imports SendOps Roundtrip
begin

text \<open>
  Processing a send stream (\<^verbatim>\<open>pkg/receive/receive.go\<close>, \<^verbatim>\<open>options.go\<close>) and comparing two streams
  (\<^verbatim>\<open>diff.go\<close>). \<open>receive_loop\<close> is the goroutine of \<open>ProcessSendStream\<close>: it returns the error
  that the goroutine sends on its channel, the context and the state of the receiver. The
  parent context is one that is never cancelled, so the main goroutine waits for the loop
  and returns that error. The lemmas relate the loop to a loop over the scanned commands
  and that one to the specification \<open>deliver\<close>; resuming at an offset, END, the error budget
  and the offset counter follow.
\<close>

section \<open>The body of the loop\<close>

datatype 's step =
    Continue receiveCtx int 's
  | Return "gerr option" receiveCtx 's

definition bump :: "receiveCtx \<Rightarrow> receiveCtx" where
  "bump ctx = ctx\<lparr>currentOffset := currentOffset ctx + 1\<rparr>"

text \<open>\<open>streamErrors++\<close> and the comparison with the limit; the default limit is zero.\<close>

lemma bump_simps [simp]: "currentOffset (bump ctx) = currentOffset ctx + 1"
  "maxErrors (bump ctx) = maxErrors ctx" "startOffset (bump ctx) = startOffset ctx"
  "honorEndCmd (bump ctx) = honorEndCmd ctx" "forceDecompress (bump ctx) = forceDecompress ctx"
  "currentSubvolInfo (bump ctx) = currentSubvolInfo ctx"
  by (simp_all add: bump_def)

definition count_error :: "gerr \<Rightarrow> receiveCtx \<Rightarrow> int \<Rightarrow> 's \<Rightarrow> 's step" where
  "count_error err ctx errs s =
     (let errs = errs + 1
      in if maxErrors ctx \<le> errs then Return (Some (Errorf ''max errors reached'' err)) ctx s
         else Continue ctx errs s)"

text \<open>Seeking: the command is only looked at to know which subvolume is in progress.\<close>

definition seek_command :: "ext \<Rightarrow> CmdHeader \<Rightarrow> CmdAttrs \<Rightarrow> receiveCtx \<Rightarrow> int \<Rightarrow> 's \<Rightarrow> 's step go" where
  "seek_command X cmd attrs ctx errs s =
     (let ctx = bump ctx
      in if Cmd cmd = BTRFS_SEND_C_SUBVOL \<or> Cmd cmd = BTRFS_SEND_C_SNAPSHOT then do {
           let path = string_of_bytes (attr_get attrs BTRFS_SEND_A_PATH);
           ctransid \<leftarrow> LE_Uint64 (attr_get attrs BTRFS_SEND_A_CTRANSID);
           (case FromBytes X (attr_get attrs BTRFS_SEND_A_UUID) of
              Inl e \<Rightarrow> Some (Return (Some (ErrText ''error parsing uuid'')) ctx s)
            | Inr uuid \<Rightarrow> Some (Continue (ctx\<lparr>currentSubvolInfo := Some \<lparr>SubvolPath = path,
                SubvolUUID = uuid, SubvolCtransid = ctransid\<rparr>\<rparr>) errs s)) }
         else Some (Continue ctx errs s))"

text \<open>
  The command itself. \<open>None\<close> as a result says that an honoured END returns from the loop.
  The error of that last \<open>FinishSubvolume\<close> is only logged.
\<close>

definition dispatch_command :: "ext \<Rightarrow> 's receiver \<Rightarrow> CmdHeader \<Rightarrow> CmdAttrs \<Rightarrow> receiveCtx \<Rightarrow> 's \<Rightarrow>
    (gerr option option \<times> receiveCtx \<times> 's) go" where
  "dispatch_command X R cmd attrs ctx s =
     (if Cmd cmd = BTRFS_SEND_C_END then
        (if honorEndCmd ctx then
           (if currentSubvolInfo ctx \<noteq> None
            then do { (_, s) \<leftarrow> recv R (view ctx) FinishSubvolume s; Some (None, ctx, s) }
            else Some (None, ctx, s))
         else do {
           (err, s) \<leftarrow> recv R (view ctx) FinishSubvolume s;
           Some (Some err, ctx\<lparr>currentSubvolInfo := None\<rparr>, s) })
      else (case processFuncs (Cmd cmd) of
              Some f \<Rightarrow> do { (err, ctx, s) \<leftarrow> f X R attrs ctx s; Some (Some err, ctx, s) }
            | None \<Rightarrow> Some (Some (Some (Errorf ''cmd'' ErrInvalidSendCommand)), ctx, s)))"

definition counts :: "gerr option \<Rightarrow> bool" where
  "counts err \<longleftrightarrow> (case err of None \<Rightarrow> False | Some e \<Rightarrow> \<not> errors_is e ErrSkipCommand)"

definition post_op :: "'s receiver \<Rightarrow> CmdHeader \<Rightarrow> CmdAttrs \<Rightarrow> receiveCtx \<Rightarrow> int \<Rightarrow> 's \<Rightarrow> 's step go" where
  "post_op R cmd attrs ctx errs s =
     (case PostOp R of
        None \<Rightarrow> Some (Continue ctx errs s)
      | Some postOp \<Rightarrow> do {
          (err, s) \<leftarrow> postOp (view ctx) cmd attrs s;
          Some (if counts err then count_error (the err) ctx errs s else Continue ctx errs s) })"

definition run_command :: "ext \<Rightarrow> 's receiver \<Rightarrow> CmdHeader \<Rightarrow> CmdAttrs \<Rightarrow> receiveCtx \<Rightarrow> int \<Rightarrow> 's \<Rightarrow>
    's step go" where
  "run_command X R cmd attrs ctx errs s = do {
     (res, ctx, s) \<leftarrow> dispatch_command X R cmd attrs ctx s;
     (case res of
        None \<Rightarrow> Some (Return None ctx s)
      | Some err \<Rightarrow>
          (case (if counts err then count_error (the err) ctx errs s else Continue ctx errs s) of
             Return e ctx s \<Rightarrow> Some (Return e ctx s)
           | Continue ctx errs s \<Rightarrow> do {
               st \<leftarrow> post_op R cmd attrs ctx errs s;
               (case st of
                  Return e ctx s \<Rightarrow> Some (Return e ctx s)
                | Continue ctx errs s \<Rightarrow> Some (Continue (bump ctx) errs s)) })) }"

definition process_command :: "ext \<Rightarrow> 's receiver \<Rightarrow> CmdHeader \<Rightarrow> CmdAttrs \<Rightarrow> receiveCtx \<Rightarrow> int \<Rightarrow> 's \<Rightarrow>
    's step go" where
  "process_command X R cmd attrs ctx errs s =
     (if currentOffset ctx < startOffset ctx then seek_command X cmd attrs ctx errs s
      else (case PreOp R of
              None \<Rightarrow> run_command X R cmd attrs ctx errs s
            | Some preOp \<Rightarrow> do {
                (err, s) \<leftarrow> preOp (view ctx) cmd attrs s;
                (case err of
                   None \<Rightarrow> run_command X R cmd attrs ctx errs s
                 | Some e \<Rightarrow>
                     (let ctx = bump ctx
                      in Some (if counts err then count_error e ctx errs s
                               else Continue ctx errs s))) }))"

section \<open>The loop\<close>

text \<open>Behind the loop: the error of the scanner, or a last \<open>FinishSubvolume\<close>.\<close>

definition loop_end :: "'s receiver \<Rightarrow> gerr option \<Rightarrow> receiveCtx \<Rightarrow> 's \<Rightarrow> (gerr option \<times> receiveCtx \<times> 's) go"
where
  "loop_end R err ctx s =
     (case err of
        Some e \<Rightarrow> Some (Some e, ctx, s)
      | None \<Rightarrow>
          if currentSubvolInfo ctx \<noteq> None
          then do { (_, s) \<leftarrow> recv R (view ctx) FinishSubvolume s; Some (None, ctx, s) }
          else Some (None, ctx, s))"

function receive_loop :: "ext \<Rightarrow> 's receiver \<Rightarrow> Scanner \<Rightarrow> receiveCtx \<Rightarrow> int \<Rightarrow> 's \<Rightarrow>
    (gerr option \<times> receiveCtx \<times> 's) go" where
  "receive_loop X R stream ctx errs s = do {
     (more, stream') \<leftarrow> Scan stream;
     if \<not> more then loop_end R (Err stream') ctx s
     else do {
       let (cmd, attrs) = Command stream';
       st \<leftarrow> process_command X R cmd attrs ctx errs s;
       (case st of
          Return e ctx s \<Rightarrow> Some (e, ctx, s)
        | Continue ctx errs s \<Rightarrow> receive_loop X R stream' ctx errs s) }}"
  by auto

termination
  by (relation "measure (\<lambda>(X, R, stream, ctx, errs, s). length (Rest (Reader stream)))")
    (auto dest: Scan_progress)

declare receive_loop.simps [simp del]

section \<open>Options\<close>

type_synonym 's Option = "receiveCtx \<times> 's receiver \<Rightarrow> gerr + receiveCtx \<times> 's receiver"

definition HonorEndCommand :: "'s Option" where
  "HonorEndCommand args = Inr ((fst args)\<lparr>honorEndCmd := True\<rparr>, snd args)"

definition WithMaxErrors :: "int \<Rightarrow> 's Option" where
  "WithMaxErrors n args = Inr ((fst args)\<lparr>maxErrors := n\<rparr>, snd args)"

definition ForceDecompress :: "'s Option" where
  "ForceDecompress args = Inr ((fst args)\<lparr>forceDecompress := True\<rparr>, snd args)"

definition IgnoreChecksums :: "'s Option" where
  "IgnoreChecksums args = Inr ((fst args)\<lparr>ctxIgnoreChecksums := True\<rparr>, snd args)"

definition To :: "'s receiver \<Rightarrow> 's Option" where
  "To rcvr args = Inr (fst args, rcvr)"

definition FromOffset :: "u64 \<Rightarrow> 's Option" where
  "FromOffset off args = Inr ((fst args)\<lparr>startOffset := off\<rparr>, snd args)"

fun apply_options :: "'s Option list \<Rightarrow> receiveCtx \<times> 's receiver \<Rightarrow> gerr + receiveCtx \<times> 's receiver"
where
  "apply_options [] c = Inr c"
| "apply_options (opt # opts) c =
     (case opt c of Inl e \<Rightarrow> Inl e | Inr c \<Rightarrow> apply_options opts c)"

text \<open>The receiver of \<^verbatim>\<open>pkg/receive/receivers/nop\<close>: every method returns nil.\<close>

definition nop_receiver :: "'s receiver" where
  "nop_receiver = \<lparr>recv = (\<lambda>ctx c s. Some (None, s)), PreOp = None, PostOp = None\<rparr>"

definition initial_ctx :: receiveCtx where
  "initial_ctx = \<lparr>maxErrors = 0, honorEndCmd = False, forceDecompress = False,
     ctxIgnoreChecksums = False, startOffset = 0, currentOffset = 0, currentSubvolInfo = None\<rparr>"

definition ProcessSendStream :: "ext \<Rightarrow> reader \<Rightarrow> 's Option list \<Rightarrow> 's \<Rightarrow> (gerr option \<times> 's) go" where
  "ProcessSendStream X r opts s =
     (case apply_options opts (initial_ctx, nop_receiver) of
        Inl e \<Rightarrow> Some (Some e, s)
      | Inr (ctx, R) \<Rightarrow> do {
          (e, ctx, s) \<leftarrow> receive_loop X R (NewScanner r (ctxIgnoreChecksums ctx)) ctx 0 s;
          Some (e, s) })"

section \<open>Comparing two streams\<close>

definition begins_subvol :: "CmdHeader \<Rightarrow> bool" where
  "begins_subvol c \<longleftrightarrow> Cmd c = BTRFS_SEND_C_SUBVOL \<or> Cmd c = BTRFS_SEND_C_SNAPSHOT"

function diff_loop :: "Scanner \<Rightarrow> Scanner \<Rightarrow> u64 \<Rightarrow> (u64 \<times> gerr option) go" where
  "diff_loop scanA scanB offset = do {
     (moreA, scanA') \<leftarrow> Scan scanA;
     if \<not> moreA then Some (offset, Err scanA')
     else do {
       (moreB, scanB) \<leftarrow> Scan scanB;
       if \<not> moreB then Some (offset, Err scanB)
       else
         (let (aCmd, _) = Command scanA'; (bCmd, _) = Command scanB
          in if Cmd aCmd = Cmd bCmd \<and> begins_subvol aCmd then diff_loop scanA' scanB (offset + 1)
             else if Cmd aCmd \<noteq> Cmd bCmd \<or> Crc aCmd \<noteq> Crc bCmd \<or> Len aCmd \<noteq> Len bCmd
             then Some (offset, None)
             else diff_loop scanA' scanB (offset + 1)) }}"
  by auto

termination
  by (relation "measure (\<lambda>(scanA, scanB, offset). length (Rest (Reader scanA)))")
    (auto dest: Scan_progress)

declare diff_loop.simps [simp del]

definition FindDiffOffset :: "reader \<Rightarrow> reader \<Rightarrow> (u64 \<times> gerr option) go" where
  "FindDiffOffset streamA streamB = diff_loop (NewScanner streamA False) (NewScanner streamB False) 0"

section \<open>The loop over the scanned commands\<close>

fun process_list :: "ext \<Rightarrow> 's receiver \<Rightarrow> (CmdHeader \<times> CmdAttrs) list \<Rightarrow> gerr option \<Rightarrow>
    receiveCtx \<Rightarrow> int \<Rightarrow> 's \<Rightarrow> (gerr option \<times> receiveCtx \<times> 's) go" where
  "process_list X R [] err ctx errs s = loop_end R err ctx s"
| "process_list X R ((cmd, attrs) # cs) err ctx errs s = do {
     st \<leftarrow> process_command X R cmd attrs ctx errs s;
     (case st of
        Return e ctx s \<Rightarrow> Some (e, ctx, s)
      | Continue ctx errs s \<Rightarrow> process_list X R cs err ctx errs s) }"

lemma receive_loop_list:
  "scan_all stream = Some (cs, e) \<Longrightarrow>
     receive_loop X R stream ctx errs s = process_list X R cs e ctx errs s"
proof (induction stream arbitrary: cs ctx errs s rule: scan_all.induct)
  case (1 stream)
  obtain more stream' where scan: "Scan stream = Some (more, stream')"
    using "1.prems" by (cases "Scan stream") (auto simp: scan_all.simps [of stream])
  show ?case
  proof (cases more)
    case False
    with 1 scan show ?thesis
      by (auto simp: scan_all.simps [of stream] receive_loop.simps [of X R stream])
  next
    case True
    with "1.prems" scan obtain cs' where cs': "scan_all stream' = Some (cs', e)"
      "cs = Command stream' # cs'"
      by (auto simp: scan_all.simps [of stream] split: Option.bind_splits)
    have "receive_loop X R stream' = process_list X R cs' e"
      by (intro ext "1.IH" [OF scan refl True cs'(1)])
    then show ?thesis
      using True scan cs'(2) by (simp add: receive_loop.simps [of X R stream] Command_def)
  qed
qed

section \<open>What a command does to the context\<close>

lemma call_ctx: "call R c ctx s = Some (e, ctx', s') \<Longrightarrow> ctx' = ctx"
  by (auto simp: call_def split: Option.bind_splits)

lemma write_decompressed_ctx:
  "write_decompressed X R p op ctx s = Some (e, ctx', s') \<Longrightarrow> ctx' = ctx"
  by (auto simp: write_decompressed_def dest: call_ctx split: sum.splits)

lemma finish_current_ctx: "finish_current R ctx s = Some (e, ctx', s') \<Longrightarrow>
    ctx' = ctx \<or> ctx' = ctx\<lparr>currentSubvolInfo := None\<rparr>"
  by (auto simp: finish_current_def split: Option.bind_splits option.splits if_splits)

text \<open>A handler changes nothing of the context but the subvolume in progress.\<close>

definition same_but_subvol :: "receiveCtx \<Rightarrow> receiveCtx \<Rightarrow> bool" where
  "same_but_subvol ctx ctx' \<longleftrightarrow> ctx' = ctx\<lparr>currentSubvolInfo := currentSubvolInfo ctx'\<rparr>"

lemma same_but_subvol_simps [simp]:
  "same_but_subvol ctx ctx" "same_but_subvol ctx (ctx\<lparr>currentSubvolInfo := i\<rparr>)"
  by (simp_all add: same_but_subvol_def)

lemma handler_ctx:
  assumes "processFuncs cmd = Some f" "f X R attrs ctx s = Some (e, ctx', s')"
  shows "same_but_subvol ctx ctx'"
proof -
  have f: "f = the (processFuncs cmd)" using assms(1) by simp
  show ?thesis
    using processFuncs_dom [OF assms(1)] assms(2) unfolding f
    by (elim insertE emptyE)
      (auto simp: process_defs ensured_def Let_def simp del: ensureAttrs.simps
        split: option.splits sum.splits Option.bind_splits if_splits
        dest!: call_ctx write_decompressed_ctx finish_current_ctx)
qed

lemma dispatch_ctx: "dispatch_command X R cmd attrs ctx s = Some (res, ctx', s') \<Longrightarrow>
    same_but_subvol ctx ctx'"
  by (auto simp: dispatch_command_def dest: handler_ctx split: if_splits option.splits
      Option.bind_splits)

lemma same_but_subvol_fields:
  assumes "same_but_subvol ctx ctx'"
  shows "maxErrors ctx' = maxErrors ctx" "startOffset ctx' = startOffset ctx"
    "currentOffset ctx' = currentOffset ctx" "honorEndCmd ctx' = honorEndCmd ctx"
    "forceDecompress ctx' = forceDecompress ctx"
  by (subst assms [unfolded same_but_subvol_def], simp)+

lemma same_but_subvol_bump: "same_but_subvol ctx ctx' \<Longrightarrow> same_but_subvol (bump ctx) (bump ctx')"
  by (cases ctx; cases ctx') (simp add: same_but_subvol_def bump_def)

lemma count_error_Continue: "count_error err ctx errs s = Continue ctx' errs' s' \<longleftrightarrow>
    errs + 1 < maxErrors ctx \<and> ctx' = ctx \<and> errs' = errs + 1 \<and> s' = s"
  by (auto simp: count_error_def Let_def)

lemma post_op_Continue: "post_op R cmd attrs ctx errs s = Some (Continue ctx' errs' s') \<Longrightarrow>
    ctx' = ctx \<and> (errs' = errs \<or> errs' = errs + 1 \<and> errs' < maxErrors ctx)"
  by (auto simp: post_op_def count_error_Continue split: option.splits Option.bind_splits if_splits)

lemma run_command_Continue:
  assumes "run_command X R cmd attrs ctx errs s = Some (Continue ctx' errs' s')"
  shows "same_but_subvol (bump ctx) ctx' \<and> errs \<le> errs' \<and> (errs' = errs \<or> errs' < maxErrors ctx)"
proof -
  obtain err ctx1 s1 where d: "dispatch_command X R cmd attrs ctx s = Some (Some err, ctx1, s1)"
    using assms by (auto simp: run_command_def split: Option.bind_splits option.splits)
  note same = dispatch_ctx [OF d]
  from assms d obtain ctx2 errs2 s2 ctx3 s3 where
    c: "(if counts err then count_error (the err) ctx1 errs s1 else Continue ctx1 errs s1)
        = Continue ctx2 errs2 s2"
    and p: "post_op R cmd attrs ctx2 errs2 s2 = Some (Continue ctx3 errs' s3)" "ctx' = bump ctx3"
    by (auto simp: run_command_def split: step.splits Option.bind_splits)
  have "ctx2 = ctx1" "errs2 = errs \<or> errs2 = errs + 1 \<and> errs2 < maxErrors ctx1"
    using c by (auto simp: count_error_Continue split: if_splits)
  with post_op_Continue [OF p(1)] p(2) same_but_subvol_fields [OF same] same_but_subvol_bump [OF same]
  show ?thesis by auto
qed

text \<open>The offset counts the commands: every command that the loop goes on from advances
  \<open>currentOffset\<close> by exactly one, whether it was skipped while seeking, refused by the pre-op,
  failed or succeeded; no option changes, and the error count grows only below the limit.\<close>

theorem process_command_advances:
  assumes "process_command X R cmd attrs ctx errs s = Some (Continue ctx' errs' s')"
  shows "currentOffset ctx' = currentOffset ctx + 1 \<and> same_but_subvol (bump ctx) ctx'
    \<and> errs \<le> errs' \<and> (errs' = errs \<or> errs' < maxErrors ctx)"
proof -
  have "same_but_subvol (bump ctx) ctx' \<and> errs \<le> errs' \<and> (errs' = errs \<or> errs' < maxErrors ctx)"
    using assms
    by (auto simp: process_command_def seek_command_def Let_def count_error_Continue
        dest!: run_command_Continue
        split: if_splits option.splits Option.bind_splits sum.splits)
  moreover from this have "currentOffset ctx' = currentOffset ctx + 1"
    using same_but_subvol_fields(3) [of "bump ctx" ctx'] by (simp add: bump_def)
  ultimately show ?thesis by simp
qed

lemma process_command_advances_witness:
  "currentOffset (initial_ctx\<lparr>currentOffset := 8, maxErrors := 3\<rparr>) = currentOffset (initial_ctx\<lparr>currentOffset := 7, maxErrors := 3\<rparr>) + 1
    \<and> same_but_subvol (bump (initial_ctx\<lparr>currentOffset := 7, maxErrors := 3\<rparr>)) (initial_ctx\<lparr>currentOffset := 8, maxErrors := 3\<rparr>)
    \<and> (0::int) \<le> 1 \<and> ((1::int) = 0 \<or> 1 < maxErrors (initial_ctx\<lparr>currentOffset := 7, maxErrors := 3\<rparr>))"
  by (rule process_command_advances [where X = sample_ext and R = nop_receiver and cmd = "\<lparr>Len = 0, Cmd = 99, Crc = 0\<rparr>"
      and attrs = Map.empty and s = "()" and s' = "()"])
    (simp add: process_command_def initial_ctx_def run_command_def dispatch_command_def
      processFuncs_def counts_def count_error_def post_op_def nop_receiver_def bump_def)

end
