(* ===== verification/ReceiveSpec.thy ===== *)
theory ReceiveSpec
  imports Receive
begin

text \<open>
  What processing a stream means: a specification over the calls that the commands of the
  stream stand for, the proof that \<open>ProcessSendStream\<close> implements it on every stream that the
  writer produces, and what follows for END, for resuming at an offset, for the limit of
  errors and for comparing two streams.
\<close>

section \<open>The specification\<close>

text \<open>The effect of one call, with its error.\<close>

definition call_effect :: "ext \<Rightarrow> 's receiver \<Rightarrow> rcall \<Rightarrow> receiveCtx \<Rightarrow> 's \<Rightarrow>
    (gerr option \<times> receiveCtx \<times> 's) go" where
  "call_effect X R c ctx s =
     (if c = FinishSubvolume then do {
        (err, s) \<leftarrow> recv R (view ctx) FinishSubvolume s;
        Some (err, ctx\<lparr>currentSubvolInfo := None\<rparr>, s) }
      else deliver X R c ctx s)"

text \<open>
  The calls one after the other. An error other than \<open>ErrSkipCommand\<close> is counted, and the one
  that reaches the limit ends the processing.
\<close>

fun run_calls :: "ext \<Rightarrow> 's receiver \<Rightarrow> rcall list \<Rightarrow> gerr option \<Rightarrow> receiveCtx \<Rightarrow> int \<Rightarrow> 's \<Rightarrow>
    (gerr option \<times> receiveCtx \<times> 's) go" where
  "run_calls X R [] end_error ctx errs s = loop_end R end_error ctx s"
| "run_calls X R (c # cs) end_error ctx errs s =
     (if c = FinishSubvolume \<and> honorEndCmd ctx then loop_end R None ctx s
      else do {
        (err, ctx, s) \<leftarrow> call_effect X R c ctx s;
        if counts err then
          (if maxErrors ctx \<le> errs + 1
           then Some (Some (Errorf ''max errors reached'' (the err)), ctx, s)
           else run_calls X R cs end_error (bump ctx) (errs + 1) s)
        else run_calls X R cs end_error (bump ctx) errs s })"

text \<open>The subvolume in progress after skipping calls, as seeking tracks it.\<close>

fun seek_subvol :: "rcall list \<Rightarrow> ReceivingSubvolume option \<Rightarrow> ReceivingSubvolume option" where
  "seek_subvol [] i = i"
| "seek_subvol (Subvol p u t # cs) i =
     seek_subvol cs (Some \<lparr>SubvolPath = p, SubvolUUID = u, SubvolCtransid = t\<rparr>)"
| "seek_subvol (Snapshot p u t cu ct # cs) i =
     seek_subvol cs (Some \<lparr>SubvolPath = p, SubvolUUID = u, SubvolCtransid = t\<rparr>)"
| "seek_subvol (_ # cs) i = seek_subvol cs i"

section \<open>Commands that stand for calls\<close>

definition stands_for :: "(CmdHeader \<times> CmdAttrs) list \<Rightarrow> rcall list \<Rightarrow> bool" where
  "stands_for cmds calls \<longleftrightarrow> map (\<lambda>(h, c). (Cmd h, c)) cmds = map command_of calls"

lemma stands_for_Nil [simp]: "stands_for [] calls \<longleftrightarrow> calls = []" "stands_for cmds [] \<longleftrightarrow> cmds = []"
  by (auto simp: stands_for_def)

lemma stands_for_Cons [simp]: "stands_for ((h, a) # cmds) (c # calls) \<longleftrightarrow>
    (Cmd h, a) = command_of c \<and> stands_for cmds calls"
  by (auto simp: stands_for_def)

lemma stands_for_length: "stands_for cmds calls \<Longrightarrow> length cmds = length calls"
  by (auto simp: stands_for_def dest: map_eq_imp_length_eq)

lemma command_of_END: "fst (command_of c) = BTRFS_SEND_C_END \<longleftrightarrow> c = FinishSubvolume"
  by (cases c) (simp_all add: new_defs Let_def)

lemma deliver_ctx: "deliver X R c ctx s = Some (err, ctx', s') \<Longrightarrow> same_but_subvol ctx ctx'"
  by (cases c) (auto simp: begin_subvol_def split: Option.bind_splits if_splits option.splits
      dest!: call_ctx write_decompressed_ctx finish_current_ctx)

lemma process_call:
  assumes "uuid_lib X" "valid_call c" "PreOp R = None" "PostOp R = None"
    and "(Cmd h, a) = command_of c" "startOffset ctx \<le> currentOffset ctx"
  shows "process_command X R h a ctx errs s =
    (if c = FinishSubvolume \<and> honorEndCmd ctx
     then (case loop_end R None ctx s of None \<Rightarrow> None | Some (e, ctx, s) \<Rightarrow> Some (Return None ctx s))
     else do {
       (err, ctx, s) \<leftarrow> call_effect X R c ctx s;
       Some (if counts err then
         (if maxErrors ctx \<le> errs + 1
          then Return (Some (Errorf ''max errors reached'' (the err))) ctx s
          else Continue (bump ctx) (errs + 1) s)
         else Continue (bump ctx) errs s) })"
proof (cases "c = FinishSubvolume")
  case True
  then have "Cmd h = BTRFS_SEND_C_END" using assms(5) command_of_END [of c] by (metis fst_conv)
  then show ?thesis
    using assms(3,4,6) True
    by (auto simp: process_command_def run_command_def dispatch_command_def loop_end_def
        call_effect_def count_error_def post_op_def split: Option.bind_splits)
next
  case False
  then have "Cmd h \<noteq> BTRFS_SEND_C_END" using assms(5) command_of_END [of c] by (metis fst_conv)
  moreover obtain f where "processFuncs (fst (command_of c)) = Some f"
    "f X R (snd (command_of c)) ctx s = deliver X R c ctx s"
    using handler_delivers [OF assms(1,2) False, where R = R and ctx = ctx and s = s] by blast
  then have "processFuncs (Cmd h) = Some f" "f X R a ctx s = deliver X R c ctx s"
    using assms(5) by (metis fst_conv, metis snd_conv)
  ultimately show ?thesis
    using assms(3,4,6) False
    by (auto simp: process_command_def run_command_def dispatch_command_def call_effect_def
        count_error_def post_op_def split: Option.bind_splits)
qed

lemma process_list_calls:
  assumes "uuid_lib X" "PreOp R = None" "PostOp R = None"
  shows "list_all valid_call calls \<Longrightarrow> stands_for cmds calls \<Longrightarrow>
    startOffset ctx \<le> currentOffset ctx \<Longrightarrow>
    unat (currentOffset ctx) + length calls < 2 ^ 64 \<Longrightarrow>
    process_list X R cmds e ctx errs s = run_calls X R calls e ctx errs s"
proof (induction calls arbitrary: cmds ctx errs s)
  case (Cons c calls)
  then obtain h a cmds' where cmds: "cmds = (h, a) # cmds'" by (cases cmds) auto
  note step = process_call [OF assms(1) _ assms(2,3), of c h a ctx errs s]
  have next_: "process_list X R cmds' e (bump ctx') errs' s' = run_calls X R calls e (bump ctx') errs' s'"
    if "call_effect X R c ctx s = Some (err, ctx', s')" for err ctx' errs' s'
  proof (rule Cons.IH)
    have "same_but_subvol ctx ctx'"
      using that deliver_ctx by (auto simp: call_effect_def split: if_splits Option.bind_splits)
    note fields = same_but_subvol_fields [OF this]
    have "unat (currentOffset ctx + 1) = unat (currentOffset ctx) + 1"
      using Cons.prems(4) by (simp add: unat_word_ariths)
    then show "startOffset (bump ctx') \<le> currentOffset (bump ctx')"
      "unat (currentOffset (bump ctx')) + length calls < 2 ^ 64"
      using Cons.prems(3,4) fields by (simp_all add: word_le_nat_alt)
  qed (use Cons.prems cmds in auto)
  show ?case
    using Cons.prems cmds step next_
    by (auto split: Option.bind_splits simp: loop_end_def)
qed simp

section \<open>Streams of calls\<close>

text \<open>\<open>ws\<close> are the commands of \<open>calls\<close> as a writer sends them, with its traversal orders.\<close>

definition writes_calls :: "written list \<Rightarrow> rcall list \<Rightarrow> bool" where
  "writes_calls ws calls \<longleftrightarrow> map (\<lambda>(cmd, c, _, _). (cmd, c)) ws = map command_of calls
     \<and> list_all valid_written ws \<and> list_all fits ws \<and> list_all valid_call calls"

definition stream_of :: "written list \<Rightarrow> bytes" where
  "stream_of ws = enc_StreamHeader stream_header @ concat (map wire_command ws)"

lemma delivered_stands_for:
  "map (\<lambda>(cmd, c, _, _). (cmd, c)) ws = map command_of calls \<Longrightarrow> stands_for (map delivered ws) calls"
proof (induction ws arbitrary: calls)
  case (Cons w ws)
  obtain cmd c o1 o2 where "w = (cmd, c, o1, o2)" by (cases w)
  with Cons show ?case
    by (cases calls) (auto simp: wire_header_def Let_def)
qed simp

text \<open>The value of \<open>Err\<close> at the end of a complete stream.\<close>

definition stream_end :: "rcall list \<Rightarrow> gerr option" where
  "stream_end calls = (if calls \<noteq> [] \<and> last calls = FinishSubvolume then None else Some EOF)"

lemma scan_stream:
  assumes "writes_calls ws calls"
  shows "scan_all (NewScanner \<lparr>Rest = stream_of ws, RErr = EOF\<rparr> ign)
    = Some (map delivered ws, stream_end calls)"
proof -
  have len: "length ws = length calls"
    using assms by (auto simp: writes_calls_def dest: map_eq_imp_length_eq)
  have "end_err (if ws = [] then zero_CmdHeader else fst (delivered (last ws))) EOF = stream_end calls"
  proof (cases "ws = []")
    case True
    with len show ?thesis
      by (simp add: stream_end_def end_err_def CmdHeader_IsZero_def zero_CmdHeader_def)
  next
    case False
    obtain cmd c o1 o2 where w: "last ws = (cmd, c, o1, o2)" by (cases "last ws")
    have "calls \<noteq> []" using False len by auto
    have "last (map (\<lambda>(cmd, c, _, _). (cmd, c)) ws) = last (map command_of calls)"
      using assms by (simp add: writes_calls_def)
    then have "(cmd, c) = command_of (last calls)"
      using False \<open>calls \<noteq> []\<close> w by (simp add: last_map)
    then have "cmd = fst (command_of (last calls))" by (cases "command_of (last calls)") simp
    then show ?thesis
      using w False \<open>calls \<noteq> []\<close> command_of_END [of "last calls"]
      by (auto simp: stream_end_def end_err_def CmdHeader_IsZero_def wire_header_def Let_def)
  qed
  then show ?thesis
    using scan_all_wire assms by (simp add: stream_of_def scan_all_new writes_calls_def)
qed

lemma receive_loop_calls:
  assumes "uuid_lib X" "writes_calls ws calls" "PreOp R = None" "PostOp R = None"
    and "startOffset ctx \<le> currentOffset ctx" "unat (currentOffset ctx) + length calls < 2 ^ 64"
  shows "receive_loop X R (NewScanner \<lparr>Rest = stream_of ws, RErr = EOF\<rparr> ign) ctx errs s
    = run_calls X R calls (stream_end calls) ctx errs s"
  using assms
  by (simp add: receive_loop_list [OF scan_stream [OF assms(2)]] writes_calls_def
      process_list_calls [OF assms(1,3,4) _ delivered_stands_for assms(5,6)])

text \<open>C2: End-to-end refinement: processing a stream that the writer produced from a list of
  calls (in any traversal orders) has exactly the effect of the specification: the calls are
  delivered to the receiver in order, END and the end of the stream finish the subvolume,
  and errors end the processing at the limit.\<close>

theorem ProcessSendStream_refines:
  assumes "uuid_lib X" "writes_calls ws calls" "PreOp R = None" "PostOp R = None"
    and "length calls < 2 ^ 64"
  shows "ProcessSendStream X \<lparr>Rest = stream_of ws, RErr = EOF\<rparr> [To R, WithMaxErrors n] s
    = do { (e, ctx, s) \<leftarrow> run_calls X R calls (stream_end calls) (initial_ctx\<lparr>maxErrors := n\<rparr>) 0 s;
           Some (e, s) }"
  using assms(5)
  by (simp add: ProcessSendStream_def To_def WithMaxErrors_def initial_ctx_def
      receive_loop_calls [OF assms(1-4)])

text \<open>Sample streams for examples.\<close>

definition sample_uuid :: uuid where
  "sample_uuid = [1, 2, 3, 4, 5, 6, 7, 8, 9, 10, 11, 12, 13, 14, 15, 16]"

definition sample_calls :: "rcall list" where
  "sample_calls = [Subvol ''v'' sample_uuid 7, Mkfile ''a'' 257, Write ''a'' 0 [1, 2], FinishSubvolume]"

definition sample_written :: "written list" where
  "sample_written = map (\<lambda>((cmd, c), ord). (cmd, c, ord, ord))
     (zip (map command_of sample_calls) [[1, 2, 15], [15, 3], [15, 18, 19], []])"

lemma sample_writes: "writes_calls sample_written sample_calls"
  by (simp add: writes_calls_def sample_written_def sample_calls_def new_defs Let_def
      attr_defs range_order_def payload_def data_chunk_def length_attr_chunk sample_uuid_def
      insert_commute)

lemma ProcessSendStream_refines_witness:
  "ProcessSendStream sample_ext \<lparr>Rest = stream_of sample_written, RErr = EOF\<rparr>
      [To recorder, WithMaxErrors 1] [] = Some (None, sample_calls)"
  by (subst ProcessSendStream_refines [OF uuid_lib_sample sample_writes])
    (simp_all add: recorder_def sample_calls_def stream_end_def initial_ctx_def call_effect_def
      begin_subvol_def finish_current_def call_def counts_def bump_def loop_end_def)

section \<open>END\<close>

lemma receive_loop_step:
  assumes "valid_written x" "fits x"
  shows "receive_loop X R (scanner_at ign (wire_command x @ b) e h a) ctx errs s = do {
      st \<leftarrow> process_command X R (fst (delivered x)) (snd (delivered x)) ctx errs s;
      (case st of
         Return e ctx s \<Rightarrow> Some (e, ctx, s)
       | Continue ctx errs s \<Rightarrow>
           receive_loop X R (scanner_at ign b e (fst (delivered x)) (snd (delivered x))) ctx errs s) }"
proof -
  obtain cmd c ordS ordE where x: "x = (cmd, c, ordS, ordE)" by (cases x)
  have "Scan (scanner_at ign (wire_command x @ b) e h a)
      = Some (True, scanner_at ign b e (wire_header cmd c ordE) c)"
    using assms x by (intro Scan_wire)
  then show ?thesis
    using x by (subst receive_loop.simps) (simp add: Command_def)
qed

lemma loop_end_None_not_panic: "loop_end R None ctx s = Some (e, ctx', s') \<Longrightarrow> e = None"
  by (auto simp: loop_end_def split: if_splits Option.bind_splits)

lemma receive_loop_honoured_END:
  assumes "uuid_lib X" "PreOp R = None" "PostOp R = None"
  shows "writes_calls ws calls \<Longrightarrow> FinishSubvolume \<in> set calls \<Longrightarrow> honorEndCmd ctx \<Longrightarrow>
    startOffset ctx = 0 \<Longrightarrow>
    receive_loop X R (scanner_at ign (concat (map wire_command ws) @ junk) e h a) ctx errs s
      = run_calls X R calls E ctx errs s"
proof (induction ws arbitrary: calls h a ctx errs s)
  case Nil
  then show ?case by (auto simp: writes_calls_def)
next
  case (Cons x ws)
  then obtain c cs where calls: "calls = c # cs" by (cases calls) (auto simp: writes_calls_def)
  have x: "(Cmd (fst (delivered x)), snd (delivered x)) = command_of c"
    using Cons.prems(1) calls by (cases x) (auto simp: writes_calls_def wire_header_def Let_def)
  have ws: "writes_calls ws cs" and ok: "valid_written x" "fits x" "valid_call c"
    using Cons.prems(1) calls by (auto simp: writes_calls_def)
  note step = process_call [OF assms(1) ok(3) assms(2,3) x, of ctx errs s]
  have next_: "receive_loop X R (scanner_at ign (concat (map wire_command ws) @ junk) e
        (fst (delivered x)) (snd (delivered x))) (bump ctx') errs' s'
      = run_calls X R cs E (bump ctx') errs' s'"
    if "call_effect X R c ctx s = Some (err, ctx', s')" "c \<noteq> FinishSubvolume" for err ctx' errs' s'
  proof (rule Cons.IH [OF ws])
    have "same_but_subvol ctx ctx'"
      using that deliver_ctx by (auto simp: call_effect_def split: if_splits Option.bind_splits)
    note fields = same_but_subvol_fields [OF this]
    show "FinishSubvolume \<in> set cs" "honorEndCmd (bump ctx')" "startOffset (bump ctx') = 0"
      using Cons.prems(2-4) calls that(2) fields by auto
  qed
  show ?case
    using Cons.prems(3,4) calls step next_
    by (auto simp: receive_loop_step [OF ok(1,2)] dest: loop_end_None_not_panic
        split: Option.bind_splits option.splits)
qed

lemma receive_loop_honoured_stream:
  assumes "uuid_lib X" "writes_calls ws calls" "PreOp R = None" "PostOp R = None"
    and "FinishSubvolume \<in> set calls"
  shows "receive_loop X R (NewScanner \<lparr>Rest = stream_of ws @ junk, RErr = e\<rparr> False)
      (initial_ctx\<lparr>honorEndCmd := True\<rparr>) 0 s
    = run_calls X R calls None (initial_ctx\<lparr>honorEndCmd := True\<rparr>) 0 s"
proof -
  have "Scan (NewScanner \<lparr>Rest = stream_of ws @ junk, RErr = e\<rparr> False)
      = Scan (scanner_at False (concat (map wire_command ws) @ junk) e zero_CmdHeader Map.empty)"
    by (simp add: stream_of_def Scan_def readHeader_wire) (simp add: NewScanner_def Let_def)
  then have "receive_loop X R (NewScanner \<lparr>Rest = stream_of ws @ junk, RErr = e\<rparr> False)
      = receive_loop X R (scanner_at False (concat (map wire_command ws) @ junk) e zero_CmdHeader Map.empty)"
    by (intro ext) (subst (1 2) receive_loop.simps, simp)
  then show ?thesis
    using receive_loop_honoured_END [OF assms(1,3,4,2,5)] by (simp add: initial_ctx_def)
qed

text \<open>C34: With \<open>HonorEndCommand\<close>, nothing behind the first END matters: whatever bytes follow
  in the stream, valid or not, and however the reader ends, the result and the state of the
  receiver are those of the stream without them.\<close>

theorem honoured_END_ignores_rest:
  assumes "uuid_lib X" "writes_calls ws calls" "PreOp R = None" "PostOp R = None"
    and "FinishSubvolume \<in> set calls"
  shows "ProcessSendStream X \<lparr>Rest = stream_of ws @ junk, RErr = e\<rparr> [To R, HonorEndCommand] s
    = ProcessSendStream X \<lparr>Rest = stream_of ws, RErr = EOF\<rparr> [To R, HonorEndCommand] s"
  using receive_loop_honoured_stream [OF assms, of junk e s] receive_loop_honoured_stream [OF assms, of "[]" EOF s]
  by (simp add: ProcessSendStream_def To_def HonorEndCommand_def initial_ctx_def)

lemma honoured_END_ignores_rest_witness:
  "ProcessSendStream sample_ext \<lparr>Rest = stream_of sample_written @ [1, 2, 3], RErr = EnvErr ''reset''\<rparr>
      [To recorder, HonorEndCommand] []
    = ProcessSendStream sample_ext \<lparr>Rest = stream_of sample_written, RErr = EOF\<rparr>
      [To recorder, HonorEndCommand] []"
  by (rule honoured_END_ignores_rest [OF uuid_lib_sample sample_writes])
    (simp_all add: recorder_def sample_calls_def)

section \<open>Resuming at an offset\<close>

lemma seek_call:
  assumes "uuid_lib X" "valid_call c" "(Cmd h, a) = command_of c"
  shows "seek_command X h a ctx errs s
    = Some (Continue ((bump ctx)\<lparr>currentSubvolInfo := seek_subvol [c] (currentSubvolInfo ctx)\<rparr>) errs s)"
proof -
  have u: "FromBytes X u = Inr u" if "length u = 16" for u
    using assms(1) that by (simp add: uuid_lib_def)
  show ?thesis
    using assms(2,3)
    by (cases c) (auto simp: seek_command_def Let_def new_defs attr_defs u bump_def)
qed

lemma seek_subvol_Cons: "seek_subvol (c # cs) i = seek_subvol cs (seek_subvol [c] i)"
  by (cases c) simp_all

text \<open>Seeking over the first \<open>k\<close> commands leaves the receiver alone.\<close>

lemma process_list_seek:
  assumes "uuid_lib X"
  shows "list_all valid_call calls \<Longrightarrow> stands_for cmds calls \<Longrightarrow> k \<le> length calls \<Longrightarrow>
    unat (startOffset ctx) = unat (currentOffset ctx) + k \<Longrightarrow>
    process_list X R cmds e ctx errs s = process_list X R (drop k cmds) e
      (ctx\<lparr>currentOffset := startOffset ctx,
         currentSubvolInfo := seek_subvol (take k calls) (currentSubvolInfo ctx)\<rparr>) errs s"
proof (induction k arbitrary: calls cmds ctx)
  case 0
  then have "currentOffset ctx = startOffset ctx" by (simp add: word_unat_eq_iff)
  then have "ctx\<lparr>currentOffset := startOffset ctx\<rparr> = ctx" by (cases ctx) simp
  then show ?case by simp
next
  case (Suc k)
  then obtain c cs where calls: "calls = c # cs" by (cases calls) auto
  with Suc.prems obtain h a cmds' where cmds: "cmds = (h, a) # cmds'" by (cases cmds) auto
  let ?ctx = "(bump ctx)\<lparr>currentSubvolInfo := seek_subvol [c] (currentSubvolInfo ctx)\<rparr>"
  have lt: "currentOffset ctx < startOffset ctx" using Suc.prems(4) by (simp add: word_less_nat_alt)
  have "unat (startOffset ctx) < 2 ^ 64" using unsigned_less [of "startOffset ctx"] by simp
  then have "unat (currentOffset ctx) + 1 < 2 ^ 64" using Suc.prems(4) by simp
  then have "unat (currentOffset ctx + 1) = unat (currentOffset ctx) + 1"
    by (simp add: unat_word_ariths)
  then have "process_list X R cmds' e ?ctx errs s = process_list X R (drop k cmds') e
      (?ctx\<lparr>currentOffset := startOffset ?ctx,
         currentSubvolInfo := seek_subvol (take k cs) (currentSubvolInfo ?ctx)\<rparr>) errs s"
    using Suc.prems calls cmds by (intro Suc.IH) auto
  moreover have "process_command X R h a ctx errs s = Some (Continue ?ctx errs s)"
    using lt Suc.prems(1,2) calls cmds seek_call [OF assms, of c h a ctx errs s]
    by (simp add: process_command_def)
  ultimately show ?case
    using calls cmds by (simp add: bump_def seek_subvol_Cons [of c "take k cs"])
qed

text \<open>Calls that all succeed, and what is left of a run behind them.\<close>

fun run_ok :: "ext \<Rightarrow> 's receiver \<Rightarrow> rcall list \<Rightarrow> receiveCtx \<Rightarrow> 's \<Rightarrow> (receiveCtx \<times> 's) option" where
  "run_ok X R [] ctx s = Some (ctx, s)"
| "run_ok X R (c # cs) ctx s =
     (case call_effect X R c ctx s of
        Some (None, ctx, s) \<Rightarrow> run_ok X R cs (bump ctx) s
      | _ \<Rightarrow> None)"

lemma write_decompressed_info: "write_decompressed X R p op ctx s = Some (None, ctx', s') \<Longrightarrow> ctx' = ctx"
  by (rule write_decompressed_ctx)

lemma call_effect_ok:
  assumes "call_effect X R c ctx s = Some (None, ctx', s')" "c \<noteq> FinishSubvolume"
  shows "ctx' = ctx\<lparr>currentSubvolInfo := seek_subvol [c] (currentSubvolInfo ctx)\<rparr>"
  using assms
  by (cases c) (auto simp: call_effect_def begin_subvol_def split: Option.bind_splits if_splits
      option.splits dest!: call_ctx write_decompressed_ctx finish_current_ctx)

lemma run_calls_prefix:
  assumes "run_ok X R cs ctx s = Some (ctx', s')" "FinishSubvolume \<notin> set cs"
  shows "run_calls X R (cs @ ds) e ctx errs s = run_calls X R ds e ctx' errs s'
    \<and> ctx' = ctx\<lparr>currentOffset := currentOffset ctx + of_nat (length cs),
        currentSubvolInfo := seek_subvol cs (currentSubvolInfo ctx)\<rparr>"
  using assms
proof (induction cs arbitrary: ctx s)
  case (Cons c cs)
  then obtain ctx1 s1 where c: "call_effect X R c ctx s = Some (None, ctx1, s1)"
    "run_ok X R cs (bump ctx1) s1 = Some (ctx', s')"
    by (auto split: option.splits prod.splits)
  have ctx1: "ctx1 = ctx\<lparr>currentSubvolInfo := seek_subvol [c] (currentSubvolInfo ctx)\<rparr>"
    using call_effect_ok [OF c(1)] Cons.prems(2) by auto
  from Cons.IH [OF c(2)] Cons.prems(2) c(1) show ?case
    by (auto simp: counts_def bump_def ctx1 seek_subvol_Cons [of c cs] algebra_simps)
qed (simp add: receiveCtx.surjective)

text \<open>
  Of \<open>startOffset\<close> and the limit of errors, the specification sees only whether the next error
  reaches the limit.
\<close>

definition retune :: "u64 \<Rightarrow> int \<Rightarrow> receiveCtx \<Rightarrow> receiveCtx" where
  "retune n m ctx = ctx\<lparr>startOffset := n, maxErrors := m\<rparr>"

definition retuned :: "u64 \<Rightarrow> int \<Rightarrow> gerr option \<times> receiveCtx \<times> 's \<Rightarrow> gerr option \<times> receiveCtx \<times> 's"
where
  "retuned n m = (\<lambda>(e, ctx, s). (e, retune n m ctx, s))"

lemma retune_simps [simp]:
  "view (retune n m ctx) = view ctx" "maxErrors (retune n m ctx) = m"
  "currentSubvolInfo (retune n m ctx) = currentSubvolInfo ctx"
  "honorEndCmd (retune n m ctx) = honorEndCmd ctx"
  "forceDecompress (retune n m ctx) = forceDecompress ctx"
  "bump (retune n m ctx) = retune n m (bump ctx)"
  "(retune n m ctx)\<lparr>currentSubvolInfo := i\<rparr> = retune n m (ctx\<lparr>currentSubvolInfo := i\<rparr>)"
  by (cases ctx, simp add: retune_def view_def bump_def)+

lemma retuned_simp [simp]: "retuned n m (e, ctx, s) = (e, retune n m ctx, s)"
  by (simp add: retuned_def)

lemma call_retune: "call R c (retune n m ctx) s = map_option (retuned n m) (call R c ctx s)"
  by (auto simp: call_def split: Option.bind_splits)

lemma write_decompressed_retune: "write_decompressed X R p op (retune n m ctx) s
    = map_option (retuned n m) (write_decompressed X R p op ctx s)"
  by (auto simp: write_decompressed_def call_retune split: sum.splits)

lemma finish_current_retune: "finish_current R (retune n m ctx) s
    = map_option (retuned n m) (finish_current R ctx s)"
  by (auto simp: finish_current_def split: Option.bind_splits option.splits)

lemma begin_subvol_retune: "begin_subvol R p u t msg c (retune n m ctx) s
    = map_option (retuned n m) (begin_subvol R p u t msg c ctx s)"
  by (auto simp: begin_subvol_def finish_current_retune call_retune
      split: Option.bind_splits option.splits)

lemma deliver_retune: "deliver X R c (retune n m ctx) s
    = map_option (retuned n m) (deliver X R c ctx s)"
  by (cases c) (auto simp: begin_subvol_retune call_retune write_decompressed_retune
      split: Option.bind_splits option.splits)

lemma call_effect_retune: "call_effect X R c (retune n m ctx) s
    = map_option (retuned n m) (call_effect X R c ctx s)"
  by (auto simp: call_effect_def deliver_retune split: Option.bind_splits)

lemma loop_end_retune: "loop_end R e (retune n m ctx) s
    = map_option (retuned n m) (loop_end R e ctx s)"
  by (auto simp: loop_end_def split: Option.bind_splits option.splits)

lemma call_effect_ctx:
  "call_effect X R c ctx s = Some (err, ctx', s') \<Longrightarrow> same_but_subvol ctx ctx'"
  using deliver_ctx by (auto simp: call_effect_def split: if_splits Option.bind_splits)

lemma run_calls_retune:
  assumes "\<And>errs. 0 \<le> errs \<Longrightarrow> m \<le> errs + 1 \<longleftrightarrow> maxErrors ctx \<le> errs + 1" "0 \<le> errs"
  shows "run_calls X R cs e (retune n m ctx) errs s
    = map_option (retuned n m) (run_calls X R cs e ctx errs s)"
  using assms
proof (induction cs arbitrary: ctx errs s)
  case (Cons c cs)
  show ?case
  proof (cases "call_effect X R c ctx s")
    case (Some r)
    obtain err ctx' s' where r: "r = (err, ctx', s')" by (cases r)
    have "maxErrors ctx' = maxErrors ctx"
      using call_effect_ctx [of X R c ctx s err ctx' s'] Some r same_but_subvol_fields(1) by blast
    then have "run_calls X R cs e (retune n m (bump ctx')) errs' s'
        = map_option (retuned n m) (run_calls X R cs e (bump ctx') errs' s')" if "0 \<le> errs'" for errs'
      using Cons.prems(1) that by (intro Cons.IH) simp_all
    then show ?thesis
      using Some r Cons.prems \<open>maxErrors ctx' = maxErrors ctx\<close>
      by (auto simp: loop_end_retune call_effect_retune)
  qed (auto simp: loop_end_retune call_effect_retune)
qed (simp add: loop_end_retune)

lemma receive_loop_resume:
  assumes "uuid_lib X" "writes_calls ws calls" "PreOp R = None" "PostOp R = None"
    and "length calls < 2 ^ 64" "k \<le> length calls"
  shows "receive_loop X R (NewScanner \<lparr>Rest = stream_of ws, RErr = EOF\<rparr> False)
      (initial_ctx\<lparr>startOffset := of_nat k\<rparr>) 0 s1
    = map_option (retuned (of_nat k) 0) (run_calls X R (drop k calls) (stream_end calls)
        (initial_ctx\<lparr>currentOffset := of_nat k, currentSubvolInfo := seek_subvol (take k calls) None\<rparr>) 0 s1)"
proof -
  let ?e = "stream_end calls" and ?ds = "drop k calls" and ?k = "of_nat k :: u64"
  let ?ctx = "initial_ctx\<lparr>currentOffset := ?k, currentSubvolInfo := seek_subvol (take k calls) None\<rparr>"
  have k: "unat ?k = k" using assms(5,6) by (simp add: unat_of_nat)
  have st: "stands_for (map delivered ws) calls" "list_all valid_call calls"
    using assms(2) delivered_stands_for by (auto simp: writes_calls_def)
  have "receive_loop X R (NewScanner \<lparr>Rest = stream_of ws, RErr = EOF\<rparr> False)
      (initial_ctx\<lparr>startOffset := ?k\<rparr>) 0 s1
    = process_list X R (drop k (map delivered ws)) ?e (?ctx\<lparr>startOffset := ?k\<rparr>) 0 s1"
    using process_list_seek [OF assms(1) st(2,1) assms(6), of "initial_ctx\<lparr>startOffset := ?k\<rparr>"] k
    by (simp add: receive_loop_list [OF scan_stream [OF assms(2)]] initial_ctx_def)
  also have "\<dots> = run_calls X R ?ds ?e (?ctx\<lparr>startOffset := ?k\<rparr>) 0 s1"
  proof (rule process_list_calls [OF assms(1,3,4)])
    show "list_all valid_call ?ds" "stands_for (drop k (map delivered ws)) ?ds"
      using st by (auto simp: list_all_iff stands_for_def drop_map [symmetric] dest: in_set_dropD)
  qed (use k assms(5,6) in \<open>auto simp: initial_ctx_def\<close>)
  finally show ?thesis
    using run_calls_retune [of 0 ?ctx 0 X R ?ds ?e ?k s1] by (simp add: retune_def initial_ctx_def)
qed



definition two_calls :: "rcall list" where
  "two_calls = [Subvol ''v'' sample_uuid 7, FinishSubvolume, Subvol ''w'' sample_uuid 8, FinishSubvolume]"

definition two_written :: "written list" where
  "two_written = map (\<lambda>((cmd, c), ord). (cmd, c, ord, ord))
     (zip (map command_of two_calls) [[1, 2, 15], [], [15, 1, 2], []])"

lemma two_writes: "writes_calls two_written two_calls"
  by (simp add: writes_calls_def two_written_def two_calls_def new_defs Let_def
      attr_defs range_order_def payload_def data_chunk_def length_attr_chunk sample_uuid_def
      insert_commute)

text \<open>Resuming behind an END is not the same: seeking does not reset the subvolume in
  progress at END, so the subvolume that END had finished is finished once more before the
  next one begins.\<close>

theorem resume_behind_END:
  "ProcessSendStream sample_ext \<lparr>Rest = stream_of two_written, RErr = EOF\<rparr> [To recorder] []
    = Some (None, [Subvol ''v'' sample_uuid 7, FinishSubvolume,
        Subvol ''w'' sample_uuid 8, FinishSubvolume])
   \<and> ProcessSendStream sample_ext \<lparr>Rest = stream_of two_written, RErr = EOF\<rparr>
       [To recorder, FromOffset 2] [Subvol ''v'' sample_uuid 7, FinishSubvolume]
    = Some (None, [Subvol ''v'' sample_uuid 7, FinishSubvolume, FinishSubvolume,
        Subvol ''w'' sample_uuid 8, FinishSubvolume])"
proof -
  have h: "PreOp recorder = None" "PostOp recorder = None" by (simp_all add: recorder_def)
  have len: "length two_calls = 4" "seek_subvol (take 2 two_calls) None
      = Some \<lparr>SubvolPath = ''v'', SubvolUUID = sample_uuid, SubvolCtransid = 7\<rparr>"
    by (simp_all add: two_calls_def)
  have "receive_loop sample_ext recorder (NewScanner \<lparr>Rest = stream_of two_written, RErr = EOF\<rparr> False)
      (initial_ctx\<lparr>startOffset := 2\<rparr>) 0 s
    = map_option (retuned 2 0) (run_calls sample_ext recorder (drop 2 two_calls) (stream_end two_calls)
        (initial_ctx\<lparr>currentOffset := 2, currentSubvolInfo :=
           Some \<lparr>SubvolPath = ''v'', SubvolUUID = sample_uuid, SubvolCtransid = 7\<rparr>\<rparr>) 0 s)" for s
    using receive_loop_resume [OF uuid_lib_sample two_writes h, of 2 s] len by simp
  moreover have "receive_loop sample_ext recorder
      (NewScanner \<lparr>Rest = stream_of two_written, RErr = EOF\<rparr> False) initial_ctx 0 s
    = run_calls sample_ext recorder two_calls (stream_end two_calls) initial_ctx 0 s" for s
    by (rule receive_loop_calls [OF uuid_lib_sample two_writes h]) (simp_all add: initial_ctx_def two_calls_def)
  ultimately show ?thesis
    by (simp add: ProcessSendStream_def To_def FromOffset_def)
      (simp add: two_calls_def recorder_def stream_end_def call_effect_def begin_subvol_def
        finish_current_def call_def counts_def bump_def loop_end_def initial_ctx_def)
qed

section \<open>The limit of errors\<close>

text \<open>Without \<open>WithMaxErrors\<close> the limit is zero, and on the streams of the writer that is
  the same as a limit of one, the documented default: the first error ends the processing.\<close>

theorem default_limit_is_one:
  assumes "uuid_lib X" "writes_calls ws calls" "PreOp R = None" "PostOp R = None"
    and "length calls < 2 ^ 64"
  shows "ProcessSendStream X \<lparr>Rest = stream_of ws, RErr = EOF\<rparr> [To R] s
    = ProcessSendStream X \<lparr>Rest = stream_of ws, RErr = EOF\<rparr> [To R, WithMaxErrors 1] s"
proof -
  have run: "receive_loop X R (NewScanner \<lparr>Rest = stream_of ws, RErr = EOF\<rparr> False)
      (initial_ctx\<lparr>maxErrors := n\<rparr>) 0 s
    = run_calls X R calls (stream_end calls) (initial_ctx\<lparr>maxErrors := n\<rparr>) 0 s" for n
    using receive_loop_calls [OF assms(1-4)] assms(5) by (simp add: initial_ctx_def)
  have "run_calls X R calls (stream_end calls) (retune 0 1 initial_ctx) 0 s
      = map_option (retuned 0 1) (run_calls X R calls (stream_end calls) initial_ctx 0 s)"
    by (rule run_calls_retune) (auto simp: initial_ctx_def)
  moreover have "retune 0 1 initial_ctx = initial_ctx\<lparr>maxErrors := 1\<rparr>"
    "initial_ctx\<lparr>maxErrors := 0\<rparr> = initial_ctx"
    by (simp_all add: retune_def initial_ctx_def)
  ultimately have "receive_loop X R (NewScanner \<lparr>Rest = stream_of ws, RErr = EOF\<rparr> False)
      (initial_ctx\<lparr>maxErrors := 1\<rparr>) 0 s
    = map_option (retuned 0 1) (receive_loop X R
        (NewScanner \<lparr>Rest = stream_of ws, RErr = EOF\<rparr> False) initial_ctx 0 s)"
    using run [of 1] run [of 0] by simp
  then show ?thesis
    by (cases "receive_loop X R (NewScanner \<lparr>Rest = stream_of ws, RErr = EOF\<rparr> False) initial_ctx 0 s")
      (auto simp: ProcessSendStream_def To_def WithMaxErrors_def initial_ctx_def)
qed

lemma default_limit_is_one_witness:
  "ProcessSendStream sample_ext \<lparr>Rest = stream_of sample_written, RErr = EOF\<rparr> [To recorder] []
    = ProcessSendStream sample_ext \<lparr>Rest = stream_of sample_written, RErr = EOF\<rparr>
        [To recorder, WithMaxErrors 1] []"
  by (rule default_limit_is_one [OF uuid_lib_sample sample_writes])
    (simp_all add: recorder_def sample_calls_def)

section \<open>The offset where two streams differ\<close>

definition same_command :: "CmdHeader \<Rightarrow> CmdHeader \<Rightarrow> bool" where
  "same_command a b \<longleftrightarrow> Cmd a = Cmd b \<and> (begins_subvol a \<or> Crc a = Crc b \<and> Len a = Len b)"

fun common_prefix :: "(CmdHeader \<times> CmdAttrs) list \<Rightarrow> (CmdHeader \<times> CmdAttrs) list \<Rightarrow> nat" where
  "common_prefix (a # as) (b # bs) =
     (if same_command (fst a) (fst b) then Suc (common_prefix as bs) else 0)"
| "common_prefix _ _ = 0"

lemma scan_all_cases:
  assumes "scan_all stream = Some (cs, e)"
  obtains stream' where "Scan stream = Some (False, stream')" "cs = []" "e = Err stream'"
  | stream' cs' where "Scan stream = Some (True, stream')" "scan_all stream' = Some (cs', e)"
      "cs = Command stream' # cs'"
  using assms by (auto simp: scan_all.simps [of stream] split: Option.bind_splits if_splits)

lemma diff_loop_common:
  "scan_all A = Some (as, ea) \<Longrightarrow> scan_all B = Some (bs, eb) \<Longrightarrow>
   diff_loop A B off = Some (off + of_nat (common_prefix as bs),
     if common_prefix as bs = length as then ea
     else if common_prefix as bs = length bs then eb else None)"
proof (induction as arbitrary: A B bs off)
  case Nil
  from Nil.prems(1) show ?case
    by (cases rule: scan_all_cases) (auto simp: diff_loop.simps [of A])
next
  case (Cons a as)
  from Cons.prems(1) obtain A' where A: "Scan A = Some (True, A')" "scan_all A' = Some (as, ea)"
    "a = Command A'"
    by (cases rule: scan_all_cases) auto
  from Cons.prems(2) show ?case
  proof (cases rule: scan_all_cases)
    case (1 B')
    then show ?thesis using A by (simp add: diff_loop.simps [of A B])
  next
    case (2 B' bs')
    show ?thesis
      using Cons.IH [OF A(2) 2(2)] A 2
      by (auto simp: diff_loop.simps [of A B] Command_def same_command_def algebra_simps)
  qed
qed

lemma sample_differs:
  "common_prefix (map delivered sample_written) (map delivered two_written) = 1"
  "length sample_written = 4" "length two_written = 4"
  by (simp_all add: sample_written_def two_written_def sample_calls_def two_calls_def new_defs
      same_command_def begins_subvol_def wire_header_def Let_def)

text \<open>C21: \<open>FindDiffOffset\<close> returns the length of the longest common prefix of the two command
  sequences, where SUBVOL and SNAPSHOT commands agree whatever they contain and other commands
  agree when number, checksum and length do; the error is that of the stream that ends there.\<close>

theorem FindDiffOffset_common_prefix:
  assumes "scan_all (NewScanner a False) = Some (as, ea)"
    and "scan_all (NewScanner b False) = Some (bs, eb)"
  shows "FindDiffOffset a b = Some (of_nat (common_prefix as bs),
     if common_prefix as bs = length as then ea
     else if common_prefix as bs = length bs then eb else None)"
  using diff_loop_common [OF assms, of 0] by (simp add: FindDiffOffset_def)

lemma FindDiffOffset_common_prefix_witness:
  "FindDiffOffset \<lparr>Rest = stream_of sample_written, RErr = EOF\<rparr> \<lparr>Rest = stream_of two_written, RErr = EOF\<rparr>
    = Some (1, None)"
  by (subst FindDiffOffset_common_prefix [OF scan_stream [OF sample_writes] scan_stream [OF two_writes]])
    (simp add: sample_differs)

end
