(* ===== verification/Dispatch.thy ===== *)
theory Dispatch
  imports ReceiveSpec
begin

text \<open>
  The receiver that passes every call on to several receivers
  (\<^verbatim>\<open>pkg/receive/receivers/dispatch/dispatch.go\<close>). Its state is the list of their states.
  Every method has the same body, a loop over the receivers that stops at the first error.
\<close>

fun dispatch_loop :: "ReceiveContext \<Rightarrow> rcall \<Rightarrow> 's receiver list \<Rightarrow> 's list \<Rightarrow> (gerr option \<times> 's list) go" where
  "dispatch_loop ctx c (r # rs) (s # ss) = do {
     (err, s) \<leftarrow> recv r ctx c s;
     (case err of
        Some e \<Rightarrow> Some (Some e, s # ss)
      | None \<Rightarrow> do { (err, ss) \<leftarrow> dispatch_loop ctx c rs ss; Some (err, s # ss) }) }"
| "dispatch_loop ctx c _ ss = Some (None, ss)"

text \<open>The type has the methods of \<^verbatim>\<open>Receiver\<close> only.\<close>

definition dispatch_receiver :: "'s receiver list \<Rightarrow> 's list receiver" where
  "dispatch_receiver rs = \<lparr>recv = (\<lambda>ctx c ss. dispatch_loop ctx c rs ss), PreOp = None, PostOp = None\<rparr>"

lemma dispatch_receiver_simps [simp]:
  "recv (dispatch_receiver rs) ctx c ss = dispatch_loop ctx c rs ss"
  "PreOp (dispatch_receiver rs) = None" "PostOp (dispatch_receiver rs) = None"
  by (simp_all add: dispatch_receiver_def)

lemma dispatch_loop_append:
  "length rs = length ss \<Longrightarrow> dispatch_loop ctx c (rs @ rs') (ss @ ss') =
     do { (err, ss1) \<leftarrow> dispatch_loop ctx c rs ss;
          (case err of
             Some e \<Rightarrow> Some (Some e, ss1 @ ss')
           | None \<Rightarrow> do { (err, ss2) \<leftarrow> dispatch_loop ctx c rs' ss'; Some (err, ss1 @ ss2) }) }"
proof (induction rs ss rule: list_induct2)
  case (Cons r rs s ss)
  then show ?case by (cases "recv r ctx c s") (auto split: option.splits Option.bind_splits)
qed (auto split: Option.bind_splits)

lemma dispatch_loop_length:
  "dispatch_loop ctx c rs ss = Some (err, ss') \<Longrightarrow> length ss' = length ss"
  by (induction ctx c rs ss arbitrary: ss' rule: dispatch_loop.induct)
     (auto split: Option.bind_splits option.splits)

definition never_fails :: "'s receiver \<Rightarrow> bool" where
  "never_fails R \<longleftrightarrow> (\<forall>ctx c s. \<exists>s'. recv R ctx c s = Some (None, s')) \<and> PreOp R = None \<and> PostOp R = None"

lemma dispatch_two:
  "dispatch_loop ctx c [r1, r2] [s1, s2] = do {
     (err, s1) \<leftarrow> recv r1 ctx c s1;
     (case err of
        Some e \<Rightarrow> Some (Some e, [s1, s2])
      | None \<Rightarrow> do { (err, s2) \<leftarrow> recv r2 ctx c s2; Some (err, [s1, s2]) }) }"
  by (auto split: Option.bind_splits option.splits)

text \<open>The state of one receiver follows the run of that receiver alone.\<close>

definition step_of :: "'s receiver \<Rightarrow> ReceiveContext \<Rightarrow> rcall \<Rightarrow> 's \<Rightarrow> 's" where
  "step_of R ctx c s = snd (the (recv R ctx c s))"

lemma never_fails_step: "never_fails R \<Longrightarrow> recv R ctx c s = Some (None, step_of R ctx c s)"
  unfolding never_fails_def step_of_def by (metis option.sel snd_conv)

lemma dispatch_never_fails:
  "list_all never_fails rs \<Longrightarrow> length rs = length ss \<Longrightarrow>
     dispatch_loop ctx c rs ss = Some (None, map2 (\<lambda>R s. step_of R ctx c s) rs ss)"
proof (induction rs arbitrary: ss)
  case (Cons r rs)
  then show ?case by (cases ss) (auto simp: never_fails_step)
qed auto

section \<open>Receivers beside each other\<close>

text \<open>Two receivers in lockstep: related states stay related and no call fails.\<close>

definition lockstep :: "'s receiver \<Rightarrow> 't receiver \<Rightarrow> ('s \<Rightarrow> 't \<Rightarrow> bool) \<Rightarrow> bool" where
  "lockstep R S rel \<longleftrightarrow> (\<forall>ctx c s t. rel s t \<longrightarrow>
     (\<exists>s' t'. recv R ctx c s = Some (None, s') \<and> recv S ctx c t = Some (None, t') \<and> rel s' t'))"

definition related :: "('s \<Rightarrow> 't \<Rightarrow> bool) \<Rightarrow> (gerr option \<times> receiveCtx \<times> 's) go \<Rightarrow>
    (gerr option \<times> receiveCtx \<times> 't) go \<Rightarrow> bool" where
  "related rel x y \<longleftrightarrow> (case (x, y) of
     (Some (e, ctx, s), Some (e', ctx', t)) \<Rightarrow> e = e' \<and> ctx = ctx' \<and> rel s t
   | (None, None) \<Rightarrow> True | _ \<Rightarrow> False)"

lemma related_Some [simp]: "related rel (Some (e, ctx, s)) (Some (e', ctx', t)) \<longleftrightarrow> e = e' \<and> ctx = ctx' \<and> rel s t"
  and related_None [simp]: "related rel None None"
  by (simp_all add: related_def)

lemma relatedD: "related rel x y \<Longrightarrow> x = None \<and> y = None
    \<or> (\<exists>e ctx s t. x = Some (e, ctx, s) \<and> y = Some (e, ctx, t) \<and> rel s t)"
  by (auto simp: related_def split: option.splits)

lemma related_bind:
  assumes "related rel x y" "\<And>e ctx s t. rel s t \<Longrightarrow> related rel (f (e, ctx, s)) (g (e, ctx, t))"
  shows "related rel (x \<bind> f) (y \<bind> g)"
  using relatedD [OF assms(1)] assms(2) by auto

lemma lockstepD:
  assumes "lockstep R S rel" "rel s t"
  obtains s' t' where "recv R ctx c s = Some (None, s')" "recv S ctx c t = Some (None, t')" "rel s' t'"
  using assms unfolding lockstep_def by blast

lemma lockstep_call:
  assumes "lockstep R S rel" "rel s t"
  shows "related rel (call R c ctx s) (call S c ctx t)"
  by (rule lockstepD [OF assms, of "view ctx" c]) (simp add: call_def)

lemma lockstep_deliver:
  assumes "lockstep R S rel" "rel s t"
  shows "related rel (deliver X R c ctx s) (deliver X S c ctx t)"
proof -
  note call = lockstep_call [OF assms(1)]
  have finish: "related rel (finish_current R ctx s) (finish_current S ctx t)" if "rel s t" for s t ctx
    by (rule lockstepD [OF assms(1) that, of "view ctx" FinishSubvolume]) (simp add: finish_current_def that)
  have subvol: "related rel (begin_subvol R p u x m c ctx s) (begin_subvol S p u x m c ctx t)" for p u x m c
    unfolding begin_subvol_def
    by (rule related_bind [OF finish [OF assms(2)]]) (auto intro: call split: option.splits)
  have wd: "related rel (write_decompressed X R p op ctx s) (write_decompressed X S p op ctx t)"
    if "rel s t" for p op s t
    using that by (auto simp: write_decompressed_def intro: call split: sum.splits)
  show ?thesis
  proof (cases c)
    case (EncodedWrite p op)
    obtain s' t' where "recv R (view ctx) c s = Some (None, s')" "recv S (view ctx) c t = Some (None, t')" "rel s' t'"
      using assms unfolding lockstep_def by blast
    then show ?thesis using EncodedWrite wd [OF assms(2)] by simp
  qed (simp_all add: subvol call assms(2))
qed

lemma lockstep_loop_end:
  assumes "lockstep R S rel" "rel s t"
  shows "related rel (loop_end R e ctx s) (loop_end S e ctx t)"
  by (rule lockstepD [OF assms, of "view ctx" FinishSubvolume])
     (auto simp: loop_end_def assms(2) split: option.splits)

lemma lockstep_run_calls:
  assumes "lockstep R S rel"
  shows "rel s t \<Longrightarrow> related rel (run_calls X R calls e ctx errs s) (run_calls X S calls e ctx errs t)"
proof (induction calls arbitrary: s t ctx errs)
  case Nil
  then show ?case using lockstep_loop_end [OF assms] by simp
next
  case (Cons c calls)
  have effect: "related rel (call_effect X R c ctx s) (call_effect X S c ctx t)"
    by (rule lockstepD [OF assms Cons.prems, of "view ctx" FinishSubvolume])
       (simp add: call_effect_def lockstep_deliver [OF assms Cons.prems])
  show ?case
  proof (cases "c = FinishSubvolume \<and> honorEndCmd ctx")
    case True
    then show ?thesis using lockstep_loop_end [OF assms Cons.prems] by simp
  next
    case False
    then show ?thesis
      by (simp only: run_calls.simps if_False) (rule related_bind [OF effect], auto intro: Cons.IH)
  qed
qed

lemma dispatch_lockstep:
  assumes "list_all never_fails rs" "i < length rs"
  shows "lockstep (dispatch_receiver rs) (rs ! i) (\<lambda>ss s. length ss = length rs \<and> ss ! i = s)"
  unfolding lockstep_def
proof (intro allI impI)
  fix ctx c s and ss :: "'a list"
  assume *: "length ss = length rs \<and> ss ! i = s"
  let ?ss = "map2 (\<lambda>R s. step_of R ctx c s) rs ss"
  have "never_fails (rs ! i)" using assms by (simp add: list_all_length)
  then have "recv (rs ! i) ctx c s = Some (None, ?ss ! i)"
    using * assms(2) by (simp add: never_fails_step)
  moreover have "recv (dispatch_receiver rs) ctx c ss = Some (None, ?ss)"
    using dispatch_never_fails [OF assms(1)] * by simp
  ultimately show "\<exists>ss' s'. recv (dispatch_receiver rs) ctx c ss = Some (None, ss')
      \<and> recv (rs ! i) ctx c s = Some (None, s') \<and> length ss' = length rs \<and> ss' ! i = s'"
    using * by auto
qed

text \<open>C38:
  Receivers that never fail do not notice the others: processing a list of calls through the
  dispatcher gives every receiver exactly the state that it would have on its own.
\<close>

theorem dispatch_independent:
  assumes "list_all never_fails rs" "length ss = length rs" "i < length rs"
    and "run_calls X (dispatch_receiver rs) calls e ctx errs ss = Some (err, ctx', ss')"
  shows "run_calls X (rs ! i) calls e ctx errs (ss ! i) = Some (err, ctx', ss' ! i)"
  using lockstep_run_calls [OF dispatch_lockstep [OF assms(1,3)], of ss "ss ! i" X calls e ctx errs] assms(2,4)
  by (auto simp: related_def split: option.splits)

lemma dispatch_independent_witness:
  "run_calls sample_ext ([recorder, recorder] ! 1) [Mkfile ''f'' 1, Unlink ''g''] None initial_ctx 0 ([[], []] ! 1)
    = Some (None, bump (bump initial_ctx), [[Mkfile ''f'' 1, Unlink ''g''], [Mkfile ''f'' 1, Unlink ''g'']] ! 1)"
  by (rule dispatch_independent [where rs = "[recorder, recorder]"])
     (simp_all add: never_fails_def recorder_def call_effect_def call_def counts_def loop_end_def initial_ctx_def
        bump_def)

end
