(* ===== verification/Roots.thy ===== *)
theory Roots
  imports Commands GoPath
begin

text \<open>
  The data that the btrfs package reads from the tree of tree roots: times as Go keeps them,
  the on-disk structures (\<^verbatim>\<open>pkg/btrfs/zz_ctypes_manual.go\<close>, \<^verbatim>\<open>zz_ioctl_types.go\<close>) with their
  little-endian decoding, and \<^verbatim>\<open>RootInfo\<close> (\<^verbatim>\<open>btrfs_rb_tree.go\<close>), the description of a
  subvolume.
\<close>

section \<open>Time\<close>

text \<open>
  A \<^verbatim>\<open>time.Time\<close> without a monotonic reading is the number of nanoseconds since the Unix
  epoch. Its zero value is the first of January of year 1. \<^verbatim>\<open>time.Unix\<close> counts seconds from
  there in 64 bits, which wrap around; the difference of two times saturates at the bounds
  of the 64-bit \<^verbatim>\<open>time.Duration\<close>.
\<close>

type_synonym time = int

definition unixToInternal :: int where [simp]: "unixToInternal = 62135596800"

definition instant :: "gotime \<Rightarrow> time" where
  "instant g = (sint (UnixSec g + of_int unixToInternal) - unixToInternal) * 1000000000
     + uint (Nanosecond g)"

abbreviation Unix :: "BtrfsTimespec \<Rightarrow> time" where "Unix ts \<equiv> instant (Timespec_Time ts)"

definition ZeroTime :: time where "ZeroTime = - unixToInternal * 1000000000"

abbreviation IsZero :: "time \<Rightarrow> bool" where "IsZero t \<equiv> t = ZeroTime"

definition maxDuration :: int where [simp]: "maxDuration = 2 ^ 63 - 1"
definition minDuration :: int where [simp]: "minDuration = - (2 ^ 63)"

definition Sub :: "time \<Rightarrow> time \<Rightarrow> int" where
  "Sub t u = max minDuration (min maxDuration (t - u))"

lemma Sub_less_iff: "minDuration < d \<Longrightarrow> d \<le> maxDuration \<Longrightarrow> Sub t u < d \<longleftrightarrow> t - u < d"
  and less_Sub_iff: "minDuration \<le> d \<Longrightarrow> d < maxDuration \<Longrightarrow> d < Sub t u \<longleftrightarrow> d < t - u"
  by (auto simp: Sub_def)

lemma Sub_self [simp]: "Sub t t = 0"
  by (simp add: Sub_def)

lemma Sub_mono: "t \<le> t' \<Longrightarrow> Sub t u \<le> Sub t' u"
  by (auto simp: Sub_def)

section \<open>Structures of the kernel\<close>

text \<open>The little-endian integer of \<open>n\<close> bytes at an offset of a structure.\<close>

definition le_at :: "nat \<Rightarrow> nat \<Rightarrow> bytes \<Rightarrow> 'a::len word" where
  "le_at off n bs = le_dec (take n (drop off bs))"

definition bytes_at :: "nat \<Rightarrow> nat \<Rightarrow> bytes \<Rightarrow> bytes" where
  "bytes_at off n bs = take n (drop off bs)"

text \<open>
  \<^verbatim>\<open>binary.Read\<close> of a structure of \<open>n\<close> bytes: \<^verbatim>\<open>EOF\<close> on an empty input, an unexpected
  \<^verbatim>\<open>EOF\<close> on a short one, else the value and the unread rest.
\<close>

definition binary_Read :: "nat \<Rightarrow> (bytes \<Rightarrow> 'v) \<Rightarrow> bytes \<Rightarrow> gerr + 'v \<times> bytes" where
  "binary_Read n dec bs =
     (if n = 0 then Inr (dec [], bs)
      else if bs = [] then Inl EOF
      else if length bs < n then Inl ErrUnexpectedEOF
      else Inr (dec (take n bs), drop n bs))"

record BtrfsDiskKey =
  Objectid :: u64
  DType :: byte
  DOffset :: u64

definition dec_BtrfsDiskKey :: "bytes \<Rightarrow> BtrfsDiskKey" where
  "dec_BtrfsDiskKey b = \<lparr>Objectid = le_at 0 8 b, DType = le_at 8 1 b, DOffset = le_at 9 8 b\<rparr>"

definition dec_timespec :: "bytes \<Rightarrow> BtrfsTimespec" where
  "dec_timespec b = \<lparr>Sec = le_at 0 8 b, Nsec = le_at 8 4 b\<rparr>"

record BtrfsInodeItem =
  InGeneration :: u64
  InTransid :: u64
  InSize :: u64
  InNbytes :: u64
  InGroup :: u64
  InNlink :: u32
  InUid :: u32
  InGid :: u32
  InMode :: u32
  InRdev :: u64
  InFlags :: u64
  InSequence :: u64
  InReserved :: "u64 list"
  InAtime :: BtrfsTimespec
  InCtime :: BtrfsTimespec
  InMtime :: BtrfsTimespec
  InOtime :: BtrfsTimespec

definition dec_BtrfsInodeItem :: "bytes \<Rightarrow> BtrfsInodeItem" where
  "dec_BtrfsInodeItem b = \<lparr>
     InGeneration = le_at 0 8 b, InTransid = le_at 8 8 b, InSize = le_at 16 8 b,
     InNbytes = le_at 24 8 b, InGroup = le_at 32 8 b, InNlink = le_at 40 4 b, InUid = le_at 44 4 b,
     InGid = le_at 48 4 b, InMode = le_at 52 4 b, InRdev = le_at 56 8 b, InFlags = le_at 64 8 b,
     InSequence = le_at 72 8 b, InReserved = map (\<lambda>i. le_at (80 + 8 * i) 8 b) [0..<4],
     InAtime = dec_timespec (drop 112 b), InCtime = dec_timespec (drop 124 b),
     InMtime = dec_timespec (drop 136 b), InOtime = dec_timespec (drop 148 b)\<rparr>"

record BtrfsRootItem =
  RInode :: BtrfsInodeItem
  RGeneration :: u64
  RRoot_dirid :: u64
  RBytenr :: u64
  RByte_limit :: u64
  RBytes_used :: u64
  RLast_snapshot :: u64
  RFlags :: u64
  RRefs :: u32
  RDropProgress :: BtrfsDiskKey
  RDrop_level :: byte
  RLevel :: byte
  RGenerationV2 :: u64
  RUuid :: uuid
  RParent_uuid :: uuid
  RReceived_uuid :: uuid
  RCtransid :: u64
  ROtransid :: u64
  RStransid :: u64
  RRtransid :: u64
  RCtime :: BtrfsTimespec
  ROtime :: BtrfsTimespec
  RStime :: BtrfsTimespec
  RRtime :: BtrfsTimespec
  RGlobal_tree_id :: u64
  RReserved :: "u64 list"

definition sizeof_BtrfsRootItem :: nat where [simp]: "sizeof_BtrfsRootItem = 439"

definition dec_BtrfsRootItem :: "bytes \<Rightarrow> BtrfsRootItem" where
  "dec_BtrfsRootItem b = \<lparr>
     RInode = dec_BtrfsInodeItem b, RGeneration = le_at 160 8 b, RRoot_dirid = le_at 168 8 b,
     RBytenr = le_at 176 8 b, RByte_limit = le_at 184 8 b, RBytes_used = le_at 192 8 b,
     RLast_snapshot = le_at 200 8 b, RFlags = le_at 208 8 b, RRefs = le_at 216 4 b,
     RDropProgress = dec_BtrfsDiskKey (drop 220 b), RDrop_level = le_at 237 1 b,
     RLevel = le_at 238 1 b, RGenerationV2 = le_at 239 8 b, RUuid = bytes_at 247 16 b,
     RParent_uuid = bytes_at 263 16 b, RReceived_uuid = bytes_at 279 16 b,
     RCtransid = le_at 295 8 b, ROtransid = le_at 303 8 b, RStransid = le_at 311 8 b,
     RRtransid = le_at 319 8 b, RCtime = dec_timespec (drop 327 b),
     ROtime = dec_timespec (drop 339 b), RStime = dec_timespec (drop 351 b),
     RRtime = dec_timespec (drop 363 b), RGlobal_tree_id = le_at 375 8 b,
     RReserved = map (\<lambda>i. le_at (383 + 8 * i) 8 b) [0..<7]\<rparr>"

record BtrfsRootRef =
  Dirid :: u64
  RSequence :: u64
  RLen :: u16

definition sizeof_BtrfsRootRef :: nat where [simp]: "sizeof_BtrfsRootRef = 18"

definition dec_BtrfsRootRef :: "bytes \<Rightarrow> BtrfsRootRef" where
  "dec_BtrfsRootRef b = \<lparr>Dirid = le_at 0 8 b, RSequence = le_at 8 8 b, RLen = le_at 16 2 b\<rparr>"

section \<open>Subvolumes\<close>

text \<open>
  The pointer from a \<^verbatim>\<open>RootInfo\<close> to its node is in the tree's store; the snapshots of a
  subvolume are an extension of the record, since the snapshots themselves have none.
\<close>

record RootInfo =
  RootID :: u64
  RootOffset :: u64
  Flags :: u64
  RefTree :: u64
  DirID :: u64
  TopID :: u64
  Generation :: u64
  OriginalGeneration :: u64
  CreationTime :: time
  SendTime :: time
  ReceiveTime :: time
  UUID :: uuid
  ParentUUID :: uuid
  ReceivedUUID :: uuid
  Path :: string
  Name :: string
  FullPath :: string
  Deleted :: bool
  Item :: "BtrfsRootItem option"
  Ref :: "BtrfsRootRef option"

record SubvolInfo = RootInfo +
  Snapshots :: "RootInfo list"

definition NilUUID :: uuid where [simp]: "NilUUID = replicate 16 0"

text \<open>The zero value \<^verbatim>\<open>RootInfo{}\<close>.\<close>

definition empty_info :: RootInfo where
  "empty_info = \<lparr>RootID = 0, RootOffset = 0, Flags = 0, RefTree = 0, DirID = 0, TopID = 0,
     Generation = 0, OriginalGeneration = 0, CreationTime = ZeroTime, SendTime = ZeroTime,
     ReceiveTime = ZeroTime, UUID = NilUUID, ParentUUID = NilUUID, ReceivedUUID = NilUUID,
     Path = [], Name = [], FullPath = [], Deleted = False, Item = None, Ref = None\<rparr>"

end
