(* ===== verification/Kernel.thy ===== *)
theory Kernel
  imports Roots
begin

text \<open>
  The operating system as the btrfs package uses it: the functions of \<^verbatim>\<open>os\<close>,
  \<^verbatim>\<open>path/filepath\<close> and \<^verbatim>\<open>syscall\<close> over an arbitrary state of the world, and the calls of
  \<^verbatim>\<open>pkg/btrfs/ioctl.go\<close> on top of them. A function of the package takes the world and
  returns its error or value with the new world, or \<open>None\<close> for a run-time panic or a
  call that does not return.
\<close>

section \<open>Computations\<close>

type_synonym ('w, 'a) io = "'w \<Rightarrow> ((gerr + 'a) \<times> 'w) option"

definition ok :: "'a \<Rightarrow> ('w, 'a) io" where "ok a w = Some (Inr a, w)"

definition fail :: "gerr \<Rightarrow> ('w, 'a) io" where "fail e w = Some (Inl e, w)"

text \<open>\<^verbatim>\<open>x, err := m; if err != nil { return err }\<close>\<close>

definition andThen :: "('w, 'a) io \<Rightarrow> ('a \<Rightarrow> ('w, 'b) io) \<Rightarrow> ('w, 'b) io" where
  "andThen m f w = (case m w of
     None \<Rightarrow> None | Some (Inl e, w) \<Rightarrow> Some (Inl e, w) | Some (Inr a, w) \<Rightarrow> f a w)"

text \<open>The same with a wrapped error, and a call whose error is a value.\<close>

definition wrapping :: "string \<Rightarrow> ('w, 'a) io \<Rightarrow> ('w, 'a) io" where
  "wrapping msg m w = (case m w of
     None \<Rightarrow> None | Some (Inl e, w) \<Rightarrow> Some (Inl (Errorf msg e), w) | Some (Inr a, w) \<Rightarrow> Some (Inr a, w))"

definition result :: "('w, 'a) io \<Rightarrow> ('w, gerr + 'a) io" where
  "result m w = (case m w of None \<Rightarrow> None | Some (r, w) \<Rightarrow> Some (Inr r, w))"

definition lift_go :: "'a go \<Rightarrow> ('w, 'a) io" where
  "lift_go g w = (case g of None \<Rightarrow> None | Some a \<Rightarrow> Some (Inr a, w))"

definition lift_sum :: "gerr + 'a \<Rightarrow> ('w, 'a) io" where
  "lift_sum r w = Some (r, w)"

lemma ok_andThen [simp]: "andThen (ok a) f = f a"
  and fail_andThen [simp]: "andThen (fail e) f = fail e"
  by (auto simp: andThen_def ok_def fail_def)

lemma andThen_ok [simp]: "andThen m ok = m"
  by (rule ext) (auto simp: andThen_def ok_def split: option.splits sum.splits)

lemma andThen_assoc: "andThen (andThen m f) g = andThen m (\<lambda>a. andThen (f a) g)"
  by (rule ext) (auto simp: andThen_def split: option.splits sum.splits)

section \<open>Calls to the system\<close>

type_synonym fd = u64
type_synonym IoctlCmd = u64

record 'w kernel =
  sys_Abs :: "string \<Rightarrow> ('w, string) io"
  sys_Open :: "string \<Rightarrow> ('w, fd) io"
  sys_OpenWrite :: "string \<Rightarrow> ('w, fd) io"
  sys_Close :: "fd \<Rightarrow> 'w \<Rightarrow> 'w"
  sys_MkdirAll :: "string \<Rightarrow> u32 \<Rightarrow> ('w, unit) io"
  sys_RemoveAll :: "string \<Rightarrow> ('w, unit) io"
  sys_Statfs :: "string \<Rightarrow> ('w, u64) io"
  sys_ReadFile :: "string \<Rightarrow> ('w, string) io"
  sys_ioctl :: "fd \<Rightarrow> IoctlCmd \<Rightarrow> bytes \<Rightarrow> ('w, bytes) io"

text \<open>\<^verbatim>\<open>defer f.Close()\<close>\<close>

definition closing :: "'w kernel \<Rightarrow> fd \<Rightarrow> ('w, 'a) io \<Rightarrow> ('w, 'a) io" where
  "closing k f m w = (case m w of None \<Rightarrow> None | Some (r, w) \<Rightarrow> Some (r, sys_Close k f w))"

section \<open>Ioctls\<close>

definition ioctl :: "'w kernel \<Rightarrow> fd \<Rightarrow> IoctlCmd \<Rightarrow> bytes \<Rightarrow> ('w, bytes) io" where
  "ioctl k fd name data = wrapping ''ioctl failed'' (sys_ioctl k fd name data)"

text \<open>
  A structure type is given by its size, its encoder and its decoder. The argument of the
  ioctl is the encoded structure, which is decoded again when the call has succeeded.
\<close>

definition callWriteIoctl :: "nat \<Rightarrow> ('v \<Rightarrow> bytes) \<Rightarrow> (bytes \<Rightarrow> 'v) \<Rightarrow> 'w kernel \<Rightarrow> fd \<Rightarrow> IoctlCmd \<Rightarrow> 'v
    \<Rightarrow> ('w, 'v) io" where
  "callWriteIoctl n enc dec k fd c data =
     andThen (ioctl k fd c (enc data)) (\<lambda>buf. lift_sum (map_sum id fst (binary_Read n dec buf)))"

definition ioctlUint64 :: "'w kernel \<Rightarrow> fd \<Rightarrow> IoctlCmd \<Rightarrow> u64 \<Rightarrow> ('w, u64) io" where
  "ioctlUint64 k fd name data = andThen (ioctl k fd name (le_enc 8 data)) (\<lambda>b. ok (le_dec (take 8 b)))"

definition BTRFS_IOC_SYNC :: IoctlCmd where [simp]: "BTRFS_IOC_SYNC = 0x9408"
definition BTRFS_IOC_CLONE_RANGE :: IoctlCmd where [simp]: "BTRFS_IOC_CLONE_RANGE = 0x4020940d"
definition BTRFS_IOC_TREE_SEARCH :: IoctlCmd where [simp]: "BTRFS_IOC_TREE_SEARCH = 0xd0009411"
definition BTRFS_IOC_INO_LOOKUP :: IoctlCmd where [simp]: "BTRFS_IOC_INO_LOOKUP = 0xd0009412"
definition BTRFS_IOC_SNAP_CREATE_V2 :: IoctlCmd where [simp]: "BTRFS_IOC_SNAP_CREATE_V2 = 0x50009417"
definition BTRFS_IOC_SUBVOL_CREATE_V2 :: IoctlCmd where [simp]: "BTRFS_IOC_SUBVOL_CREATE_V2 = 0x50009418"
definition BTRFS_IOC_SUBVOL_GETFLAGS :: IoctlCmd where [simp]: "BTRFS_IOC_SUBVOL_GETFLAGS = 0x80089419"
definition BTRFS_IOC_SUBVOL_SETFLAGS :: IoctlCmd where [simp]: "BTRFS_IOC_SUBVOL_SETFLAGS = 0x4008941a"
definition BTRFS_IOC_SET_RECEIVED_SUBVOL :: IoctlCmd where
  [simp]: "BTRFS_IOC_SET_RECEIVED_SUBVOL = 0xc0c89425"
definition BTRFS_IOC_SNAP_DESTROY_V2 :: IoctlCmd where [simp]: "BTRFS_IOC_SNAP_DESTROY_V2 = 0x5000943f"
definition BTRFS_IOC_ENCODED_WRITE :: IoctlCmd where [simp]: "BTRFS_IOC_ENCODED_WRITE = 0x40809440"

end
