(* ===== verification/Snaputil.thy ===== *)
theory Snaputil
  imports Roots "HOL-Library.Multiset"
begin

text \<open>
  Lists of snapshots (\<^verbatim>\<open>pkg/cmd/snaputil/snaputil.go\<close>): sorting by creation time, the
  selection of the managed snapshots of a subvolume, the chain of parents for incremental
  sends, and lookups.
\<close>

section \<open>Sorting\<close>

text \<open>
  \<^verbatim>\<open>sort.Slice\<close> is not stable: its result is some arrangement of the slice without a later
  element that is less than an earlier one, when \<^verbatim>\<open>less\<close> is a strict weak order. Which one
  is left open: the algorithm is an argument of the model, of which \<open>sort_Slice_ok\<close> is
  assumed.
\<close>

type_synonym sorter = "(RootInfo \<Rightarrow> RootInfo \<Rightarrow> bool) \<Rightarrow> RootInfo list \<Rightarrow> RootInfo list"

definition strict_weak_order :: "('a \<Rightarrow> 'a \<Rightarrow> bool) \<Rightarrow> bool" where
  "strict_weak_order lt \<longleftrightarrow> (\<forall>x. \<not> lt x x) \<and> (\<forall>x y z. lt x y \<longrightarrow> lt y z \<longrightarrow> lt x z)
     \<and> (\<forall>x y z. \<not> lt x y \<longrightarrow> \<not> lt y z \<longrightarrow> \<not> lt x z)"

definition sort_Slice_ok :: "sorter \<Rightarrow> bool" where
  "sort_Slice_ok srt \<longleftrightarrow> (\<forall>lt xs. mset (srt lt xs) = mset xs
     \<and> (strict_weak_order lt \<longrightarrow> sorted_wrt (\<lambda>x y. \<not> lt y x) (srt lt xs)))"

datatype SortOrder = SortAscending | SortDescending

definition SortSnapshots :: "sorter \<Rightarrow> RootInfo list \<Rightarrow> SortOrder \<Rightarrow> RootInfo list" where
  "SortSnapshots srt snapshots order = srt (\<lambda>i j.
     if order = SortAscending then CreationTime i < CreationTime j
     else CreationTime i > CreationTime j) snapshots"

text \<open>Insertion sort is one such algorithm.\<close>

fun insort_by :: "('a \<Rightarrow> 'a \<Rightarrow> bool) \<Rightarrow> 'a \<Rightarrow> 'a list \<Rightarrow> 'a list" where
  "insort_by lt x [] = [x]"
| "insort_by lt x (y # ys) = (if lt y x then y # insort_by lt x ys else x # y # ys)"

definition insertion_sort :: "('a \<Rightarrow> 'a \<Rightarrow> bool) \<Rightarrow> 'a list \<Rightarrow> 'a list" where
  "insertion_sort lt xs = foldr (insort_by lt) xs []"

section \<open>Managed snapshots\<close>

text \<open>
  The selection that \<^verbatim>\<open>ResolveSubvolumeDetails\<close> makes among the snapshots of a subvolume, and
  the function itself with its four attempts. The search is that of the btrfs package: an
  argument \<open>search\<close> that takes the root mount and the path; waiting between the attempts is an
  argument \<open>sleep\<close>.
\<close>

definition managed :: "string \<Rightarrow> string \<Rightarrow> RootInfo \<Rightarrow> bool" where
  "managed snapshotDirectory snapshotName snap \<longleftrightarrow>
     \<not> Deleted snap \<and> HasPrefix (Name snap) snapshotName
     \<and> HasSuffix snapshotDirectory (Dir (FullPath snap))"

fun search_loop :: "nat \<Rightarrow> ('w \<Rightarrow> (gerr + SubvolInfo) \<times> 'w) \<Rightarrow> ('w \<Rightarrow> 'w)
    \<Rightarrow> 'w \<Rightarrow> (gerr + SubvolInfo) \<times> 'w" where
  "search_loop retries search sleep w = (case search w of
       (Inr info, w) \<Rightarrow> (Inr info, w)
     | (Inl err, w) \<Rightarrow> (let w = sleep w in
         case retries of 0 \<Rightarrow> (Inl err, w) | Suc n \<Rightarrow> search_loop n search sleep w))"

declare search_loop.simps [simp del]

definition ResolveSubvolumeDetails ::
    "(string \<Rightarrow> 'w \<Rightarrow> (gerr + string) \<times> 'w) \<Rightarrow> (string \<Rightarrow> string \<Rightarrow> 'w \<Rightarrow> (gerr + SubvolInfo) \<times> 'w)
      \<Rightarrow> ('w \<Rightarrow> 'w) \<Rightarrow> string \<Rightarrow> string \<Rightarrow> string \<Rightarrow> 'w \<Rightarrow> (gerr + SubvolInfo) \<times> 'w" where
  "ResolveSubvolumeDetails findRootMount search sleep subvolumePath snapshotDirectory snapshotName w =
     (case findRootMount subvolumePath w of
        (Inl err, w) \<Rightarrow> (Inl err, w)
      | (Inr mount, w) \<Rightarrow>
          (case search_loop 3 (search mount subvolumePath) sleep w of
             (Inl err, w) \<Rightarrow> (Inl err, w)
           | (Inr info, w) \<Rightarrow>
               (Inr (info\<lparr>Snapshots :=
                  filter (managed snapshotDirectory snapshotName) (Snapshots info)\<rparr>), w)))"

section \<open>Parents and lookups\<close>

record IncrementalSnapshot =
  Snapshot :: RootInfo
  Parent :: "RootInfo option"

text \<open>The sorted slice is the caller's; it is returned next to the result.\<close>

fun chain :: "RootInfo option \<Rightarrow> RootInfo list \<Rightarrow> IncrementalSnapshot list" where
  "chain parent [] = []"
| "chain parent (snap # snaps) = \<lparr>Snapshot = snap, Parent = parent\<rparr> # chain (Some snap) snaps"

definition MapParents :: "sorter \<Rightarrow> RootInfo list \<Rightarrow> IncrementalSnapshot list \<times> RootInfo list" where
  "MapParents srt snapshots =
     (let snapshots = SortSnapshots srt snapshots SortAscending
      in (chain None snapshots, snapshots))"

definition GetSnapshotByName :: "RootInfo list \<Rightarrow> string \<Rightarrow> RootInfo option" where
  "GetSnapshotByName snapshots name = find (\<lambda>snap. Name snap = name) snapshots"

definition SnapshotSliceContains :: "RootInfo list \<Rightarrow> string \<Rightarrow> bool" where
  "SnapshotSliceContains ss name \<longleftrightarrow> list_ex (\<lambda>snap. name = Name snap) ss"

definition SnapshotUUIDExists :: "RootInfo list \<Rightarrow> uuid \<Rightarrow> bool" where
  "SnapshotUUIDExists snapshots uu \<longleftrightarrow> list_ex (\<lambda>snap. UUID snap = uu) snapshots"

section \<open>Properties of sorting\<close>

lemma mset_insort_by [simp]: "mset (insort_by lt x xs) = add_mset x (mset xs)"
  by (induction xs) auto

lemma set_insort_by [simp]: "set (insort_by lt x xs) = insert x (set xs)"
  by (induction xs) auto

lemma sorted_insort_by:
  assumes "strict_weak_order lt" "sorted_wrt (\<lambda>x y. \<not> lt y x) xs"
  shows "sorted_wrt (\<lambda>x y. \<not> lt y x) (insort_by lt x xs)"
  using assms(2)
proof (induction xs)
  case (Cons y ys)
  have asym: "\<not> lt x y" if "lt y x"
    using assms(1) that unfolding strict_weak_order_def by blast
  have trans: "\<not> lt z x" if "\<not> lt y x" "\<not> lt z y" for z
    using assms(1) that unfolding strict_weak_order_def by blast
  show ?case
  proof (cases "lt y x")
    case True
    with Cons asym show ?thesis by simp
  next
    case False
    with Cons.prems trans show ?thesis by simp
  qed
qed simp

lemma insertion_sort_ok: "sort_Slice_ok insertion_sort"
proof -
  have "mset (insertion_sort lt xs) = mset xs" for lt :: "RootInfo \<Rightarrow> RootInfo \<Rightarrow> bool" and xs
    by (induction xs) (auto simp: insertion_sort_def)
  moreover have "strict_weak_order lt \<Longrightarrow> sorted_wrt (\<lambda>x y. \<not> lt y x) (insertion_sort lt xs)"
    for lt :: "RootInfo \<Rightarrow> RootInfo \<Rightarrow> bool" and xs
    by (induction xs) (auto simp: insertion_sort_def intro: sorted_insort_by)
  ultimately show ?thesis by (simp add: sort_Slice_ok_def)
qed

lemma SortSnapshots_mset: "sort_Slice_ok srt \<Longrightarrow> mset (SortSnapshots srt xs ord) = mset xs"
  by (simp add: SortSnapshots_def sort_Slice_ok_def)

lemma SortSnapshots_set: "sort_Slice_ok srt \<Longrightarrow> set (SortSnapshots srt xs ord) = set xs"
  using SortSnapshots_mset mset_eq_setD by blast

lemma SortSnapshots_ascending:
  assumes "sort_Slice_ok srt"
  shows "sorted (map CreationTime (SortSnapshots srt xs SortAscending))"
proof -
  have "strict_weak_order (\<lambda>i j. CreationTime i < CreationTime j)"
    by (auto simp: strict_weak_order_def)
  with assms have "sorted_wrt (\<lambda>x y. \<not> CreationTime y < CreationTime x)
      (srt (\<lambda>i j. CreationTime i < CreationTime j) xs)"
    unfolding sort_Slice_ok_def by blast
  then show ?thesis by (simp add: SortSnapshots_def sorted_map not_less)
qed

section \<open>Properties of the parents\<close>

lemma map_Snapshot_chain [simp]: "map Snapshot (chain p xs) = xs"
  by (induction xs arbitrary: p) auto

lemma length_chain [simp]: "length (chain p xs) = length xs"
  by (induction xs arbitrary: p) auto

lemma chain_nth: "i < length xs \<Longrightarrow> chain p xs ! i =
    \<lparr>Snapshot = xs ! i, Parent = (if i = 0 then p else Some (xs ! (i - 1)))\<rparr>"
proof (induction xs arbitrary: p i)
  case (Cons x xs)
  then show ?case by (cases i; cases "i - 1") auto
qed simp

definition sample_snap :: "time \<Rightarrow> string \<Rightarrow> RootInfo" where
  "sample_snap t n = empty_info\<lparr>CreationTime := t, Name := n, FullPath := ''snaps/'' @ n\<rparr>"

text \<open>C37: The incremental sends form one chain: every snapshot of the input occurs once, in
  order of creation; the oldest is sent without a parent, and each other one on top of its
  predecessor, which is not younger.\<close>

theorem MapParents_chain:
  assumes "sort_Slice_ok srt" "MapParents srt snapshots = (incs, ss)"
  shows "mset (map Snapshot incs) = mset snapshots
    \<and> (\<forall>i < length incs. Parent (incs ! i) = (if i = 0 then None else Some (Snapshot (incs ! (i - 1)))))
    \<and> (\<forall>i < length incs. \<forall>p. Parent (incs ! i) = Some p \<longrightarrow>
        CreationTime p \<le> CreationTime (Snapshot (incs ! i)))"
proof -
  let ?s = "SortSnapshots srt snapshots SortAscending"
  have i: "incs = chain None ?s" using assms(2) by (auto simp: MapParents_def Let_def)
  have "CreationTime (?s ! (j - 1)) \<le> CreationTime (?s ! j)" if "j < length ?s" for j
    using sorted_nth_mono [OF SortSnapshots_ascending [OF assms(1), of snapshots], of "j - 1" j] that
    by simp
  then show ?thesis
    using SortSnapshots_mset [OF assms(1)] by (auto simp: i chain_nth)
qed

lemma MapParents_chain_witness:
  "Parent (fst (MapParents insertion_sort [sample_snap 2 ''b'', sample_snap 1 ''a'']) ! 1)
     = Some (Snapshot (fst (MapParents insertion_sort [sample_snap 2 ''b'', sample_snap 1 ''a'']) ! 0))"
proof -
  have "length (fst (MapParents insertion_sort [sample_snap 2 ''b'', sample_snap 1 ''a''])) = 2"
    by (simp add: MapParents_def SortSnapshots_def insertion_sort_def sample_snap_def)
  then show ?thesis
    using MapParents_chain [OF insertion_sort_ok surjective_pairing,
        of "[sample_snap 2 ''b'', sample_snap 1 ''a'']"] by simp
qed

text \<open>The world before attempt \<open>i\<close>.\<close>

definition before_attempt :: "('w \<Rightarrow> (gerr + SubvolInfo) \<times> 'w) \<Rightarrow> ('w \<Rightarrow> 'w) \<Rightarrow> 'w \<Rightarrow> nat \<Rightarrow> 'w" where
  "before_attempt search sleep w i = ((\<lambda>w. sleep (snd (search w))) ^^ i) w"

lemma before_attempt_0 [simp]: "before_attempt search sleep w 0 = w"
  by (simp add: before_attempt_def)

lemma before_attempt_Suc:
  "before_attempt search sleep w (Suc i) = before_attempt search sleep (sleep (snd (search w))) i"
  unfolding before_attempt_def funpow_Suc_right by simp

lemma search_loop_attempts:
  "fst (search_loop n search sleep w) =
     (case find (\<lambda>i. \<not> isl (fst (search (before_attempt search sleep w i)))) [0..<Suc n] of
        None \<Rightarrow> fst (search (before_attempt search sleep w n))
      | Some i \<Rightarrow> fst (search (before_attempt search sleep w i)))"
proof (induction n arbitrary: w)
  case 0
  show ?case by (subst search_loop.simps) (auto simp: Let_def split: sum.splits prod.splits)
next
  case (Suc n)
  have find_Suc: "find P [0..<Suc m] = (if P 0 then Some 0 else map_option Suc (find (\<lambda>i. P (Suc i)) [0..<m]))"
    for P m
  proof -
    have "find P (map Suc xs) = map_option Suc (find (\<lambda>i. P (Suc i)) xs)" for xs
      by (induction xs) auto
    then show ?thesis by (simp add: upt_conv_Cons map_Suc_upt [symmetric] del: upt_Suc)
  qed
  obtain r w' where e: "search w = (r, w')" by (cases "search w")
  show ?case
  proof (cases r)
    case (Inr info)
    then show ?thesis by (subst search_loop.simps, subst find_Suc) (simp add: e)
  next
    case (Inl err)
    have "fst (search_loop (Suc n) search sleep w) = fst (search_loop n search sleep (sleep w'))"
      by (subst search_loop.simps) (simp add: e Inl)
    also have "\<dots> = (case find (\<lambda>i. \<not> isl (fst (search (before_attempt search sleep (sleep w') i)))) [0..<Suc n] of
        None \<Rightarrow> fst (search (before_attempt search sleep (sleep w') n))
      | Some i \<Rightarrow> fst (search (before_attempt search sleep (sleep w') i)))"
      by (rule Suc.IH)
    finally show ?thesis
      by (subst find_Suc) (simp add: e Inl before_attempt_Suc del: upt_Suc split: option.splits)
  qed
qed

text \<open>The details of a subvolume are the result of the first of at most four attempts that
  succeeds, with exactly those of its snapshots, in their order, that are not deleted, have
  the configured prefix and lie in a directory that is a suffix of the snapshot directory; if
  all four fail, the error is that of the last.\<close>

theorem ResolveSubvolumeDetails_attempts:
  fixes search :: "string \<Rightarrow> string \<Rightarrow> 'w \<Rightarrow> (gerr + SubvolInfo) \<times> 'w" and sleep :: "'w \<Rightarrow> 'w"
  assumes "findRootMount p w = (Inr mount, w0)"
  defines "attempt \<equiv> \<lambda>i. fst (search mount p (before_attempt (search mount p) sleep w0 i))"
  shows "fst (ResolveSubvolumeDetails findRootMount search sleep p dir name w) =
    (case find (\<lambda>i. \<not> isl (attempt i)) [0..<4] of
       None \<Rightarrow> Inl (projl (attempt 3))
     | Some i \<Rightarrow> (let info = projr (attempt i) in Inr (info\<lparr>Snapshots := filter (\<lambda>s. \<not> Deleted s
          \<and> HasPrefix (Name s) name \<and> HasSuffix dir (Dir (FullPath s))) (Snapshots info)\<rparr>)))"
proof -
  let ?r = "search_loop 3 (search mount p) sleep w0"
  have f: "fst ?r = (case find (\<lambda>i. \<not> isl (attempt i)) [0..<4] of
       None \<Rightarrow> attempt 3 | Some i \<Rightarrow> attempt i)"
    unfolding search_loop_attempts attempt_def by simp
  have m: "managed dir name = (\<lambda>s. \<not> Deleted s \<and> HasPrefix (Name s) name \<and> HasSuffix dir (Dir (FullPath s)))"
    by (rule ext) (simp add: managed_def)
  have "fst (ResolveSubvolumeDetails findRootMount search sleep p dir name w) =
      (case fst ?r of Inl err \<Rightarrow> Inl err
       | Inr info \<Rightarrow> Inr (info\<lparr>Snapshots := filter (managed dir name) (Snapshots info)\<rparr>))"
    by (auto simp: ResolveSubvolumeDetails_def assms(1) split: sum.splits prod.splits)
  also have "\<dots> = (case find (\<lambda>i. \<not> isl (attempt i)) [0..<4] of
       None \<Rightarrow> Inl (projl (attempt 3))
     | Some i \<Rightarrow> (let info = projr (attempt i) in Inr (info\<lparr>Snapshots := filter (\<lambda>s. \<not> Deleted s
          \<and> HasPrefix (Name s) name \<and> HasSuffix dir (Dir (FullPath s))) (Snapshots info)\<rparr>)))"
  proof (cases "find (\<lambda>i. \<not> isl (attempt i)) [0..<4]")
    case None
    then have "isl (attempt 3)" by (auto simp: find_None_iff)
    then show ?thesis unfolding f None by (cases "attempt 3") simp_all
  next
    case (Some i)
    then have "\<not> isl (attempt i)" by (auto simp: find_Some_iff)
    then show ?thesis unfolding f Some m by (cases "attempt i") (simp_all add: Let_def)
  qed
  finally show ?thesis .
qed

text \<open>A search that fails twice and then finds two snapshots, one of which is managed.\<close>

definition sample_info :: SubvolInfo where
  "sample_info = RootInfo.extend (sample_snap 0 ''data'')
     \<lparr>Snapshots = [sample_snap 2 ''other.1'', sample_snap 1 ''data.1'']\<rparr>"

definition sample_search :: "string \<Rightarrow> string \<Rightarrow> nat \<Rightarrow> (gerr + SubvolInfo) \<times> nat" where
  "sample_search mount path n = (if n < 2 then Inl (EnvErr ''busy'') else Inr sample_info, n)"

lemma ResolveSubvolumeDetails_attempts_witness:
  "map Name (Snapshots (projr (fst (ResolveSubvolumeDetails (\<lambda>p w. (Inr ''/'', w)) sample_search Suc
      ''/data'' ''/snaps'' ''data'' 0)))) = [''data.1'']"
proof -
  have b: "before_attempt (sample_search ''/'' ''/data'') Suc w i = w + i" for w i
    by (induction i arbitrary: w) (simp_all add: before_attempt_Suc sample_search_def)
  have u: "[0..<4] = [0, 1, 2, 3::nat]" by (simp add: upt_rec)
  have d: "Dir ''snaps/other.1'' = ''snaps''" "Dir ''snaps/data.1'' = ''snaps''"
    by code_simp+
  show ?thesis
    by (subst ResolveSubvolumeDetails_attempts [where mount = "''/''" and w0 = 0])
      (simp_all add: b u d sample_search_def sample_info_def sample_snap_def empty_info_def
        RootInfo.defs HasPrefix_def HasSuffix_def)
qed

end
