(* ===== verification/SnapManager.thy ===== *)
theory SnapManager
  imports Snaputil
begin

text \<open>
  The snapshot manager (\<^verbatim>\<open>pkg/cmd/snapmanager/snapmanager.go\<close>): it creates a snapshot when
  the most recent one is older than the interval, and prunes the old ones. The functions of
  the btrfs package that it calls and the wall clock, which the code reads again at every
  comparison, are an environment over an arbitrary state of the world.
\<close>

section \<open>The environment\<close>

datatype SnapshotOption =
    WithSnapshotName string
  | WithSnapshotPath string
  | WithReadOnlySnapshot

record 'w snap_env =
  Now :: "'w \<Rightarrow> time \<times> 'w"
  TimeFormatted :: "time \<Rightarrow> string \<Rightarrow> string"
  IsSubvolumeOp :: "string \<Rightarrow> 'w \<Rightarrow> (gerr + bool) \<times> 'w"
  CreateSubvolumeOp :: "string \<Rightarrow> 'w \<Rightarrow> gerr option \<times> 'w"
  DeleteSubvolumeOp :: "string \<Rightarrow> bool \<Rightarrow> 'w \<Rightarrow> gerr option \<times> 'w"
  CreateSnapshotOp :: "string \<Rightarrow> SnapshotOption list \<Rightarrow> 'w \<Rightarrow> gerr option \<times> 'w"
  SyncFilesystemOp :: "string \<Rightarrow> 'w \<Rightarrow> gerr option \<times> 'w"

definition Since :: "'w snap_env \<Rightarrow> time \<Rightarrow> 'w \<Rightarrow> int \<times> 'w" where
  "Since env t w = (case Now env w of (now, w) \<Rightarrow> (Sub now t, w))"

text \<open>\<^verbatim>\<open>os.IsNotExist\<close> does not look into wrapped errors.\<close>

fun IsNotExist :: "gerr \<Rightarrow> bool" where
  "IsNotExist (ErrNotExist p) = True"
| "IsNotExist e = False"

section \<open>The manager\<close>

record SnapConfig =
  FullSubvolumePath :: string
  SnapshotDirectory :: string
  SnapshotName :: string
  Interval :: int
  MinimumRetention :: int
  Retention :: int
  RetentionInterval :: int
  SnapTimeFormat :: string

record SnapManager =
  config :: SnapConfig
  rootInfo :: SubvolInfo

definition New :: "(string \<Rightarrow> string \<Rightarrow> string \<Rightarrow> 'w \<Rightarrow> (gerr + SubvolInfo) \<times> 'w)
    \<Rightarrow> SnapConfig \<Rightarrow> 'w \<Rightarrow> (gerr + SnapManager) \<times> 'w" where
  "New resolveDetails cfg w =
     (case resolveDetails (FullSubvolumePath cfg) (SnapshotDirectory cfg) (SnapshotName cfg) w of
        (Inl err, w) \<Rightarrow> (Inl err, w)
      | (Inr info, w) \<Rightarrow> (Inr \<lparr>config = cfg, rootInfo = info\<rparr>, w))"

definition snap_path :: "SnapConfig \<Rightarrow> RootInfo \<Rightarrow> string" where
  "snap_path cfg snap = Join [SnapshotDirectory cfg, Name snap]"

definition ensureSnapshotSubvol :: "'w snap_env \<Rightarrow> SnapManager \<Rightarrow> 'w \<Rightarrow> gerr option \<times> 'w" where
  "ensureSnapshotSubvol env sm w =
     (let snapDir = SnapshotDirectory (config sm)
      in case IsSubvolumeOp env snapDir w of
        (Inl err, w) \<Rightarrow>
          if \<not> IsNotExist err then (Some err, w)
          else CreateSubvolumeOp env snapDir w
      | (Inr isSubvol, w) \<Rightarrow>
          if \<not> isSubvol then (Some (ErrText ''is not a btrfs subvolume''), w) else (None, w))"

definition GetMostRecentSnapshot :: "SnapManager \<Rightarrow> RootInfo option" where
  "GetMostRecentSnapshot sm = foldl (\<lambda>latest snap.
     case latest of
       None \<Rightarrow> Some snap
     | Some l \<Rightarrow> if CreationTime snap > CreationTime l then Some snap else latest)
     None (Snapshots (rootInfo sm))"

definition create_snapshot :: "'w snap_env \<Rightarrow> SnapConfig \<Rightarrow> 'w \<Rightarrow> gerr option \<times> 'w" where
  "create_snapshot env cfg w =
     (let (now, w) = Now env w;
          snapshotPath = Join [SnapshotDirectory cfg,
            SnapshotName cfg @ ''.'' @ TimeFormatted env now (SnapTimeFormat cfg)]
      in case CreateSnapshotOp env (FullSubvolumePath cfg)
             [WithSnapshotPath snapshotPath, WithReadOnlySnapshot] w of
           (Some err, w) \<Rightarrow> (Some err, w)
         | (None, w) \<Rightarrow> SyncFilesystemOp env snapshotPath w)"

definition EnsureMostRecentSnapshot :: "'w snap_env \<Rightarrow> SnapManager \<Rightarrow> 'w \<Rightarrow> gerr option \<times> 'w" where
  "EnsureMostRecentSnapshot env sm w =
     (case ensureSnapshotSubvol env sm w of
        (Some err, w) \<Rightarrow> (Some err, w)
      | (None, w) \<Rightarrow>
          (case GetMostRecentSnapshot sm of
             None \<Rightarrow> create_snapshot env (config sm) w
           | Some mostRecent \<Rightarrow>
               let (age, w) = Since env (CreationTime mostRecent) w
               in if age < Interval (config sm) then (None, w)
                  else create_snapshot env (config sm) w))"

section \<open>Pruning\<close>

text \<open>
  The first loop deletes what is older than the retention and collects the rest; an error
  ends it.
\<close>

fun delete_expired :: "'w snap_env \<Rightarrow> SnapConfig \<Rightarrow> RootInfo list \<Rightarrow> RootInfo list \<Rightarrow> 'w
    \<Rightarrow> (gerr + RootInfo list) \<times> 'w" where
  "delete_expired env cfg [] remaining w = (Inr remaining, w)"
| "delete_expired env cfg (snap # snaps) remaining w =
     (let (age, w) = Since env (CreationTime snap) w
      in if age > Retention cfg then
           (case DeleteSubvolumeOp env (snap_path cfg snap) True w of
              (Some err, w) \<Rightarrow> (Inl err, w)
            | (None, w) \<Rightarrow> delete_expired env cfg snaps remaining w)
         else delete_expired env cfg snaps (remaining @ [snap]) w)"

text \<open>The second loop selects what lies between the minimum retention and the retention.\<close>

fun long_term :: "'w snap_env \<Rightarrow> SnapConfig \<Rightarrow> RootInfo list \<Rightarrow> RootInfo list \<Rightarrow> 'w
    \<Rightarrow> RootInfo list \<times> 'w" where
  "long_term env cfg [] snapshots w = (snapshots, w)"
| "long_term env cfg (snap # snaps) snapshots w =
     (let (age, w) = Since env (CreationTime snap) w
      in if age < Retention cfg then
           (let (age, w) = Since env (CreationTime snap) w
            in if age > MinimumRetention cfg
               then long_term env cfg snaps (snapshots @ [snap]) w
               else long_term env cfg snaps snapshots w)
         else long_term env cfg snaps snapshots w)"

fun chunk_loop :: "int \<Rightarrow> RootInfo list \<Rightarrow> RootInfo list list \<Rightarrow> RootInfo list \<Rightarrow> time
    \<Rightarrow> RootInfo list list" where
  "chunk_loop interval [] chunks chunk lastTime = chunks @ [chunk]"
| "chunk_loop interval (snap # snaps) chunks chunk lastTime =
     (let lastTime = (if IsZero lastTime then CreationTime snap else lastTime)
      in if Sub (CreationTime snap) lastTime > interval
         then chunk_loop interval snaps (chunks @ [chunk]) [snap] (CreationTime snap)
         else chunk_loop interval snaps chunks (chunk @ [snap]) lastTime)"

definition toTimedChunks :: "sorter \<Rightarrow> RootInfo list \<Rightarrow> int \<Rightarrow> RootInfo list list" where
  "toTimedChunks srt snapshots interval =
     (if snapshots = [] then []
      else chunk_loop interval (SortSnapshots srt snapshots SortAscending) [] [] ZeroTime)"

fun delete_all :: "'w snap_env \<Rightarrow> SnapConfig \<Rightarrow> RootInfo list \<Rightarrow> 'w \<Rightarrow> gerr option \<times> 'w" where
  "delete_all env cfg [] w = (None, w)"
| "delete_all env cfg (toDel # snaps) w =
     (case DeleteSubvolumeOp env (snap_path cfg toDel) True w of
        (Some err, w) \<Rightarrow> (Some err, w)
      | (None, w) \<Rightarrow> delete_all env cfg snaps w)"

fun delete_chunks :: "'w snap_env \<Rightarrow> SnapConfig \<Rightarrow> RootInfo list list \<Rightarrow> 'w \<Rightarrow> gerr option \<times> 'w" where
  "delete_chunks env cfg [] w = (None, w)"
| "delete_chunks env cfg (chunk # chunks) w =
     (if length chunk \<le> 1 then delete_chunks env cfg chunks w
      else case delete_all env cfg (drop 1 chunk) w of
        (Some err, w) \<Rightarrow> (Some err, w)
      | (None, w) \<Rightarrow> delete_chunks env cfg chunks w)"

definition PruneSnapshots :: "sorter \<Rightarrow> 'w snap_env \<Rightarrow> SnapManager \<Rightarrow> 'w
    \<Rightarrow> gerr option \<times> SnapManager \<times> 'w" where
  "PruneSnapshots srt env sm w =
     (let cfg = config sm
      in if Retention cfg = 0 then (None, sm, w)
      else case delete_expired env cfg (Snapshots (rootInfo sm)) [] w of
        (Inl err, w) \<Rightarrow> (Some err, sm, w)
      | (Inr remaining, w) \<Rightarrow>
          let sm = sm\<lparr>rootInfo := (rootInfo sm)\<lparr>Snapshots := remaining\<rparr>\<rparr>
          in if RetentionInterval cfg = 0 then (None, sm, w)
          else let (snapshots, w) = long_term env cfg remaining [] w
          in if snapshots = [] then (None, sm, w)
          else let (err, w) = delete_chunks env cfg (toTimedChunks srt snapshots (RetentionInterval cfg)) w
          in (err, sm, w))"

section \<open>Chunks\<close>

text \<open>
  Chunks that satisfy the interval: each is within the interval of its first snapshot, and
  the first of the next one is beyond it.
\<close>

definition good_chunks :: "int \<Rightarrow> RootInfo list list \<Rightarrow> bool" where
  "good_chunks interval cs \<longleftrightarrow>
     (\<forall>c\<in>set cs. c \<noteq> [] \<and> (\<forall>s\<in>set c. CreationTime s - CreationTime (hd c) \<le> interval))
     \<and> successively (\<lambda>c d. CreationTime (hd d) - CreationTime (hd c) > interval) cs"

lemma good_chunks_snoc:
  "good_chunks interval (cs @ [c]) \<longleftrightarrow> good_chunks interval cs
     \<and> c \<noteq> [] \<and> (\<forall>s\<in>set c. CreationTime s - CreationTime (hd c) \<le> interval)
     \<and> (cs \<noteq> [] \<longrightarrow> CreationTime (hd c) - CreationTime (hd (last cs)) > interval)"
  by (auto simp: good_chunks_def successively_append_iff)

lemma chunk_loop_good:
  assumes "0 \<le> interval" "interval < maxDuration" "\<forall>s\<in>set snaps. \<not> IsZero (CreationTime s)"
    and "good_chunks interval (cs @ [c])" "lastTime = CreationTime (hd c)" "\<not> IsZero lastTime"
  shows "good_chunks interval (chunk_loop interval snaps cs c lastTime)
    \<and> concat (chunk_loop interval snaps cs c lastTime) = concat cs @ c @ snaps"
  using assms(3-)
proof (induction snaps arbitrary: cs c lastTime)
  case (Cons s snaps)
  have sub: "interval < Sub t u \<longleftrightarrow> interval < t - u" for t u
    using assms(1,2) by (intro less_Sub_iff) simp_all
  have c: "c \<noteq> []" using Cons.prems by (simp add: good_chunks_snoc)
  show ?case
  proof (cases "interval < CreationTime s - lastTime")
    case True
    then have "good_chunks interval ((cs @ [c]) @ [[s]])"
      using Cons.prems assms(1) by (subst good_chunks_snoc) simp
    with Cons.IH [of "cs @ [c]" "[s]" "CreationTime s"] Cons.prems True show ?thesis
      by (simp add: sub)
  next
    case False
    have "good_chunks interval (cs @ [c @ [s]])"
      using Cons.prems(2,3) c False by (simp add: good_chunks_snoc)
    with Cons.IH [of cs "c @ [s]" lastTime] Cons.prems c False show ?thesis
      by (simp add: sub)
  qed
qed simp

lemma toTimedChunks_good:
  assumes "sort_Slice_ok srt" "0 \<le> interval" "interval < maxDuration"
    and "\<forall>s\<in>set snapshots. \<not> IsZero (CreationTime s)"
  shows "good_chunks interval (toTimedChunks srt snapshots interval)
    \<and> concat (toTimedChunks srt snapshots interval)
      = (if snapshots = [] then [] else SortSnapshots srt snapshots SortAscending)"
proof (cases "SortSnapshots srt snapshots SortAscending")
  case Nil
  then have "snapshots = []" using SortSnapshots_mset [OF assms(1), of snapshots SortAscending] by simp
  then show ?thesis by (simp add: toTimedChunks_def good_chunks_def)
next
  case (Cons s ss)
  then have ne: "snapshots \<noteq> []"
    using SortSnapshots_mset [OF assms(1), of snapshots SortAscending] by auto
  have nz: "\<forall>x\<in>set (s # ss). \<not> IsZero (CreationTime x)"
    using assms(4) SortSnapshots_set [OF assms(1), of snapshots SortAscending] Cons by simp
  have "good_chunks interval ([] @ [[s]])" using assms(2) by (simp add: good_chunks_def)
  from chunk_loop_good [OF assms(2,3) _ this, of ss "CreationTime s"] nz Cons ne assms(2) show ?thesis
    by (simp add: toTimedChunks_def)
qed

text \<open>Chunking loses nothing: the chunks are the snapshots in order of creation, each chunk
  lies within the interval after its first snapshot, and the first snapshots of consecutive
  chunks are further apart than the interval.\<close>

theorem toTimedChunks_partition:
  assumes "sort_Slice_ok srt" "0 \<le> interval" "interval < maxDuration"
    and "\<forall>s\<in>set snapshots. \<not> IsZero (CreationTime s)"
  defines "chunks \<equiv> toTimedChunks srt snapshots interval"
  shows "mset (concat chunks) = mset snapshots \<and> sorted (map CreationTime (concat chunks))
    \<and> (\<forall>c\<in>set chunks. c \<noteq> [] \<and> (\<forall>s\<in>set c. CreationTime s - CreationTime (hd c) \<le> interval))
    \<and> successively (\<lambda>c d. CreationTime (hd d) - CreationTime (hd c) > interval) chunks"
  using toTimedChunks_good [OF assms(1-4)] SortSnapshots_mset [OF assms(1), of snapshots SortAscending]
    SortSnapshots_ascending [OF assms(1), of snapshots]
  by (auto simp: chunks_def good_chunks_def)

definition sample_times :: "RootInfo list" where
  "sample_times = [sample_snap 25 ''d'', sample_snap 10 ''a'', sample_snap 21 ''c'', sample_snap 15 ''b'']"

lemma sample_sorted: "SortSnapshots insertion_sort sample_times SortAscending
    = [sample_snap 10 ''a'', sample_snap 15 ''b'', sample_snap 21 ''c'', sample_snap 25 ''d'']"
  by (simp add: SortSnapshots_def insertion_sort_def sample_times_def sample_snap_def)

lemma sample_times_not_zero: "\<forall>s\<in>set sample_times. \<not> IsZero (CreationTime s)"
  by (simp add: sample_times_def sample_snap_def ZeroTime_def)

lemma sample_chunks: "map (map Name) (toTimedChunks insertion_sort sample_times 10)
    = [[''a'', ''b''], [''c'', ''d'']]"
  by (simp add: toTimedChunks_def sample_sorted)
    (simp add: sample_times_def sample_snap_def ZeroTime_def Sub_def)

lemma toTimedChunks_partition_witness:
  "mset (concat (toTimedChunks insertion_sort sample_times 10)) = mset sample_times"
  using toTimedChunks_partition [OF insertion_sort_ok, of 10 sample_times] sample_times_not_zero
  by simp

section \<open>What is pruned\<close>

text \<open>The snapshots that are deleted when the clock shows \<open>t\<close> throughout, in order.\<close>

definition frozen :: "'w snap_env \<Rightarrow> time \<Rightarrow> bool" where
  "frozen env t \<longleftrightarrow> (\<forall>w. Now env w = (t, w))"

abbreviation age :: "time \<Rightarrow> RootInfo \<Rightarrow> int" where "age t s \<equiv> Sub t (CreationTime s)"

definition candidates :: "SnapConfig \<Rightarrow> time \<Rightarrow> RootInfo list \<Rightarrow> RootInfo list" where
  "candidates cfg t ss = filter (\<lambda>s. MinimumRetention cfg < age t s \<and> age t s < Retention cfg) ss"

definition thinned :: "sorter \<Rightarrow> SnapConfig \<Rightarrow> time \<Rightarrow> RootInfo list \<Rightarrow> RootInfo list" where
  "thinned srt cfg t ss =
     concat (map (drop 1) (toTimedChunks srt (candidates cfg t ss) (RetentionInterval cfg)))"

definition to_delete :: "sorter \<Rightarrow> SnapConfig \<Rightarrow> time \<Rightarrow> RootInfo list \<Rightarrow> RootInfo list" where
  "to_delete srt cfg t ss =
     (if Retention cfg = 0 then []
      else filter (\<lambda>s. Retention cfg < age t s) ss
        @ (if RetentionInterval cfg = 0 then [] else thinned srt cfg t ss))"

lemma Since_frozen: "frozen env t \<Longrightarrow> Since env u w = (Sub t u, w)"
  by (simp add: Since_def frozen_def)

lemma delete_all_append: "delete_all env cfg (xs @ ys) w =
    (case delete_all env cfg xs w of (Some e, w) \<Rightarrow> (Some e, w) | (None, w) \<Rightarrow> delete_all env cfg ys w)"
  by (induction xs arbitrary: w) (auto split: option.splits prod.splits)

lemma delete_chunks_concat: "delete_chunks env cfg cs w = delete_all env cfg (concat (map (drop 1) cs)) w"
proof (induction cs arbitrary: w)
  case (Cons c cs)
  have "length c \<le> 1 \<Longrightarrow> drop 1 c = []" by simp
  with Cons show ?case by (auto simp: delete_all_append split: option.splits prod.splits)
qed simp

lemma delete_expired_frozen:
  assumes "frozen env t"
  shows "delete_expired env cfg ss rem w =
    (case delete_all env cfg (filter (\<lambda>s. Retention cfg < age t s) ss) w of
       (Some e, w) \<Rightarrow> (Inl e, w)
     | (None, w) \<Rightarrow> (Inr (rem @ filter (\<lambda>s. \<not> Retention cfg < age t s) ss), w))"
  by (induction ss arbitrary: rem w) (auto simp: Since_frozen [OF assms] split: option.splits prod.splits)

lemma long_term_frozen:
  assumes "frozen env t"
  shows "long_term env cfg ss acc w = (acc @ candidates cfg t ss, w)"
  by (induction ss arbitrary: acc w) (auto simp: Since_frozen [OF assms] candidates_def)

lemma candidates_remaining:
  "candidates cfg t (filter (\<lambda>s. \<not> Retention cfg < age t s) ss) = candidates cfg t ss"
  by (auto simp: candidates_def intro!: filter_cong)

lemma PruneSnapshots_frozen:
  assumes "frozen env t"
  shows "(case PruneSnapshots srt env sm w of (err, sm', w') \<Rightarrow> (err, w'))
    = delete_all env (config sm) (to_delete srt (config sm) t (Snapshots (rootInfo sm))) w"
  by (auto simp: PruneSnapshots_def to_delete_def Let_def delete_expired_frozen [OF assms]
      long_term_frozen [OF assms] candidates_remaining delete_chunks_concat thinned_def
      delete_all_append toTimedChunks_def split: option.splits prod.splits)

text \<open>The settings that a validated configuration resolves to, within the range of durations.\<close>

definition consistent :: "SnapConfig \<Rightarrow> bool" where
  "consistent cfg \<longleftrightarrow> 0 < MinimumRetention cfg \<and> MinimumRetention cfg < Retention cfg
     \<and> 0 \<le> RetentionInterval cfg \<and> RetentionInterval cfg < maxDuration \<and> Retention cfg < maxDuration"

lemma set_drop_1: "set (drop 1 xs) \<subseteq> set xs"
  by (rule set_drop_subset)

lemma thinned_subset:
  assumes "sort_Slice_ok srt" "consistent cfg" "\<forall>s\<in>set ss. \<not> IsZero (CreationTime s)"
  shows "set (thinned srt cfg t ss) \<subseteq> set (candidates cfg t ss)"
proof -
  let ?cs = "toTimedChunks srt (candidates cfg t ss) (RetentionInterval cfg)"
  have "set (concat (map (drop 1) ?cs)) \<subseteq> set (concat ?cs)"
    using set_drop_1 by fastforce
  also have "set (concat ?cs) = set (candidates cfg t ss)"
  proof -
    have nz: "\<forall>s\<in>set (candidates cfg t ss). \<not> IsZero (CreationTime s)"
      using assms(3) by (simp add: candidates_def)
    have "0 \<le> RetentionInterval cfg" "RetentionInterval cfg < maxDuration"
      using assms(2) by (simp_all add: consistent_def)
    from toTimedChunks_good [OF assms(1) this nz] SortSnapshots_set [OF assms(1)] show ?thesis
      by simp
  qed
  finally show ?thesis by (simp add: thinned_def)
qed

lemma distinct_heads:
  assumes "distinct (concat cs)" "c \<in> set cs" "c \<noteq> []"
  shows "hd c \<notin> set (concat (map (drop 1) cs))"
  using assms
proof (induction cs)
  case (Cons d ds)
  have sub: "set (concat (map (drop 1) ds)) \<subseteq> set (concat ds)"
    by (auto dest: in_set_dropD)
  have "hd c \<in> set c" using assms(3) by simp
  show ?case
  proof (cases "c = d")
    case True
    have "hd d \<notin> set (drop 1 d)" using Cons.prems(1,3) True by (cases d) auto
    moreover have "hd d \<notin> set (concat ds)"
      using Cons.prems(1) \<open>hd c \<in> set c\<close> True by (simp only: concat.simps distinct_append) blast
    ultimately show ?thesis using sub True by auto
  next
    case False
    then have c: "c \<in> set ds" using Cons.prems by simp
    then have "hd c \<in> set (concat ds)" using \<open>hd c \<in> set c\<close> by auto
    then have "hd c \<notin> set d"
      using Cons.prems(1) by (simp only: concat.simps distinct_append) blast
    then have "hd c \<notin> set (drop 1 d)" by (meson in_set_dropD)
    with Cons.IH [OF _ c assms(3)] Cons.prems(1) show ?thesis by simp
  qed
qed simp

lemma sorted_concat: "sorted (map f (concat cs)) \<Longrightarrow> c \<in> set cs \<Longrightarrow> sorted (map f c)"
  by (induction cs) (auto simp: sorted_append)

lemma thinned_coverage:
  assumes "sort_Slice_ok srt" "consistent cfg" "\<forall>s\<in>set ss. \<not> IsZero (CreationTime s)"
    and "distinct ss" "s \<in> set (candidates cfg t ss)"
  shows "\<exists>k \<in> set (candidates cfg t ss) - set (thinned srt cfg t ss).
    CreationTime k \<le> CreationTime s \<and> CreationTime s - CreationTime k \<le> RetentionInterval cfg"
proof -
  let ?xs = "candidates cfg t ss"
  let ?cs = "toTimedChunks srt ?xs (RetentionInterval cfg)"
  have ri: "0 \<le> RetentionInterval cfg" "RetentionInterval cfg < maxDuration"
    using assms(2) by (simp_all add: consistent_def)
  have nz: "\<forall>s\<in>set ?xs. \<not> IsZero (CreationTime s)" using assms(3) by (simp add: candidates_def)
  have g: "good_chunks (RetentionInterval cfg) ?cs"
    and c: "concat ?cs = SortSnapshots srt ?xs SortAscending"
    using toTimedChunks_good [OF assms(1) ri nz] assms(5) by auto
  have m: "set (concat ?cs) = set ?xs"
    unfolding c by (rule SortSnapshots_set [OF assms(1)])
  have "distinct ?xs" using assms(4) by (simp add: candidates_def)
  then have d: "distinct (concat ?cs)"
    unfolding c using mset_eq_imp_distinct_iff [OF SortSnapshots_mset [OF assms(1)]] by blast
  have "s \<in> set (concat ?cs)" using assms(5) m by blast
  then obtain ch where ch: "ch \<in> set ?cs" "s \<in> set ch" by auto
  have ne: "ch \<noteq> []" and le: "CreationTime s - CreationTime (hd ch) \<le> RetentionInterval cfg"
    using g ch by (auto simp: good_chunks_def)
  have "sorted (map CreationTime ch)"
    using SortSnapshots_ascending [OF assms(1), of ?xs] ch(1) unfolding c [symmetric]
    by (rule sorted_concat)
  then have "CreationTime (hd ch) \<le> CreationTime s" using ch(2) ne by (cases ch) auto
  moreover have "hd ch \<in> set ?xs" using ch(1) ne m by fastforce
  moreover have "hd ch \<notin> set (thinned srt cfg t ss)"
    unfolding thinned_def by (rule distinct_heads [OF d ch(1) ne])
  ultimately show ?thesis using le by blast
qed

lemma age_iff: "consistent cfg \<Longrightarrow> Retention cfg < age t s \<longleftrightarrow> Retention cfg < t - CreationTime s"
  "consistent cfg \<Longrightarrow> MinimumRetention cfg < age t s \<longleftrightarrow> MinimumRetention cfg < t - CreationTime s"
  by (rule less_Sub_iff; simp add: consistent_def)+

lemma set_to_delete:
  assumes "sort_Slice_ok srt" "consistent cfg" "\<forall>s\<in>set ss. \<not> IsZero (CreationTime s)"
  shows "s \<in> set (to_delete srt cfg t ss) \<longleftrightarrow> (s \<in> set ss \<and> Retention cfg < age t s)
     \<or> (RetentionInterval cfg \<noteq> 0 \<and> s \<in> set (thinned srt cfg t ss))"
  using assms(2) by (auto simp: to_delete_def consistent_def)

text \<open>C6: A pruning run at time \<open>t\<close> is a sequence of deletions, ended by the first error. It
  deletes all snapshots older than the retention and none younger than the minimum
  retention; and for every snapshot within the retention, one that is not younger and at
  most the retention interval older is kept.\<close>

theorem PruneSnapshots_deletes:
  assumes "frozen env t" "sort_Slice_ok srt" "config sm = cfg" "consistent cfg"
    and "Snapshots (rootInfo sm) = ss" "distinct ss" "\<forall>s\<in>set ss. \<not> IsZero (CreationTime s)"
  shows "\<exists>del. (case PruneSnapshots srt env sm w of (err, sm', w') \<Rightarrow> (err, w')) = delete_all env cfg del w
    \<and> {s \<in> set ss. Retention cfg < t - CreationTime s} \<subseteq> set del
    \<and> set del \<subseteq> {s \<in> set ss. MinimumRetention cfg < t - CreationTime s}
    \<and> (\<forall>s\<in>set ss. t - CreationTime s \<le> Retention cfg \<longrightarrow> (\<exists>k \<in> set ss - set del.
         CreationTime k \<le> CreationTime s \<and> CreationTime s - CreationTime k \<le> RetentionInterval cfg))"
proof (intro exI conjI)
  let ?del = "to_delete srt cfg t ss"
  note del = set_to_delete [OF assms(2,4,7)]
  have thin: "s \<in> set ss" "MinimumRetention cfg < age t s" "age t s < Retention cfg"
    if "s \<in> set (thinned srt cfg t ss)" for s
    using thinned_subset [OF assms(2,4,7)] that by (auto simp: candidates_def)
  have min: "MinimumRetention cfg < Retention cfg" and ri: "0 \<le> RetentionInterval cfg"
    using assms(4) by (simp_all add: consistent_def)
  show "(case PruneSnapshots srt env sm w of (err, sm', w') \<Rightarrow> (err, w')) = delete_all env cfg ?del w"
    using PruneSnapshots_frozen [OF assms(1)] assms(3,5) by blast
  show "{s \<in> set ss. Retention cfg < t - CreationTime s} \<subseteq> set ?del"
    by (auto simp: del age_iff [OF assms(4)])
  show "set ?del \<subseteq> {s \<in> set ss. MinimumRetention cfg < t - CreationTime s}"
    using thin min by (auto simp: del age_iff [OF assms(4)])
  show "\<forall>s\<in>set ss. t - CreationTime s \<le> Retention cfg \<longrightarrow> (\<exists>k \<in> set ss - set ?del.
         CreationTime k \<le> CreationTime s \<and> CreationTime s - CreationTime k \<le> RetentionInterval cfg)"
  proof (intro ballI impI)
    fix s assume s: "s \<in> set ss" "t - CreationTime s \<le> Retention cfg"
    show "\<exists>k \<in> set ss - set ?del.
         CreationTime k \<le> CreationTime s \<and> CreationTime s - CreationTime k \<le> RetentionInterval cfg"
    proof (cases "s \<in> set ?del")
      case False
      then show ?thesis using s ri by (intro bexI [of _ s]) simp_all
    next
      case True
      then have "s \<in> set (thinned srt cfg t ss)"
        using s by (auto simp: del age_iff [OF assms(4)])
      then have "s \<in> set (candidates cfg t ss)"
        by (rule subsetD [OF thinned_subset [OF assms(2,4,7)]])
      from thinned_coverage [OF assms(2,4,7,6) this] obtain k where
        k: "k \<in> set (candidates cfg t ss)" "k \<notin> set (thinned srt cfg t ss)"
          "CreationTime k \<le> CreationTime s" "CreationTime s - CreationTime k \<le> RetentionInterval cfg"
        by blast
      then have "k \<in> set ss - set ?del" by (auto simp: del candidates_def)
      with k show ?thesis by blast
    qed
  qed
qed

text \<open>A world that records the paths that are deleted.\<close>

definition sample_env :: "time \<Rightarrow> string list snap_env" where
  "sample_env t = \<lparr>Now = Pair t, TimeFormatted = (\<lambda>t f. f), IsSubvolumeOp = (\<lambda>p w. (Inr True, w)),
     CreateSubvolumeOp = (\<lambda>p w. (None, w)), DeleteSubvolumeOp = (\<lambda>p f w. (None, w @ [p])),
     CreateSnapshotOp = (\<lambda>p opts w. (None, w)), SyncFilesystemOp = (\<lambda>p w. (None, w))\<rparr>"

definition sample_cfg :: SnapConfig where
  "sample_cfg = \<lparr>FullSubvolumePath = ''/data'', SnapshotDirectory = ''/snaps'', SnapshotName = ''data'',
     Interval = 1, MinimumRetention = 5, Retention = 50, RetentionInterval = 10, SnapTimeFormat = ''t''\<rparr>"

definition sample_sm :: SnapManager where
  "sample_sm = \<lparr>config = sample_cfg, rootInfo = sample_info\<lparr>Snapshots := sample_times\<rparr>\<rparr>"

lemma sample_sm_simps [simp]: "config sample_sm = sample_cfg" "Snapshots (rootInfo sample_sm) = sample_times"
  by (simp_all add: sample_sm_def)

lemma sample_consistent: "consistent sample_cfg"
  by (simp add: consistent_def sample_cfg_def)

lemma sample_distinct: "distinct sample_times"
proof -
  have "distinct (map Name sample_times)" by (simp add: sample_times_def sample_snap_def)
  then show ?thesis by (simp only: distinct_map)
qed

lemma sample_frozen: "frozen (sample_env t) t"
  by (simp add: frozen_def sample_env_def)

lemma PruneSnapshots_deletes_witness:
  "\<exists>del. snd (snd (PruneSnapshots insertion_sort (sample_env 40) sample_sm []))
      = snd (delete_all (sample_env 40) sample_cfg del []) \<and> set del \<subseteq> set sample_times"
proof -
  obtain del where d: "(case PruneSnapshots insertion_sort (sample_env 40) sample_sm [] of
      (err, sm', w') \<Rightarrow> (err, w')) = delete_all (sample_env 40) sample_cfg del []"
    "set del \<subseteq> {s \<in> set sample_times. MinimumRetention sample_cfg < 40 - CreationTime s}"
    using PruneSnapshots_deletes [OF sample_frozen insertion_sort_ok sample_sm_simps(1) sample_consistent
        sample_sm_simps(2) sample_distinct sample_times_not_zero, of 40 "[]"] by (elim exE conjE)
  show ?thesis by (intro exI [of _ del]) (use d in \<open>simp add: d(1) [symmetric] split_def, blast\<close>)
qed

section \<open>Pruning again\<close>

lemma chunk_loop_spread:
  assumes "0 \<le> interval" "interval < maxDuration"
    and "successively (\<lambda>a b. CreationTime b - CreationTime a > interval) (c # snaps)"
    and "\<forall>s\<in>set (c # snaps). \<not> IsZero (CreationTime s)"
  shows "chunk_loop interval snaps cs [c] (CreationTime c) = cs @ map (\<lambda>s. [s]) (c # snaps)"
  using assms(3,4)
proof (induction snaps arbitrary: cs c)
  case (Cons s snaps)
  have "interval < Sub (CreationTime s) (CreationTime c)"
    using Cons.prems(1) assms(1,2) by (subst less_Sub_iff) simp_all
  with Cons show ?case by simp
qed simp

lemma toTimedChunks_spread:
  assumes "sort_Slice_ok srt" "0 \<le> interval" "interval < maxDuration" "distinct ys"
    and "\<forall>s\<in>set ys. \<not> IsZero (CreationTime s)"
    and "\<forall>a\<in>set ys. \<forall>b\<in>set ys. a \<noteq> b \<longrightarrow>
      CreationTime b - CreationTime a > interval \<or> CreationTime a - CreationTime b > interval"
  shows "concat (map (drop 1) (toTimedChunks srt ys interval)) = []"
proof (cases "SortSnapshots srt ys SortAscending")
  case Nil
  then show ?thesis by (simp add: toTimedChunks_def)
next
  case (Cons z zs)
  have set: "set (z # zs) = set ys" and "distinct (z # zs)"
    using SortSnapshots_set [OF assms(1), of ys SortAscending] assms(4)
      mset_eq_imp_distinct_iff [OF SortSnapshots_mset [OF assms(1), of ys SortAscending]]
    unfolding Cons by auto
  have "sorted (map CreationTime (z # zs))"
    using SortSnapshots_ascending [OF assms(1), of ys] by (simp only: Cons)
  have sp: "successively (\<lambda>a b. CreationTime b - CreationTime a > interval) xs"
    if "sorted (map CreationTime xs)" "distinct xs" "set xs \<subseteq> set ys" for xs
    using that
  proof (induction xs rule: induct_list012)
    case (3 a b xs)
    then have "CreationTime a \<le> CreationTime b" "a \<noteq> b" "a \<in> set ys" "b \<in> set ys" by auto
    then have "CreationTime b - CreationTime a > interval" using assms(2,6) by fastforce
    then show ?case using 3 by simp
  qed simp_all
  have "toTimedChunks srt ys interval = map (\<lambda>s. [s]) (z # zs)"
  proof -
    have "ys \<noteq> []" using set by auto
    moreover have nz: "\<forall>s\<in>set (z # zs). \<not> IsZero (CreationTime s)" using assms(5) set by blast
    moreover have "successively (\<lambda>a b. CreationTime b - CreationTime a > interval) (z # zs)"
      using set by (intro sp \<open>sorted _\<close> \<open>distinct (z # zs)\<close>) simp
    ultimately show ?thesis
      using chunk_loop_spread [OF assms(2,3), of z zs "[]"] assms(2) by (simp add: toTimedChunks_def Cons)
  qed
  then show ?thesis by (simp add: o_def)
qed

lemma heads_spread:
  assumes "good_chunks interval cs" "0 \<le> interval" "c \<in> set cs" "d \<in> set cs" "hd c \<noteq> hd d"
  shows "CreationTime (hd d) - CreationTime (hd c) > interval
    \<or> CreationTime (hd c) - CreationTime (hd d) > interval"
proof -
  have "transp_on (set cs) (\<lambda>c d. CreationTime (hd d) - CreationTime (hd c) > interval)"
    using assms(2) by (intro transp_onI) simp
  then have "sorted_wrt (\<lambda>c d. CreationTime (hd d) - CreationTime (hd c) > interval) cs"
    using assms(1) by (simp add: good_chunks_def successively_iff_sorted_wrt_strong transp_on_def)
  then show ?thesis using assms(3-5)
    by (induction cs) auto
qed

lemma kept_is_head:
  "x \<in> set (concat cs) \<Longrightarrow> x \<notin> set (concat (map (drop 1) cs)) \<Longrightarrow> \<exists>c\<in>set cs. x = hd c"
proof -
  assume x: "x \<in> set (concat cs)" "x \<notin> set (concat (map (drop 1) cs))"
  then obtain c where c: "c \<in> set cs" "x \<in> set c" by auto
  moreover have "x \<notin> set (drop 1 c)" using x(2) c(1) by auto
  ultimately have "x = hd c" by (cases c rule: list.exhaust) auto
  with c(1) show ?thesis by blast
qed

text \<open>Pruning is idempotent: with only the snapshots that a run keeps, another run at the
  same time deletes nothing and returns no error.\<close>

theorem PruneSnapshots_idempotent:
  assumes "frozen env t" "sort_Slice_ok srt" "config sm = cfg" "consistent cfg"
    and "distinct ss" "\<forall>s\<in>set ss. \<not> IsZero (CreationTime s)"
    and "Snapshots (rootInfo sm) = filter (\<lambda>s. s \<notin> set (to_delete srt cfg t ss)) ss"
  shows "(case PruneSnapshots srt env sm w of (err, sm', w') \<Rightarrow> (err, w')) = (None, w)"
proof -
  let ?kept = "Snapshots (rootInfo sm)"
  let ?I = "RetentionInterval cfg"
  let ?cs = "toTimedChunks srt (candidates cfg t ss) ?I"
  have I: "0 \<le> ?I" "?I < maxDuration" and R: "Retention cfg \<noteq> 0"
    using assms(4) by (simp_all add: consistent_def)
  note del = set_to_delete [OF assms(2,4,6)]
  have exp: "filter (\<lambda>s. Retention cfg < age t s) ?kept = []"
    unfolding assms(7) filter_filter filter_empty_conv using del by blast
  have "thinned srt cfg t ?kept = []" if ri: "?I \<noteq> 0"
  proof -
    have nz: "\<forall>s\<in>set (candidates cfg t ss). \<not> IsZero (CreationTime s)"
      using assms(6) by (simp add: candidates_def)
    have g: "good_chunks ?I ?cs" and c: "set (concat ?cs) = set (candidates cfg t ss)"
      using toTimedChunks_good [OF assms(2) I nz] SortSnapshots_set [OF assms(2)] by simp_all
    have heads: "\<exists>c\<in>set ?cs. x = hd c" if "x \<in> set (candidates cfg t ?kept)" for x
    proof (rule kept_is_head)
      have "x \<in> set (candidates cfg t ss)" "x \<notin> set (to_delete srt cfg t ss)"
        using that by (simp_all add: candidates_def assms(7))
      then show "x \<in> set (concat ?cs)" "x \<notin> set (concat (map (drop 1) ?cs))"
        using ri c unfolding thinned_def [symmetric] del by blast+
    qed
    show ?thesis
      unfolding thinned_def
    proof (rule toTimedChunks_spread [OF assms(2) I])
      show "distinct (candidates cfg t ?kept)" using assms(5,7) by (simp add: candidates_def)
      show "\<forall>s\<in>set (candidates cfg t ?kept). \<not> IsZero (CreationTime s)"
        using assms(6,7) by (simp add: candidates_def)
      show "\<forall>a\<in>set (candidates cfg t ?kept). \<forall>b\<in>set (candidates cfg t ?kept). a \<noteq> b \<longrightarrow>
        CreationTime b - CreationTime a > ?I \<or> CreationTime a - CreationTime b > ?I"
        using heads heads_spread [OF g I(1)] by metis
    qed
  qed
  then have "to_delete srt cfg t ?kept = []" using exp by (simp add: to_delete_def)
  then show ?thesis using PruneSnapshots_frozen [OF assms(1), of srt sm w] assms(3) by simp
qed

definition sample_sm_kept :: SnapManager where
  "sample_sm_kept = sample_sm\<lparr>rootInfo := (rootInfo sample_sm)\<lparr>Snapshots :=
     filter (\<lambda>s. s \<notin> set (to_delete insertion_sort sample_cfg 40 sample_times)) sample_times\<rparr>\<rparr>"

lemma PruneSnapshots_idempotent_witness:
  "fst (PruneSnapshots insertion_sort (sample_env 40) sample_sm_kept []) = None"
proof -
  have "config sample_sm_kept = sample_cfg"
    "Snapshots (rootInfo sample_sm_kept)
      = filter (\<lambda>s. s \<notin> set (to_delete insertion_sort sample_cfg 40 sample_times)) sample_times"
    by (simp_all add: sample_sm_kept_def)
  from PruneSnapshots_idempotent [OF sample_frozen insertion_sort_ok this(1) sample_consistent
      sample_distinct sample_times_not_zero this(2), of "[]"]
  show ?thesis by (auto split: prod.splits)
qed

section \<open>A clock that advances\<close>

text \<open>An environment that records the paths that it is asked to delete.\<close>

definition traced :: "'w snap_env \<Rightarrow> ('w \<times> string list) snap_env" where
  "traced env =
     (let lift = \<lambda>f (w, log). case f w of (r, w) \<Rightarrow> (r, (w, log)) in
      \<lparr>Now = (\<lambda>(w, log). case Now env w of (t, w) \<Rightarrow> (t, (w, log))),
       TimeFormatted = TimeFormatted env,
       IsSubvolumeOp = (\<lambda>p (w, log). case IsSubvolumeOp env p w of (r, w) \<Rightarrow> (r, (w, log))),
       CreateSubvolumeOp = (\<lambda>p. lift (CreateSubvolumeOp env p)),
       DeleteSubvolumeOp = (\<lambda>p force (w, log).
         case DeleteSubvolumeOp env p force w of (r, w) \<Rightarrow> (r, (w, log @ [p]))),
       CreateSnapshotOp = (\<lambda>p opts. lift (CreateSnapshotOp env p opts)),
       SyncFilesystemOp = (\<lambda>p. lift (SyncFilesystemOp env p))\<rparr>)"

abbreviation log_of :: "'r \<times> 'w \<times> string list \<Rightarrow> string list" where "log_of r \<equiv> snd (snd r)"

definition clock_at_most :: "'w snap_env \<Rightarrow> time \<Rightarrow> bool" where
  "clock_at_most env t \<longleftrightarrow> (\<forall>w. fst (Now env w) \<le> t)"

lemma Now_traced [simp]: "Now (traced env) (w, log) = (fst (Now env w), (snd (Now env w), log))"
  by (simp add: traced_def Let_def split_def)

lemma Delete_traced [simp]: "DeleteSubvolumeOp (traced env) p f (w, log) =
    (fst (DeleteSubvolumeOp env p f w), (snd (DeleteSubvolumeOp env p f w), log @ [p]))"
  by (simp add: traced_def Let_def split_def)

lemma Since_traced: "Since (traced env) u (w, log) = (Sub (fst (Now env w)) u, (snd (Now env w), log))"
  by (simp add: Since_def)

lemma Since_at_most: "clock_at_most env t \<Longrightarrow> Sub (fst (Now env w)) u \<le> Sub t u"
  by (simp add: clock_at_most_def Sub_mono)

lemma delete_all_log:
  "set (log_of (delete_all (traced env) cfg ss (w, log))) \<subseteq> set log \<union> snap_path cfg ` set ss"
  by (induction ss arbitrary: w log) (fastforce split: option.splits prod.splits)+

lemma delete_expired_log:
  assumes "clock_at_most env t"
  shows "delete_expired (traced env) cfg ss rem (w, log) = (r, (w', log')) \<Longrightarrow>
    set log' \<subseteq> set log \<union> snap_path cfg ` {s \<in> set ss. Retention cfg < age t s}
    \<and> (\<forall>rem'. r = Inr rem' \<longrightarrow> set rem' \<subseteq> set rem \<union> set ss)"
proof (induction ss arbitrary: rem w log)
  case (Cons s ss)
  have le: "Sub (fst (Now env w)) (CreationTime s) \<le> age t s" by (rule Since_at_most [OF assms])
  show ?case
  proof (cases "Retention cfg < Sub (fst (Now env w)) (CreationTime s)")
    case True
    then have old: "Retention cfg < age t s" using le by simp
    obtain e w1 where d: "DeleteSubvolumeOp env (snap_path cfg s) True (snd (Now env w)) = (e, w1)"
      by (cases "DeleteSubvolumeOp env (snap_path cfg s) True (snd (Now env w))")
    show ?thesis
    proof (cases e)
      case None
      with Cons.prems True have "delete_expired (traced env) cfg ss rem (w1, log @ [snap_path cfg s]) = (r, (w', log'))"
        by (simp add: Since_traced d)
      from Cons.IH [OF this] old show ?thesis by auto
    qed (use Cons.prems True old in \<open>auto simp: Since_traced d\<close>)
  next
    case False
    with Cons.prems have "delete_expired (traced env) cfg ss (rem @ [s]) (snd (Now env w), log) = (r, (w', log'))"
      by (simp add: Since_traced)
    from Cons.IH [OF this] show ?thesis by auto
  qed
qed auto

lemma long_term_log:
  assumes "clock_at_most env t"
  shows "long_term (traced env) cfg ss acc (w, log) = (r, (w', log')) \<Longrightarrow>
    log' = log \<and> set r \<subseteq> set acc \<union> {s \<in> set ss. MinimumRetention cfg < age t s}"
proof (induction ss arbitrary: acc w)
  case (Cons s ss)
  have le: "Sub (fst (Now env v)) (CreationTime s) \<le> age t s" for v by (rule Since_at_most [OF assms])
  let ?v = "snd (Now env w)"
  show ?case
    using Cons.prems Cons.IH [of acc] Cons.IH [of "acc @ [s]"] le [of ?v]
    by (auto simp: Since_traced split: if_splits) fastforce+
qed auto

lemma set_chunk_loop: "concat (chunk_loop interval ss cs c u) = concat cs @ c @ ss"
  by (induction ss arbitrary: cs c u) (auto simp: Let_def)

lemma set_toTimedChunks:
  assumes "sort_Slice_ok srt"
  shows "set (concat (toTimedChunks srt ss interval)) = set ss"
  using SortSnapshots_set [OF assms] by (simp add: toTimedChunks_def set_chunk_loop del: set_concat)

text \<open>C25: Whatever the clock shows while pruning runs, if it never shows a time after \<open>t\<close>, only
  paths of snapshots that are older than the minimum retention at \<open>t\<close> are deleted, whether the
  deletions fail or not.\<close>

theorem PruneSnapshots_keeps_young:
  assumes "clock_at_most env t" "sort_Slice_ok srt" "consistent (config sm)"
  shows "set (snd (snd (snd (PruneSnapshots srt (traced env) sm (w, [])))))
    \<subseteq> snap_path (config sm) ` {s \<in> set (Snapshots (rootInfo sm)).
        MinimumRetention (config sm) < t - CreationTime s}"
proof -
  let ?cfg = "config sm" and ?ss = "Snapshots (rootInfo sm)"
  let ?old = "snap_path ?cfg ` {s \<in> set ?ss. MinimumRetention ?cfg < age t s}"
  have min: "MinimumRetention ?cfg < Retention ?cfg" using assms(3) by (simp add: consistent_def)
  obtain r1 w1 log1 where e: "delete_expired (traced env) ?cfg ?ss [] (w, []) = (r1, (w1, log1))"
    by (metis prod.exhaust_sel)
  have l1: "set log1 \<subseteq> ?old" and r1: "\<And>rem. r1 = Inr rem \<Longrightarrow> set rem \<subseteq> set ?ss"
    using delete_expired_log [OF assms(1) e] min by fastforce+
  have l2: "set (log_of (delete_chunks (traced env) ?cfg (toTimedChunks srt snaps I) (w2, log1))) \<subseteq> ?old"
    if "set snaps \<subseteq> {s \<in> set ?ss. MinimumRetention ?cfg < age t s}" for snaps I w2
  proof -
    let ?cs = "toTimedChunks srt snaps I"
    have "set (concat (map (drop 1) ?cs)) \<subseteq> set (concat ?cs)" by (auto dest: in_set_dropD)
    also have "\<dots> = set snaps" by (rule set_toTimedChunks [OF assms(2)])
    finally show ?thesis
      using delete_all_log [of env ?cfg "concat (map (drop 1) ?cs)" w2 log1] l1 that
      unfolding delete_chunks_concat by blast
  qed
  have "set (snd (snd (snd (PruneSnapshots srt (traced env) sm (w, []))))) \<subseteq> ?old"
  proof (cases r1)
    case (Inr rem)
    obtain snaps w2 log2 where lt: "long_term (traced env) ?cfg rem [] (w1, log1) = (snaps, (w2, log2))"
      by (metis prod.exhaust_sel)
    have "log2 = log1" "set snaps \<subseteq> {s \<in> set ?ss. MinimumRetention ?cfg < age t s}"
      using long_term_log [OF assms(1) lt] r1 [OF Inr] by auto
    then show ?thesis
      using l1 l2 by (simp add: PruneSnapshots_def e Inr lt Let_def split_def)
  qed (use l1 in \<open>simp add: PruneSnapshots_def e Let_def\<close>)
  then show ?thesis unfolding age_iff(2) [OF assms(3)] .
qed

lemma PruneSnapshots_keeps_young_witness:
  "set (snd (snd (snd (PruneSnapshots insertion_sort (traced (sample_env 12)) sample_sm ([], []))))) = {}"
proof -
  have "clock_at_most (sample_env 12) 12" by (simp add: clock_at_most_def sample_env_def)
  note r = PruneSnapshots_keeps_young [OF this insertion_sort_ok, of sample_sm "[]"]
  have "{s \<in> set sample_times. MinimumRetention sample_cfg < 12 - CreationTime s} = {}"
    by (auto simp: sample_times_def sample_snap_def sample_cfg_def)
  with r sample_consistent show ?thesis by simp
qed

section \<open>Fresh snapshots\<close>

lemma GetMostRecentSnapshot_max:
  "(case GetMostRecentSnapshot sm of
      None \<Rightarrow> Snapshots (rootInfo sm) = []
    | Some m \<Rightarrow> m \<in> set (Snapshots (rootInfo sm))
        \<and> (\<forall>s\<in>set (Snapshots (rootInfo sm)). CreationTime s \<le> CreationTime m))"
proof -
  let ?f = "\<lambda>latest snap. case latest of None \<Rightarrow> Some snap
    | Some l \<Rightarrow> if CreationTime snap > CreationTime l then Some snap else latest"
  have run: "\<exists>m. foldl ?f (Some l) ss = Some m \<and> m \<in> insert l (set ss)
      \<and> (\<forall>s\<in>insert l (set ss). CreationTime s \<le> CreationTime m)" for l ss
  proof (induction ss arbitrary: l)
    case (Cons s ss)
    show ?case
    proof (cases "CreationTime s > CreationTime l")
      case True
      from Cons.IH [of s] obtain m where m: "foldl ?f (Some s) ss = Some m" "m \<in> insert s (set ss)"
        "\<forall>x\<in>insert s (set ss). CreationTime x \<le> CreationTime m" by blast
      moreover have "CreationTime l \<le> CreationTime m" using True m(3) by simp
      ultimately show ?thesis using True by (intro exI [of _ m]) simp
    next
      case False
      from Cons.IH [of l] obtain m where m: "foldl ?f (Some l) ss = Some m" "m \<in> insert l (set ss)"
        "\<forall>x\<in>insert l (set ss). CreationTime x \<le> CreationTime m" by blast
      moreover have "CreationTime s \<le> CreationTime m" using False m(3) by simp
      ultimately show ?thesis using False by (intro exI [of _ m]) auto
    qed
  qed simp
  show ?thesis
  proof (cases "Snapshots (rootInfo sm)")
    case (Cons s ss)
    from run [of s ss] obtain m where "foldl ?f (Some s) ss = Some m" "m \<in> insert s (set ss)"
      "\<forall>x\<in>insert s (set ss). CreationTime x \<le> CreationTime m" by blast
    then show ?thesis by (simp add: GetMostRecentSnapshot_def Cons)
  qed (simp add: GetMostRecentSnapshot_def)
qed

text \<open>C40: Once the snapshot directory is ensured, a read-only snapshot is created and synced,
  under the configured name and the formatted time, exactly when no snapshot of the
  subvolume is younger than the interval; otherwise nothing is done.\<close>

theorem EnsureMostRecentSnapshot_fresh:
  assumes "frozen env t" "minDuration < Interval (config sm)" "Interval (config sm) \<le> maxDuration"
  defines "path \<equiv> Join [SnapshotDirectory (config sm),
    SnapshotName (config sm) @ ''.'' @ TimeFormatted env t (SnapTimeFormat (config sm))]"
  shows "EnsureMostRecentSnapshot env sm w = (case ensureSnapshotSubvol env sm w of
      (Some err, w) \<Rightarrow> (Some err, w)
    | (None, w) \<Rightarrow>
        if \<exists>s\<in>set (Snapshots (rootInfo sm)). t - CreationTime s < Interval (config sm) then (None, w)
        else (case CreateSnapshotOp env (FullSubvolumePath (config sm))
                  [WithSnapshotPath path, WithReadOnlySnapshot] w of
                (Some err, w) \<Rightarrow> (Some err, w)
              | (None, w) \<Rightarrow> SyncFilesystemOp env path w))"
proof -
  have now: "Now env w = (t, w)" for w using assms(1) by (simp add: frozen_def)
  have create: "create_snapshot env (config sm) w = (case CreateSnapshotOp env (FullSubvolumePath (config sm))
      [WithSnapshotPath path, WithReadOnlySnapshot] w of
        (Some err, w) \<Rightarrow> (Some err, w) | (None, w) \<Rightarrow> SyncFilesystemOp env path w)" for w
    unfolding create_snapshot_def now Let_def path_def by simp
  have sub: "Sub t u < Interval (config sm) \<longleftrightarrow> t - u < Interval (config sm)" for u
    using assms(2,3) by (rule Sub_less_iff)
  show ?thesis
  proof (cases "GetMostRecentSnapshot sm")
    case None
    then have "Snapshots (rootInfo sm) = []" using GetMostRecentSnapshot_max [of sm] by simp
    then show ?thesis by (auto simp: EnsureMostRecentSnapshot_def None create split: option.splits prod.splits)
  next
    case (Some m)
    then have "(\<exists>s\<in>set (Snapshots (rootInfo sm)). t - CreationTime s < Interval (config sm))
        \<longleftrightarrow> t - CreationTime m < Interval (config sm)"
      using GetMostRecentSnapshot_max [of sm] by fastforce
    then show ?thesis
      by (simp add: EnsureMostRecentSnapshot_def Some create Since_frozen [OF assms(1)] sub
          cong: option.case_cong if_cong prod.case_cong)
  qed
qed

lemma EnsureMostRecentSnapshot_fresh_witness:
  "EnsureMostRecentSnapshot (sample_env 25) sample_sm [] = (None, [])"
proof -
  have "minDuration < Interval (config sample_sm)" "Interval (config sample_sm) \<le> maxDuration"
    by (simp_all add: sample_cfg_def)
  from EnsureMostRecentSnapshot_fresh [OF sample_frozen this, of 25 "[]"] show ?thesis
    by (simp add: ensureSnapshotSubvol_def sample_env_def sample_times_def sample_snap_def sample_cfg_def)
qed

end
