(* ===== verification/Btrfs.thy ===== *)
theory Btrfs
  imports Kernel SnapManager
begin

text \<open>
  Operations on subvolumes, snapshots and mounts (\<^verbatim>\<open>pkg/btrfs/subvolume.go\<close>,
  \<^verbatim>\<open>snapshot.go\<close>, \<^verbatim>\<open>sync.go\<close>, \<^verbatim>\<open>clone.go\<close>, \<^verbatim>\<open>mounts.go\<close>).
\<close>

section \<open>Names as C arrays\<close>

text \<open>
  The width of the first character of a string as Go's \<^verbatim>\<open>range\<close> decodes UTF-8: an invalid
  sequence advances by one byte.
\<close>

definition cont :: "nat \<Rightarrow> nat \<Rightarrow> byte \<Rightarrow> bool" where
  "cont lo hi b \<longleftrightarrow> lo \<le> unat b \<and> unat b \<le> hi"

definition rune_width :: "bytes \<Rightarrow> nat" where
  "rune_width s = (case s of [] \<Rightarrow> 1 | b0 # s1 \<Rightarrow>
     let x = unat b0;
         lo = (if x = 0xE0 then 0xA0 else if x = 0xF0 then 0x90 else 0x80);
         hi = (if x = 0xED then 0x9F else if x = 0xF4 then 0x8F else 0xBF);
         n = (if 0xC2 \<le> x \<and> x \<le> 0xDF then 2 else if 0xE0 \<le> x \<and> x \<le> 0xEF then 3
              else if 0xF0 \<le> x \<and> x \<le> 0xF4 then 4 else 1)
     in if n = 1 then 1
        else if n \<le> length s \<and> cont lo hi (s1 ! 0) \<and> list_all (cont 0x80 0xBF) (take (n - 2) (drop 1 s1))
        then n else 1)"

text \<open>
  \<^verbatim>\<open>for i := range s { a[i] = int8(s[i]) }\<close>: the index takes the positions where the
  characters start, so the other bytes of a character are left zero.
\<close>

fun rune_starts :: "nat \<Rightarrow> nat \<Rightarrow> bytes \<Rightarrow> nat list" where
  "rune_starts i 0 s = []"
| "rune_starts i (Suc fuel) s =
     (if s = [] then [] else i # rune_starts (i + rune_width s) fuel (drop (rune_width s) s))"

definition toSnapInt8Array :: "string \<Rightarrow> bytes go" where
  "toSnapInt8Array s =
     (let b = bytes_of_string s
      in foldl (\<lambda>a i. do { a \<leftarrow> a; if i < 4040 then Some (a[i := b ! i]) else panic })
           (Some (replicate 4040 0)) (rune_starts 0 (length b) b))"

text \<open>What the kernel reads from such an array.\<close>

definition c_string :: "bytes \<Rightarrow> bytes" where
  "c_string a = takeWhile (\<lambda>b. b \<noteq> 0) a"

section \<open>Arguments of the ioctls\<close>

record volumeArgsV2 =
  ArgFd :: fd
  ArgTransid :: u64
  ArgFlags :: u64
  ArgName :: bytes

definition enc_volumeArgsV2 :: "volumeArgsV2 \<Rightarrow> bytes" where
  "enc_volumeArgsV2 a = le_enc 8 (ArgFd a) @ le_enc 8 (ArgTransid a) @ le_enc 8 (ArgFlags a)
     @ replicate 32 0 @ ArgName a"

definition dec_volumeArgsV2 :: "bytes \<Rightarrow> volumeArgsV2" where
  "dec_volumeArgsV2 b = \<lparr>ArgFd = le_at 0 8 b, ArgTransid = le_at 8 8 b, ArgFlags = le_at 16 8 b,
     ArgName = bytes_at 56 4040 b\<rparr>"

abbreviation volume_ioctl :: "'w kernel \<Rightarrow> fd \<Rightarrow> IoctlCmd \<Rightarrow> volumeArgsV2 \<Rightarrow> ('w, volumeArgsV2) io" where
  "volume_ioctl \<equiv> callWriteIoctl 4096 enc_volumeArgsV2 dec_volumeArgsV2"

record receivedSubvolArgs =
  ArgUuid :: uuid
  ArgStransid :: u64

definition uuidToInt8Array :: "uuid \<Rightarrow> bytes" where
  "uuidToInt8Array u = u"

text \<open>The zero fields are \<^verbatim>\<open>Rtransid\<close>, the two times of sixteen bytes, \<^verbatim>\<open>Flags\<close> and the reserved part.\<close>

definition enc_receivedSubvolArgs :: "receivedSubvolArgs \<Rightarrow> bytes" where
  "enc_receivedSubvolArgs a = ArgUuid a @ le_enc 8 (ArgStransid a) @ replicate 176 0"

definition dec_receivedSubvolArgs :: "bytes \<Rightarrow> receivedSubvolArgs" where
  "dec_receivedSubvolArgs b = \<lparr>ArgUuid = bytes_at 0 16 b, ArgStransid = le_at 16 8 b\<rparr>"

definition SubvolReadOnly :: u64 where [simp]: "SubvolReadOnly = 2"
definition BTRFS_SUPER_MAGIC :: u64 where [simp]: "BTRFS_SUPER_MAGIC = 0x9123683E"

section \<open>Subvolumes\<close>

definition IsSubvolume :: "'w kernel \<Rightarrow> string \<Rightarrow> ('w, bool) io" where
  "IsSubvolume k path =
     andThen (sys_Abs k path) (\<lambda>path.
     andThen (sys_Statfs k path) (\<lambda>type. ok (type = BTRFS_SUPER_MAGIC)))"

definition CreateSubvolume :: "'w kernel \<Rightarrow> string \<Rightarrow> ('w, unit) io" where
  "CreateSubvolume k path =
     andThen (sys_Abs k path) (\<lambda>path.
     let topdir = Dir path; name = Base path in
     andThen (sys_MkdirAll k topdir 493) (\<lambda>_.
     andThen (sys_Open k topdir) (\<lambda>dest.
     andThen (lift_go (toSnapInt8Array name)) (\<lambda>arr.
     andThen (volume_ioctl k dest BTRFS_IOC_SUBVOL_CREATE_V2
       \<lparr>ArgFd = dest, ArgTransid = 0, ArgFlags = 0, ArgName = arr\<rparr>) (\<lambda>_. ok ())))))"

definition SetReceivedSubvolume :: "'w kernel \<Rightarrow> string \<Rightarrow> uuid \<Rightarrow> u64 \<Rightarrow> ('w, unit) io" where
  "SetReceivedSubvolume k path uuid ctransid =
     andThen (sys_Abs k path) (\<lambda>path.
     andThen (sys_Open k path) (\<lambda>f. closing k f (
     andThen (callWriteIoctl 200 enc_receivedSubvolArgs dec_receivedSubvolArgs k f
       BTRFS_IOC_SET_RECEIVED_SUBVOL \<lparr>ArgUuid = uuidToInt8Array uuid, ArgStransid = ctransid\<rparr>) (\<lambda>_. ok ()))))"

definition SetSubvolumeReadOnly :: "'w kernel \<Rightarrow> string \<Rightarrow> bool \<Rightarrow> ('w, unit) io" where
  "SetSubvolumeReadOnly k path readonly =
     andThen (sys_Abs k path) (\<lambda>path.
     andThen (sys_Open k path) (\<lambda>f. closing k f (
     andThen (ioctlUint64 k f BTRFS_IOC_SUBVOL_GETFLAGS 0) (\<lambda>flags.
     let flags = (if readonly then flags OR SubvolReadOnly else flags AND NOT SubvolReadOnly) in
     andThen (ioctlUint64 k f BTRFS_IOC_SUBVOL_SETFLAGS flags) (\<lambda>_. ok ())))))"

definition DeleteSubvolume :: "'w kernel \<Rightarrow> string \<Rightarrow> bool \<Rightarrow> ('w, unit) io" where
  "DeleteSubvolume k path force =
     andThen (sys_Abs k path) (\<lambda>path.
     andThen (sys_Open k path) (\<lambda>f.
     andThen (ioctlUint64 k f BTRFS_IOC_SUBVOL_GETFLAGS 0) (\<lambda>flags.
     if flags AND SubvolReadOnly \<noteq> 0 then
       if force then
         andThen (ioctlUint64 k f BTRFS_IOC_SUBVOL_SETFLAGS (flags AND NOT SubvolReadOnly)) (\<lambda>_.
         sys_RemoveAll k path)
       else fail (ErrText ''subvolume is read-only'')
     else sys_RemoveAll k path)))"

definition isSubvolumeReadOnlyFd :: "'w kernel \<Rightarrow> fd \<Rightarrow> ('w, bool) io" where
  "isSubvolumeReadOnlyFd k fd =
     andThen (ioctlUint64 k fd BTRFS_IOC_SUBVOL_GETFLAGS 0) (\<lambda>flags. ok (flags AND SubvolReadOnly \<noteq> 0))"

definition IsSubvolumeReadOnly :: "'w kernel \<Rightarrow> string \<Rightarrow> ('w, bool) io" where
  "IsSubvolumeReadOnly k path =
     andThen (sys_Open k path) (\<lambda>f. closing k f (isSubvolumeReadOnlyFd k f))"

section \<open>Snapshots\<close>

definition snapshot_option :: "'w kernel \<Rightarrow> SnapshotOption \<Rightarrow> volumeArgsV2 \<Rightarrow> ('w, volumeArgsV2) io" where
  "snapshot_option k opt args = (case opt of
     WithSnapshotName name \<Rightarrow>
       andThen (lift_go (toSnapInt8Array name)) (\<lambda>arr. ok (args\<lparr>ArgName := arr\<rparr>))
   | WithSnapshotPath path \<Rightarrow>
       andThen (sys_Abs k path) (\<lambda>path.
       let topdir = Dir path; name = Base path in
       andThen (sys_MkdirAll k topdir 493) (\<lambda>_.
       andThen (sys_Open k topdir) (\<lambda>dest.
       andThen (lift_go (toSnapInt8Array name)) (\<lambda>arr.
       ok (args\<lparr>ArgFd := dest, ArgName := arr\<rparr>)))))
   | WithReadOnlySnapshot \<Rightarrow> ok (args\<lparr>ArgFlags := ArgFlags args OR SubvolReadOnly\<rparr>))"

fun snapshot_options :: "'w kernel \<Rightarrow> SnapshotOption list \<Rightarrow> volumeArgsV2 \<Rightarrow> ('w, volumeArgsV2) io" where
  "snapshot_options k [] args = ok args"
| "snapshot_options k (opt # opts) args =
     andThen (snapshot_option k opt args) (\<lambda>args. snapshot_options k opts args)"

definition CreateSnapshot :: "'w kernel \<Rightarrow> string \<Rightarrow> SnapshotOption list \<Rightarrow> ('w, unit) io" where
  "CreateSnapshot k source opts =
     andThen (sys_Abs k source) (\<lambda>source.
     andThen (sys_Open k source) (\<lambda>src. closing k src (
     andThen (snapshot_options k opts
       \<lparr>ArgFd = src, ArgTransid = 0, ArgFlags = 0, ArgName = replicate 4040 0\<rparr>) (\<lambda>args.
     if ArgFd args \<noteq> src then
       (let fddst = ArgFd args in closing k fddst (
        andThen (volume_ioctl k fddst BTRFS_IOC_SNAP_CREATE_V2 (args\<lparr>ArgFd := src\<rparr>)) (\<lambda>_. ok ())))
     else andThen (volume_ioctl k src BTRFS_IOC_SNAP_CREATE_V2 args) (\<lambda>_. ok ())))))"

definition DeleteSnapshot :: "'w kernel \<Rightarrow> string \<Rightarrow> ('w, unit) io" where
  "DeleteSnapshot k path =
     andThen (sys_Abs k path) (\<lambda>path.
     let topdir = Dir path; name = Base path in
     andThen (sys_Open k topdir) (\<lambda>f. closing k f (
     andThen (lift_go (toSnapInt8Array name)) (\<lambda>arr.
     andThen (volume_ioctl k f BTRFS_IOC_SNAP_DESTROY_V2
       \<lparr>ArgFd = f, ArgTransid = 0, ArgFlags = 0, ArgName = arr\<rparr>) (\<lambda>_. ok ())))))"

definition SyncFilesystem :: "'w kernel \<Rightarrow> string \<Rightarrow> ('w, unit) io" where
  "SyncFilesystem k path =
     andThen (sys_Open k path) (\<lambda>f. closing k f (andThen (ioctl k f BTRFS_IOC_SYNC []) (\<lambda>_. ok ())))"

section \<open>Clones\<close>

definition enc_cloneRangeArgs :: "fd \<times> u64 \<times> u64 \<times> u64 \<Rightarrow> bytes" where
  "enc_cloneRangeArgs a = (case a of (src, off, len, dest) \<Rightarrow>
     le_enc 8 src @ le_enc 8 off @ le_enc 8 len @ le_enc 8 dest)"

definition dec_cloneRangeArgs :: "bytes \<Rightarrow> fd \<times> u64 \<times> u64 \<times> u64" where
  "dec_cloneRangeArgs b = (le_at 0 8 b, le_at 8 8 b, le_at 16 8 b, le_at 24 8 b)"

definition Clone_file :: "'w kernel \<Rightarrow> string \<Rightarrow> string \<Rightarrow> u64 \<Rightarrow> u64 \<Rightarrow> u64 \<Rightarrow> ('w, unit) io" where
  "Clone_file k src dest srcOffset destOffset len =
     andThen (sys_Open k src) (\<lambda>srcFile. closing k srcFile (
     andThen (sys_OpenWrite k dest) (\<lambda>destFile.
     andThen (callWriteIoctl 32 enc_cloneRangeArgs dec_cloneRangeArgs k destFile BTRFS_IOC_CLONE_RANGE
       (srcFile, srcOffset, len, destOffset)) (\<lambda>_. ok ()))))"

section \<open>Mounts\<close>

text \<open>
  \<^verbatim>\<open>bufio.Scanner\<close> drops a carriage return at the end of a line and stops at a line of
  64 KiB; \<^verbatim>\<open>strings.Fields\<close> splits at white space, of which \<^verbatim>\<open>/proc/mounts\<close> contains the
  ASCII characters only.
\<close>

definition scan_lines :: "string \<Rightarrow> string list" where
  "scan_lines s =
     (let ls = split_on (CHR 0x0A) s;
          ls = (if last ls = [] then butlast ls else ls)
      in map (\<lambda>l. if l \<noteq> [] \<and> last l = CHR 0x0D then butlast l else l) (takeWhile (\<lambda>l. length l < 65536) ls))"

definition is_space :: "char \<Rightarrow> bool" where
  "is_space c \<longleftrightarrow> c \<in> {CHR 0x09, CHR 0x0A, CHR 0x0B, CHR 0x0C, CHR 0x0D, CHR 0x20}"

fun fields_acc :: "string \<Rightarrow> string \<Rightarrow> string list" where
  "fields_acc acc [] = (if acc = [] then [] else [acc])"
| "fields_acc acc (c # cs) =
     (if is_space c then (if acc = [] then fields_acc [] cs else acc # fields_acc [] cs)
      else fields_acc (acc @ [c]) cs)"

definition Fields :: "string \<Rightarrow> string list" where "Fields s = fields_acc [] s"

record BtrfsMount =
  MountPath :: string
  Device :: string
  Options :: "string list"

definition BtrfsMount_String :: "BtrfsMount \<Rightarrow> string" where
  "BtrfsMount_String b =
     Device b @ '' on '' @ MountPath b @ '' type btrfs ('' @ join_with (CHR '','') (Options b) @ '')''"

definition mount_of_line :: "string \<Rightarrow> BtrfsMount option" where
  "mount_of_line line =
     (let fields = Fields line
      in if length fields < 3 then None
         else if fields ! 2 \<noteq> ''btrfs'' then None
         else Some \<lparr>MountPath = fields ! 1, Device = fields ! 0,
           Options = (if length fields \<ge> 4 then split_on (CHR '','') (fields ! 3) else [])\<rparr>)"

definition ListBtrfsMounts :: "'w kernel \<Rightarrow> ('w, BtrfsMount list) io" where
  "ListBtrfsMounts k =
     andThen (sys_ReadFile k ''/proc/mounts'') (\<lambda>f. ok (List.map_filter mount_of_line (scan_lines f)))"

definition longest_prefix :: "string \<Rightarrow> BtrfsMount list \<Rightarrow> BtrfsMount option" where
  "longest_prefix path mounts = foldl (\<lambda>rootMount mount.
     if HasPrefix path (MountPath mount) then
       (case rootMount of
          None \<Rightarrow> Some mount
        | Some m \<Rightarrow> if length (MountPath mount) > length (MountPath m) then Some mount else rootMount)
     else rootMount) None mounts"

definition FindRootMount :: "'w kernel \<Rightarrow> string \<Rightarrow> ('w, BtrfsMount) io" where
  "FindRootMount k path =
     andThen (sys_Abs k path) (\<lambda>path.
     andThen (ListBtrfsMounts k) (\<lambda>mounts.
     case longest_prefix path mounts of
       None \<Rightarrow> fail (Errorf path ErrRootMountNotFound)
     | Some rootMount \<Rightarrow> ok rootMount))"

definition IsBtrfs :: "'w kernel \<Rightarrow> string \<Rightarrow> ('w, bool) io" where
  "IsBtrfs k path =
     andThen (sys_Abs k path) (\<lambda>path.
     andThen (result (FindRootMount k path)) (\<lambda>r.
     case r of
       Inl err \<Rightarrow> if errors_is err ErrRootMountNotFound then ok False else ok True
     | Inr _ \<Rightarrow> ok True))"

definition FindMountForDevice :: "'w kernel \<Rightarrow> string \<Rightarrow> ('w, BtrfsMount) io" where
  "FindMountForDevice k device =
     andThen (ListBtrfsMounts k) (\<lambda>mounts.
     case find (\<lambda>m. Device m = device) mounts of
       Some m \<Rightarrow> ok m | None \<Rightarrow> fail (ErrText ''could not find mount for device''))"

definition FindDeviceForMount :: "'w kernel \<Rightarrow> string \<Rightarrow> ('w, string) io" where
  "FindDeviceForMount k mount =
     andThen (ListBtrfsMounts k) (\<lambda>mounts.
     case find (\<lambda>m. MountPath m = mount) mounts of
       Some m \<Rightarrow> ok (Device m) | None \<Rightarrow> fail (ErrText ''could not find device for mount''))"

section \<open>The environment of the snapshot manager\<close>

text \<open>
  The operations of this package are the environment of the snapshot manager, for names that
  fit the array of the ioctl. The clock and the formatting of times are arguments.
\<close>

definition err_of :: "((gerr + unit) \<times> 'w) option \<Rightarrow> gerr option \<times> 'w" where
  "err_of r = (case the r of (Inl e, w) \<Rightarrow> (Some e, w) | (Inr _, w) \<Rightarrow> (None, w))"

definition btrfs_env :: "'w kernel \<Rightarrow> ('w \<Rightarrow> time \<times> 'w) \<Rightarrow> (time \<Rightarrow> string \<Rightarrow> string) \<Rightarrow> 'w snap_env" where
  "btrfs_env k now fmt = \<lparr>Now = now, TimeFormatted = fmt,
     IsSubvolumeOp = (\<lambda>p w. the (IsSubvolume k p w)),
     CreateSubvolumeOp = (\<lambda>p w. err_of (CreateSubvolume k p w)),
     DeleteSubvolumeOp = (\<lambda>p force w. err_of (DeleteSubvolume k p force w)),
     CreateSnapshotOp = (\<lambda>p opts w. err_of (CreateSnapshot k p opts w)),
     SyncFilesystemOp = (\<lambda>p w. err_of (SyncFilesystem k p w))\<rparr>"

section \<open>Names\<close>

definition ascii :: "bytes \<Rightarrow> bool" where
  "ascii s \<longleftrightarrow> (\<forall>b\<in>set s. 0 < unat b \<and> unat b < 128)"

lemma rune_width_ascii: "unat b < 128 \<Longrightarrow> rune_width (b # s) = 1"
  by (simp add: rune_width_def Let_def)

lemma rune_starts_ascii:
  "ascii s \<Longrightarrow> rune_starts i (length s + n) (s @ t) = [i..<i + length s] @ rune_starts (i + length s) n t"
proof (induction s arbitrary: i)
  case (Cons b s)
  then have "unat b < 128" "ascii s" by (simp_all add: ascii_def)
  moreover have "[i..<i + length (b # s)] = i # [Suc i..<Suc i + length s]"
    by (simp add: upt_conv_Cons del: upt_Suc)
  ultimately show ?case using Cons.IH [of "Suc i"]
    by (simp add: rune_width_ascii del: upt_Suc)
qed simp

definition put_at :: "bytes \<Rightarrow> bytes go \<Rightarrow> nat \<Rightarrow> bytes go" where
  "put_at b a i = do { a \<leftarrow> a; if i < 4040 then Some (a[i := b ! i]) else panic }"

lemma toSnapInt8Array_fold: "toSnapInt8Array s = foldl (put_at (bytes_of_string s)) (Some (replicate 4040 0))
    (rune_starts 0 (length s) (bytes_of_string s))"
  by (simp add: toSnapInt8Array_def put_at_def [abs_def] Let_def)

lemma put_prefix:
  "n \<le> length b \<Longrightarrow> n \<le> 4040 \<Longrightarrow> foldl (put_at b) (Some (replicate 4040 0)) [0..<n]
    = Some (take n b @ replicate (4040 - n) 0)"
proof (induction n)
  case (Suc n)
  have "(take n b @ replicate (4040 - n) 0)[n := b ! n] = take (Suc n) b @ replicate (4040 - Suc n) 0"
  proof -
    have r: "replicate (4040 - n) 0 = 0 # replicate (4040 - Suc n) 0"
      using Suc.prems by (simp flip: replicate_Suc add: Suc_diff_Suc)
    have t: "take (Suc n) b = take n b @ [b ! n]" using Suc.prems by (simp add: take_Suc_conv_app_nth)
    have l: "length (take n b) = n" using Suc.prems by simp
    show ?thesis unfolding r t using l by (metis append_Cons append_Nil append_assoc list_update_length)
  qed
  then show ?case using Suc by (simp add: put_at_def)
qed simp

lemma rune_width_le: "s \<noteq> [] \<Longrightarrow> rune_width s \<le> length s"
  by (cases s) (auto simp: rune_width_def Let_def)

lemma rune_starts_bounds:
  "j \<in> set (rune_starts i n s) \<Longrightarrow> i \<le> j \<and> j < i + length s"
proof (induction n arbitrary: i s)
  case (Suc n)
  show ?case
  proof (cases "s = [] \<or> j = i")
    case False
    with Suc.prems have "j \<in> set (rune_starts (i + rune_width s) n (drop (rune_width s) s))" by simp
    from Suc.IH [OF this] rune_width_le [of s] False show ?thesis by simp
  qed (use Suc.prems in \<open>auto split: if_splits\<close>)
qed simp

lemma put_suffix:
  "\<forall>j\<in>set js. m \<le> j \<and> j < 4040 \<Longrightarrow>
    \<exists>a'. foldl (put_at b) (Some a) js = Some a' \<and> take m a' = take m a"
proof (induction js arbitrary: a)
  case (Cons j js)
  from Cons.IH [of "a[j := b ! j]"] Cons.prems show ?case by (auto simp: put_at_def)
qed simp

lemma foldl_None_put: "foldl (put_at b) None js = None"
  by (induction js) (auto simp: put_at_def)

lemma put_length: "foldl (put_at b) (Some c) js = Some c' \<Longrightarrow> length c' = length c"
proof (induction js arbitrary: c)
  case (Cons j js)
  have "put_at b (Some c) j = (if j < 4040 then Some (c[j := b ! j]) else None)"
    by (simp add: put_at_def)
  with Cons show ?case by (auto simp: foldl_None_put split: if_splits)
qed simp

text \<open>A snapshot or subvolume name reaches the kernel unchanged when it is ASCII; otherwise it
  is cut after the first byte of its first character that is not.\<close>

theorem toSnapInt8Array_name:
  assumes "bytes_of_string s = p @ q" "ascii p" "length s \<le> 4040" "q = [] \<or> 2 \<le> rune_width q"
  shows "\<exists>a. toSnapInt8Array s = Some a \<and> length a = 4040 \<and> c_string a = p @ take 1 q"
proof -
  let ?b = "bytes_of_string s" and ?n = "length p"
  have len: "length s = ?n + length q" using arg_cong [OF assms(1), of length] by simp
  have starts: "rune_starts 0 (length s) ?b = [0..<?n] @ rune_starts ?n (length q) q"
    unfolding assms(1) len using rune_starts_ascii [OF assms(2), of 0 "length q" q] by simp
  have pre: "foldl (put_at ?b) (Some (replicate 4040 0)) [0..<?n] = Some (p @ replicate (4040 - ?n) 0)"
    using put_prefix [of ?n ?b] assms(1,3) len by simp
  have tw: "takeWhile (\<lambda>x. x \<noteq> 0) (p @ r) = p @ takeWhile (\<lambda>x. x \<noteq> 0) r" for r
  proof -
    have "\<forall>x\<in>set p. x \<noteq> 0" using assms(2) by (auto simp: ascii_def)
    then show ?thesis by (simp add: takeWhile_append2)
  qed
  have "\<exists>a. foldl (put_at ?b) (Some (replicate 4040 0)) (rune_starts 0 (length s) ?b) = Some a
      \<and> length a = 4040 \<and> c_string a = p @ take 1 q"
  proof (cases q)
    case Nil
    then have "foldl (put_at ?b) (Some (replicate 4040 0)) (rune_starts 0 (length s) ?b)
        = Some (p @ replicate (4040 - ?n) 0)"
      unfolding starts by (simp add: pre)
    moreover have "takeWhile (\<lambda>x. x \<noteq> 0) (replicate (4040 - ?n) (0 :: byte)) = []"
      by (simp add: takeWhile_eq_Nil_iff)
    ultimately show ?thesis
      using assms(3) len Nil by (simp add: c_string_def tw)
  next
    case (Cons x q')
    let ?w = "rune_width q"
    have w: "2 \<le> ?w" "?w \<le> length q" using assms(4) Cons rune_width_le [of q] by auto
    have x0: "x \<noteq> 0" using w(1) Cons by (auto simp: rune_width_def Let_def split: if_splits)
    let ?js = "rune_starts (?n + ?w) (length q') (drop ?w q)"
    have js: "\<forall>j\<in>set ?js. ?n + 2 \<le> j \<and> j < 4040"
      using rune_starts_bounds [of _ "?n + ?w" "length q'" "drop ?w q"] w assms(3) len by fastforce
    have at: "?b ! ?n = x" by (simp add: assms(1) Cons)
    have rep: "replicate (4040 - ?n) (0 :: byte) = 0 # 0 # replicate (4038 - ?n) 0"
    proof -
      have "4040 - ?n = Suc (Suc (4038 - ?n))" using assms(3) len w by simp
      then show ?thesis by simp
    qed
    obtain a where a: "foldl (put_at ?b) (Some (p @ x # 0 # replicate (4038 - ?n) 0)) ?js = Some a"
      "take (?n + 2) a = take (?n + 2) (p @ x # 0 # replicate (4038 - ?n) 0)"
      using put_suffix [OF js] by blast
    have fold: "foldl (put_at ?b) (Some (replicate 4040 0)) (rune_starts 0 (length s) ?b) = Some a"
    proof -
      have "rune_starts ?n (length q) q = ?n # ?js" by (simp add: Cons)
      moreover have "put_at ?b (Some (p @ 0 # 0 # replicate (4038 - ?n) 0)) ?n
          = Some (p @ x # 0 # replicate (4038 - ?n) 0)"
        using assms(3) len Cons at by (simp add: put_at_def)
      ultimately show ?thesis
        unfolding starts foldl_append pre rep using a(1) by simp
    qed
    have "length a = 4040" using put_length [OF fold] by simp
    have "a = take (?n + 2) a @ drop (?n + 2) a" by simp
    then obtain d where d: "a = p @ x # 0 # d" unfolding a(2) by simp
    have "c_string a = p @ [x]" unfolding d c_string_def tw using x0 by simp
    with fold \<open>length a = 4040\<close> show ?thesis by (simp add: Cons)
  qed
  then show ?thesis by (simp add: toSnapInt8Array_fold)
qed

text \<open>The name \<open>b\<close>, a two-byte character, \<open>r\<close>.\<close>

definition sample_name :: string where
  "sample_name = [CHR ''b'', CHR 0xC3, CHR 0xA9, CHR ''r'']"

lemma toSnapInt8Array_name_witness: "map_option c_string (toSnapInt8Array sample_name) = Some [0x62, 0xC3]"
proof -
  have "bytes_of_string sample_name = [0x62] @ [0xC3, 0xA9, 0x72]" by code_simp
  moreover have "ascii [0x62]" by (simp add: ascii_def)
  moreover have "2 \<le> rune_width [0xC3, 0xA9, 0x72]" by code_simp
  ultimately show ?thesis
    using toSnapInt8Array_name [of sample_name "[0x62]" "[0xC3, 0xA9, 0x72]"]
    by (auto simp: sample_name_def)
qed

section \<open>Root mounts\<close>

lemma longest_prefix_max:
  "(case longest_prefix path ms of
      None \<Rightarrow> \<forall>m\<in>set ms. \<not> HasPrefix path (MountPath m)
    | Some m \<Rightarrow> m \<in> set ms \<and> HasPrefix path (MountPath m)
        \<and> (\<forall>n\<in>set ms. HasPrefix path (MountPath n) \<longrightarrow> length (MountPath n) \<le> length (MountPath m)))"
proof (induction ms rule: rev_induct)
  case (snoc x ms)
  have "longest_prefix path (ms @ [x]) = (if HasPrefix path (MountPath x) then
       (case longest_prefix path ms of
          None \<Rightarrow> Some x
        | Some m \<Rightarrow> if length (MountPath x) > length (MountPath m) then Some x else Some m)
     else longest_prefix path ms)"
    by (auto simp: longest_prefix_def split: option.splits)
  then show ?case using snoc.IH by (cases "longest_prefix path ms") fastforce+
qed (simp add: longest_prefix_def)

text \<open>The root mount of a path is a btrfs mount whose path is the longest that is a prefix of
  the absolute path, as strings; there is an error exactly when none is. A mount at
  \<open>/data\<close> is so the root mount of \<open>/data2/x\<close>.\<close>

theorem FindRootMount_longest:
  assumes "sys_Abs k path w = Some (Inr p, w)" "sys_ReadFile k ''/proc/mounts'' w = Some (Inr f, w)"
  defines "mounts \<equiv> List.map_filter mount_of_line (scan_lines f)"
  shows "case FindRootMount k path w of
      None \<Rightarrow> False
    | Some (Inl e, w') \<Rightarrow> e = Errorf p ErrRootMountNotFound \<and> (\<forall>m\<in>set mounts. \<not> HasPrefix p (MountPath m))
    | Some (Inr m, w') \<Rightarrow> m \<in> set mounts \<and> HasPrefix p (MountPath m)
        \<and> (\<forall>n\<in>set mounts. HasPrefix p (MountPath n) \<longrightarrow> length (MountPath n) \<le> length (MountPath m))"
  using longest_prefix_max [where path = p and ms = mounts]
  by (auto simp: FindRootMount_def ListBtrfsMounts_def andThen_def assms fail_def ok_def split: option.splits)

definition nop_kernel :: "string \<Rightarrow> 'w kernel" where
  "nop_kernel f = \<lparr>sys_Abs = ok, sys_Open = (\<lambda>p. ok 3), sys_OpenWrite = (\<lambda>p. ok 4), sys_Close = (\<lambda>f w. w),
     sys_MkdirAll = (\<lambda>p m. ok ()), sys_RemoveAll = (\<lambda>p. ok ()), sys_Statfs = (\<lambda>p. ok BTRFS_SUPER_MAGIC),
     sys_ReadFile = (\<lambda>p. ok f), sys_ioctl = (\<lambda>fd c b. ok b)\<rparr>"

lemma FindRootMount_longest_witness:
  "\<exists>m. FindRootMount (nop_kernel ''/dev/sda /data btrfs rw 0 0'') ''/data2/x'' () = Some (Inr m, ())
    \<and> MountPath m = ''/data''"
proof -
  let ?k = "nop_kernel ''/dev/sda /data btrfs rw 0 0'' :: unit kernel"
  have "scan_lines ''/dev/sda /data btrfs rw 0 0'' = [''/dev/sda /data btrfs rw 0 0'']"
    by (simp add: scan_lines_def Let_def)
  moreover have "Fields ''/dev/sda /data btrfs rw 0 0'' = [''/dev/sda'', ''/data'', ''btrfs'', ''rw'', ''0'', ''0'']"
    by (simp add: Fields_def is_space_def)
  ultimately obtain x where
    x: "List.map_filter mount_of_line (scan_lines ''/dev/sda /data btrfs rw 0 0'') = [x]" "MountPath x = ''/data''"
    by (simp add: mount_of_line_def List.map_filter_simps)
  have "HasPrefix ''/data2/x'' ''/data''" by (simp add: HasPrefix_def)
  with FindRootMount_longest [of ?k "''/data2/x''" "()" "''/data2/x''" "''/dev/sda /data btrfs rw 0 0''"] x
  show ?thesis
    by (auto simp: nop_kernel_def ok_def split: option.splits sum.splits)
qed

end
