(* ===== verification/TreeWalk.thy ===== *)
theory TreeWalk
  imports Kernel "HOL-Library.Product_Lexorder"
begin

text \<open>
  Walking a tree of the file system with the search ioctl (\<^verbatim>\<open>pkg/btrfs/btrfs_tree_walk.go\<close>,
  \<^verbatim>\<open>btrfs_tree_item.go\<close>). A call of the ioctl returns a batch of items; the walk decodes
  them, calls a function for each one and continues behind the last.
\<close>

section \<open>Search arguments\<close>

definition RootItemKey :: u32 where [simp]: "RootItemKey = 132"
definition RootBackrefKey :: u32 where [simp]: "RootBackrefKey = 144"
definition RootRefKey :: u32 where [simp]: "RootRefKey = 156"

record SearchParams =
  Tree_id :: u64
  Min_objectid :: u64
  Max_objectid :: u64
  Min_offset :: u64
  Max_offset :: u64
  Min_transid :: u64
  Max_transid :: u64
  Min_type :: u32
  Max_type :: u32
  Nr_items :: u32

text \<open>The remaining 36 bytes of the key are unused.\<close>

definition enc_SearchParams :: "SearchParams \<Rightarrow> bytes" where
  "enc_SearchParams p = le_enc 8 (Tree_id p) @ le_enc 8 (Min_objectid p) @ le_enc 8 (Max_objectid p)
     @ le_enc 8 (Min_offset p) @ le_enc 8 (Max_offset p) @ le_enc 8 (Min_transid p)
     @ le_enc 8 (Max_transid p) @ le_enc 4 (Min_type p) @ le_enc 4 (Max_type p) @ le_enc 4 (Nr_items p)
     @ replicate 36 0"

definition dec_SearchParams :: "bytes \<Rightarrow> SearchParams" where
  "dec_SearchParams b = \<lparr>Tree_id = le_at 0 8 b, Min_objectid = le_at 8 8 b, Max_objectid = le_at 16 8 b,
     Min_offset = le_at 24 8 b, Max_offset = le_at 32 8 b, Min_transid = le_at 40 8 b,
     Max_transid = le_at 48 8 b, Min_type = le_at 56 4 b, Max_type = le_at 60 4 b, Nr_items = le_at 64 4 b\<rparr>"

record SearchArgs =
  Key :: SearchParams
  Buf :: bytes

definition enc_SearchArgs :: "SearchArgs \<Rightarrow> bytes" where
  "enc_SearchArgs a = enc_SearchParams (Key a) @ Buf a"

definition dec_SearchArgs :: "bytes \<Rightarrow> SearchArgs" where
  "dec_SearchArgs b = \<lparr>Key = dec_SearchParams (take 104 b), Buf = take 3992 (drop 104 b)\<rparr>"

definition convertSearchArgsBuf :: "SearchArgs \<Rightarrow> bytes" where
  "convertSearchArgsBuf args = Buf args"

definition tree_search :: "'w kernel \<Rightarrow> fd \<Rightarrow> SearchArgs \<Rightarrow> ('w, SearchArgs) io" where
  "tree_search k fd args = callWriteIoctl 4096 enc_SearchArgs dec_SearchArgs k fd BTRFS_IOC_TREE_SEARCH args"

section \<open>Items\<close>

record SearchHeader =
  HTransid :: u64
  HObjectid :: u64
  HOffset :: u64
  HType :: u32
  HLen :: u32

definition enc_SearchHeader :: "SearchHeader \<Rightarrow> bytes" where
  "enc_SearchHeader h = le_enc 8 (HTransid h) @ le_enc 8 (HObjectid h) @ le_enc 8 (HOffset h)
     @ le_enc 4 (HType h) @ le_enc 4 (HLen h)"

definition dec_SearchHeader :: "bytes \<Rightarrow> SearchHeader" where
  "dec_SearchHeader b = \<lparr>HTransid = le_at 0 8 b, HObjectid = le_at 8 8 b, HOffset = le_at 16 8 b,
     HType = le_at 24 4 b, HLen = le_at 28 4 b\<rparr>"

record TreeItem =
  Data :: bytes
  ItemName :: string

definition item_decode :: "nat \<Rightarrow> (bytes \<Rightarrow> 'v) \<Rightarrow> TreeItem \<Rightarrow> gerr + 'v" where
  "item_decode n dec t = map_sum id fst (binary_Read n dec (Data t))"

definition RootItem :: "TreeItem \<Rightarrow> gerr + BtrfsRootItem" where
  "RootItem t = item_decode sizeof_BtrfsRootItem dec_BtrfsRootItem t"

definition RootRef :: "TreeItem \<Rightarrow> gerr + BtrfsRootRef \<times> string" where
  "RootRef t = map_sum id (\<lambda>r. (r, ItemName t)) (item_decode sizeof_BtrfsRootRef dec_BtrfsRootRef t)"

text \<open>\<^verbatim>\<open>io.ReadFull\<close> of \<open>n\<close> bytes.\<close>

definition ReadFull :: "nat \<Rightarrow> bytes \<Rightarrow> gerr + bytes \<times> bytes" where
  "ReadFull n r = binary_Read n id r"

text \<open>
  The item behind a header. The name of a reference is the last \<^verbatim>\<open>ref.Len\<close> bytes of the data;
  a length beyond the data panics. \<^verbatim>\<open>bytes.TrimSuffix\<close> removes it from the data.
\<close>

definition make_item :: "SearchHeader \<Rightarrow> bytes \<Rightarrow> (gerr + TreeItem) go" where
  "make_item hdr databuf =
     (let item = \<lparr>Data = databuf, ItemName = []\<rparr>
      in if HType hdr = RootBackrefKey \<or> HType hdr = RootRefKey then
           (case RootRef item of
              Inl err \<Rightarrow> Some (Inl (Errorf ''failed to decode root backref'' err))
            | Inr (ref, _) \<Rightarrow>
                let n = unat (RLen ref)
                in if n > length databuf then panic
                   else Some (Inr \<lparr>Data = take (length databuf - n) databuf,
                     ItemName = string_of_bytes (drop (length databuf - n) databuf)\<rparr>))
         else Some (Inr item))"

definition read_item :: "bytes \<Rightarrow> (gerr + (SearchHeader \<times> TreeItem) \<times> bytes) go" where
  "read_item r =
     (case binary_Read 32 dec_SearchHeader r of
        Inl err \<Rightarrow> Some (Inl (Errorf ''failed to read search header'' err))
      | Inr (hdr, r) \<Rightarrow>
          (case ReadFull (unat (HLen hdr)) r of
             Inl err \<Rightarrow> Some (Inl (Errorf ''failed to read item data'' err))
           | Inr (databuf, r) \<Rightarrow> do {
               item \<leftarrow> make_item hdr databuf;
               Some (map_sum id (\<lambda>item. ((hdr, item), r)) item) }))"

section \<open>The walk\<close>

text \<open>
  The function of a walk may change a state, into which the caller packs what it closes
  over. \<open>items_loop\<close> returns \<open>Inl\<close> with the result of the walk when it ends, else the key
  of the last item and the last error.
\<close>

type_synonym 's TreeIterFunc =
  "SearchHeader \<Rightarrow> TreeItem \<Rightarrow> gerr option \<Rightarrow> 's \<Rightarrow> (gerr option \<times> 's) option"

fun items_loop :: "'s TreeIterFunc \<Rightarrow> nat \<Rightarrow> bytes \<Rightarrow> SearchParams \<Rightarrow> gerr option \<Rightarrow> 's
    \<Rightarrow> ((gerr option + SearchParams \<times> gerr option) \<times> 's) option" where
  "items_loop fn 0 r key lastErr s = Some (Inr (key, lastErr), s)"
| "items_loop fn (Suc n) r key lastErr s = do {
     item \<leftarrow> read_item r;
     (case item of
        Inl err \<Rightarrow> Some (Inl (Some err), s)
      | Inr ((hdr, item), r) \<Rightarrow> do {
          (lastErr, s) \<leftarrow> fn hdr item lastErr s;
          (if (case lastErr of None \<Rightarrow> False | Some e \<Rightarrow> errors_is e ErrStopWalk)
           then Some (Inl None, s)
           else items_loop fn n r
             (key\<lparr>Min_objectid := HObjectid hdr, Min_type := HType hdr, Min_offset := HOffset hdr\<rparr>)
             lastErr s) }) }"

text \<open>The key behind the last one, or \<open>None\<close> behind the range.\<close>

definition advance :: "u32 \<Rightarrow> u32 \<Rightarrow> SearchParams \<Rightarrow> SearchParams option" where
  "advance minType maxType key =
     (let key = key\<lparr>Min_offset := Min_offset key + 1\<rparr>
      in if Min_offset key = 0 then
           (let key = key\<lparr>Min_type := Min_type key + 1\<rparr>
            in if Min_type key > maxType then
                 (let key = key\<lparr>Min_type := minType, Min_objectid := Min_objectid key + 1\<rparr>
                  in if Min_objectid key > Max_objectid key then None else Some key)
               else Some key)
         else Some key)"

text \<open>The loop may be endless, if the kernel always returns items.\<close>

partial_function (option) walk_loop :: "'w kernel \<Rightarrow> fd \<Rightarrow> u32 \<Rightarrow> u32 \<Rightarrow> ('w \<times> 's) TreeIterFunc
    \<Rightarrow> SearchArgs \<Rightarrow> gerr option \<Rightarrow> 'w \<times> 's \<Rightarrow> (gerr option \<times> 'w \<times> 's) option" where
  "walk_loop k fd minType maxType fn args lastErr st = do {
     (r, w) \<leftarrow> tree_search k fd (args\<lparr>Key := (Key args)\<lparr>Nr_items := 4096\<rparr>\<rparr>) (fst st);
     if isl r then Some (Some (Errorf ''failed to call ioctl'' (projl r)), (w, snd st))
     else if Nr_items (Key (projr r)) = 0 then Some (lastErr, (w, snd st))
     else do {
       (res, st) \<leftarrow> items_loop fn (unat (Nr_items (Key (projr r)))) (convertSearchArgsBuf (projr r))
          (Key (projr r)) lastErr (w, snd st);
       if isl res then Some (projl res, st)
       else if advance minType maxType (fst (projr res)) = None then Some (snd (projr res), st)
       else walk_loop k fd minType maxType fn
         ((projr r)\<lparr>Key := the (advance minType maxType (fst (projr res)))\<rparr>) (snd (projr res)) st } }"

definition walkBtrfsTreeFd :: "'w kernel \<Rightarrow> fd \<Rightarrow> SearchParams \<Rightarrow> ('w \<times> 's) TreeIterFunc
    \<Rightarrow> 'w \<times> 's \<Rightarrow> (gerr option \<times> 'w \<times> 's) option" where
  "walkBtrfsTreeFd k fd params fn st =
     walk_loop k fd (Min_type params) (Max_type params) fn \<lparr>Key = params, Buf = replicate 3992 0\<rparr> None st"

definition WalkBtrfsTree :: "'w kernel \<Rightarrow> string \<Rightarrow> SearchParams \<Rightarrow> ('w \<times> 's) TreeIterFunc
    \<Rightarrow> 'w \<times> 's \<Rightarrow> (gerr option \<times> 'w \<times> 's) option" where
  "WalkBtrfsTree k path params fn st = do {
     (r, w) \<leftarrow> sys_Open k path (fst st);
     (case r of
        Inl err \<Rightarrow> Some (Some (Errorf ''open file'' err), (w, snd st))
      | Inr f \<Rightarrow> do {
          (e, (w, s)) \<leftarrow> walkBtrfsTreeFd k f params fn (w, snd st);
          Some (e, (sys_Close k f w, s)) }) }"

section \<open>Decoding batches\<close>

lemma le_at_0: "le_at 0 n (b @ r) = le_dec (take n (b @ r))"
  by (simp add: le_at_def)

lemma le_at_skip: "length a \<le> i \<Longrightarrow> le_at i n (a @ r) = le_at (i - length a) n r"
  by (simp add: le_at_def)

lemma le_at_here: "length b = n \<Longrightarrow> le_at 0 n (b @ r) = le_dec b"
  "length b = n \<Longrightarrow> le_at 0 n b = le_dec b"
  by (simp_all add: le_at_def)

lemmas le_at_simps = le_at_skip le_at_here

lemma dec_enc_SearchHeader: "dec_SearchHeader (enc_SearchHeader h) = h"
  by (cases h) (simp add: dec_SearchHeader_def enc_SearchHeader_def le_at_simps)

lemma length_enc_SearchHeader [simp]: "length (enc_SearchHeader h) = 32"
  by (simp add: enc_SearchHeader_def)

text \<open>The items of a tree, with their keys in the order of the kernel.\<close>

type_synonym raw_item = "SearchHeader \<times> bytes"

definition key_of :: "raw_item \<Rightarrow> u64 \<times> u32 \<times> u64" where
  "key_of x = (HObjectid (fst x), HType (fst x), HOffset (fst x))"

definition item_of :: "raw_item \<Rightarrow> TreeItem" where
  "item_of x = projr (the (make_item (fst x) (snd x)))"

definition well_formed :: "raw_item \<Rightarrow> bool" where
  "well_formed x \<longleftrightarrow> unat (HLen (fst x)) = length (snd x) \<and> HOffset (fst x) \<noteq> - 1
     \<and> (case make_item (fst x) (snd x) of Some (Inr _) \<Rightarrow> True | _ \<Rightarrow> False)"

definition enc_items :: "raw_item list \<Rightarrow> bytes" where
  "enc_items xs = concat (map (\<lambda>x. enc_SearchHeader (fst x) @ snd x) xs)"

definition in_range :: "SearchParams \<Rightarrow> raw_item \<Rightarrow> bool" where
  "in_range p x \<longleftrightarrow> (Min_objectid p, Min_type p, Min_offset p) \<le> key_of x
     \<and> key_of x \<le> (Max_objectid p, Max_type p, Max_offset p)"

lemma read_item_enc:
  assumes "well_formed x"
  shows "read_item (enc_SearchHeader (fst x) @ snd x @ r) = Some (Inr ((fst x, item_of x), r))"
proof -
  obtain item where i: "make_item (fst x) (snd x) = Some (Inr item)"
    using assms by (auto simp: well_formed_def split: option.splits sum.splits)
  have l: "unat (HLen (fst x)) = length (snd x)" using assms by (simp add: well_formed_def)
  have "binary_Read 32 dec_SearchHeader (enc_SearchHeader (fst x) @ snd x @ r) = Inr (fst x, snd x @ r)"
  proof -
    have "enc_SearchHeader (fst x) \<noteq> []" using length_enc_SearchHeader [of "fst x"] by fastforce
    then show ?thesis by (simp add: binary_Read_def dec_enc_SearchHeader)
  qed
  moreover have "ReadFull (length (snd x)) (snd x @ r) = Inr (snd x, r)"
    by (auto simp: ReadFull_def binary_Read_def)
  ultimately show ?thesis by (simp add: read_item_def l i item_of_def)
qed

text \<open>The function of the walk along a list of items.\<close>

definition stops_walk :: "gerr option \<Rightarrow> bool" where
  "stops_walk lastErr = (case lastErr of None \<Rightarrow> False | Some e \<Rightarrow> errors_is e ErrStopWalk)"

fun visit_items :: "'s TreeIterFunc \<Rightarrow> raw_item list \<Rightarrow> gerr option \<Rightarrow> 's \<Rightarrow> (gerr option \<times> 's) option" where
  "visit_items fn [] lastErr s = Some (lastErr, s)"
| "visit_items fn (x # xs) lastErr s = do {
     (lastErr, s) \<leftarrow> fn (fst x) (item_of x) lastErr s;
     if stops_walk lastErr then Some (None, s) else visit_items fn xs lastErr s }"

text \<open>A visit that keeps apart whether it was stopped.\<close>

fun visit_batch :: "'s TreeIterFunc \<Rightarrow> raw_item list \<Rightarrow> gerr option \<Rightarrow> 's
    \<Rightarrow> (bool \<times> gerr option \<times> 's) option" where
  "visit_batch fn [] lastErr s = Some (False, lastErr, s)"
| "visit_batch fn (x # xs) lastErr s = do {
     (lastErr, s) \<leftarrow> fn (fst x) (item_of x) lastErr s;
     if stops_walk lastErr then Some (True, None, s) else visit_batch fn xs lastErr s }"

lemma visit_items_append: "visit_items fn (xs @ ys) e s = do {
    (stop, e, s) \<leftarrow> visit_batch fn xs e s; if stop then Some (e, s) else visit_items fn ys e s }"
proof (induction xs arbitrary: e s)
  case (Cons x xs)
  show ?case
  proof (cases "fn (fst x) (item_of x) e s")
    case (Some r)
    obtain e' s' where "r = (e', s')" by (cases r)
    then show ?thesis using Some Cons.IH [of e' s'] by (cases "stops_walk e'") simp_all
  qed simp
qed simp

definition last_key :: "raw_item list \<Rightarrow> SearchParams \<Rightarrow> SearchParams" where
  "last_key xs key = (if xs = [] then key else (let h = fst (last xs) in
     key\<lparr>Min_objectid := HObjectid h, Min_type := HType h, Min_offset := HOffset h\<rparr>))"

lemma items_loop_visit:
  assumes "\<forall>x\<in>set xs. well_formed x"
  shows "items_loop fn (length xs) (enc_items xs @ pad) key e s = do {
    (stop, e, s) \<leftarrow> visit_batch fn xs e s;
    Some (if stop then Inl e else Inr (last_key xs key, e), s) }"
  using assms
proof (induction xs arbitrary: key e s)
  case (Cons x xs)
  have r: "read_item (enc_items (x # xs) @ pad) = Some (Inr ((fst x, item_of x), enc_items xs @ pad))"
    using read_item_enc [of x "enc_items xs @ pad"] Cons.prems by (simp add: enc_items_def)
  show ?case
  proof (cases "fn (fst x) (item_of x) e s")
    case (Some res)
    obtain e' s' where res: "fn (fst x) (item_of x) e s = Some (e', s')" using Some by (cases res) auto
    let ?key = "key\<lparr>Min_objectid := HObjectid (fst x), Min_type := HType (fst x), Min_offset := HOffset (fst x)\<rparr>"
    have k: "last_key xs ?key = last_key (x # xs) key"
      by (simp add: last_key_def Let_def)
    show ?thesis
    proof (cases "stops_walk e'")
      case False
      have "items_loop fn (length xs) (enc_items xs @ pad) ?key e' s' = do {
          (stop, e, s) \<leftarrow> visit_batch fn xs e' s';
          Some (if stop then Inl e else Inr (last_key (x # xs) key, e), s) }"
        unfolding k [symmetric] using Cons.prems by (intro Cons.IH) simp
      with False show ?thesis using res by (simp add: r stops_walk_def)
    qed (simp add: r res stops_walk_def)
  qed (simp add: r)
qed (simp add: last_key_def)

section \<open>The walk is complete\<close>

text \<open>
  The documented behaviour of the search ioctl on an unchanging tree \<open>T\<close>: it fills in the
  number of items and a batch of the first items of the range, not empty unless the range is.
\<close>

definition search_contract :: "'w kernel \<Rightarrow> fd \<Rightarrow> raw_item list \<Rightarrow> bool" where
  "search_contract k fd T \<longleftrightarrow> sorted_wrt (<) (map key_of T) \<and> (\<forall>x\<in>set T. well_formed x)
     \<and> (\<forall>args w. \<exists>n pad.
          tree_search k fd (args\<lparr>Key := (Key args)\<lparr>Nr_items := 4096\<rparr>\<rparr>) w
            = Some (Inr \<lparr>Key = (Key args)\<lparr>Nr_items := of_nat n\<rparr>,
                Buf = enc_items (take n (filter (in_range (Key args)) T)) @ pad\<rparr>, w)
          \<and> n \<le> length (filter (in_range (Key args)) T) \<and> n \<le> 4096
          \<and> (filter (in_range (Key args)) T \<noteq> [] \<longrightarrow> 0 < n))"

lemma triple_less_simps:
  "((a :: u64), (b :: u32), (c :: u64)) < (a', b', c') \<longleftrightarrow> a < a' \<or> a = a' \<and> (b < b' \<or> b = b' \<and> c < c')"
  "((a :: u64), (b :: u32), (c :: u64)) \<le> (a', b', c') \<longleftrightarrow> a < a' \<or> a = a' \<and> (b < b' \<or> b = b' \<and> c \<le> c')"
  by (auto simp: less_prod_def less_eq_prod_def)

lemma succ_le_iff:
  assumes "(c :: u64) \<noteq> - 1"
  shows "c + 1 \<le> c' \<longleftrightarrow> c < c'"
proof -
  have "1 + c \<noteq> 0" using assms by (metis add.commute eq_neg_iff_add_eq_0)
  then have "unat (1 + c) = Suc (unat c)" by (rule unatSuc)
  then show ?thesis by (simp add: word_le_nat_alt word_less_nat_alt Suc_le_eq add.commute [of c])
qed

lemma filter_greater:
  fixes f :: "'a \<Rightarrow> 'b::linorder"
  assumes "sorted_wrt (<) (map f (xs @ ys))" "xs \<noteq> []"
  shows "filter (\<lambda>y. f (last xs) < f y) (xs @ ys) = ys"
proof -
  have "\<not> f (last xs) < f y" if "y \<in> set xs" for y
  proof -
    from assms(2) have "xs = butlast xs @ [last xs]" by simp
    with that have "y \<in> set (butlast xs) \<or> y = last xs" by (metis UnE empty_iff empty_set set_ConsD set_append)
    moreover have "sorted_wrt (<) (map f (butlast xs @ [last xs]))"
      using assms by (simp add: sorted_wrt_append)
    ultimately show ?thesis by (auto simp: sorted_wrt_append)
  qed
  moreover have "f (last xs) < f y" if "y \<in> set ys" for y
    using assms that last_in_set [OF assms(2)] by (auto simp: sorted_wrt_append)
  ultimately show ?thesis by (auto simp: filter_empty_conv filter_id_conv)
qed

lemma in_range_cong: "Min_objectid p = Min_objectid q \<Longrightarrow> Min_type p = Min_type q \<Longrightarrow> Min_offset p = Min_offset q
    \<Longrightarrow> Max_objectid p = Max_objectid q \<Longrightarrow> Max_type p = Max_type q \<Longrightarrow> Max_offset p = Max_offset q
    \<Longrightarrow> in_range p = in_range q"
  by (rule ext) (simp add: in_range_def)

lemma advance_range:
  assumes "xs \<noteq> []" "\<forall>x\<in>set xs. well_formed x \<and> in_range key x"
  obtains key' where "advance minType maxType (last_key xs key) = Some key'"
    "\<And>y. in_range key' y \<longleftrightarrow> in_range key y \<and> key_of (last xs) < key_of y"
proof -
  let ?x = "last xs"
  let ?h = "fst ?x"
  have x: "well_formed ?x" "in_range key ?x" using assms by auto
  then have off: "HOffset ?h \<noteq> - 1" by (simp add: well_formed_def)
  then have nz: "HOffset ?h + 1 \<noteq> 0" by (simp add: eq_neg_iff_add_eq_0)
  let ?key' = "key\<lparr>Min_objectid := HObjectid ?h, Min_type := HType ?h, Min_offset := HOffset ?h + 1\<rparr>"
  have "advance minType maxType (last_key xs key) = Some ?key'"
    using assms(1) nz by (simp add: advance_def last_key_def Let_def)
  moreover have "in_range ?key' y \<longleftrightarrow> in_range key y \<and> key_of ?x < key_of y" for y
  proof -
    have "(HObjectid ?h, HType ?h, HOffset ?h + 1) \<le> key_of y \<longleftrightarrow> key_of ?x < key_of y"
      by (cases "key_of y") (simp add: key_of_def triple_less_simps succ_le_iff [OF off])
    moreover have "(Min_objectid key, Min_type key, Min_offset key) \<le> key_of ?x"
      using x(2) by (simp add: in_range_def)
    ultimately show ?thesis by (auto simp: in_range_def)
  qed
  ultimately show ?thesis by (rule that)
qed

lemma walk_loop_visit:
  assumes "search_contract k fd T"
  shows "walk_loop k fd minType maxType fn args e (w, s) = visit_items fn (filter (in_range (Key args)) T) e (w, s)"
proof (induction "length (filter (in_range (Key args)) T)" arbitrary: args e w s rule: less_induct)
  case less
  let ?R = "filter (in_range (Key args)) T"
  obtain n pad where ts: "tree_search k fd (args\<lparr>Key := (Key args)\<lparr>Nr_items := 4096\<rparr>\<rparr>) w
        = Some (Inr \<lparr>Key = (Key args)\<lparr>Nr_items := of_nat n\<rparr>, Buf = enc_items (take n ?R) @ pad\<rparr>, w)"
      and n: "n \<le> length ?R" "n \<le> 4096" "?R \<noteq> [] \<longrightarrow> 0 < n"
    using assms [unfolded search_contract_def, THEN conjunct2, THEN conjunct2, THEN spec, THEN spec, of args w]
    by (elim exE conjE)
  have un: "unat (of_nat n :: u32) = n" using n(2) by (simp add: unat_of_nat)
  have n0: "(of_nat n :: u32) = 0 \<longleftrightarrow> n = 0" using unat_eq_0 [of "of_nat n :: u32"] unfolding un by simp
  let ?key = "(Key args)\<lparr>Nr_items := of_nat n\<rparr>" and ?xs = "take n ?R"
  show ?case
  proof (cases "?R = []")
    case True
    then have "n = 0" using n(1) by simp
    then show ?thesis using True by (subst walk_loop.simps) (simp add: ts)
  next
    case False
    then have pos: "0 < n" and xs: "?xs \<noteq> []" "length ?xs = n" using n by simp_all
    have wf: "\<forall>x\<in>set T. well_formed x" and srt: "sorted_wrt (<) (map key_of T)"
      using assms by (simp_all add: search_contract_def)
    have R: "in_range ?key = in_range (Key args)" by (rule in_range_cong) simp_all
    have xs_ok: "\<forall>x\<in>set ?xs. well_formed x \<and> in_range ?key x"
      using wf R by (auto dest: in_set_takeD)
    obtain key' where key': "advance minType maxType (last_key ?xs ?key) = Some key'"
      "\<And>y. in_range key' y \<longleftrightarrow> in_range ?key y \<and> key_of (last ?xs) < key_of y"
      using advance_range [OF xs(1) xs_ok] by blast
    have rest: "filter (in_range key') T = drop n ?R"
    proof -
      have "sorted_wrt (<) (map key_of (?xs @ drop n ?R))"
        using srt by (simp add: sorted_wrt_filter sorted_wrt_map)
      from filter_greater [OF this xs(1)]
      have "filter (\<lambda>y. key_of (last ?xs) < key_of y) ?R = drop n ?R" by simp
      moreover have "filter (in_range key') T = filter (\<lambda>y. key_of (last ?xs) < key_of y) ?R"
        unfolding filter_filter by (rule filter_cong) (auto simp: key'(2) R)
      ultimately show ?thesis by simp
    qed
    have step: "walk_loop k fd minType maxType fn args e (w, s) = do {
        (stop, e, st) \<leftarrow> visit_batch fn ?xs e (w, s);
        if stop then Some (e, st)
        else walk_loop k fd minType maxType fn \<lparr>Key = key', Buf = enc_items ?xs @ pad\<rparr> e st }"
    proof -
      have il: "items_loop fn n (enc_items ?xs @ pad) ?key e (w, s) = do {
          (stop, e, s) \<leftarrow> visit_batch fn ?xs e (w, s);
          Some (if stop then Inl e else Inr (last_key ?xs ?key, e), s) }"
      proof -
        have "\<forall>x\<in>set ?xs. well_formed x" using xs_ok by blast
        from items_loop_visit [OF this, of fn pad ?key e "(w, s)"] show ?thesis unfolding xs(2) .
      qed
      show ?thesis
        using pos n0 key'(1) il un
        by (subst walk_loop.simps, cases "visit_batch fn ?xs e (w, s)")
          (simp_all add: ts convertSearchArgsBuf_def split_def)
    qed
    also have "\<dots> = visit_items fn (?xs @ drop n ?R) e (w, s)"
    proof -
      have "length (filter (in_range key') T) < length ?R"
        unfolding rest using pos False by simp
      then have again: "walk_loop k fd minType maxType fn \<lparr>Key = key', Buf = enc_items ?xs @ pad\<rparr> e st
          = visit_items fn (drop n ?R) e st" for e st
        using less [of "\<lparr>Key = key', Buf = enc_items ?xs @ pad\<rparr>"] by (cases st) (simp add: rest)
      show ?thesis unfolding visit_items_append by (simp only: again)
    qed
    finally show ?thesis by simp
  qed
qed


text \<open>A kernel that returns one item at a time.\<close>

definition batch_kernel :: "raw_item list \<Rightarrow> 'w kernel" where
  "batch_kernel T = \<lparr>sys_Abs = ok, sys_Open = (\<lambda>p. ok 3), sys_OpenWrite = (\<lambda>p. ok 4), sys_Close = (\<lambda>f w. w),
     sys_MkdirAll = (\<lambda>p m. ok ()), sys_RemoveAll = (\<lambda>p. ok ()), sys_Statfs = (\<lambda>p. ok 0),
     sys_ReadFile = (\<lambda>p. ok []),
     sys_ioctl = (\<lambda>fd c buf.
       let key = dec_SearchParams (take 104 buf);
           xs = take 1 (filter (in_range key) T)
       in ok (enc_SearchParams (key\<lparr>Nr_items := of_nat (length xs)\<rparr>) @ enc_items xs
            @ replicate (3992 - length (enc_items xs)) 0))\<rparr>"

lemma length_enc_SearchParams [simp]: "length (enc_SearchParams p) = 104"
  by (simp add: enc_SearchParams_def)

lemma dec_enc_SearchParams: "dec_SearchParams (enc_SearchParams p) = p"
  by (cases p) (simp add: dec_SearchParams_def enc_SearchParams_def le_at_simps)

lemma batch_kernel_contract:
  assumes "sorted_wrt (<) (map key_of T)" "\<forall>x\<in>set T. well_formed x \<and> length (snd x) \<le> 3960"
  shows "search_contract (batch_kernel T) fd T"
  unfolding search_contract_def
proof (intro conjI allI)
  show "sorted_wrt (<) (map key_of T)" "\<forall>x\<in>set T. well_formed x" using assms by simp_all
  fix args :: SearchArgs and w :: 'w
  let ?R = "filter (in_range (Key args)) T"
  let ?xs = "take 1 ?R" and ?n = "length (take 1 ?R)"
  let ?pad = "replicate (3992 - length (enc_items ?xs)) (0 :: byte)"
  let ?key = "(Key args)\<lparr>Nr_items := 4096\<rparr>"
  have R: "filter (in_range ?key) T = ?R" by (rule filter_cong) (simp_all add: in_range_def)
  have len: "length (enc_items ?xs) \<le> 3992"
  proof (cases ?R)
    case (Cons x xs)
    then have "x \<in> set T" by (metis filter_is_subset list.set_intros(1) subsetD)
    then show ?thesis using assms(2) Cons by (simp add: enc_items_def)
  qed (simp add: enc_items_def)
  have "tree_search (batch_kernel T) fd (args\<lparr>Key := ?key\<rparr>) w
      = Some (Inr \<lparr>Key = (Key args)\<lparr>Nr_items := of_nat ?n\<rparr>, Buf = enc_items ?xs @ ?pad\<rparr>, w)"
    using len
    by (simp add: tree_search_def callWriteIoctl_def ioctl_def wrapping_def andThen_def lift_sum_def
        batch_kernel_def ok_def Let_def enc_SearchArgs_def dec_SearchArgs_def dec_enc_SearchParams R
        binary_Read_def)
  moreover have "take ?n ?R = ?xs" by (cases ?R) simp_all
  ultimately show "\<exists>n pad. tree_search (batch_kernel T) fd (args\<lparr>Key := ?key\<rparr>) w
      = Some (Inr \<lparr>Key = (Key args)\<lparr>Nr_items := of_nat n\<rparr>, Buf = enc_items (take n ?R) @ pad\<rparr>, w)
    \<and> n \<le> length ?R \<and> n \<le> 4096 \<and> (?R \<noteq> [] \<longrightarrow> 0 < n)"
    by (intro exI [of _ ?n] exI [of _ ?pad]) (auto simp: min_def)
qed

definition sample_item :: "u64 \<Rightarrow> u32 \<Rightarrow> raw_item" where
  "sample_item i t = (\<lparr>HTransid = 0, HObjectid = i, HOffset = 0, HType = t, HLen = 2\<rparr>, [1, 2])"

definition collect_ids :: "(unit \<times> u64 list) TreeIterFunc" where
  "collect_ids hdr item lastErr s = Some (None, (fst s, snd s @ [HObjectid hdr]))"


end
