(* ===== verification/RBTree.thy ===== *)
theory RBTree
  imports Roots "HOL-Library.Tree"
begin

text \<open>
  The search tree of subvolumes (\<^verbatim>\<open>pkg/btrfs/btrfs_rb_tree.go\<close>) over an explicit store of
  nodes and of the \<^verbatim>\<open>RootInfo\<close> values they point to: insertion, lookup, update, the three
  traversals and the filter. A function that follows the pointers of the store returns
  \<open>None\<close> when it does not return; there is no nil to dereference. The lemmas relate the store
  to binary trees: for identifiers that arrive in ascending order, as the kernel returns
  them, the tree is a search tree.
\<close>

section \<open>The store\<close>

type_synonym addr = nat

record RBNode =
  RBLeft :: "addr option"
  RBRight :: "addr option"
  Info :: addr

record heap =
  nodes :: "addr \<Rightarrow> RBNode"
  infos :: "addr \<Rightarrow> RootInfo"
  InfoRBNode :: "addr \<Rightarrow> addr"
  fresh :: addr

text \<open>An \<^verbatim>\<open>RBRoot\<close> is its pointer to the root node.\<close>

type_synonym RBRoot = "addr option"

definition newRBRoot :: RBRoot where "newRBRoot = None"

abbreviation id_of :: "heap \<Rightarrow> addr \<Rightarrow> u64" where
  "id_of h node \<equiv> RootID (infos h (Info (nodes h node)))"

definition set_left :: "addr \<Rightarrow> addr \<Rightarrow> heap \<Rightarrow> heap" where
  "set_left node x h = h\<lparr>nodes := (nodes h)(node := (nodes h node)\<lparr>RBLeft := Some x\<rparr>)\<rparr>"

definition set_right :: "addr \<Rightarrow> addr \<Rightarrow> heap \<Rightarrow> heap" where
  "set_right node x h = h\<lparr>nodes := (nodes h)(node := (nodes h node)\<lparr>RBRight := Some x\<rparr>)\<rparr>"

section \<open>Insertion, lookup and update\<close>

text \<open>
  A new identifier that is smaller than that of a node with a left child goes on to the
  right of the node as well: the recursive call on the left is not followed by a return.
\<close>

partial_function (option) insertRoot :: "heap \<Rightarrow> addr \<Rightarrow> addr \<Rightarrow> heap option" where
  "insertRoot h node info =
     (if RootID (infos h info) < id_of h node \<and> RBLeft (nodes h node) = None
      then Some (set_left node (InfoRBNode h info) h)
      else do {
        h \<leftarrow> (if RootID (infos h info) < id_of h node
             then insertRoot h (the (RBLeft (nodes h node))) info else Some h);
        (case RBRight (nodes h node) of
           None \<Rightarrow> Some (set_right node (InfoRBNode h info) h)
         | Some r \<Rightarrow> insertRoot h r info) })"

definition InsertRoot :: "heap \<Rightarrow> RBRoot \<Rightarrow> addr \<Rightarrow> (heap \<times> RBRoot) option" where
  "InsertRoot h root info = (case root of
     None \<Rightarrow> Some (h, Some (InfoRBNode h info))
   | Some node \<Rightarrow> do { h \<leftarrow> insertRoot h node info; Some (h, root) })"

partial_function (option) lookupRoot :: "heap \<Rightarrow> addr \<Rightarrow> u64 \<Rightarrow> addr option option" where
  "lookupRoot h node rootID =
     (if id_of h node = rootID then Some (Some (Info (nodes h node)))
      else if rootID < id_of h node then
        (case RBLeft (nodes h node) of None \<Rightarrow> Some None | Some l \<Rightarrow> lookupRoot h l rootID)
      else (case RBRight (nodes h node) of None \<Rightarrow> Some None | Some r \<Rightarrow> lookupRoot h r rootID))"

definition LookupRoot :: "heap \<Rightarrow> RBRoot \<Rightarrow> u64 \<Rightarrow> addr option option" where
  "LookupRoot h root rootID = (case root of None \<Rightarrow> Some None | Some node \<Rightarrow> lookupRoot h node rootID)"

text \<open>The fields of \<open>info\<close> that are not zero overwrite those of \<open>toUpdate\<close>.\<close>

definition merge_info :: "RootInfo \<Rightarrow> RootInfo \<Rightarrow> RootInfo" where
  "merge_info info toUpdate = toUpdate\<lparr>
     RootOffset := (if RootOffset info \<noteq> 0 then RootOffset info else RootOffset toUpdate),
     Flags := (if Flags info \<noteq> 0 then Flags info else Flags toUpdate),
     RefTree := (if RefTree info \<noteq> 0 then RefTree info else RefTree toUpdate),
     DirID := (if DirID info \<noteq> 0 then DirID info else DirID toUpdate),
     TopID := (if TopID info \<noteq> 0 then TopID info else TopID toUpdate),
     Generation := (if Generation info \<noteq> 0 then Generation info else Generation toUpdate),
     OriginalGeneration := (if OriginalGeneration info \<noteq> 0
       then OriginalGeneration info else OriginalGeneration toUpdate),
     CreationTime := (if \<not> IsZero (CreationTime info) then CreationTime info else CreationTime toUpdate),
     SendTime := (if \<not> IsZero (SendTime info) then SendTime info else SendTime toUpdate),
     ReceiveTime := (if \<not> IsZero (ReceiveTime info) then ReceiveTime info else ReceiveTime toUpdate),
     UUID := (if UUID info \<noteq> NilUUID then UUID info else UUID toUpdate),
     ParentUUID := (if ParentUUID info \<noteq> NilUUID then ParentUUID info else ParentUUID toUpdate),
     ReceivedUUID := (if ReceivedUUID info \<noteq> NilUUID then ReceivedUUID info else ReceivedUUID toUpdate),
     Path := (if Path info \<noteq> [] then Path info else Path toUpdate),
     Name := (if Name info \<noteq> [] then Name info else Name toUpdate),
     FullPath := (if FullPath info \<noteq> [] then FullPath info else FullPath toUpdate),
     Deleted := (Deleted info \<or> Deleted toUpdate),
     Item := (if Item info \<noteq> None then Item info else Item toUpdate),
     Ref := (if Ref info \<noteq> None then Ref info else Ref toUpdate)\<rparr>"

definition UpdateRoot :: "heap \<Rightarrow> RBRoot \<Rightarrow> addr \<Rightarrow> (heap \<times> bool) option" where
  "UpdateRoot h root info = do {
     toUpdate \<leftarrow> LookupRoot h root (RootID (infos h info));
     (case toUpdate of
        None \<Rightarrow> Some (h, False)
      | Some a \<Rightarrow> Some (h\<lparr>infos := (infos h)(a := merge_info (infos h info) (infos h a))\<rparr>, True)) }"

section \<open>Traversal\<close>

text \<open>
  A callback gets the address of a \<^verbatim>\<open>RootInfo\<close> and the last error; it may change the store
  and a state of its own.
\<close>

type_synonym 's RBTreeIterFunc =
  "addr \<Rightarrow> gerr option \<Rightarrow> heap \<times> 's \<Rightarrow> (gerr option \<times> heap \<times> 's) option"

definition stops :: "gerr option \<Rightarrow> bool" where
  "stops lastErr = (case lastErr of None \<Rightarrow> False | Some e \<Rightarrow> errors_is e ErrStopTreeIteration)"

partial_function (option) preOrderIterate ::
    "'s RBTreeIterFunc \<Rightarrow> addr \<Rightarrow> gerr option \<Rightarrow> heap \<times> 's \<Rightarrow> (gerr option \<times> heap \<times> 's) option" where
  "preOrderIterate f node lastErr st = do {
     (lastErr, st) \<leftarrow> f (Info (nodes (fst st) node)) lastErr st;
     if stops lastErr then Some (lastErr, st) else do {
       (lastErr, st) \<leftarrow> (case RBLeft (nodes (fst st) node) of
          None \<Rightarrow> Some (lastErr, st) | Some l \<Rightarrow> preOrderIterate f l lastErr st);
       if stops lastErr then Some (lastErr, st) else
         (case RBRight (nodes (fst st) node) of
            None \<Rightarrow> Some (lastErr, st) | Some r \<Rightarrow> preOrderIterate f r lastErr st) } }"

partial_function (option) postOrderIterate ::
    "'s RBTreeIterFunc \<Rightarrow> addr \<Rightarrow> gerr option \<Rightarrow> heap \<times> 's \<Rightarrow> (gerr option \<times> heap \<times> 's) option" where
  "postOrderIterate f node lastErr st = do {
     (lastErr, stop, st) \<leftarrow> (case RBLeft (nodes (fst st) node) of
        None \<Rightarrow> Some (lastErr, False, st)
      | Some l \<Rightarrow> do { (e, st) \<leftarrow> postOrderIterate f l lastErr st; Some (e, stops e, st) });
     if stop then Some (lastErr, st) else do {
       (lastErr, stop, st) \<leftarrow> (case RBRight (nodes (fst st) node) of
          None \<Rightarrow> Some (lastErr, False, st)
        | Some r \<Rightarrow> do { (e, st) \<leftarrow> postOrderIterate f r lastErr st; Some (e, stops e, st) });
       if stop then Some (lastErr, st)
       else f (Info (nodes (fst st) node)) lastErr st } }"

partial_function (option) inOrderIterate ::
    "'s RBTreeIterFunc \<Rightarrow> addr \<Rightarrow> gerr option \<Rightarrow> heap \<times> 's \<Rightarrow> (gerr option \<times> heap \<times> 's) option" where
  "inOrderIterate f node lastErr st = do {
     (lastErr, stop, st) \<leftarrow> (case RBLeft (nodes (fst st) node) of
        None \<Rightarrow> Some (lastErr, False, st)
      | Some l \<Rightarrow> do { (e, st) \<leftarrow> inOrderIterate f l lastErr st; Some (e, stops e, st) });
     if stop then Some (lastErr, st) else do {
       (lastErr, st) \<leftarrow> f (Info (nodes (fst st) node)) lastErr st;
       if stops lastErr then Some (lastErr, st) else
         (case RBRight (nodes (fst st) node) of
            None \<Rightarrow> Some (lastErr, st) | Some r \<Rightarrow> inOrderIterate f r lastErr st) } }"

definition PreOrderIterate :: "'s RBTreeIterFunc \<Rightarrow> RBRoot \<Rightarrow> heap \<times> 's \<Rightarrow> (gerr option \<times> heap \<times> 's) option" where
  "PreOrderIterate f root st = (case root of None \<Rightarrow> Some (None, st) | Some n \<Rightarrow> preOrderIterate f n None st)"

definition PostOrderIterate :: "'s RBTreeIterFunc \<Rightarrow> RBRoot \<Rightarrow> heap \<times> 's \<Rightarrow> (gerr option \<times> heap \<times> 's) option" where
  "PostOrderIterate f root st = (case root of None \<Rightarrow> Some (None, st) | Some n \<Rightarrow> postOrderIterate f n None st)"

definition InOrderIterate :: "'s RBTreeIterFunc \<Rightarrow> RBRoot \<Rightarrow> heap \<times> 's \<Rightarrow> (gerr option \<times> heap \<times> 's) option" where
  "InOrderIterate f root st = (case root of None \<Rightarrow> Some (None, st) | Some n \<Rightarrow> inOrderIterate f n None st)"

section \<open>The filter\<close>

text \<open>
  \<open>filter_ancestor\<close> is the loop that climbs from the parent of a subvolume in the new tree:
  it answers whether it reaches the root that is asked for. \<open>new_node\<close> gives an \<^verbatim>\<open>info\<close>
  that both trees share a new node.
\<close>

partial_function (option) filter_ancestor :: "heap \<Rightarrow> RBRoot \<Rightarrow> u64 \<Rightarrow> addr option \<Rightarrow> bool option" where
  "filter_ancestor h tree rootID parent =
     (if parent = None \<or> RefTree (infos h (the parent)) = 0 then Some False
      else do {
        parent \<leftarrow> LookupRoot h tree (RefTree (infos h (the parent)));
        if parent = None then Some False
        else if RootID (infos h (the parent)) = rootID \<or> RefTree (infos h (the parent)) = rootID
        then Some True
        else filter_ancestor h tree rootID parent })"

definition new_node :: "addr \<Rightarrow> heap \<Rightarrow> heap" where
  "new_node info h = h\<lparr>
     nodes := (nodes h)(fresh h := \<lparr>RBLeft = None, RBRight = None, Info = info\<rparr>),
     InfoRBNode := (InfoRBNode h)(info := fresh h),
     fresh := fresh h + 1\<rparr>"

definition filter_step :: "u64 \<Rightarrow> RBRoot RBTreeIterFunc" where
  "filter_step rootID info lastErr st =
     (case st of (h, tree) \<Rightarrow>
        if RootID (infos h info) = rootID \<or> RefTree (infos h info) = rootID then do {
          (h, tree) \<leftarrow> InsertRoot (new_node info h) tree info;
          Some (None, h, tree) }
        else do {
          parent \<leftarrow> LookupRoot h tree (RefTree (infos h info));
          below \<leftarrow> filter_ancestor h tree rootID parent;
          (if below then do {
             (h, tree) \<leftarrow> InsertRoot (new_node info h) tree info;
             Some (None, h, tree) }
           else Some (None, h, tree)) })"

definition FilterFromRoot :: "heap \<Rightarrow> RBRoot \<Rightarrow> u64 \<Rightarrow> (heap \<times> RBRoot) option" where
  "FilterFromRoot h root rootID = do {
     (e, h, tree) \<leftarrow> InOrderIterate (filter_step rootID) root (h, newRBRoot);
     Some (h, tree) }"

section \<open>Trees in the store\<close>

text \<open>The binary tree of node addresses below a pointer.\<close>

fun repr :: "(addr \<Rightarrow> RBNode) \<Rightarrow> addr option \<Rightarrow> addr tree \<Rightarrow> bool" where
  "repr ns p Leaf \<longleftrightarrow> p = None"
| "repr ns p (Node l a r) \<longleftrightarrow> p = Some a \<and> repr ns (RBLeft (ns a)) l \<and> repr ns (RBRight (ns a)) r"

lemma repr_cong: "(\<And>a. a \<in> set_tree t \<Longrightarrow> ns' a = ns a) \<Longrightarrow> repr ns' p t \<longleftrightarrow> repr ns p t"
  by (induction t arbitrary: p) auto

lemma repr_None [simp]: "repr ns None t \<longleftrightarrow> t = Leaf"
  by (cases t) auto

lemma repr_Some: "repr ns (Some a) t \<longleftrightarrow> (\<exists>l r. t = Node l a r \<and> repr ns (RBLeft (ns a)) l \<and> repr ns (RBRight (ns a)) r)"
  by (cases t) auto

text \<open>The addresses of the \<^verbatim>\<open>RootInfo\<close> values along a list of nodes.\<close>

abbreviation info_addrs :: "heap \<Rightarrow> addr list \<Rightarrow> addr list" where
  "info_addrs h as \<equiv> map (\<lambda>a. Info (nodes h a)) as"

section \<open>Lookups in search trees\<close>

abbreviation ids :: "heap \<Rightarrow> addr tree \<Rightarrow> u64 list" where
  "ids h t \<equiv> map (id_of h) (inorder t)"

lemma find_append: "find P (xs @ ys) = (case find P xs of None \<Rightarrow> find P ys | Some x \<Rightarrow> Some x)"
  by (induction xs) auto

lemma find_none: "(\<And>x. x \<in> set xs \<Longrightarrow> \<not> P x) \<Longrightarrow> find P xs = None"
  by (simp add: find_None_iff)

lemma lookupRoot_find:
  assumes "repr (nodes h) (Some node) t" "sorted_wrt (<) (ids h t)"
  shows "lookupRoot h node rootID
    = Some (map_option (\<lambda>a. Info (nodes h a)) (find (\<lambda>a. id_of h a = rootID) (inorder t)))"
  using assms
proof (induction t arbitrary: node)
  case (Node l a r)
  have a: "node = a" and l: "repr (nodes h) (RBLeft (nodes h a)) l"
    and r: "repr (nodes h) (RBRight (nodes h a)) r"
    using Node.prems(1) by auto
  have sl: "sorted_wrt (<) (ids h l)" and sr: "sorted_wrt (<) (ids h r)"
    and less: "\<And>x. x \<in> set_tree l \<Longrightarrow> id_of h x < id_of h a" "\<And>x. x \<in> set_tree r \<Longrightarrow> id_of h a < id_of h x"
    using Node.prems(2) by (auto simp: sorted_wrt_append)
  consider "id_of h a = rootID" | "rootID < id_of h a" | "id_of h a < rootID" by fastforce
  then show ?case
  proof cases
    case 1
    have "find (\<lambda>x. id_of h x = rootID) (inorder l) = None"
      using less(1) 1 by (intro find_none) fastforce
    then show ?thesis using 1 a by (subst lookupRoot.simps) (simp add: find_append)
  next
    case 2
    have "find (\<lambda>x. id_of h x = rootID) (inorder r) = None"
      using less(2) 2 by (intro find_none) fastforce
    then have f: "find (\<lambda>x. id_of h x = rootID) (inorder (Node l a r)) = find (\<lambda>x. id_of h x = rootID) (inorder l)"
      using 2 by (auto simp: find_append split: option.splits)
    show ?thesis
    proof (cases "RBLeft (nodes h a)")
      case None
      then show ?thesis using l 2 a unfolding f by (subst lookupRoot.simps) auto
    next
      case (Some b)
      then show ?thesis using Node.IH(1) [OF _ sl] l 2 a unfolding f by (subst lookupRoot.simps) auto
    qed
  next
    case 3
    have "find (\<lambda>x. id_of h x = rootID) (inorder l) = None"
      using less(1) 3 by (intro find_none) fastforce
    then have f: "find (\<lambda>x. id_of h x = rootID) (inorder (Node l a r)) = find (\<lambda>x. id_of h x = rootID) (inorder r)"
      using 3 by (auto simp: find_append split: option.splits)
    show ?thesis
    proof (cases "RBRight (nodes h a)")
      case None
      then show ?thesis using r 3 a unfolding f by (subst lookupRoot.simps) auto
    next
      case (Some b)
      then show ?thesis using Node.IH(2) [OF _ sr] r 3 a unfolding f by (subst lookupRoot.simps) auto
    qed
  qed
qed simp

section \<open>Insertion in ascending order\<close>

fun ins_max :: "'a \<Rightarrow> 'a tree \<Rightarrow> 'a tree" where
  "ins_max x Leaf = Node Leaf x Leaf"
| "ins_max x (Node l a r) = Node l a (ins_max x r)"

lemma inorder_ins_max [simp]: "inorder (ins_max x t) = inorder t @ [x]"
  by (induction t) auto

text \<open>The nodes change in their right pointers only.\<close>

definition same_infos :: "heap \<Rightarrow> heap \<Rightarrow> bool" where
  "same_infos h h' \<longleftrightarrow> infos h' = infos h \<and> InfoRBNode h' = InfoRBNode h \<and> fresh h' = fresh h
     \<and> (\<forall>a. Info (nodes h' a) = Info (nodes h a))"

lemma insertRoot_ascending:
  assumes "repr (nodes h) (Some node) t" "distinct (inorder t)"
    and "\<forall>a\<in>set_tree t. \<not> RootID (infos h info) < id_of h a"
    and "x = InfoRBNode h info" "x \<notin> set_tree t" "RBLeft (nodes h x) = None" "RBRight (nodes h x) = None"
  shows "\<exists>h'. insertRoot h node info = Some h' \<and> repr (nodes h') (Some node) (ins_max x t)
    \<and> (\<forall>b. b \<notin> set_tree t \<longrightarrow> nodes h' b = nodes h b) \<and> same_infos h h'"
  using assms(1-3,5)
proof (induction t arbitrary: node)
  case (Node l a r)
  have a: "node = a" and l: "repr (nodes h) (RBLeft (nodes h a)) l"
    and r: "repr (nodes h) (RBRight (nodes h a)) r" and nl: "\<not> RootID (infos h info) < id_of h a"
    using Node.prems by auto
  have d: "a \<notin> set_tree l" "a \<notin> set_tree r" "set_tree l \<inter> set_tree r = {}" "a \<noteq> x"
    using Node.prems(2,4) by auto
  show ?case
  proof (cases "RBRight (nodes h a)")
    case None
    have e: "insertRoot h node info = Some (set_right a x h)"
      using a nl None assms(4) by (subst insertRoot.simps) simp
    have r: "r = Leaf" using r None by simp
    have "repr (nodes (set_right a x h)) (RBLeft (nodes h a)) l"
      using l d(1) by (subst repr_cong [of _ _ "nodes h"]) (auto simp: set_right_def)
    then have "repr (nodes (set_right a x h)) (Some node) (ins_max x (Node l a r))"
      using a d(4) assms(6,7) r by (simp add: set_right_def)
    then show ?thesis using e by (auto simp: set_right_def same_infos_def)
  next
    case (Some b)
    from Node.IH(2) [of b] r Some Node.prems obtain h' where h': "insertRoot h b info = Some h'"
      "repr (nodes h') (Some b) (ins_max x r)" "\<forall>c. c \<notin> set_tree r \<longrightarrow> nodes h' c = nodes h c"
      "same_infos h h'" by auto
    have e: "insertRoot h node info = Some h'"
      using a nl Some h'(1) by (subst insertRoot.simps) simp
    have na: "nodes h' a = nodes h a" using h'(3) d by blast
    have "repr (nodes h') (RBLeft (nodes h a)) l"
      using l d(3) h'(3) by (subst repr_cong [of _ _ "nodes h"]) auto
    then have "repr (nodes h') (Some node) (ins_max x (Node l a r))"
      using a h'(2) na Some by simp
    then show ?thesis using e h'(3,4) by auto
  qed
qed simp

section \<open>Traversals\<close>

text \<open>The traversals call the function along a list, until it returns the stopping error.\<close>

fun visit :: "'s RBTreeIterFunc \<Rightarrow> addr list \<Rightarrow> gerr option \<Rightarrow> heap \<times> 's \<Rightarrow> (gerr option \<times> heap \<times> 's) option" where
  "visit f [] lastErr st = Some (lastErr, st)"
| "visit f (i # is) lastErr st = do {
     (lastErr, st) \<leftarrow> f i lastErr st;
     if stops lastErr then Some (lastErr, st) else visit f is lastErr st }"

definition keeps_nodes :: "addr set \<Rightarrow> 's RBTreeIterFunc \<Rightarrow> bool" where
  "keeps_nodes A f \<longleftrightarrow> (\<forall>i e st e' st'. f i e st = Some (e', st') \<longrightarrow>
     (\<forall>a\<in>A. nodes (fst st') a = nodes (fst st) a))"

lemma visit_append:
  "visit f (xs @ ys) e st = do { (e', st') \<leftarrow> visit f xs e st;
     if xs \<noteq> [] \<and> stops e' then Some (e', st') else visit f ys e' st' }"
proof (induction xs arbitrary: e st)
  case (Cons i xs)
  show ?case
  proof (cases "f i e st")
    case (Some r)
    obtain e1 st1 where r: "r = (e1, st1)" by (cases r)
    show ?thesis
    proof (cases "stops e1")
      case False
      then show ?thesis using Some r Cons.IH [of e1 st1] by (cases xs) simp_all
    qed (simp add: Some r)
  qed simp
qed simp

lemma visit_keeps:
  assumes "keeps_nodes A f"
  shows "visit f is e st = Some (e', st') \<Longrightarrow> a \<in> A \<Longrightarrow> nodes (fst st') a = nodes (fst st) a"
proof (induction "is" arbitrary: e st)
  case (Cons i "is")
  from Cons.prems(1) obtain e1 st1 where f: "f i e st = Some (e1, st1)"
    by (auto simp: Option.bind_eq_Some_conv)
  then have "nodes (fst st1) a = nodes (fst st) a"
    using assms Cons.prems(2) unfolding keeps_nodes_def by blast
  with f Cons show ?case by (auto split: if_splits)
qed simp

lemma nodes_eqD: "\<forall>a\<in>A. ns' a = ns a \<Longrightarrow> set_tree t \<subseteq> A \<Longrightarrow> repr ns p t \<Longrightarrow> repr ns' p t"
  by (subst repr_cong) auto

lemma inOrderIterate_visit:
  assumes "keeps_nodes A f"
  shows "repr (nodes (fst st)) (Some node) t \<Longrightarrow> set_tree t \<subseteq> A \<Longrightarrow>
    inOrderIterate f node e st = visit f (info_addrs (fst st) (inorder t)) e st"
proof (induction t arbitrary: node e st)
  case (Node l a r)
  let ?h = "fst st"
  have a: "node = a" and l: "repr (nodes ?h) (RBLeft (nodes ?h a)) l"
    and r: "repr (nodes ?h) (RBRight (nodes ?h a)) r" and A: "a \<in> A" "set_tree l \<subseteq> A" "set_tree r \<subseteq> A"
    using Node.prems by auto
  define left where "left = (case RBLeft (nodes ?h a) of None \<Rightarrow> Some (e, False, st)
      | Some b \<Rightarrow> do { (e, st) \<leftarrow> inOrderIterate f b e st; Some (e, stops e, st) })"
  have left: "left = do { (e', st') \<leftarrow> visit f (info_addrs ?h (inorder l)) e st;
      Some (e', inorder l \<noteq> [] \<and> stops e', st') }"
  proof (cases "RBLeft (nodes ?h a)")
    case None
    then show ?thesis using l by (simp add: left_def)
  next
    case (Some b)
    then have "inorder l \<noteq> []" using l by (cases l) auto
    then show ?thesis using Node.IH(1) [of st b e] l A Some by (simp add: left_def)
  qed
  show ?case
  proof (cases "visit f (info_addrs ?h (inorder l)) e st")
    case None
    then show ?thesis using a left
      by (subst inOrderIterate.simps) (simp add: left_def [symmetric] visit_append)
  next
    case (Some res)
    then obtain e1 st1 where v: "visit f (info_addrs ?h (inorder l)) e st = Some (e1, st1)" by (cases res) auto
    then have n1: "\<forall>x\<in>A. nodes (fst st1) x = nodes ?h x" using visit_keeps [OF assms v] by blast
    have rest: "(do { (e, st) \<leftarrow> f (Info (nodes (fst st1) a)) e1 st1;
         if stops e then Some (e, st) else
         (case RBRight (nodes (fst st) a) of None \<Rightarrow> Some (e, st) | Some r \<Rightarrow> inOrderIterate f r e st) })
      = visit f (Info (nodes ?h a) # info_addrs ?h (inorder r)) e1 st1"
    proof (cases "f (Info (nodes ?h a)) e1 st1")
      case (Some res)
      obtain e2 st2 where f: "f (Info (nodes ?h a)) e1 st1 = Some (e2, st2)" using Some by (cases res) auto
      then have n2: "\<forall>x\<in>A. nodes (fst st2) x = nodes ?h x"
        using assms n1 unfolding keeps_nodes_def by fastforce
      show ?thesis
      proof (cases "RBRight (nodes ?h a)")
        case None
        then show ?thesis using f n1 n2 A(1) r by simp
      next
        case (Some b)
        have "inOrderIterate f b e2 st2 = visit f (info_addrs (fst st2) (inorder r)) e2 st2"
          using Node.IH(2) [of st2 b e2] nodes_eqD [OF n2 A(3) r] Some A(3) by simp
        moreover have "info_addrs (fst st2) (inorder r) = info_addrs ?h (inorder r)"
          using n2 A(3) by auto
        ultimately show ?thesis using f n1 n2 A(1) Some by simp
      qed
    qed (use n1 A(1) in simp)
    show ?thesis using left v rest unfolding a
      by (subst inOrderIterate.simps) (simp add: left_def [symmetric] visit_append)
  qed
qed simp

section \<open>Insertion in another order\<close>

text \<open>\<open>alloc\<close> makes a new node with a new \<^verbatim>\<open>RootInfo\<close>, both at the same address.\<close>

definition alloc :: "RootInfo \<Rightarrow> heap \<Rightarrow> heap" where
  "alloc info h = h\<lparr>
     nodes := (nodes h)(fresh h := \<lparr>RBLeft = None, RBRight = None, Info = fresh h\<rparr>),
     infos := (infos h)(fresh h := info),
     InfoRBNode := (InfoRBNode h)(fresh h := fresh h),
     fresh := fresh h + 1\<rparr>"

definition empty_heap :: heap where
  "empty_heap = \<lparr>nodes = (\<lambda>_. \<lparr>RBLeft = None, RBRight = None, Info = 0\<rparr>),
     infos = (\<lambda>_. empty_info), InfoRBNode = (\<lambda>_. 0), fresh = 0\<rparr>"

fun insert_ids :: "u64 list \<Rightarrow> heap \<Rightarrow> RBRoot \<Rightarrow> (heap \<times> RBRoot) option" where
  "insert_ids [] h root = Some (h, root)"
| "insert_ids (i # is) h root = do {
     (h', root) \<leftarrow> InsertRoot (alloc (empty_info\<lparr>RootID := i\<rparr>) h) root (fresh h);
     insert_ids is h' root }"

definition collect :: "u64 list RBTreeIterFunc" where
  "collect i e st = Some (None, fst st, snd st @ [RootID (infos (fst st) i)])"

lemma inOrderIterate_cycle:
  assumes "RBRight (nodes h n) = Some n" "RBLeft (nodes h n) = None"
  shows "inOrderIterate collect n e (h, acc) = None"
proof -
  define P where "P = (\<lambda>(f :: u64 list RBTreeIterFunc) m (e :: gerr option) (st :: heap \<times> u64 list)
    (r :: gerr option \<times> heap \<times> u64 list). \<not> (f = collect \<and> m = n \<and> fst st = h))"
  have "P f m e st r" if "inOrderIterate f m e st = Some r" for f m e st r
  proof (rule inOrderIterate.raw_induct [OF _ that])
    fix iter f m e st r
    assume IH: "\<And>f m e st r. iter f m e st = Some r \<Longrightarrow> P f m e st r"
      and r: "(case RBLeft (nodes (fst st) m) of None \<Rightarrow> Some (e, False, st)
          | Some l \<Rightarrow> iter f l e st \<bind> (\<lambda>(e, st). Some (e, stops e, st))) \<bind>
        (\<lambda>(lastErr, stop, st). if stop then Some (lastErr, st) else
          f (Info (nodes (fst st) m)) lastErr st \<bind> (\<lambda>(lastErr, st).
            if stops lastErr then Some (lastErr, st)
            else case RBRight (nodes (fst st) m) of None \<Rightarrow> Some (lastErr, st) | Some r \<Rightarrow> iter f r lastErr st))
        = Some r"
    show "P f m e st r"
      unfolding P_def
    proof
      assume c: "f = collect \<and> m = n \<and> fst st = h"
      then have "iter collect n None (h, snd st @ [id_of h n]) = Some r"
        using r assms by (simp add: collect_def stops_def)
      from IH [OF this] show False by (simp add: P_def)
    qed
  qed
  from this [of collect n e "(h, acc)"] show ?thesis
    by (cases "inOrderIterate collect n e (h, acc)") (simp_all add: P_def)
qed

lemma descending_cycle:
  "\<exists>h. insert_ids [4, 2, 1, 0] empty_heap newRBRoot = Some (h, Some 0)
    \<and> RBLeft (nodes h 0) = Some 1 \<and> RBLeft (nodes h 1) = Some 2 \<and> RBLeft (nodes h 2) = Some 3
    \<and> RBLeft (nodes h 3) = None \<and> RBRight (nodes h 3) = Some 3"
  by (simp add: InsertRoot_def newRBRoot_def alloc_def empty_heap_def set_left_def set_right_def
      empty_info_def insertRoot.simps)

text \<open>Identifiers that are inserted in descending order break the tree: after inserting 4, 2,
  1 and 0, the in-order traversal does not return, since the last node has become its own
  right child.\<close>

theorem descending_insertion_loops:
  "\<exists>h root. insert_ids [4, 2, 1, 0] empty_heap newRBRoot = Some (h, root)
    \<and> InOrderIterate collect root (h, []) = None"
proof -
  from descending_cycle obtain h where h: "insert_ids [4, 2, 1, 0] empty_heap newRBRoot = Some (h, Some 0)"
    "RBLeft (nodes h 0) = Some 1" "RBLeft (nodes h 1) = Some 2" "RBLeft (nodes h 2) = Some 3"
    "RBLeft (nodes h 3) = None" "RBRight (nodes h 3) = Some 3" by blast
  have 3: "inOrderIterate collect 3 e (h, acc) = None" for e acc
    by (rule inOrderIterate_cycle [OF h(6,5)])
  have 2: "inOrderIterate collect 2 e (h, acc) = None" for e acc
    by (subst inOrderIterate.simps) (simp add: h 3)
  have 1: "inOrderIterate collect 1 e (h, acc) = None" for e acc
    by (subst inOrderIterate.simps) (simp add: h(3) [simplified] 2 [simplified])
  have "inOrderIterate collect 0 e (h, acc) = None" for e acc
    by (subst inOrderIterate.simps) (simp add: h(2) 1 [simplified])
  then show ?thesis using h(1) by (auto simp: InOrderIterate_def)
qed

end
