(* ===== verification/Traversal.thy ===== *)
theory Traversal
  imports RBTree
begin

text \<open>
  The three traversals of the search tree of subvolumes as one interface: each calls its function
  along a list of the addresses in the tree, until it returns the stopping error. The clients
  fold a function over the values of the tree, or search it.
\<close>

section \<open>Each traversal visits a list\<close>

definition keeps_heap :: "'s RBTreeIterFunc \<Rightarrow> bool" where
  "keeps_heap f \<longleftrightarrow> (\<forall>i e st e' st'. f i e st = Some (e', st') \<longrightarrow> fst st' = fst st)"

lemma visit_keeps_heap:
  assumes "keeps_heap f"
  shows "visit f is e st = Some (e', st') \<Longrightarrow> fst st' = fst st"
proof (induction "is" arbitrary: e st)
  case (Cons i "is")
  then obtain e1 st1 where f: "f i e st = Some (e1, st1)"
    by (auto simp: Option.bind_eq_Some_conv)
  then have "fst st1 = fst st" using assms unfolding keeps_heap_def by blast
  with f Cons show ?case by (auto split: if_splits)
qed simp

lemma postOrderIterate_visit:
  assumes "keeps_heap f"
  shows "repr (nodes (fst st)) (Some node) t \<Longrightarrow>
    postOrderIterate f node e st = visit f (info_addrs (fst st) (postorder t)) e st"
proof (induction t arbitrary: node e st)
  case (Node l a r)
  let ?h = "fst st"
  have a: "node = a" and l: "repr (nodes ?h) (RBLeft (nodes ?h a)) l"
    and r: "repr (nodes ?h) (RBRight (nodes ?h a)) r"
    using Node.prems by auto
  have sub: "(case p of None \<Rightarrow> Some (e, False, st)
      | Some b \<Rightarrow> do { (e, st) \<leftarrow> postOrderIterate f b e st; Some (e, stops e, st) })
     = do { (e', st') \<leftarrow> visit f (info_addrs ?h (postorder u)) e st;
            Some (e', postorder u \<noteq> [] \<and> stops e', st') }"
    if "repr (nodes ?h) p u" "fst st = ?h" "\<And>b e. p = Some b \<Longrightarrow>
        postOrderIterate f b e st = visit f (info_addrs (fst st) (postorder u)) e st" for p u e st
  proof (cases p)
    case None
    then show ?thesis using that(1) by simp
  next
    case (Some b)
    then have "postorder u \<noteq> []" using that(1) by (cases u) auto
    then show ?thesis using that Some by simp
  qed
  have left: "(case RBLeft (nodes ?h a) of None \<Rightarrow> Some (e, False, st)
      | Some b \<Rightarrow> do { (e, st) \<leftarrow> postOrderIterate f b e st; Some (e, stops e, st) })
     = do { (e', st') \<leftarrow> visit f (info_addrs ?h (postorder l)) e st;
            Some (e', postorder l \<noteq> [] \<and> stops e', st') }"
    by (rule sub) (use l Node.IH(1) in auto)
  show ?case
  proof (cases "visit f (info_addrs ?h (postorder l)) e st")
    case None
    then show ?thesis using a left
      by (subst postOrderIterate.simps) (simp add: visit_append)
  next
    case (Some res)
    then obtain e1 st1 where v: "visit f (info_addrs ?h (postorder l)) e st = Some (e1, st1)" by (cases res) auto
    then have h1: "fst st1 = ?h" using visit_keeps_heap [OF assms] by blast
    have right: "(case RBRight (nodes ?h a) of None \<Rightarrow> Some (e1, False, st1)
        | Some b \<Rightarrow> do { (e, st) \<leftarrow> postOrderIterate f b e1 st1; Some (e, stops e, st) })
       = do { (e', st') \<leftarrow> visit f (info_addrs ?h (postorder r)) e1 st1;
              Some (e', postorder r \<noteq> [] \<and> stops e', st') }"
      by (rule sub) (use r h1 Node.IH(2) in auto)
    show ?thesis
    proof (cases "visit f (info_addrs ?h (postorder r)) e1 st1")
      case None
      then show ?thesis using a left right v h1
        by (subst postOrderIterate.simps) (simp add: visit_append)
    next
      case (Some res)
      then obtain e2 st2 where v2: "visit f (info_addrs ?h (postorder r)) e1 st1 = Some (e2, st2)" by (cases res) auto
      then have "fst st2 = ?h" using visit_keeps_heap [OF assms] h1 by fastforce
      then show ?thesis using a left right v v2 h1
        by (subst postOrderIterate.simps) (simp add: visit_append split: Option.bind_splits)
    qed
  qed
qed simp

lemma preOrderIterate_visit:
  assumes "keeps_heap f"
  shows "repr (nodes (fst st)) (Some node) t \<Longrightarrow>
    preOrderIterate f node e st = visit f (info_addrs (fst st) (preorder t)) e st"
proof (induction t arbitrary: node e st)
  case (Node l a r)
  let ?h = "fst st"
  have a: "node = a" and l: "repr (nodes ?h) (RBLeft (nodes ?h a)) l"
    and r: "repr (nodes ?h) (RBRight (nodes ?h a)) r"
    using Node.prems by auto
  have sub: "(case p of None \<Rightarrow> Some (e, st) | Some b \<Rightarrow> preOrderIterate f b e st)
      = visit f (info_addrs ?h (preorder u)) e st"
    if "repr (nodes ?h) p u" "fst st = ?h" "\<And>b e. p = Some b \<Longrightarrow>
        preOrderIterate f b e st = visit f (info_addrs (fst st) (preorder u)) e st" for p u e st
    using that by (cases p) auto
  show ?case
  proof (cases "f (Info (nodes ?h a)) e st")
    case None
    then show ?thesis using a by (subst preOrderIterate.simps) simp
  next
    case (Some res)
    then obtain e1 st1 where f: "f (Info (nodes ?h a)) e st = Some (e1, st1)" by (cases res) auto
    then have h1: "fst st1 = ?h" using assms unfolding keeps_heap_def by blast
    have left: "(case RBLeft (nodes ?h a) of None \<Rightarrow> Some (e1, st1) | Some b \<Rightarrow> preOrderIterate f b e1 st1)
        = visit f (info_addrs ?h (preorder l)) e1 st1"
      by (rule sub) (use l h1 Node.IH(1) in auto)
    show ?thesis
    proof (cases "stops e1 \<or> visit f (info_addrs ?h (preorder l)) e1 st1 = None")
      case True
      then show ?thesis using a f h1 left
        by (subst preOrderIterate.simps) (auto simp: visit_append)
    next
      case False
      then obtain e2 st2 where v: "visit f (info_addrs ?h (preorder l)) e1 st1 = Some (e2, st2)" by auto
      then have h2: "fst st2 = ?h" using visit_keeps_heap [OF assms] h1 by fastforce
      have right: "(case RBRight (nodes ?h a) of None \<Rightarrow> Some (e2, st2) | Some b \<Rightarrow> preOrderIterate f b e2 st2)
          = visit f (info_addrs ?h (preorder r)) e2 st2"
        by (rule sub) (use r h2 Node.IH(2) in auto)
      have "preorder l = [] \<Longrightarrow> e2 = e1" using v by simp
      then show ?thesis using a f h1 h2 left right v False
        by (subst preOrderIterate.simps) (auto simp: visit_append)
    qed
  qed
qed simp

lemma keeps_heap_nodes: "keeps_heap f \<Longrightarrow> keeps_nodes UNIV f"
  unfolding keeps_heap_def keeps_nodes_def by metis

section \<open>The interface\<close>

text \<open>The values in a tree are at the addresses of their nodes.\<close>

definition represents :: "heap \<Rightarrow> RBRoot \<Rightarrow> addr tree \<Rightarrow> bool" where
  "represents h root t \<longleftrightarrow> repr (nodes h) root t \<and> (\<forall>a\<in>set_tree t. Info (nodes h a) = a)"

locale traversal =
  fixes iterate :: "'s RBTreeIterFunc \<Rightarrow> RBRoot \<Rightarrow> heap \<times> 's \<Rightarrow> (gerr option \<times> heap \<times> 's) option"
    and order :: "addr tree \<Rightarrow> addr list"
  assumes visits: "keeps_heap f \<Longrightarrow> repr (nodes (fst st)) root t \<Longrightarrow>
      iterate f root st = visit f (info_addrs (fst st) (order t)) None st"
    and all_visited: "set (order t) = set_tree t"
begin

lemma iterate_visit:
  assumes "represents h root t" "keeps_heap f"
  shows "iterate f root (h, s) = visit f (order t) None (h, s)"
proof -
  have "info_addrs h (order t) = order t"
    using assms(1) all_visited by (intro map_idI) (simp add: represents_def)
  then show ?thesis using visits [OF assms(2), of "(h, s)" root t] assms(1) by (simp add: represents_def)
qed

lemma iterate_fold:
  assumes "represents h root t" "\<And>a e h s. f a e (h, s) = Some (None, h, g (infos h a) s)"
  shows "iterate f root (h, s) = Some (None, h, fold (\<lambda>a. g (infos h a)) (order t) s)"
proof -
  have k: "keeps_heap f" by (auto simp: keeps_heap_def assms(2))
  have "visit f as None (h, s) = Some (None, h, fold (\<lambda>a. g (infos h a)) as s)" for as
    by (induction as arbitrary: s) (simp_all add: assms(2) stops_def)
  then show ?thesis by (simp add: iterate_visit [OF assms(1) k])
qed

end

interpretation pre_order: traversal PreOrderIterate preorder
proof
  fix f :: "'a RBTreeIterFunc" and st :: "heap \<times> 'a" and root t
  assume k: "keeps_heap f" and t: "repr (nodes (fst st)) root t"
  show "PreOrderIterate f root st = visit f (info_addrs (fst st) (preorder t)) None st"
  proof (cases root)
    case None
    then show ?thesis using t by (cases t) (simp_all add: PreOrderIterate_def)
  next
    case (Some node)
    then show ?thesis using preOrderIterate_visit [OF k] t by (simp add: PreOrderIterate_def)
  qed
qed simp

interpretation post_order: traversal PostOrderIterate postorder
proof
  fix f :: "'a RBTreeIterFunc" and st :: "heap \<times> 'a" and root t
  assume k: "keeps_heap f" and t: "repr (nodes (fst st)) root t"
  show "PostOrderIterate f root st = visit f (info_addrs (fst st) (postorder t)) None st"
  proof (cases root)
    case None
    then show ?thesis using t by (cases t) (simp_all add: PostOrderIterate_def)
  next
    case (Some node)
    then show ?thesis using postOrderIterate_visit [OF k] t by (simp add: PostOrderIterate_def)
  qed
qed simp

interpretation in_order: traversal InOrderIterate inorder
proof
  fix f :: "'a RBTreeIterFunc" and st :: "heap \<times> 'a" and root t
  assume k: "keeps_heap f" and t: "repr (nodes (fst st)) root t"
  show "InOrderIterate f root st = visit f (info_addrs (fst st) (inorder t)) None st"
  proof (cases root)
    case None
    then show ?thesis using t by (cases t) (simp_all add: InOrderIterate_def)
  next
    case (Some node)
    then show ?thesis using inOrderIterate_visit [OF keeps_heap_nodes [OF k]] t
      by (simp add: InOrderIterate_def)
  qed
qed simp

text \<open>Functions that append to a list, and functions that stop at a value.\<close>

lemma fold_select:
  "fold (\<lambda>a s. if P (h a) then s @ [k (h a)] else s) as acc = acc @ map k (filter P (map h as))"
  by (induction as arbitrary: acc) simp_all

lemma visit_find:
  assumes "\<And>a e s. a \<in> set as \<Longrightarrow> f a e (h, s)
      = Some (if P (infos h a) then (Some ErrStopTreeIteration, h, Some a) else (None, h, s))"
  shows "\<exists>e'. visit f as e (h, None) = Some (e', h, find (\<lambda>a. P (infos h a)) as)"
  using assms by (induction as arbitrary: e) (auto simp: stops_def)

end
