(* ===== verification/SubvolTree.thy ===== *)
theory SubvolTree
  imports Btrfs TreeWalk Traversal
begin

text \<open>
  The tree of subvolumes of a file system (\<^verbatim>\<open>pkg/btrfs/subvolume_root_tree.go\<close>), the lookups
  it rests on (\<^verbatim>\<open>subvolume_lookup.go\<close>, \<^verbatim>\<open>uuid_tree_lookup.go\<close>, \<open>resolveFullPaths\<close> of
  \<^verbatim>\<open>btrfs_rb_tree.go\<close>) and the search for a subvolume and its snapshots
  (\<^verbatim>\<open>subvolume_search.go\<close>).
\<close>

section \<open>Lookups\<close>

definition RootTreeObjectID :: u64 where [simp]: "RootTreeObjectID = 1"
definition FSTreeObjectID :: u64 where [simp]: "FSTreeObjectID = 5"
definition UUIDTreeObjectID :: u64 where [simp]: "UUIDTreeObjectID = 9"
definition FirstFreeObjectID :: u64 where [simp]: "FirstFreeObjectID = 0x100"
definition LastFreeObjectID :: u64 where [simp]: "LastFreeObjectID = 0xffffffffffffff00"

record inoLookupArgs =
  Treeid :: u64
  InoObjectid :: u64
  InoName :: bytes

definition enc_inoLookupArgs :: "inoLookupArgs \<Rightarrow> bytes" where
  "enc_inoLookupArgs a = le_enc 8 (Treeid a) @ le_enc 8 (InoObjectid a) @ InoName a"

definition dec_inoLookupArgs :: "bytes \<Rightarrow> inoLookupArgs" where
  "dec_inoLookupArgs b = \<lparr>Treeid = le_at 0 8 b, InoObjectid = le_at 8 8 b, InoName = bytes_at 16 4080 b\<rparr>"

definition ino_lookup :: "'w kernel \<Rightarrow> fd \<Rightarrow> u64 \<Rightarrow> u64 \<Rightarrow> ('w, inoLookupArgs) io" where
  "ino_lookup k fd treeid objectid =
     callWriteIoctl 4096 enc_inoLookupArgs dec_inoLookupArgs k fd BTRFS_IOC_INO_LOOKUP
       \<lparr>Treeid = treeid, InoObjectid = objectid, InoName = replicate 4080 0\<rparr>"

definition stringFromLookupArgsName :: "bytes \<Rightarrow> string" where
  "stringFromLookupArgsName bb = string_of_bytes (c_string bb)"

definition lookupInoPath :: "'w kernel \<Rightarrow> fd \<Rightarrow> RootInfo \<Rightarrow> ('w, string) io" where
  "lookupInoPath k fd info =
     andThen (wrapping ''failed to lookup inode path'' (ino_lookup k fd (RefTree info) (DirID info))) (\<lambda>args.
     let name = stringFromLookupArgsName (InoName args) in
     if name = [] then ok (Name info) else ok (name @ Name info))"

definition lookupRootIDFromFd :: "'w kernel \<Rightarrow> fd \<Rightarrow> ('w, u64) io" where
  "lookupRootIDFromFd k fd = andThen (ino_lookup k fd 0 FirstFreeObjectID) (\<lambda>args. ok (Treeid args))"

definition root_item_step :: "u64 \<Rightarrow> ('w \<times> BtrfsRootItem option) TreeIterFunc" where
  "root_item_step rootID hdr item lastErr st =
     (if lastErr \<noteq> None then Some (lastErr, st)
      else if HObjectid hdr > rootID then Some (Some ErrStopWalk, st)
      else if HObjectid hdr = rootID \<and> HType hdr = RootItemKey then
        (case RootItem item of
           Inl err \<Rightarrow> Some (Some err, st)
         | Inr rootItem \<Rightarrow> Some (Some ErrStopWalk, (fst st, Some rootItem)))
      else Some (None, st))"

definition lookupRootItem :: "'w kernel \<Rightarrow> string \<Rightarrow> u64 \<Rightarrow> ('w, BtrfsRootItem) io" where
  "lookupRootItem k path rootID w = do {
     (err, (w, found)) \<leftarrow> WalkBtrfsTree k path
       \<lparr>Tree_id = RootTreeObjectID, Min_objectid = rootID, Max_objectid = rootID, Min_offset = 0,
        Max_offset = - 1, Min_transid = 0, Max_transid = - 1, Min_type = RootItemKey,
        Max_type = RootItemKey, Nr_items = 0\<rparr> (root_item_step rootID) (w, None);
     (case found of
        None \<Rightarrow> Some (Inl (Errorf ''failed to find root item'' ErrNotFound), w)
      | Some rootItem \<Rightarrow> Some (case err of None \<Rightarrow> Inr rootItem | Some e \<Rightarrow> Inl e, w)) }"

text \<open>The path is that of the parent directory when it is not the top of its subvolume.\<close>

definition subvol_path_step :: "'w kernel \<Rightarrow> fd \<Rightarrow> ('w \<times> string) TreeIterFunc" where
  "subvol_path_step k f hdr item lastErr st =
     (if lastErr \<noteq> None then Some (lastErr, st)
      else if HType hdr = RootBackrefKey then
        (case RootRef item of
           Inl err \<Rightarrow> Some (Some err, st)
         | Inr (ref, name) \<Rightarrow>
             if Dirid ref \<noteq> FirstFreeObjectID then
               (case ino_lookup k f (HOffset hdr) (Dirid ref) (fst st) of
                  None \<Rightarrow> None
                | Some (Inl err, w) \<Rightarrow> Some (Some (Errorf ''failed to lookup inode'' err), (w, snd st))
                | Some (Inr args, w) \<Rightarrow>
                    Some (Some ErrStopWalk, (w, stringFromLookupArgsName (InoName args))))
             else Some (Some ErrStopWalk, (fst st, name)))
      else Some (None, st))"

definition lookupPathFromSubvolumeID :: "'w kernel \<Rightarrow> string \<Rightarrow> u64 \<Rightarrow> ('w, string) io" where
  "lookupPathFromSubvolumeID k root i =
     (if i = FSTreeObjectID then ok root
      else andThen (sys_Open k root) (\<lambda>f. closing k f (\<lambda>w. do {
        (err, (w, path)) \<leftarrow> walkBtrfsTreeFd k f
          \<lparr>Tree_id = RootTreeObjectID, Min_objectid = i, Max_objectid = i, Min_offset = 0,
           Max_offset = - 1, Min_transid = 0, Max_transid = - 1, Min_type = RootBackrefKey,
           Max_type = RootBackrefKey, Nr_items = 1\<rparr> (subvol_path_step k f) (w, []);
        Some (case err of None \<Rightarrow> Inr path | Some e \<Rightarrow> Inl e, w) })))"

section \<open>Lookups by UUID\<close>

definition LookupUUIDKeySubvol :: byte where [simp]: "LookupUUIDKeySubvol = 251"
definition LookupUUIDKeyReceivedSubvol :: byte where [simp]: "LookupUUIDKeyReceivedSubvol = 252"

record btrfsKey =
  ObjID :: u64
  KType :: byte
  KOffset :: u64

definition uuidToBtrfsKey :: "uuid \<Rightarrow> btrfsKey" where
  "uuidToBtrfsKey u = \<lparr>ObjID = le_at 0 8 u, KType = 0, KOffset = le_at 8 8 u\<rparr>"

definition UUIDTreeLookupID :: "'w kernel \<Rightarrow> string \<Rightarrow> uuid \<Rightarrow> byte \<Rightarrow> ('w, u64) io" where
  "UUIDTreeLookupID k path uuid typ =
     (let key = (uuidToBtrfsKey uuid)\<lparr>KType := typ\<rparr>;
          args = \<lparr>Key = \<lparr>Tree_id = UUIDTreeObjectID, Min_objectid = ObjID key, Max_objectid = ObjID key,
            Min_offset = KOffset key, Max_offset = KOffset key, Min_transid = 0, Max_transid = - 1,
            Min_type = ucast typ, Max_type = ucast typ, Nr_items = 1\<rparr>, Buf = replicate 3992 0\<rparr>
      in andThen (sys_Open k path) (\<lambda>f. closing k f (
         andThen (tree_search k f args) (\<lambda>args.
         if Nr_items (Key args) < 1 then fail (ErrText ''no item found for UUID'')
         else andThen (lift_sum (binary_Read 32 dec_SearchHeader (convertSearchArgsBuf args))) (\<lambda>(hdr, rdr).
         if HLen hdr = 0 then fail (ErrText ''no item found for UUID'')
         else andThen (lift_sum (binary_Read 8 (le_at 0 8) rdr)) (\<lambda>(i, _). ok i))))))"

section \<open>Full paths\<close>

text \<open>
  The loop that puts the names of the parents before the path; it need not end when the
  parents form a cycle.
\<close>

partial_function (option) full_path_loop :: "heap \<Rightarrow> RBRoot \<Rightarrow> u64 \<Rightarrow> string \<Rightarrow> u64 \<Rightarrow> string option" where
  "full_path_loop h root topID fullpath nxt =
     (if nxt = topID \<or> nxt = FSTreeObjectID then Some fullpath
      else do {
        found \<leftarrow> LookupRoot h root nxt;
        if found = None then Some fullpath
        else full_path_loop h root topID (Name (infos h (the found)) @ ''/'' @ fullpath)
          (RefTree (infos h (the found))) })"

definition set_info :: "addr \<Rightarrow> RootInfo \<Rightarrow> heap \<Rightarrow> heap" where
  "set_info a info h = h\<lparr>infos := (infos h)(a := info)\<rparr>"

definition resolve_step :: "'w kernel \<Rightarrow> fd \<Rightarrow> RBRoot \<Rightarrow> u64 \<Rightarrow> 'w RBTreeIterFunc" where
  "resolve_step k f root topID a lastErr st =
     (case st of (h, w) \<Rightarrow>
        if lastErr \<noteq> None then Some (lastErr, h, w)
        else
          (let info = (infos h a)\<lparr>Deleted := (RefTree (infos h a) = 0)\<rparr>;
               h = set_info a info h
           in if Path info \<noteq> [] \<or> RefTree info = 0 then Some (None, h, w)
              else do {
                (r, w) \<leftarrow> lookupInoPath k f info w;
                (case r of
                   Inl err \<Rightarrow> Some (Some err, h, w)
                 | Inr path \<Rightarrow> do {
                     let h = set_info a (info\<lparr>Path := path\<rparr>) h;
                     fullpath \<leftarrow> full_path_loop h root topID path (RefTree info);
                     Some (None, set_info a (info\<lparr>Path := path, FullPath := fullpath\<rparr>) h, w) }) }))"

definition resolveFullPaths :: "'w kernel \<Rightarrow> heap \<Rightarrow> RBRoot \<Rightarrow> string \<Rightarrow> u64 \<Rightarrow> ('w, heap) io" where
  "resolveFullPaths k h root fromRoot topID =
     andThen (sys_Open k fromRoot) (\<lambda>f. closing k f (\<lambda>w. do {
       (err, h, w) \<leftarrow> PreOrderIterate (resolve_step k f root topID) root (h, w);
       Some (case err of None \<Rightarrow> Inr h | Some e \<Rightarrow> Inl e, w) }))"

section \<open>Building the tree\<close>

definition info_of_item :: "SearchHeader \<Rightarrow> BtrfsRootItem \<Rightarrow> RootInfo" where
  "info_of_item hdr rootItem = empty_info\<lparr>
     RootID := HObjectid hdr, RootOffset := HOffset hdr, Flags := RFlags rootItem,
     Generation := RGeneration rootItem, OriginalGeneration := ROtransid rootItem,
     CreationTime := Unix (ROtime rootItem), SendTime := Unix (RStime rootItem),
     ReceiveTime := Unix (RRtime rootItem), UUID := RUuid rootItem,
     ParentUUID := RParent_uuid rootItem, ReceivedUUID := RReceived_uuid rootItem,
     Item := Some rootItem\<rparr>"

definition info_of_ref :: "SearchHeader \<Rightarrow> BtrfsRootRef \<Rightarrow> string \<Rightarrow> RootInfo" where
  "info_of_ref hdr ref name = empty_info\<lparr>
     RootID := HObjectid hdr, DirID := Dirid ref, RefTree := HOffset hdr, Name := name, Ref := Some ref\<rparr>"

definition add_info :: "RootInfo \<Rightarrow> heap \<times> RBRoot \<Rightarrow> (heap \<times> RBRoot) option" where
  "add_info info st = (case st of (h, tree) \<Rightarrow> do {
     let a = fresh h;
     let h = alloc info h;
     (h, updated) \<leftarrow> UpdateRoot h tree a;
     if updated then Some (h, tree) else InsertRoot h tree a })"

definition build_step :: "('w \<times> heap \<times> RBRoot) TreeIterFunc" where
  "build_step hdr item lastErr st =
     (if lastErr \<noteq> None then Some (lastErr, st)
      else if HType hdr = RootItemKey then
        (case RootItem item of
           Inl err \<Rightarrow> Some (Some (Errorf ''failed to decode root item'' err), st)
         | Inr rootItem \<Rightarrow> do {
             t \<leftarrow> add_info (info_of_item hdr rootItem) (snd st);
             Some (None, (fst st, t)) })
      else if HType hdr = RootBackrefKey then
        (case RootRef item of
           Inl err \<Rightarrow> Some (Some (Errorf ''failed to decode root ref'' err), st)
         | Inr (ref, name) \<Rightarrow> do {
             t \<leftarrow> add_info (info_of_ref hdr ref name) (snd st);
             Some (None, (fst st, t)) })
      else Some (None, st))"

definition root_search_key :: "u64 \<Rightarrow> SearchParams" where
  "root_search_key rootID =
     \<lparr>Tree_id = RootTreeObjectID, Min_objectid = rootID, Max_objectid = LastFreeObjectID, Min_offset = 0,
      Max_offset = - 1, Min_transid = 0, Max_transid = - 1, Min_type = RootItemKey,
      Max_type = RootBackrefKey, Nr_items = 4096\<rparr>"

definition BuildRBTree :: "'w kernel \<Rightarrow> string \<Rightarrow> ('w, heap \<times> RBRoot) io" where
  "BuildRBTree k path =
     andThen (sys_Open k path) (\<lambda>f. closing k f (
     andThen (wrapping ''failed to find root id'' (lookupRootIDFromFd k f)) (\<lambda>rootID.
     andThen (wrapping ''failed to walk root tree'' (\<lambda>w. do {
       (err, (w, t)) \<leftarrow> walkBtrfsTreeFd k f (root_search_key rootID) build_step (w, (empty_heap, newRBRoot));
       Some (case err of None \<Rightarrow> Inr t | Some e \<Rightarrow> Inl e, w) })) (\<lambda>(h, tree).
     andThen (wrapping ''failed to resolve full paths'' (resolveFullPaths k h tree path rootID)) (\<lambda>h.
     ok (h, tree))))))"

section \<open>Searching\<close>

datatype SearchOption =
    SearchWithRootID u64
  | SearchWithRootMount string
  | SearchWithPath string
  | SearchWithUUID uuid
  | SearchWithReceivedUUID uuid
  | SearchWithSnapshots

record searchContext =
  rootMount :: string
  ctxRootID :: u64
  ctxPath :: string
  ctxUUID :: uuid
  ctxReceivedUUID :: uuid
  searchSnapshots :: bool

definition search_option :: "'w kernel \<Rightarrow> SearchOption \<Rightarrow> searchContext \<Rightarrow> ('w, searchContext) io" where
  "search_option k opt opts = (case opt of
     SearchWithRootID i \<Rightarrow> ok (opts\<lparr>ctxRootID := i\<rparr>)
   | SearchWithRootMount path \<Rightarrow> ok (opts\<lparr>rootMount := path\<rparr>)
   | SearchWithPath path \<Rightarrow>
       andThen (FindRootMount k path) (\<lambda>root. ok (opts\<lparr>ctxPath := path, rootMount := MountPath root\<rparr>))
   | SearchWithUUID u \<Rightarrow> ok (opts\<lparr>ctxUUID := u\<rparr>)
   | SearchWithReceivedUUID u \<Rightarrow> ok (opts\<lparr>ctxReceivedUUID := u\<rparr>)
   | SearchWithSnapshots \<Rightarrow> ok (opts\<lparr>searchSnapshots := True\<rparr>))"

fun search_options :: "'w kernel \<Rightarrow> SearchOption list \<Rightarrow> searchContext \<Rightarrow> ('w, searchContext) io" where
  "search_options k [] ctx = ok ctx"
| "search_options k (opt # opts) ctx = andThen (search_option k opt ctx) (search_options k opts)"

text \<open>
  The root identifier: a later lookup overwrites the result and the error of an earlier one.
  \<open>r\<close> is the pair of the identifier and the error so far.
\<close>

definition uuid_lookup :: "'w kernel \<Rightarrow> string \<Rightarrow> uuid \<Rightarrow> byte \<Rightarrow> gerr + u64 \<Rightarrow> ('w, gerr + u64) io" where
  "uuid_lookup k mount u typ r =
     (if u \<noteq> NilUUID then result (UUIDTreeLookupID k mount u typ) else ok r)"

definition find_root_id :: "'w kernel \<Rightarrow> searchContext \<Rightarrow> gerr + u64 \<Rightarrow> ('w, u64) io" where
  "find_root_id k ctx r =
     andThen (uuid_lookup k (rootMount ctx) (ctxUUID ctx) LookupUUIDKeySubvol r) (\<lambda>r.
     andThen (uuid_lookup k (rootMount ctx) (ctxReceivedUUID ctx) LookupUUIDKeyReceivedSubvol r) (\<lambda>r.
     wrapping ''failed to find root id'' (lift_sum r)))"

text \<open>With the path of a subvolume, its file stays open until the search returns.\<close>

definition with_root_id :: "'w kernel \<Rightarrow> searchContext \<Rightarrow> (u64 \<Rightarrow> ('w, 'a) io) \<Rightarrow> ('w, 'a) io" where
  "with_root_id k ctx f =
     (if ctxRootID ctx \<noteq> 0 then f (ctxRootID ctx)
      else if ctxPath ctx \<noteq> [] then
        andThen (result (sys_Open k (ctxPath ctx))) (\<lambda>r.
        case r of
          Inl err \<Rightarrow> if IsNotExist err then fail (Errorf ''path does not exist'' ErrNotFound) else fail err
        | Inr fd \<Rightarrow> closing k fd (
            andThen (result (lookupRootIDFromFd k fd)) (\<lambda>r.
            andThen (find_root_id k ctx r) f)))
      else andThen (find_root_id k ctx (Inr 0)) f)"

definition snapshot_step :: "uuid \<Rightarrow> RootInfo list RBTreeIterFunc" where
  "snapshot_step u a lastErr st =
     Some (None, fst st, if ParentUUID (infos (fst st) a) = u then snd st @ [infos (fst st) a] else snd st)"

definition SubvolumeSearch :: "'w kernel \<Rightarrow> SearchOption list \<Rightarrow> ('w, SubvolInfo) io" where
  "SubvolumeSearch k opts =
     andThen (search_options k opts \<lparr>rootMount = ''/'', ctxRootID = 0, ctxPath = [], ctxUUID = NilUUID,
       ctxReceivedUUID = NilUUID, searchSnapshots = False\<rparr>) (\<lambda>ctx.
     with_root_id k ctx (\<lambda>rootID.
     andThen (wrapping ''failed to read root item'' (lookupRootItem k (rootMount ctx) rootID)) (\<lambda>rootItem.
     andThen (if ctxPath ctx \<noteq> [] then ok (ctxPath ctx)
       else wrapping ''failed to find path'' (lookupPathFromSubvolumeID k (rootMount ctx) rootID)) (\<lambda>path.
     let info = empty_info\<lparr>RootID := rootID, Flags := RFlags rootItem, Generation := RGeneration rootItem,
           OriginalGeneration := ROtransid rootItem, CreationTime := Unix (ROtime rootItem),
           SendTime := Unix (RStime rootItem), ReceiveTime := Unix (RRtime rootItem),
           UUID := RUuid rootItem, ParentUUID := RParent_uuid rootItem,
           ReceivedUUID := RReceived_uuid rootItem, Item := Some rootItem,
           Path := path, Name := Base path\<rparr>
     in if searchSnapshots ctx then
          andThen (wrapping ''failed to build root tree'' (BuildRBTree k (rootMount ctx))) (\<lambda>(h, tree) w. do {
            (err, h, snaps) \<leftarrow> InOrderIterate (snapshot_step (UUID info)) tree (h, []);
            Some (case err of
                None \<Rightarrow> Inr (RootInfo.extend info \<lparr>Snapshots = snaps\<rparr>)
              | Some e \<Rightarrow> Inl e, w) })
        else ok (RootInfo.extend info \<lparr>Snapshots = []\<rparr>)))))"

section \<open>The tree that is built\<close>

text \<open>A pointer to a search tree with the given values, in ascending order of their identifiers.\<close>

definition tree_infos :: "heap \<Rightarrow> RBRoot \<Rightarrow> RootInfo list \<Rightarrow> bool" where
  "tree_infos h root xs \<longleftrightarrow> (\<exists>t. repr (nodes h) root t \<and> map (infos h) (inorder t) = xs
     \<and> (\<forall>a\<in>set_tree t. a < fresh h \<and> Info (nodes h a) = a)
     \<and> sorted_wrt (<) (map RootID xs))"

text \<open>The list after another value: it is merged into the one with its identifier or added.\<close>

definition add_spec :: "RootInfo list \<Rightarrow> RootInfo \<Rightarrow> RootInfo list" where
  "add_spec xs info =
     (if \<exists>x\<in>set xs. RootID x = RootID info
      then map (\<lambda>x. if RootID x = RootID info then merge_info info x else x) xs else xs @ [info])"

lemma RootID_merge [simp]: "RootID (merge_info info x) = RootID x"
  by (simp add: merge_info_def)

lemma distinct_inorder: "sorted_wrt (<) (map (g :: 'a \<Rightarrow> 'b::order) xs) \<Longrightarrow> distinct xs"
  by (induction xs) auto

lemma find_SomeD: "find P xs = Some x \<Longrightarrow> x \<in> set xs" "find P xs = Some x \<Longrightarrow> P x"
  by (induction xs) (auto split: if_splits)

lemma lookup_tree:
  assumes "repr (nodes h) root t" "\<forall>a\<in>set_tree t. Info (nodes h a) = a"
    "sorted_wrt (<) (map (\<lambda>a. RootID (infos h a)) (inorder t))"
  shows "LookupRoot h root i = Some (find (\<lambda>a. RootID (infos h a) = i) (inorder t))"
proof -
  have id: "id_of h a = RootID (infos h a)" if "a \<in> set (inorder t)" for a
    using assms(2) that by simp
  then have m: "map (id_of h) (inorder t) = map (\<lambda>a. RootID (infos h a)) (inorder t)" by simp
  have f: "find (\<lambda>a. id_of h a = i) (inorder t) = find (\<lambda>a. RootID (infos h a) = i) (inorder t)"
    using id by (intro find_cong) auto
  show ?thesis
  proof (cases root)
    case None
    then show ?thesis using assms(1) by (simp add: LookupRoot_def)
  next
    case (Some node)
    have "map_option (\<lambda>a. Info (nodes h a)) (find (\<lambda>a. RootID (infos h a) = i) (inorder t))
        = find (\<lambda>a. RootID (infos h a) = i) (inorder t)"
    proof (cases "find (\<lambda>a. RootID (infos h a) = i) (inorder t)")
      case (Some a)
      then have "a \<in> set (inorder t)" by (rule find_SomeD)
      then show ?thesis using assms(2) Some by simp
    qed simp
    then show ?thesis
      using lookupRoot_find [of h node t i] assms(1,3) Some by (simp add: LookupRoot_def m f)
  qed
qed

lemma alloc_simps [simp]:
  "fresh (alloc info h) = fresh h + 1"
  "infos (alloc info h) = (infos h)(fresh h := info)"
  "InfoRBNode (alloc info h) = (InfoRBNode h)(fresh h := fresh h)"
  "nodes (alloc info h) = (nodes h)(fresh h := \<lparr>RBLeft = None, RBRight = None, Info = fresh h\<rparr>)"
  by (simp_all add: alloc_def)

text \<open>A value in a search tree is replaced, or a larger one is inserted.\<close>

lemma add_info_spec:
  assumes "tree_infos h root xs" "\<forall>x\<in>set xs. RootID x \<le> RootID info"
  shows "\<exists>h' root'. add_info info (h, root) = Some (h', root') \<and> tree_infos h' root' (add_spec xs info)"
proof -
  obtain t where t: "repr (nodes h) root t" "map (infos h) (inorder t) = xs"
      "\<forall>a\<in>set_tree t. a < fresh h \<and> Info (nodes h a) = a" "sorted_wrt (<) (map RootID xs)"
    using assms(1) unfolding tree_infos_def by blast
  let ?a = "fresh h" and ?h = "alloc info h"
  have new: "?a \<notin> set_tree t" using t(3) by blast
  have rep: "repr (nodes ?h) root t" using t(1) new by (subst repr_cong [of _ _ "nodes h"]) auto
  have inf: "map (infos ?h) (inorder t) = xs" using t(2) new by (auto simp flip: t(2))
  have ids: "map (\<lambda>a. RootID (infos ?h a)) (inorder t) = map RootID xs"
    unfolding inf [symmetric] by simp
  have info_at: "\<forall>a\<in>set_tree t. Info (nodes ?h a) = a" using t(3) new by auto
  have new_info: "infos ?h ?a = info" by simp
  have look: "LookupRoot ?h root (RootID info)
      = Some (find (\<lambda>a. RootID (infos ?h a) = RootID info) (inorder t))"
    using lookup_tree [OF rep info_at] t(4) unfolding ids by blast
  have dist: "distinct (inorder t)"
    using distinct_inorder [of "\<lambda>a. RootID (infos ?h a)" "inorder t"] t(4) unfolding ids by blast
  show ?thesis
  proof (cases "find (\<lambda>a. RootID (infos ?h a) = RootID info) (inorder t)")
    case (Some b)
    then have b: "b \<in> set_tree t" "RootID (infos ?h b) = RootID info"
      using find_SomeD [OF Some] by (simp_all del: alloc_simps)
    have "b \<noteq> fresh h" using b(1) new by blast
    then have bx: "infos h b \<in> set xs" "RootID (infos h b) = RootID info"
      using b t(2) by (auto simp flip: t(2))
    let ?h' = "?h\<lparr>infos := (infos ?h)(b := merge_info info (infos ?h b))\<rparr>"
    have "UpdateRoot ?h root ?a = Some (?h', True)"
      unfolding UpdateRoot_def new_info look Some by simp
    then have "add_info info (h, root) = Some (?h', root)"
      by (simp add: add_info_def Let_def)
    moreover have "map (infos ?h') (inorder t) = add_spec xs info"
    proof -
      have "infos ?h' a = (if RootID (infos h a) = RootID info then merge_info info (infos h a) else infos h a)"
        if "a \<in> set (inorder t)" for a
      proof -
        have "a = b \<longleftrightarrow> RootID (infos ?h a) = RootID (infos ?h b)"
          using that b(1) t(4) ids by (metis distinct_inorder distinct_map inj_onD set_inorder sorted_wrt_map
              strict_sorted_iff)
        then show ?thesis using that b new by auto
      qed
      then show ?thesis using bx by (auto simp: add_spec_def simp flip: t(2))
    qed
    moreover have "map RootID (add_spec xs info) = map RootID xs"
      using bx by (auto simp: add_spec_def)
    ultimately show ?thesis
      unfolding tree_infos_def using rep t(3,4) new by (intro exI [of _ ?h'] exI [of _ root] conjI exI [of _ t]) auto
  next
    case None
    have up: "UpdateRoot ?h root ?a = Some (?h, False)"
      unfolding UpdateRoot_def new_info look None by simp
    have spec: "add_spec xs info = xs @ [info]"
      using None inf by (auto simp: add_spec_def find_None_iff simp flip: inf)
    have less: "\<forall>x\<in>set xs. RootID x < RootID info"
      using assms(2) None by (fastforce simp: find_None_iff simp flip: inf)
    have srt: "sorted_wrt (<) (map RootID (add_spec xs info))"
      using t(4) less by (simp add: spec sorted_wrt_append)
    show ?thesis
    proof (cases root)
      case None
      then have "t = Leaf" "xs = []" using t(1,2) by simp_all
      then show ?thesis
        using None srt spec up
        by (intro exI [of _ ?h] exI [of _ "Some ?a"])
          (auto simp: add_info_def Let_def InsertRoot_def tree_infos_def intro!: exI [of _ "Node Leaf ?a Leaf"])
    next
      case (Some node)
      have nl: "\<forall>b\<in>set_tree t. \<not> RootID (infos ?h ?a) < id_of ?h b"
        using less new t(3) by (fastforce simp flip: t(2))
      obtain h' where h': "insertRoot ?h node ?a = Some h'" "repr (nodes h') (Some node) (ins_max ?a t)"
          "\<forall>b. b \<notin> set_tree t \<longrightarrow> nodes h' b = nodes ?h b" "same_infos ?h h'"
        using insertRoot_ascending [OF rep [unfolded Some] dist nl, of ?a] new by auto
      have "add_info info (h, root) = Some (h', root)"
        using up h'(1) Some by (simp add: add_info_def Let_def InsertRoot_def)
      moreover have "tree_infos h' root (add_spec xs info)"
        unfolding tree_infos_def
      proof (intro exI conjI)
        show "repr (nodes h') root (ins_max ?a t)" using h'(2) Some by simp
        show "map (infos h') (inorder (ins_max ?a t)) = add_spec xs info"
          using h'(4) inf by (simp add: same_infos_def spec)
        have "set_tree (ins_max ?a t) = insert ?a (set_tree t)" by (simp flip: set_inorder)
        then show "\<forall>b\<in>set_tree (ins_max ?a t). b < fresh h' \<and> Info (nodes h' b) = b"
          using h'(4) t(3) info_at by (auto simp: same_infos_def)
        show "sorted_wrt (<) (map RootID (add_spec xs info))" by (rule srt)
      qed
      ultimately show ?thesis by blast
    qed
  qed
qed

text \<open>What an item of the tree of tree roots says about a subvolume.\<close>

definition contribution :: "raw_item \<Rightarrow> RootInfo option" where
  "contribution x =
     (if HType (fst x) = RootItemKey then
        (case RootItem (item_of x) of Inl _ \<Rightarrow> None | Inr i \<Rightarrow> Some (info_of_item (fst x) i))
      else if HType (fst x) = RootBackrefKey then
        (case RootRef (item_of x) of Inl _ \<Rightarrow> None | Inr (ref, name) \<Rightarrow> Some (info_of_ref (fst x) ref name))
      else None)"

definition decodable :: "raw_item \<Rightarrow> bool" where
  "decodable x \<longleftrightarrow> (HType (fst x) = RootItemKey \<longrightarrow> \<not> isl (RootItem (item_of x)))
     \<and> (HType (fst x) = RootBackrefKey \<longrightarrow> \<not> isl (RootRef (item_of x)))"

lemma RootID_contribution: "contribution x = Some info \<Longrightarrow> RootID info = HObjectid (fst x)"
  by (auto simp: contribution_def info_of_item_def info_of_ref_def split: if_splits sum.splits)

lemma build_step_contribution:
  "decodable x \<Longrightarrow> build_step (fst x) (item_of x) None (w, st) =
    (case contribution x of
       None \<Rightarrow> Some (None, (w, st))
     | Some info \<Rightarrow> do { st \<leftarrow> add_info info st; Some (None, (w, st)) })"
  by (auto simp: build_step_def contribution_def decodable_def split: sum.splits)

lemma add_spec_ids: "set (map RootID (add_spec xs info)) = insert (RootID info) (set (map RootID xs))"
proof -
  have "map RootID (add_spec xs info) = (if \<exists>x\<in>set xs. RootID x = RootID info
      then map RootID xs else map RootID xs @ [RootID info])" by (simp add: add_spec_def)
  moreover have "\<exists>x\<in>set xs. RootID x = RootID info \<Longrightarrow> RootID info \<in> set (map RootID xs)"
    by (metis image_eqI list.set_map)
  ultimately show ?thesis by (cases "\<exists>x\<in>set xs. RootID x = RootID info") (simp_all only: if_True if_False
      set_append list.set Un_insert_right Un_empty_right insert_absorb)
qed

lemma build_items:
  assumes "\<forall>x\<in>set items. decodable x" "sorted (map (\<lambda>x. HObjectid (fst x)) items)"
    and "tree_infos h root xs" "\<forall>y\<in>set xs. \<forall>x\<in>set items. RootID y \<le> HObjectid (fst x)"
  shows "\<exists>h' root'. visit_items build_step items None (w, (h, root)) = Some (None, (w, (h', root')))
    \<and> tree_infos h' root' (foldl add_spec xs (List.map_filter contribution items))"
  using assms
proof (induction items arbitrary: h root xs)
  case (Cons x items)
  have nostop: "\<not> stops_walk None" by (simp add: stops_walk_def)
  have d: "decodable x" using Cons.prems(1) by simp
  show ?case
  proof (cases "contribution x")
    case None
    then show ?thesis
      using Cons.IH [OF _ _ Cons.prems(3)] Cons.prems
      by (simp add: build_step_contribution [OF d] nostop List.map_filter_simps)
  next
    case (Some info)
    have i: "RootID info = HObjectid (fst x)" by (rule RootID_contribution [OF Some])
    then have "\<forall>y\<in>set xs. RootID y \<le> RootID info" using Cons.prems(4) by simp
    from add_info_spec [OF Cons.prems(3) this] obtain h1 root1 where
      a: "add_info info (h, root) = Some (h1, root1)" "tree_infos h1 root1 (add_spec xs info)" by blast
    have "\<forall>y\<in>set (add_spec xs info). \<forall>z\<in>set items. RootID y \<le> HObjectid (fst z)"
    proof (intro ballI)
      fix y z assume "y \<in> set (add_spec xs info)" "z \<in> set items"
      then have "RootID y \<in> insert (RootID info) (set (map RootID xs))"
        using add_spec_ids [of xs info] by (metis image_eqI list.set_map)
      then show "RootID y \<le> HObjectid (fst z)"
        using Cons.prems(2,4) \<open>z \<in> set items\<close> i by auto
    qed
    with Cons.IH [OF _ _ a(2)] Cons.prems show ?thesis
      by (simp add: build_step_contribution [OF d] Some a(1) nostop List.map_filter_simps)
  qed
qed (simp add: List.map_filter_simps)

lemma tree_infos_lookup:
  assumes "tree_infos h root xs"
  shows "\<exists>r. LookupRoot h root i = Some r
    \<and> map_option (infos h) r = find (\<lambda>x. RootID x = i) xs"
proof -
  obtain t where t: "repr (nodes h) root t" "map (infos h) (inorder t) = xs"
      "\<forall>a\<in>set_tree t. a < fresh h \<and> Info (nodes h a) = a" "sorted_wrt (<) (map RootID xs)"
    using assms unfolding tree_infos_def by blast
  have m: "find P (map f ys) = map_option f (find (\<lambda>y. P (f y)) ys)" for P f ys
    by (induction ys) auto
  have "LookupRoot h root i = Some (find (\<lambda>a. RootID (infos h a) = i) (inorder t))"
    using t by (intro lookup_tree) (auto simp: o_def)
  then show ?thesis by (simp add: m flip: t(2))
qed

definition collect_infos :: "RootInfo list RBTreeIterFunc" where
  "collect_infos a lastErr st = Some (None, fst st, snd st @ [infos (fst st) a])"

lemma tree_infos_represents:
  "tree_infos h root xs \<Longrightarrow> \<exists>t. represents h root t \<and> map (infos h) (inorder t) = xs"
  unfolding tree_infos_def represents_def by blast

lemma tree_infos_select:
  assumes "tree_infos h root xs"
    and "\<And>a e h s. f a e (h, s) = Some (None, h, if P (infos h a) then s @ [k (infos h a)] else s)"
  shows "InOrderIterate f root (h, []) = Some (None, h, map k (filter P xs))"
proof -
  obtain t where t: "represents h root t" "map (infos h) (inorder t) = xs"
    using tree_infos_represents [OF assms(1)] by blast
  show ?thesis
    using in_order.iterate_fold [OF t(1), of f "\<lambda>x s. if P x then s @ [k x] else s" "[]"] assms(2) t(2)
    by (simp add: fold_select)
qed

lemma tree_infos_iterate:
  assumes "tree_infos h root xs"
  shows "InOrderIterate collect_infos root (h, []) = Some (None, h, xs)"
  using tree_infos_select [OF assms, of collect_infos "\<lambda>_. True" id] by (simp add: collect_infos_def)

text \<open>The snapshots of a subvolume that a search lists: those made from it, by their identifiers.\<close>

lemma snapshots_listed:
  assumes "tree_infos h root xs"
  shows "InOrderIterate (snapshot_step u) root (h, []) = Some (None, h, filter (\<lambda>x. ParentUUID x = u) xs)"
  using tree_infos_select [OF assms, of "snapshot_step u" "\<lambda>x. ParentUUID x = u" id] by (simp add: snapshot_step_def)

text \<open>
  The values that belong together: of every field the latest that is not its zero value, whatever
  the order in which the items named it.
\<close>

definition latest :: "('a \<Rightarrow> bool) \<Rightarrow> 'a list \<Rightarrow> 'a" where
  "latest zero xs = (case filter (\<lambda>x. \<not> zero x) (rev xs) of [] \<Rightarrow> hd xs | x # _ \<Rightarrow> x)"

definition merged :: "RootInfo list \<Rightarrow> RootInfo" where
  "merged cs = \<lparr>
     RootID = RootID (hd cs),
     RootOffset = latest (\<lambda>x. x = 0) (map RootOffset cs),
     Flags = latest (\<lambda>x. x = 0) (map Flags cs),
     RefTree = latest (\<lambda>x. x = 0) (map RefTree cs),
     DirID = latest (\<lambda>x. x = 0) (map DirID cs),
     TopID = latest (\<lambda>x. x = 0) (map TopID cs),
     Generation = latest (\<lambda>x. x = 0) (map Generation cs),
     OriginalGeneration = latest (\<lambda>x. x = 0) (map OriginalGeneration cs),
     CreationTime = latest IsZero (map CreationTime cs),
     SendTime = latest IsZero (map SendTime cs),
     ReceiveTime = latest IsZero (map ReceiveTime cs),
     UUID = latest (\<lambda>x. x = NilUUID) (map UUID cs),
     ParentUUID = latest (\<lambda>x. x = NilUUID) (map ParentUUID cs),
     ReceivedUUID = latest (\<lambda>x. x = NilUUID) (map ReceivedUUID cs),
     Path = latest (\<lambda>x. x = []) (map Path cs),
     Name = latest (\<lambda>x. x = []) (map Name cs),
     FullPath = latest (\<lambda>x. x = []) (map FullPath cs),
     Deleted = list_ex Deleted cs,
     Item = latest (\<lambda>x. x = None) (map Item cs),
     Ref = latest (\<lambda>x. x = None) (map Ref cs)\<rparr>"

lemma latest_single [simp]: "latest zero [x] = x"
  by (simp add: latest_def)

lemma latest_snoc: "xs \<noteq> [] \<Longrightarrow> latest zero (xs @ [x]) = (if zero x then latest zero xs else x)"
  by (simp add: latest_def split: list.splits)

lemma merged_single: "merged [c] = c"
  by (simp add: merged_def)

lemma merged_sel:
  "RootID (merged cs) = RootID (hd cs)"
  "RootInfo.more (merged cs) = ()"
  "Deleted (merged cs) = list_ex Deleted cs"
  "RootOffset (merged cs) = latest (\<lambda>x. x = 0) (map RootOffset cs)"
  "Flags (merged cs) = latest (\<lambda>x. x = 0) (map Flags cs)"
  "RefTree (merged cs) = latest (\<lambda>x. x = 0) (map RefTree cs)"
  "DirID (merged cs) = latest (\<lambda>x. x = 0) (map DirID cs)"
  "TopID (merged cs) = latest (\<lambda>x. x = 0) (map TopID cs)"
  "Generation (merged cs) = latest (\<lambda>x. x = 0) (map Generation cs)"
  "OriginalGeneration (merged cs) = latest (\<lambda>x. x = 0) (map OriginalGeneration cs)"
  "CreationTime (merged cs) = latest IsZero (map CreationTime cs)"
  "SendTime (merged cs) = latest IsZero (map SendTime cs)"
  "ReceiveTime (merged cs) = latest IsZero (map ReceiveTime cs)"
  "UUID (merged cs) = latest (\<lambda>x. x = NilUUID) (map UUID cs)"
  "ParentUUID (merged cs) = latest (\<lambda>x. x = NilUUID) (map ParentUUID cs)"
  "ReceivedUUID (merged cs) = latest (\<lambda>x. x = NilUUID) (map ReceivedUUID cs)"
  "Path (merged cs) = latest (\<lambda>x. x = []) (map Path cs)"
  "Name (merged cs) = latest (\<lambda>x. x = []) (map Name cs)"
  "FullPath (merged cs) = latest (\<lambda>x. x = []) (map FullPath cs)"
  "Item (merged cs) = latest (\<lambda>x. x = None) (map Item cs)"
  "Ref (merged cs) = latest (\<lambda>x. x = None) (map Ref cs)"
  by (simp_all add: merged_def)

lemma merged_snoc: "cs \<noteq> [] \<Longrightarrow> merged (cs @ [c]) = merge_info c (merged cs)"
  by (rule RootInfo.equality) (simp_all only: merge_info_def RootInfo.simps merged_sel, simp_all add: merged_sel(1) latest_snoc disj_commute)

lemma add_spec_merged:
  "set (map RootID (foldl add_spec [] cs)) = RootID ` set cs
    \<and> (\<forall>x\<in>set (foldl add_spec [] cs). x = merged (filter (\<lambda>c. RootID c = RootID x) cs))"
proof (induction cs rule: rev_induct)
  case (snoc c cs)
  let ?xs = "foldl add_spec [] cs"
  have ids: "RootID ` set ?xs = RootID ` set cs" using snoc.IH by simp
  have "x = merged (filter (\<lambda>c. RootID c = RootID x) (cs @ [c]))" if x: "x \<in> set (add_spec ?xs c)" for x
  proof (cases "\<exists>y\<in>set ?xs. RootID y = RootID c")
    case True
    then obtain y where y: "y \<in> set ?xs" "x = (if RootID y = RootID c then merge_info c y else y)"
      using x by (auto simp: add_spec_def)
    have m: "y = merged (filter (\<lambda>c. RootID c = RootID y) cs)" using y(1) snoc.IH by blast
    have "RootID y \<in> RootID ` set cs" using y(1) ids by blast
    then have "filter (\<lambda>c. RootID c = RootID y) cs \<noteq> []"
      unfolding filter_empty_conv by (metis imageE)
    from merged_snoc [OF this, of c] m y(2) show ?thesis by auto
  next
    case False
    then have "RootID c \<notin> RootID ` set cs" by (metis ids imageE)
    then have e: "filter (\<lambda>d. RootID d = RootID c) cs = []"
      unfolding filter_empty_conv by (metis imageI)
    from False x have "x = c \<or> x \<in> set ?xs \<and> RootID x \<noteq> RootID c" by (auto simp: add_spec_def)
    then show ?thesis
    proof
      assume "x = c"
      then show ?thesis using e by (simp add: merged_single)
    next
      assume "x \<in> set ?xs \<and> RootID x \<noteq> RootID c"
      then show ?thesis using snoc.IH by auto
    qed
  qed
  then show ?case using ids add_spec_ids [of ?xs c] by simp
qed simp

text \<open>C5: Building the tree of subvolumes collects, for every identifier that has an item in the
  tree of tree roots, one value whose fields are the latest that its items set; lookups find
  exactly these values by identifier, and the in-order traversal visits them in ascending order.\<close>

theorem subvolume_tree_built:
  fixes rootID :: u64
  assumes "search_contract k f T" "\<forall>x\<in>set T. decodable x"
  defines "cs \<equiv> List.map_filter contribution (filter (in_range (root_search_key rootID)) T)"
  shows "\<exists>h tree xs. walkBtrfsTreeFd k f (root_search_key rootID) build_step (w, (empty_heap, newRBRoot))
      = Some (None, (w, (h, tree)))
    \<and> sorted_wrt (<) (map RootID xs)
    \<and> RootID ` set xs = RootID ` set cs
    \<and> (\<forall>x\<in>set xs. x = merged (filter (\<lambda>c. RootID c = RootID x) cs))
    \<and> (\<forall>i. \<exists>r. LookupRoot h tree i = Some r \<and> map_option (infos h) r = find (\<lambda>x. RootID x = i) xs)
    \<and> InOrderIterate collect_infos tree (h, []) = Some (None, h, xs)"
proof -
  let ?items = "filter (in_range (root_search_key rootID)) T"
  define xs where "xs = foldl add_spec [] cs"
  have "sorted_wrt (<) (map key_of T)" using assms(1) by (simp add: search_contract_def)
  then have "sorted (map (\<lambda>x. HObjectid (fst x)) ?items)"
    by (induction T) (auto simp: key_of_def less_prod_def less_le)
  moreover have "tree_infos empty_heap newRBRoot []"
    by (auto simp: tree_infos_def newRBRoot_def intro!: exI [of _ Leaf])
  ultimately obtain h tree where
    b: "visit_items build_step ?items None (w, (empty_heap, newRBRoot)) = Some (None, (w, (h, tree)))"
      "tree_infos h tree xs"
    using build_items [of ?items empty_heap newRBRoot "[]" w] assms(2) unfolding xs_def cs_def by auto
  have "sorted_wrt (<) (map RootID xs)" using b(2) by (auto simp: tree_infos_def)
  moreover have "RootID ` set xs = RootID ` set cs"
      "\<forall>x\<in>set xs. x = merged (filter (\<lambda>c. RootID c = RootID x) cs)"
    using add_spec_merged [of cs] unfolding xs_def by simp_all
  moreover have "walkBtrfsTreeFd k f (root_search_key rootID) build_step (w, (empty_heap, newRBRoot))
      = Some (None, (w, (h, tree)))"
    unfolding walk_loop_visit [OF assms(1)] walkBtrfsTreeFd_def using b(1) by simp
  ultimately show ?thesis using tree_infos_lookup [OF b(2)] tree_infos_iterate [OF b(2)] by blast
qed

text \<open>A back reference of subvolume 257, called \<open>v\<close>, in the file system tree.\<close>

definition sample_ref :: raw_item where
  "sample_ref = (\<lparr>HTransid = 1, HObjectid = 257, HOffset = 5, HType = RootBackrefKey, HLen = 19\<rparr>,
     le_enc 8 (256 :: u64) @ le_enc 8 (2 :: u64) @ le_enc 2 (1 :: u16) @ [0x76])"

lemma le_enc_Nil [simp]: "le_enc n w = [] \<longleftrightarrow> n = 0"
  by (cases n) auto

lemma char_v: "char_of (118 :: nat) = CHR ''v''"
  by code_simp

lemma sample_ref_item: "make_item (fst sample_ref) (snd sample_ref) = Some (Inr
    \<lparr>Data = le_enc 8 (256 :: u64) @ le_enc 8 (2 :: u64) @ le_enc 2 (1 :: u16), ItemName = ''v''\<rparr>)"
  by (simp add: sample_ref_def make_item_def RootRef_def item_decode_def binary_Read_def dec_BtrfsRootRef_def
      le_at_simps string_of_bytes_def Let_def char_v)

lemma sample_ref_contribution: "contribution sample_ref = Some (info_of_ref (fst sample_ref)
    \<lparr>Dirid = 256, RSequence = 2, RLen = 1\<rparr> ''v'')"
  by (simp add: contribution_def item_of_def sample_ref_item RootRef_def item_decode_def binary_Read_def
      dec_BtrfsRootRef_def le_at_simps) (simp add: sample_ref_def)

lemma subvolume_tree_built_witness:
  "\<exists>h tree. walkBtrfsTreeFd (batch_kernel [sample_ref]) 3 (root_search_key 5) build_step
        ((), (empty_heap, newRBRoot)) = Some (None, ((), (h, tree)))
    \<and> (\<exists>r. LookupRoot h tree 257 = Some (Some r) \<and> Name (infos h r) = ''v'')"
proof -
  have ref: "HType (fst sample_ref) = RootBackrefKey" "HOffset (fst sample_ref) = 5"
      "HObjectid (fst sample_ref) = 257" "unat (HLen (fst sample_ref)) = length (snd sample_ref)"
      "length (snd sample_ref) = 19"
    by (simp_all add: sample_ref_def)
  have k: "search_contract (batch_kernel [sample_ref] :: unit kernel) 3 [sample_ref]"
    by (rule batch_kernel_contract) (simp_all add: ref well_formed_def sample_ref_item)
  have d: "\<forall>x\<in>set [sample_ref]. decodable x"
    using sample_ref_contribution by (auto simp: decodable_def contribution_def ref split: sum.splits)
  have r: "filter (in_range (root_search_key 5)) [sample_ref] = [sample_ref]"
    by (simp add: in_range_def root_search_key_def key_of_def triple_less_simps ref)
  let ?c = "info_of_ref (fst sample_ref) \<lparr>Dirid = 256, RSequence = 2, RLen = 1\<rparr> ''v''"
  have cs: "List.map_filter contribution [sample_ref] = [?c]"
    by (simp add: List.map_filter_simps sample_ref_contribution)
  have c: "RootID ?c = 257" "Name ?c = ''v''" by (simp_all add: info_of_ref_def ref)
  obtain h tree xs where w: "walkBtrfsTreeFd (batch_kernel [sample_ref]) 3 (root_search_key 5) build_step
        ((), (empty_heap, newRBRoot)) = Some (None, ((), (h, tree)))"
    and xs: "RootID ` set xs = RootID ` set [?c]"
      "\<forall>x\<in>set xs. x = merged (filter (\<lambda>c. RootID c = RootID x) [?c])"
    and l: "\<exists>r. LookupRoot h tree 257 = Some r \<and> map_option (infos h) r = find (\<lambda>x. RootID x = 257) xs"
    using subvolume_tree_built [OF k d, of 5 "()"] unfolding r cs by blast
  have all: "x = ?c" if "x \<in> set xs" for x
  proof -
    have "RootID x = RootID ?c" using xs(1) that by auto
    then show ?thesis using xs(2) that by (auto simp: merged_single)
  qed
  moreover have "xs \<noteq> []" using xs(1) by auto
  ultimately have "find (\<lambda>x. RootID x = 257) xs = Some ?c"
    using c(1) by (cases xs) auto
  with l w c(2) show ?thesis by fastforce
qed

end
