(* ===== verification/FileOps.thy ===== *)
theory FileOps
  imports SubvolTree SendOps Scanner
begin

text \<open>
  What the receivers do to files: the functions of \<^verbatim>\<open>os\<close> and \<^verbatim>\<open>syscall\<close> they call, over the
  kernel of theory \<open>Kernel\<close>, and the operations of \<^verbatim>\<open>pkg/btrfs\<close> on the contents of files,
  \<^verbatim>\<open>encoded_write.go\<close> and \<^verbatim>\<open>fsverity.go\<close>. The methods that the local and the directory
  receiver have in common are stated once, for a path that is already resolved.
\<close>

section \<open>The system\<close>

text \<open>
  A directory entry is its name and whether it is a directory. \<open>sys_ReadPipe\<close> gives all that
  can be read from a pipe until its other end is closed, or \<open>None\<close> when it never is.
\<close>

record 'w os =
  kern :: "'w kernel"
  sys_OpenFile :: "string \<Rightarrow> u32 \<Rightarrow> u32 \<Rightarrow> ('w, fd) io"
  sys_CloseFile :: "fd \<Rightarrow> ('w, unit) io"
  sys_Mkdir :: "string \<Rightarrow> u32 \<Rightarrow> ('w, unit) io"
  sys_Mknod :: "string \<Rightarrow> u32 \<Rightarrow> int \<Rightarrow> ('w, unit) io"
  sys_Mkfifo :: "string \<Rightarrow> u32 \<Rightarrow> ('w, unit) io"
  sys_Socket :: "('w, fd) io"
  sys_Bind :: "fd \<Rightarrow> string \<Rightarrow> ('w, unit) io"
  sys_Symlink :: "string \<Rightarrow> string \<Rightarrow> ('w, unit) io"
  sys_Rename :: "string \<Rightarrow> string \<Rightarrow> ('w, unit) io"
  sys_Link :: "string \<Rightarrow> string \<Rightarrow> ('w, unit) io"
  sys_Remove :: "string \<Rightarrow> ('w, unit) io"
  sys_ReadAll :: "fd \<Rightarrow> ('w, string) io"
  sys_WriteFile :: "fd \<Rightarrow> bytes \<Rightarrow> ('w, unit) io"
  sys_Pwrite :: "fd \<Rightarrow> bytes \<Rightarrow> int \<Rightarrow> ('w, unit) io"
  sys_Setxattr :: "string \<Rightarrow> string \<Rightarrow> bytes \<Rightarrow> ('w, unit) io"
  sys_Removexattr :: "string \<Rightarrow> string \<Rightarrow> ('w, unit) io"
  sys_Truncate :: "string \<Rightarrow> int \<Rightarrow> ('w, unit) io"
  sys_Chmod :: "string \<Rightarrow> u32 \<Rightarrow> ('w, unit) io"
  sys_Chown :: "string \<Rightarrow> int \<Rightarrow> int \<Rightarrow> ('w, unit) io"
  sys_Chtimes :: "string \<Rightarrow> gotime \<Rightarrow> gotime \<Rightarrow> ('w, unit) io"
  sys_Fallocate :: "fd \<Rightarrow> u32 \<Rightarrow> int \<Rightarrow> int \<Rightarrow> ('w, unit) io"
  sys_Stat :: "string \<Rightarrow> ('w, unit) io"
  sys_ReadDir :: "string \<Rightarrow> ('w, (string \<times> bool) list) io"
  sys_Pipe :: "('w, fd \<times> fd) io"
  sys_ReadPipe :: "fd \<Rightarrow> 'w \<Rightarrow> (reader \<times> 'w) option"

definition O_RDONLY :: u32 where [simp]: "O_RDONLY = 0"
definition O_WRONLY :: u32 where [simp]: "O_WRONLY = 1"
definition O_RDWR :: u32 where [simp]: "O_RDWR = 2"
definition O_CREATE :: u32 where [simp]: "O_CREATE = 0x40"
definition O_TRUNC :: u32 where [simp]: "O_TRUNC = 0x200"

text \<open>\<^verbatim>\<open>os.Create\<close>, \<^verbatim>\<open>os.Open\<close> and \<^verbatim>\<open>File.WriteAt\<close>, which refuses negative offsets.\<close>

definition os_Create :: "'w os \<Rightarrow> string \<Rightarrow> ('w, fd) io" where
  "os_Create os path = sys_OpenFile os path (O_RDWR OR O_CREATE OR O_TRUNC) 438"

definition os_Open :: "'w os \<Rightarrow> string \<Rightarrow> ('w, fd) io" where
  "os_Open os path = sys_OpenFile os path O_RDONLY 0"

definition WriteAt :: "'w os \<Rightarrow> fd \<Rightarrow> bytes \<Rightarrow> int \<Rightarrow> ('w, unit) io" where
  "WriteAt os f data off =
     (if off < 0 then fail (EnvErr ''negative offset'') else sys_Pwrite os f data off)"

text \<open>
  \<^verbatim>\<open>os.Chmod\<close> translates a Go \<^verbatim>\<open>FileMode\<close>: the nine permission bits, and the bits 23, 22
  and 20 as set-user-id, set-group-id and sticky.
\<close>

definition syscallMode :: "u32 \<Rightarrow> u32" where
  "syscallMode i = (i AND 0x1FF)
     OR (if bit i 23 then 0x800 else 0) OR (if bit i 22 then 0x400 else 0)
     OR (if bit i 20 then 0x200 else 0)"

definition os_Chmod :: "'w os \<Rightarrow> string \<Rightarrow> u32 \<Rightarrow> ('w, unit) io" where
  "os_Chmod os path mode = sys_Chmod os path (syscallMode mode)"

text \<open>A conversion such as \<^verbatim>\<open>int64(offset)\<close> keeps the bits.\<close>

definition int64 :: "u64 \<Rightarrow> int" where [simp]: "int64 w = sint w"

section \<open>Encoded writes and verity\<close>

text \<open>
  \<^verbatim>\<open>binary.Write\<close> encodes a structure whose fields all have a fixed size and refuses all
  others: pointers and the type \<^verbatim>\<open>uintptr\<close> have none.
\<close>

datatype gofield = Fixed bytes | Pointer

definition binary_Write :: "gofield list \<Rightarrow> gerr + bytes" where
  "binary_Write fs =
     (if Pointer \<in> set fs then Inl (EnvErr ''binary.Write: invalid type'')
      else Inr (concat (map (\<lambda>f. case f of Fixed b \<Rightarrow> b | Pointer \<Rightarrow> []) fs)))"

record encodedIOArgs =
  Iov :: "u64 \<times> u64"
  Iovcnt :: u64
  EOffset :: u64
  ELen :: u64
  Unencoded_len :: u64
  Unencoded_offset :: u64
  ECompression :: u32
  EEncryption :: u32

text \<open>The field \<^verbatim>\<open>Iov\<close> is a pointer to a structure of an \<^verbatim>\<open>uintptr\<close> and a length.\<close>

definition enc_encodedIOArgs :: "encodedIOArgs \<Rightarrow> gerr + bytes" where
  "enc_encodedIOArgs a = binary_Write [Pointer, Fixed (le_enc 8 (Iovcnt a)), Fixed (le_enc 8 (EOffset a)),
     Fixed (replicate 8 0), Fixed (le_enc 8 (ELen a)), Fixed (le_enc 8 (Unencoded_len a)),
     Fixed (le_enc 8 (Unencoded_offset a)), Fixed (le_enc 4 (ECompression a)),
     Fixed (le_enc 4 (EEncryption a)), Fixed (replicate 64 0)]"

text \<open>
  \<open>addr\<close> is the address of the first byte of a slice. The reply of the ioctl is decoded into
  the arguments and not read.
\<close>

definition EncodedWrite_file :: "'w os \<Rightarrow> (bytes \<Rightarrow> u64) \<Rightarrow> string \<Rightarrow> EncodedWriteOp \<Rightarrow> ('w, unit) io" where
  "EncodedWrite_file os addr path op =
     (if Encryption op \<noteq> 0 then fail (Errorf ''EncodedWrite'' ErrEncryptionNotSupported)
      else andThen (lift_go (if OpData op = [] then panic else Some
        \<lparr>Iov = (addr (OpData op), of_nat (length (OpData op))), Iovcnt = 1, EOffset = Offset op,
         ELen = UnencodedFileLength op, Unencoded_len = UnencodedLength op,
         Unencoded_offset = UnencodedOffset op, ECompression = Compression op,
         EEncryption = Encryption op\<rparr>)) (\<lambda>args.
      andThen (sys_OpenFile os path O_RDWR 384) (\<lambda>f. closing (kern os) f (
      andThen (lift_sum (enc_encodedIOArgs args)) (\<lambda>buf.
      andThen (ioctl (kern os) f BTRFS_IOC_ENCODED_WRITE buf) (\<lambda>_. ok ()))))))"

definition FS_IOC_ENABLE_VERITY :: IoctlCmd where [simp]: "FS_IOC_ENABLE_VERITY = 0x40806685"

record fsVerityEnableArg =
  VVersion :: u32
  Hash_algorithm :: u32
  Block_size :: u32
  Salt_size :: u32
  Salt_ptr :: u64
  Sig_size :: u32
  Sig_ptr :: u64

definition enc_fsVerityEnableArg :: "fsVerityEnableArg \<Rightarrow> bytes" where
  "enc_fsVerityEnableArg a = le_enc 4 (VVersion a) @ le_enc 4 (Hash_algorithm a) @ le_enc 4 (Block_size a)
     @ le_enc 4 (Salt_size a) @ le_enc 8 (Salt_ptr a) @ le_enc 4 (Sig_size a) @ replicate 4 0
     @ le_enc 8 (Sig_ptr a) @ replicate 88 0"

definition dec_fsVerityEnableArg :: "bytes \<Rightarrow> fsVerityEnableArg" where
  "dec_fsVerityEnableArg b = \<lparr>VVersion = le_at 0 4 b, Hash_algorithm = le_at 4 4 b, Block_size = le_at 8 4 b,
     Salt_size = le_at 12 4 b, Salt_ptr = le_at 16 8 b, Sig_size = le_at 24 4 b, Sig_ptr = le_at 32 8 b\<rparr>"

definition EnableVerity_file :: "'w os \<Rightarrow> (bytes \<Rightarrow> u64) \<Rightarrow> string \<Rightarrow> u32 \<Rightarrow> u32 \<Rightarrow> bytes \<Rightarrow> bytes \<Rightarrow>
    ('w, unit) io" where
  "EnableVerity_file os addr path algorithm blockSize salt sig =
     andThen (lift_go (if salt = [] \<or> sig = [] then panic else Some
       \<lparr>VVersion = 1, Hash_algorithm = algorithm, Block_size = blockSize,
        Salt_size = of_nat (length salt), Salt_ptr = addr salt, Sig_size = of_nat (length sig),
        Sig_ptr = addr sig\<rparr>)) (\<lambda>args.
     andThen (sys_OpenFile os path O_RDONLY 384) (\<lambda>f. closing (kern os) f (
     andThen (callWriteIoctl 128 enc_fsVerityEnableArg dec_fsVerityEnableArg (kern os) f
       FS_IOC_ENABLE_VERITY args) (\<lambda>_. ok ()))))"

section \<open>Methods of the receivers that write files\<close>

definition create_file :: "'w os \<Rightarrow> string \<Rightarrow> ('w, unit) io" where
  "create_file os path = andThen (os_Create os path) (sys_CloseFile os)"

definition make_socket :: "'w os \<Rightarrow> string \<Rightarrow> ('w, unit) io" where
  "make_socket os path =
     andThen (sys_Socket os) (\<lambda>sock. closing (kern os) sock (sys_Bind os sock path))"

definition write_file :: "'w os \<Rightarrow> string \<Rightarrow> u64 \<Rightarrow> bytes \<Rightarrow> ('w, unit) io" where
  "write_file os path offset data =
     andThen (sys_OpenFile os path O_WRONLY 384) (\<lambda>f.
     closing (kern os) f (WriteAt os f data (int64 offset)))"

definition fallocate_file :: "'w os \<Rightarrow> string \<Rightarrow> u32 \<Rightarrow> u64 \<Rightarrow> u64 \<Rightarrow> ('w, unit) io" where
  "fallocate_file os path mode offset len =
     andThen (sys_OpenFile os path O_WRONLY 384) (\<lambda>f.
     closing (kern os) f (sys_Fallocate os f mode (int64 offset) (int64 len)))"

definition open_and_close :: "'w os \<Rightarrow> string \<Rightarrow> ('w, unit) io" where
  "open_and_close os path = andThen (sys_OpenFile os path O_RDWR 384) (sys_CloseFile os)"

text \<open>The error that a method returns.\<close>

definition returned :: "('w, unit) io \<Rightarrow> 'w \<Rightarrow> (gerr option \<times> 'w) go" where
  "returned m w = map_option (\<lambda>(r, w). (case r of Inl e \<Rightarrow> Some e | Inr _ \<Rightarrow> None, w)) (m w)"

lemma returned_ok [simp]: "returned (ok ()) w = Some (None, w)"
  and returned_fail [simp]: "returned (fail e) w = Some (Some e, w)"
  by (simp_all add: returned_def ok_def fail_def)

section \<open>Modes\<close>

lemma syscallMode_low: "i < 0x1000 \<Longrightarrow> syscallMode i = i AND 0x1FF"
proof -
  assume "i < 0x1000"
  then have i: "unat i < 2 ^ 12" by (simp add: word_less_nat_alt)
  have "\<not> bit i n" if "12 \<le> n" for n
  proof -
    have "unat i < 2 ^ n" using i that by (meson less_le_trans one_le_numeral power_increasing)
    then have "drop_bit n (unat i) = 0" by (simp add: drop_bit_eq_div)
    then have "drop_bit n i = 0" by (metis unat_drop_bit_eq unat_eq_zero)
    then show ?thesis by (simp add: bit_iff_odd_drop_bit)
  qed
  then show ?thesis by (simp add: syscallMode_def)
qed

section \<open>An instance\<close>

text \<open>A system with regular files only, one of which is open.\<close>

type_synonym sample_world = "(string \<Rightarrow> bytes option) \<times> string"

definition sample_OpenFile :: "string \<Rightarrow> u32 \<Rightarrow> u32 \<Rightarrow> (sample_world, fd) io" where
  "sample_OpenFile p flags mode w = (case w of (fs, _) \<Rightarrow>
     if fs p \<noteq> None then Some (Inr 3, fs, p)
     else if flags AND O_CREATE \<noteq> 0 then Some (Inr 3, fs(p \<mapsto> []), p)
     else Some (Inl (ErrNotExist p), fs, p))"

definition sample_WriteFile :: "fd \<Rightarrow> bytes \<Rightarrow> (sample_world, unit) io" where
  "sample_WriteFile f data w = (case w of (fs, p) \<Rightarrow>
     Some (Inr (), fs(p \<mapsto> data @ drop (length data) (case fs p of None \<Rightarrow> [] | Some b \<Rightarrow> b)), p))"

definition sample_os :: "sample_world os" where
  "sample_os = \<lparr>kern = nop_kernel [], sys_OpenFile = sample_OpenFile, sys_CloseFile = (\<lambda>f. ok ()),
     sys_Mkdir = (\<lambda>p m. ok ()), sys_Mknod = (\<lambda>p m d. ok ()), sys_Mkfifo = (\<lambda>p m. ok ()),
     sys_Socket = ok 4, sys_Bind = (\<lambda>f p. ok ()), sys_Symlink = (\<lambda>t p. ok ()), sys_Rename = (\<lambda>p q. ok ()),
     sys_Link = (\<lambda>t p. ok ()), sys_Remove = (\<lambda>p. ok ()),
     sys_ReadAll = (\<lambda>f w. Some (Inr (string_of_bytes (case fst w (snd w) of None \<Rightarrow> [] | Some b \<Rightarrow> b)), w)),
     sys_WriteFile = sample_WriteFile, sys_Pwrite = (\<lambda>f d i. ok ()), sys_Setxattr = (\<lambda>p n d. ok ()),
     sys_Removexattr = (\<lambda>p n. ok ()), sys_Truncate = (\<lambda>p i. ok ()), sys_Chmod = (\<lambda>p m. ok ()),
     sys_Chown = (\<lambda>p u g. ok ()), sys_Chtimes = (\<lambda>p a m. ok ()), sys_Fallocate = (\<lambda>f m i j. ok ()),
     sys_Stat = (\<lambda>p. ok ()), sys_ReadDir = (\<lambda>p. ok []), sys_Pipe = ok (5, 6),
     sys_ReadPipe = (\<lambda>f w. None)\<rparr>"

end
