(* ===== verification/Send.thy ===== *)
theory Send
  imports FileOps
begin

text \<open>
  Sending a snapshot (\<^verbatim>\<open>pkg/btrfs/send.go\<close>): the options, the structure for the ioctl and
  the call itself. The loggers are left out.
\<close>

section \<open>Arguments\<close>

record sendArgs =
  Send_fd :: u64
  Clone_sources_count :: u64
  Clone_sources :: u64
  Parent_root :: u64
  SendFlags :: u64
  SVersion :: u32

definition enc_sendArgs :: "sendArgs \<Rightarrow> bytes" where
  "enc_sendArgs a = le_enc 8 (Send_fd a) @ le_enc 8 (Clone_sources_count a) @ le_enc 8 (Clone_sources a)
     @ le_enc 8 (Parent_root a) @ le_enc 8 (SendFlags a) @ le_enc 4 (SVersion a) @ replicate 28 0"

definition dec_sendArgs :: "bytes \<Rightarrow> sendArgs" where
  "dec_sendArgs b = \<lparr>Send_fd = le_at 0 8 b, Clone_sources_count = le_at 8 8 b, Clone_sources = le_at 16 8 b,
     Parent_root = le_at 24 8 b, SendFlags = le_at 32 8 b, SVersion = le_at 40 4 b\<rparr>"

definition NoFileData :: u64 where [simp]: "NoFileData = 0x1"
definition OmitStreamHeader :: u64 where [simp]: "OmitStreamHeader = 0x2"
definition OmitEndCommand :: u64 where [simp]: "OmitEndCommand = 0x3"
definition SendVersion :: u64 where [simp]: "SendVersion = 0x8"
definition SendCompressed :: u64 where [simp]: "SendCompressed = 0x10"
definition BTRFS_IOC_SEND :: IoctlCmd where [simp]: "BTRFS_IOC_SEND = 0x40489426"
definition ModeDir :: u32 where [simp]: "ModeDir = 0x80000000"

record sendCtx =
  sargs :: sendArgs
  osPipe :: "fd option"

datatype SendOption =
    SendWithCloneSources "string list"
  | SendWithParentRoot string
  | SendWithoutData
  | SendCompressedData
  | SendToPath string
  | SendToFile fd

section \<open>Options\<close>

text \<open>
  An option changes the context and returns an error; it may have changed the context
  although it fails. A file whose identifier cannot be looked up stays open in the clone
  sources. \<open>addr\<close> is the address of a slice.
\<close>

type_synonym 'w send_result = "(gerr option \<times> sendCtx \<times> 'w) go"

definition set_args :: "(sendArgs \<Rightarrow> sendArgs) \<Rightarrow> sendCtx \<Rightarrow> sendCtx" where
  "set_args f c = c\<lparr>sargs := f (sargs c)\<rparr>"

fun source_ids :: "'w os \<Rightarrow> string list \<Rightarrow> ('w, u64 list) io" where
  "source_ids os [] = ok []"
| "source_ids os (source # sources) =
     andThen (sys_OpenFile os source O_RDONLY ModeDir) (\<lambda>f.
     andThen (lookupRootIDFromFd (kern os) f) (\<lambda>rootID.
     andThen (sys_CloseFile os f) (\<lambda>_.
     andThen (source_ids os sources) (\<lambda>srcs. ok (rootID # srcs)))))"

definition applied :: "('w, 'a) io \<Rightarrow> ('a \<Rightarrow> sendCtx) \<Rightarrow> sendCtx \<Rightarrow> 'w \<Rightarrow> 'w send_result" where
  "applied m f c w = (case m w of
     None \<Rightarrow> None | Some (Inl e, w) \<Rightarrow> Some (Some e, c, w) | Some (Inr a, w) \<Rightarrow> Some (None, f a, w))"

definition to_file :: "fd \<Rightarrow> sendCtx \<Rightarrow> sendCtx" where
  "to_file f c = (set_args (\<lambda>a. a\<lparr>Send_fd := f\<rparr>) c)\<lparr>osPipe := Some f\<rparr>"

definition slice_address :: "(bytes \<Rightarrow> u64) \<Rightarrow> u64 list \<Rightarrow> u64 go" where
  "slice_address addr srcs = (if srcs = [] then panic else Some (addr (concat (map (le_enc 8) srcs))))"

definition send_option :: "'w os \<Rightarrow> (bytes \<Rightarrow> u64) \<Rightarrow> SendOption \<Rightarrow> sendCtx \<Rightarrow> 'w \<Rightarrow> 'w send_result" where
  "send_option os addr opt c w = (case opt of
     SendWithCloneSources sources \<Rightarrow>
       (let c = set_args (\<lambda>a. a\<lparr>Clone_sources_count := of_nat (length sources)\<rparr>) c
        in applied (andThen (source_ids os sources) (\<lambda>srcs. lift_go (slice_address addr srcs)))
             (\<lambda>p. set_args (\<lambda>a. a\<lparr>Clone_sources := p\<rparr>) c) c w)
   | SendWithParentRoot root \<Rightarrow>
       applied (andThen (sys_OpenFile os root O_RDONLY ModeDir) (\<lambda>f.
           closing (kern os) f (lookupRootIDFromFd (kern os) f)))
         (\<lambda>id. set_args (\<lambda>a. a\<lparr>Parent_root := id\<rparr>) c) c w
   | SendWithoutData \<Rightarrow> Some (None, set_args (\<lambda>a. a\<lparr>SendFlags := SendFlags a OR NoFileData\<rparr>) c, w)
   | SendCompressedData \<Rightarrow> Some (None, set_args (\<lambda>a. a\<lparr>SendFlags := SendFlags a OR SendCompressed\<rparr>) c, w)
   | SendToPath path \<Rightarrow> applied (os_Create os path) (\<lambda>f. to_file f c) c w
   | SendToFile f \<Rightarrow> Some (None, to_file f c, w))"

definition SendToPipe :: "'w os \<Rightarrow> ('w, SendOption \<times> fd) io" where
  "SendToPipe os = andThen (sys_Pipe os) (\<lambda>(rf, wf). ok (SendToFile wf, rf))"

text \<open>\<^verbatim>\<open>for _, opt := range opts { opt(ctx) }\<close>: the errors are dropped.\<close>

fun apply_send_options :: "'w os \<Rightarrow> (bytes \<Rightarrow> u64) \<Rightarrow> SendOption list \<Rightarrow> sendCtx \<Rightarrow> 'w \<Rightarrow> (sendCtx \<times> 'w) go" where
  "apply_send_options os addr [] c w = Some (c, w)"
| "apply_send_options os addr (opt # opts) c w = do {
     (_, c, w) \<leftarrow> send_option os addr opt c w;
     apply_send_options os addr opts c w }"

section \<open>Sending\<close>

definition send_ctx0 :: sendCtx where
  "send_ctx0 = \<lparr>sargs = \<lparr>Send_fd = 0, Clone_sources_count = 0, Clone_sources = 0, Parent_root = 0,
     SendFlags = 0, SVersion = 2\<rparr>, osPipe = None\<rparr>"

definition send_to :: "'w os \<Rightarrow> string \<Rightarrow> sendCtx \<Rightarrow> ('w, unit) io" where
  "send_to os source c =
     (let c = set_args (\<lambda>a. a\<lparr>SendFlags := SendFlags a OR SendVersion\<rparr>) c
      in if Send_fd (sargs c) = 0 then fail (ErrText ''no send target specified'')
         else andThen (sys_OpenFile os source O_RDONLY ModeDir) (\<lambda>f.
           closing (kern os) f (
           (case osPipe c of None \<Rightarrow> id | Some p \<Rightarrow> closing (kern os) p)
             (wrapping ''error sending snapshot'' (andThen (callWriteIoctl 72 enc_sendArgs dec_sendArgs
               (kern os) f BTRFS_IOC_SEND (sargs c)) (\<lambda>_. ok ()))))))"

definition Send_snapshot :: "'w os \<Rightarrow> (bytes \<Rightarrow> u64) \<Rightarrow> string \<Rightarrow> SendOption list \<Rightarrow> ('w, unit) io" where
  "Send_snapshot os addr source opts w = do {
     (c, w) \<leftarrow> apply_send_options os addr opts send_ctx0 w;
     send_to os source c w }"

section \<open>Properties\<close>

lemma apply_send_options_append:
  "apply_send_options os addr (xs @ ys) c w = do {
     (c, w) \<leftarrow> apply_send_options os addr xs c w; apply_send_options os addr ys c w }"
  by (induction xs arbitrary: c w) (auto split: Option.bind_splits)

text \<open>A parent that cannot be opened is ignored: the send then behaves as if no parent had been
  given, and writes a full stream instead of failing.
\<close>

theorem send_ignores_parent:
  assumes "apply_send_options os addr opts send_ctx0 w = Some (c, w1)"
    and "sys_OpenFile os root O_RDONLY ModeDir w1 = Some (Inl e, w2)"
  shows "Send_snapshot os addr source (opts @ [SendWithParentRoot root]) w = send_to os source c w2"
  using assms
  by (simp add: Send_snapshot_def apply_send_options_append send_option_def applied_def andThen_def)

text \<open>
  When the source cannot be opened, the pipe is left open: nothing but the options and the
  attempt to open has happened.
\<close>

lemma send_leaves_pipe:
  assumes "apply_send_options os addr opts send_ctx0 w = Some (c, w1)" "Send_fd (sargs c) \<noteq> 0"
    and "sys_OpenFile os source O_RDONLY ModeDir w1 = Some (Inl e, w2)"
  shows "Send_snapshot os addr source opts w = Some (Inl e, w2)"
  using assms by (simp add: Send_snapshot_def send_to_def set_args_def Let_def andThen_def)

lemma send_ignores_parent_witness:
  "Send_snapshot sample_os (\<lambda>_. 0) ''/snaps/b'' ([SendToFile 6] @ [SendWithParentRoot ''/snaps/a'']) (Map.empty, [])
    = send_to sample_os ''/snaps/b'' (to_file 6 send_ctx0) (Map.empty, ''/snaps/a'')"
  by (rule send_ignores_parent [where e = "ErrNotExist ''/snaps/a''" and ?w1.0 = "(Map.empty, [])"])
    (simp_all add: send_option_def sample_os_def sample_OpenFile_def)

end
