(* ===== verification/Local.thy ===== *)
theory Local
  imports FileOps
begin

text \<open>
  The receiver that writes a stream to a btrfs file system
  (\<^verbatim>\<open>pkg/receive/receivers/local/local.go\<close>) as a value of the type \<open>receiver\<close>: its methods
  over the system of theory \<open>FileOps\<close>. Its state is the world.
\<close>

section \<open>The methods\<close>

definition resolvePath :: "string \<Rightarrow> ReceiveContext \<Rightarrow> string \<Rightarrow> string go" where
  "resolvePath destPath ctx path = do { p \<leftarrow> ResolvePath ctx path; Some (Join [destPath, p]) }"

abbreviation resolved :: "string \<Rightarrow> ReceiveContext \<Rightarrow> string \<Rightarrow> (string \<Rightarrow> ('w, 'a) io) \<Rightarrow> ('w, 'a) io" where
  "resolved destPath ctx path f \<equiv> andThen (lift_go (resolvePath destPath ctx path)) f"

definition local_Subvol :: "'w os \<Rightarrow> string \<Rightarrow> string \<Rightarrow> ('w, unit) io" where
  "local_Subvol os destPath path =
     (let fullpath = Join [destPath, path]
      in andThen (sys_MkdirAll (kern os) destPath 493) (\<lambda>_. CreateSubvolume (kern os) fullpath))"

text \<open>
  The tree is built up to four times. The error of the last attempt is the one that is
  returned.
\<close>

fun build_tree_loop :: "nat \<Rightarrow> 'w kernel \<Rightarrow> string \<Rightarrow> ('w \<Rightarrow> 'w) \<Rightarrow> ('w, heap \<times> RBRoot) io" where
  "build_tree_loop n k path sleep w = (case BuildRBTree k path w of
     None \<Rightarrow> None
   | Some (Inr tree, w) \<Rightarrow> Some (Inr tree, w)
   | Some (Inl e, w) \<Rightarrow>
       (case n of 0 \<Rightarrow> Some (Inl e, sleep w) | Suc n \<Rightarrow> build_tree_loop n k path sleep (sleep w)))"

text \<open>\<^verbatim>\<open>node.Item\<close> is a pointer that is nil without a root item; the log message reads it.\<close>

definition parent_step :: "uuid \<Rightarrow> u64 \<Rightarrow> addr option RBTreeIterFunc" where
  "parent_step cloneUUID cloneCtransid a lastErr st =
     (let node = infos (fst st) a
      in if Deleted node \<or> ReceivedUUID node = NilUUID then Some (None, st)
         else if Item node = None then panic
         else if ReceivedUUID node = cloneUUID \<and> RStransid (the (Item node)) = cloneCtransid
         then Some (Some ErrStopTreeIteration, fst st, Some a)
         else Some (None, st))"

definition local_Snapshot :: "'w os \<Rightarrow> ('w \<Rightarrow> 'w) \<Rightarrow> string \<Rightarrow> string \<Rightarrow> uuid \<Rightarrow> u64 \<Rightarrow> ('w, unit) io" where
  "local_Snapshot os sleep destPath path cloneUUID cloneCtransid =
     (let k = kern os in
      andThen (wrapping ''failed to find root mount'' (FindRootMount k destPath)) (\<lambda>root.
      andThen (wrapping ''failed to build rbtree'' (build_tree_loop 3 k (MountPath root) sleep)) (\<lambda>(h, tree).
      andThen (lift_go (PostOrderIterate (parent_step cloneUUID cloneCtransid) tree (h, None))) (\<lambda>(_, h, parent).
      case parent of
        None \<Rightarrow> fail (ErrText ''could not find parent subvolume for snapshot'')
      | Some a \<Rightarrow>
          let dest = Join [destPath, path];
              full = FullPath (infos h a);
              full = (if HasPrefix full (MountPath root) then full else Join [MountPath root, full])
          in andThen (CreateSnapshot k full [WithSnapshotPath dest]) (\<lambda>_. SyncFilesystem k dest)))))"

definition local_Clone :: "'w os \<Rightarrow> string \<Rightarrow> ReceiveContext \<Rightarrow> string \<Rightarrow> u64 \<Rightarrow> u64 \<Rightarrow> uuid \<Rightarrow> string \<Rightarrow> u64 \<Rightarrow>
    ('w, unit) io" where
  "local_Clone os destPath ctx path offset len cloneUUID clonePath cloneOffset =
     andThen (lift_go (CurrentSubvolume ctx)) (\<lambda>sv.
     andThen (if cloneUUID = SubvolUUID sv then ok (Join [destPath, SubvolPath sv])
       else andThen (wrapping ''cannot find parent subvolume for clone'' (SubvolumeSearch (kern os)
              [SearchWithRootMount destPath, SearchWithReceivedUUID cloneUUID])) (\<lambda>parent.
            ok (Join [destPath, Path parent]))) (\<lambda>subvolPath.
     let clonePath = Join [subvolPath, clonePath] in
     resolved destPath ctx path (\<lambda>destPath.
     Clone_file (kern os) clonePath destPath cloneOffset offset len)))"

definition local_FinishSubvolume :: "'w os \<Rightarrow> string \<Rightarrow> ReceiveContext \<Rightarrow> ('w, unit) io" where
  "local_FinishSubvolume os destPath ctx =
     andThen (lift_go (CurrentSubvolume ctx)) (\<lambda>curVol.
     let k = kern os; path = Join [destPath, SubvolPath curVol] in
     andThen (IsSubvolumeReadOnly k path) (\<lambda>isReadOnly.
     andThen (if isReadOnly then SetSubvolumeReadOnly k path False else ok ()) (\<lambda>_.
     andThen (SetReceivedSubvolume k path (SubvolUUID curVol) (SubvolCtransid curVol)) (\<lambda>_.
     andThen (SetSubvolumeReadOnly k path True) (\<lambda>_.
     SyncFilesystem k path)))))"

text \<open>All methods; \<open>sleep\<close> and \<open>addr\<close> stand for the passing of time and the addresses of slices.\<close>

fun local_recv :: "'w os \<Rightarrow> ('w \<Rightarrow> 'w) \<Rightarrow> (bytes \<Rightarrow> u64) \<Rightarrow> string \<Rightarrow> ReceiveContext \<Rightarrow> rcall \<Rightarrow> ('w, unit) io" where
  "local_recv os sleep addr d ctx (Subvol path uuid ctransid) = local_Subvol os d path"
| "local_recv os sleep addr d ctx (Snapshot path uuid ctransid cu ct) = local_Snapshot os sleep d path cu ct"
| "local_recv os sleep addr d ctx (Mkfile path ino) = resolved d ctx path (create_file os)"
| "local_recv os sleep addr d ctx (Mkdir path ino) = resolved d ctx path (\<lambda>p. sys_Mkdir os p 493)"
| "local_recv os sleep addr d ctx (Mknod path ino mode rdev) =
     resolved d ctx path (\<lambda>p. sys_Mknod os p mode (int64 rdev))"
| "local_recv os sleep addr d ctx (Mkfifo path ino) = resolved d ctx path (\<lambda>p. sys_Mkfifo os p 384)"
| "local_recv os sleep addr d ctx (Mksock path ino) = resolved d ctx path (make_socket os)"
| "local_recv os sleep addr d ctx (Symlink path ino linkTo) =
     resolved d ctx path (\<lambda>p. resolved d ctx linkTo (\<lambda>l. sys_Symlink os l p))"
| "local_recv os sleep addr d ctx (Rename oldPath newPath) =
     resolved d ctx oldPath (\<lambda>old. resolved d ctx newPath (\<lambda>new. sys_Rename os old new))"
| "local_recv os sleep addr d ctx (Link path linkTo) =
     resolved d ctx path (\<lambda>p. resolved d ctx linkTo (\<lambda>l. sys_Link os l p))"
| "local_recv os sleep addr d ctx (Unlink path) = resolved d ctx path (sys_Remove os)"
| "local_recv os sleep addr d ctx (Rmdir path) = resolved d ctx path (sys_RemoveAll (kern os))"
| "local_recv os sleep addr d ctx (Write path offset data) = resolved d ctx path (\<lambda>p. write_file os p offset data)"
| "local_recv os sleep addr d ctx (EncodedWrite path op) = resolved d ctx path (\<lambda>p. EncodedWrite_file os addr p op)"
| "local_recv os sleep addr d ctx (Clone path offset len cu ct clonePath cloneOffset) =
     local_Clone os d ctx path offset len cu clonePath cloneOffset"
| "local_recv os sleep addr d ctx (SetXattr path name data) = resolved d ctx path (\<lambda>p. sys_Setxattr os p name data)"
| "local_recv os sleep addr d ctx (RemoveXattr path name) = resolved d ctx path (\<lambda>p. sys_Removexattr os p name)"
| "local_recv os sleep addr d ctx (Truncate path n) = resolved d ctx path (\<lambda>p. sys_Truncate os p (int64 n))"
| "local_recv os sleep addr d ctx (Chmod path mode) = resolved d ctx path (\<lambda>p. os_Chmod os p (ucast mode))"
| "local_recv os sleep addr d ctx (Chown path uid gid) =
     resolved d ctx path (\<lambda>p. sys_Chown os p (int64 uid) (int64 gid))"
| "local_recv os sleep addr d ctx (Utimes path atime mtime ctime) = resolved d ctx path (\<lambda>p. sys_Chtimes os p atime mtime)"
| "local_recv os sleep addr d ctx (UpdateExtent path fileOffset tmpSize) = ok ()"
| "local_recv os sleep addr d ctx (EnableVerity path algorithm blockSize salt sig) =
     resolved d ctx path (\<lambda>p. EnableVerity_file os addr p (ucast algorithm) blockSize salt sig)"
| "local_recv os sleep addr d ctx (Fallocate path mode offset len) =
     resolved d ctx path (\<lambda>p. fallocate_file os p mode offset len)"
| "local_recv os sleep addr d ctx (Fileattr path attr) = resolved d ctx path (open_and_close os)"
| "local_recv os sleep addr d ctx FinishSubvolume = local_FinishSubvolume os d ctx"

definition local_receiver :: "'w os \<Rightarrow> ('w \<Rightarrow> 'w) \<Rightarrow> (bytes \<Rightarrow> u64) \<Rightarrow> string \<Rightarrow> 'w receiver" where
  "local_receiver os sleep addr destPath =
     \<lparr>recv = (\<lambda>ctx c. returned (local_recv os sleep addr destPath ctx c)), PreOp = None, PostOp = None\<rparr>"

section \<open>Data and modes\<close>

lemma local_receiver_simps [simp]:
  "recv (local_receiver os sleep addr d) ctx c w = returned (local_recv os sleep addr d ctx c) w"
  "PreOp (local_receiver os sleep addr d) = None" "PostOp (local_receiver os sleep addr d) = None"
  by (simp_all add: local_receiver_def)

text \<open>The local receiver never executes an encoded write: the structure for the ioctl contains a
  pointer, which \<^verbatim>\<open>binary.Write\<close> refuses, so the file is only opened and closed. As the error
  is not \<^verbatim>\<open>ErrNotSupported\<close>, the processor does not fall back to a plain write either, and
  the command fails.
\<close>

theorem encoded_writes_fail:
  assumes "\<not> forceDecompress ctx" "Encryption op = 0" "OpData op \<noteq> []"
    and "resolvePath d (view ctx) path = Some p"
    and "sys_OpenFile os p O_RDWR 384 w = Some (Inr f, w')"
  shows "deliver X (local_receiver os sleep addr d) (EncodedWrite path op) ctx w
    = Some (Some (EnvErr ''binary.Write: invalid type''), ctx, sys_Close (kern os) f w')"
  using assms
  by (simp add: lift_go_def andThen_def EncodedWrite_file_def closing_def lift_sum_def
      enc_encodedIOArgs_def binary_Write_def returned_def)

text \<open>Modes lose their set-user-id, set-group-id and sticky bits: the local receiver sets the
  permission bits of the mode in the stream only.
\<close>

theorem chmod_permissions_only:
  assumes "mode < 0x1000" "resolvePath d ctx path = Some p"
  shows "recv (local_receiver os sleep addr d) ctx (Chmod path mode) w
    = returned (sys_Chmod os p (ucast mode AND 0x1FF)) w"
proof -
  have "unat mode < 0x1000" using assms(1) by (simp add: word_less_nat_alt)
  then have "unat (ucast mode :: u32) < 0x1000"
    by (simp add: unsigned_ucast_eq take_bit_nat_eq_self)
  then have "(ucast mode :: u32) < 0x1000" by (simp add: word_less_nat_alt)
  then show ?thesis
    using assms(2) by (simp add: lift_go_def andThen_def os_Chmod_def syscallMode_low returned_def)
qed

section \<open>The parent of a snapshot\<close>

definition is_parent :: "uuid \<Rightarrow> u64 \<Rightarrow> RootInfo \<Rightarrow> bool" where
  "is_parent cloneUUID cloneCtransid x \<longleftrightarrow> \<not> Deleted x \<and> ReceivedUUID x \<noteq> NilUUID
     \<and> ReceivedUUID x = cloneUUID \<and> RStransid (the (Item x)) = cloneCtransid"

definition has_item :: "RootInfo \<Rightarrow> bool" where
  "has_item x \<longleftrightarrow> Deleted x \<or> ReceivedUUID x = NilUUID \<or> Item x \<noteq> None"

lemma parent_step_cases:
  "has_item (infos h a) \<Longrightarrow> parent_step u c a e (h, p)
    = Some (if is_parent u c (infos h a) then (Some ErrStopTreeIteration, h, Some a) else (None, h, p))"
  by (auto simp: parent_step_def is_parent_def has_item_def Let_def)

text \<open>C19:
  The parent of a received snapshot: the search of the local receiver returns a subvolume of
  the tree that is not deleted and was received with the identifier and the transaction that
  the stream names, and finds one whenever there is one.
\<close>

theorem snapshot_parent:
  assumes "tree_infos h tree xs" "\<forall>x\<in>set xs. has_item x"
  shows "\<exists>e parent. PostOrderIterate (parent_step cloneUUID cloneCtransid) tree (h, None) = Some (e, h, parent)
    \<and> (case parent of
         None \<Rightarrow> \<forall>x\<in>set xs. \<not> is_parent cloneUUID cloneCtransid x
       | Some a \<Rightarrow> infos h a \<in> set xs \<and> is_parent cloneUUID cloneCtransid (infos h a))"
proof -
  let ?P = "\<lambda>a. is_parent cloneUUID cloneCtransid (infos h a)"
  obtain t where t: "represents h tree t" "map (infos h) (inorder t) = xs"
    using tree_infos_represents [OF assms(1)] by blast
  have xs: "set xs = infos h ` set_tree t" using t(2) by (auto simp flip: t(2))
  have k: "keeps_heap (parent_step cloneUUID cloneCtransid)"
    by (auto simp: keeps_heap_def parent_step_def Let_def split: if_splits)
  have step: "parent_step cloneUUID cloneCtransid a e (h, p)
      = Some (if ?P a then (Some ErrStopTreeIteration, h, Some a) else (None, h, p))"
    if "a \<in> set (postorder t)" for a e p
    using that assms(2) xs by (intro parent_step_cases) simp
  obtain e where e: "PostOrderIterate (parent_step cloneUUID cloneCtransid) tree (h, None)
      = Some (e, h, find ?P (postorder t))"
    using visit_find [where h = h and e = None and as = "postorder t"
        and f = "parent_step cloneUUID cloneCtransid", OF step]
    unfolding post_order.iterate_visit [OF t(1) k] by blast
  have "case find ?P (postorder t) of None \<Rightarrow> \<forall>x\<in>set xs. \<not> is_parent cloneUUID cloneCtransid x
     | Some a \<Rightarrow> infos h a \<in> set xs \<and> is_parent cloneUUID cloneCtransid (infos h a)"
  proof (cases "find ?P (postorder t)")
    case None
    then have "\<forall>a\<in>set_tree t. \<not> ?P a" by (simp add: find_None_iff)
    then show ?thesis using None xs by simp
  next
    case (Some a)
    then have "a \<in> set (postorder t)" "?P a"
      by (metis find_Some_iff nth_mem, metis find_Some_iff)
    then show ?thesis using Some xs by simp
  qed
  with e show ?thesis by blast
qed

section \<open>Examples\<close>

definition sample_sv :: ReceivingSubvolume where
  "sample_sv = \<lparr>SubvolPath = ''snap'', SubvolUUID = [], SubvolCtransid = 5\<rparr>"

definition sample_op :: EncodedWriteOp where
  "sample_op = \<lparr>Offset = 0, OpData = [7], UnencodedFileLength = 4, UnencodedLength = 4,
     UnencodedOffset = 0, Compression = 1, Encryption = 0\<rparr>"

lemma encoded_writes_fail_witness:
  "deliver sample_ext (local_receiver sample_os id (\<lambda>_. 0) ''/mnt'') (EncodedWrite ''f'' sample_op)
     (sample_ctx\<lparr>currentSubvolInfo := Some sample_sv\<rparr>)
     ([Join [''/mnt'', Join [''snap'', ''f'']] \<mapsto> []], [])
   = Some (Some (EnvErr ''binary.Write: invalid type''), sample_ctx\<lparr>currentSubvolInfo := Some sample_sv\<rparr>,
       ([Join [''/mnt'', Join [''snap'', ''f'']] \<mapsto> []], Join [''/mnt'', Join [''snap'', ''f'']]))"
proof -
  let ?w = "([Join [''/mnt'', Join [''snap'', ''f'']] \<mapsto> []], Join [''/mnt'', Join [''snap'', ''f'']]) :: sample_world"
  have "sys_Close (kern sample_os) 3 ?w = ?w" by (simp add: sample_os_def nop_kernel_def)
  moreover have "deliver sample_ext (local_receiver sample_os id (\<lambda>_. 0) ''/mnt'') (EncodedWrite ''f'' sample_op)
     (sample_ctx\<lparr>currentSubvolInfo := Some sample_sv\<rparr>)
     ([Join [''/mnt'', Join [''snap'', ''f'']] \<mapsto> []], [])
   = Some (Some (EnvErr ''binary.Write: invalid type''), sample_ctx\<lparr>currentSubvolInfo := Some sample_sv\<rparr>,
       sys_Close (kern sample_os) 3 ?w)"
    by (rule encoded_writes_fail [where p = "Join [''/mnt'', Join [''snap'', ''f'']]"])
      (simp_all add: sample_ctx_def sample_op_def resolvePath_def ResolvePath_def view_def sample_sv_def
        ReceivingSubvolume_ResolvePath_def sample_os_def sample_OpenFile_def)
  ultimately show ?thesis by simp
qed

lemma chmod_permissions_only_witness:
  "recv (local_receiver sample_os id (\<lambda>_. 0) ''/mnt'')
     \<lparr>CurrentOffset = 3, CurrentSubvolume = Some sample_sv\<rparr> (Chmod ''f'' 0x9ED) (Map.empty, [])
   = returned (sys_Chmod sample_os (Join [''/mnt'', Join [''snap'', ''f'']]) 0x1ED) (Map.empty, [])"
proof -
  have "recv (local_receiver sample_os id (\<lambda>_. 0) ''/mnt'')
     \<lparr>CurrentOffset = 3, CurrentSubvolume = Some sample_sv\<rparr> (Chmod ''f'' 0x9ED) (Map.empty, [])
   = returned (sys_Chmod sample_os (Join [''/mnt'', Join [''snap'', ''f'']]) (ucast (0x9ED :: u64) AND 0x1FF)) (Map.empty, [])"
    by (rule chmod_permissions_only)
      (simp_all add: resolvePath_def ResolvePath_def sample_sv_def ReceivingSubvolume_ResolvePath_def)
  then show ?thesis by simp
qed

definition sample_parent :: RootInfo where
  "sample_parent = empty_info\<lparr>ReceivedUUID := replicate 16 7,
     Item := Some ((dec_BtrfsRootItem [])\<lparr>RStransid := 5\<rparr>)\<rparr>"

lemma snapshot_parent_witness:
  "\<exists>e. PostOrderIterate (parent_step (replicate 16 7) 5) (Some 0) (alloc sample_parent empty_heap, None)
     = Some (e, alloc sample_parent empty_heap, Some 0)"
proof -
  let ?h = "alloc sample_parent empty_heap"
  have t: "tree_infos ?h (Some 0) [sample_parent]"
    unfolding tree_infos_def
    by (rule exI [where x = "Node Leaf 0 Leaf"]) (simp add: alloc_def empty_heap_def)
  have p: "is_parent (replicate 16 7) 5 sample_parent" "has_item sample_parent"
    by (simp_all add: is_parent_def has_item_def sample_parent_def empty_info_def)
  then obtain e parent where *: "PostOrderIterate (parent_step (replicate 16 7) 5) (Some 0) (?h, None) = Some (e, ?h, parent)"
      "case parent of None \<Rightarrow> \<forall>x\<in>set [sample_parent]. \<not> is_parent (replicate 16 7) 5 x
       | Some a \<Rightarrow> infos ?h a \<in> set [sample_parent] \<and> is_parent (replicate 16 7) 5 (infos ?h a)"
    using snapshot_parent [OF t, of "replicate 16 7" 5] by auto
  have "\<not> is_parent (replicate 16 7) 5 (infos ?h a)" if "a \<noteq> 0" for a
    using that by (simp add: alloc_def empty_heap_def is_parent_def empty_info_def)
  then have "parent = Some 0"
    using *(2) p by (cases parent) auto
  then show ?thesis using *(1) by blast
qed

end
