(* ===== verification/Directory.thy ===== *)
theory Directory
  imports FileOps ReceiveSpec
begin

text \<open>
  The receiver that writes a stream into a directory
  (\<^verbatim>\<open>pkg/receive/receivers/directory/directory.go\<close>) and keeps the offset of the last command
  in a file, to resume there. Its state is the offset it has read and the world. The
  theorems say what a resumed run does, and when the file tells the truth.
\<close>

section \<open>Decimal numbers\<close>

text \<open>\<^verbatim>\<open>fmt.Sprintf("%d", n)\<close>\<close>

definition digit_char :: "nat \<Rightarrow> char" where "digit_char d = char_of (48 + d)"

fun decimal :: "nat \<Rightarrow> string" where
  "decimal n = (if n < 10 then [digit_char n] else decimal (n div 10) @ [digit_char (n mod 10)])"

declare decimal.simps [simp del]

definition is_digit :: "char \<Rightarrow> bool" where
  "is_digit c \<longleftrightarrow> 48 \<le> (of_char c :: nat) \<and> (of_char c :: nat) \<le> 57"

definition digit_value :: "char \<Rightarrow> nat" where "digit_value c = of_char c - 48"

definition decimal_value :: "string \<Rightarrow> nat" where
  "decimal_value s = foldl (\<lambda>n c. 10 * n + digit_value c) 0 s"

text \<open>
  \<^verbatim>\<open>fmt.Fscanf(f, "%d", &offset)\<close> for an unsigned number of 64 bits: white space (of which the
  ASCII characters are modelled) is skipped, but not a new line; digits and underscores are
  read, and the underscores then refused.
\<close>

definition Fscanf_d :: "string \<Rightarrow> gerr + u64" where
  "Fscanf_d s =
     (let s = dropWhile (\<lambda>c. c \<in> {CHR 0x09, CHR 0x0B, CHR 0x0C, CHR 0x0D, CHR 0x20}) s;
          tok = takeWhile (\<lambda>c. is_digit c \<or> c = CHR ''_'') s
      in if s = [] then Inl (EnvErr ''unexpected EOF'')
         else if hd s = CHR 0x0A then Inl (EnvErr ''unexpected newline'')
         else if tok = [] then Inl (EnvErr ''expected integer'')
         else if \<not> list_all is_digit tok then Inl (EnvErr ''invalid syntax'')
         else if decimal_value tok < 2 ^ 64 then Inr (of_nat (decimal_value tok))
         else Inl (EnvErr ''value out of range''))"

section \<open>The receiver\<close>

record dir_config =
  destPath :: string
  offsetDirectory :: string
  uuid_String :: "uuid \<Rightarrow> string"

definition dir_resolvePath :: "dir_config \<Rightarrow> string \<Rightarrow> string" where
  "dir_resolvePath n path = Join [destPath n, path]"

definition currentOffsetPath :: "dir_config \<Rightarrow> ReceiveContext \<Rightarrow> string go" where
  "currentOffsetPath n ctx = (case CurrentSubvolume ctx of
     None \<Rightarrow> panic | Some sv \<Rightarrow> Some (Join [destPath n, offsetDirectory n, uuid_String n (SubvolUUID sv)]))"

text \<open>What \<open>Subvol\<close> and \<open>Snapshot\<close> read: no file leaves the offset as it is.\<close>

definition read_offset :: "'w os \<Rightarrow> string \<Rightarrow> ('w, u64 option) io" where
  "read_offset os path =
     andThen (result (os_Open os path)) (\<lambda>r.
     case r of
       Inl e \<Rightarrow> if IsNotExist e then ok None else fail e
     | Inr f \<Rightarrow> closing (kern os) f (
         andThen (sys_ReadAll os f) (\<lambda>s. lift_sum (map_sum id Some (Fscanf_d s)))))"

text \<open>The file is opened without \<^verbatim>\<open>O_TRUNC\<close>.\<close>

definition write_offset :: "'w os \<Rightarrow> string \<Rightarrow> u64 \<Rightarrow> ('w, unit) io" where
  "write_offset os path off =
     andThen (sys_OpenFile os path (O_CREATE OR O_RDWR) 384) (\<lambda>f.
     closing (kern os) f (sys_WriteFile os f (bytes_of_string (decimal (unat off)))))"

definition dir_Subvol :: "'w os \<Rightarrow> dir_config \<Rightarrow> ReceiveContext \<Rightarrow> ('w, u64 option) io" where
  "dir_Subvol os n ctx =
     andThen (lift_go (currentOffsetPath n ctx)) (\<lambda>path.
     andThen (sys_MkdirAll (kern os) (Dir path) 493) (\<lambda>_. read_offset os path))"

definition dir_Snapshot :: "'w os \<Rightarrow> dir_config \<Rightarrow> ReceiveContext \<Rightarrow> ('w, u64 option) io" where
  "dir_Snapshot os n ctx = andThen (lift_go (currentOffsetPath n ctx)) (read_offset os)"

definition dir_FinishSubvolume :: "'w os \<Rightarrow> dir_config \<Rightarrow> ReceiveContext \<Rightarrow> ('w, unit) io" where
  "dir_FinishSubvolume os n ctx =
     andThen (lift_go (currentOffsetPath n ctx)) (\<lambda>path. write_offset os path (- 2))"

text \<open>The methods without an effect on the state of the receiver.\<close>

fun dir_method :: "'w os \<Rightarrow> ext \<Rightarrow> dir_config \<Rightarrow> ReceiveContext \<Rightarrow> rcall \<Rightarrow> ('w, unit) io" where
  "dir_method os X n ctx (Mkfile path ino) = create_file os (dir_resolvePath n path)"
| "dir_method os X n ctx (Mkdir path ino) = sys_MkdirAll (kern os) (dir_resolvePath n path) 493"
| "dir_method os X n ctx (Mknod path ino mode rdev) = sys_Mknod os (dir_resolvePath n path) mode (int64 rdev)"
| "dir_method os X n ctx (Mkfifo path ino) = sys_Mkfifo os (dir_resolvePath n path) 384"
| "dir_method os X n ctx (Mksock path ino) = make_socket os (dir_resolvePath n path)"
| "dir_method os X n ctx (Symlink path ino linkTo) = sys_Symlink os (dir_resolvePath n linkTo) (dir_resolvePath n path)"
| "dir_method os X n ctx (Rename oldPath newPath) = sys_Rename os (dir_resolvePath n oldPath) (dir_resolvePath n newPath)"
| "dir_method os X n ctx (Link path linkTo) = sys_Link os (dir_resolvePath n linkTo) (dir_resolvePath n path)"
| "dir_method os X n ctx (Unlink path) = sys_Remove os (dir_resolvePath n path)"
| "dir_method os X n ctx (Rmdir path) = sys_RemoveAll (kern os) (dir_resolvePath n path)"
| "dir_method os X n ctx (Write path offset data) = write_file os (dir_resolvePath n path) offset data"
| "dir_method os X n ctx (EncodedWrite path op) =
     andThen (lift_sum (Decompress X op)) (\<lambda>data. write_file os (dir_resolvePath n path) (Offset op) data)"
| "dir_method os X n ctx (Clone path offset len cu ct clonePath cloneOffset) = fail ErrNotSupported"
| "dir_method os X n ctx (SetXattr path name data) = sys_Setxattr os (dir_resolvePath n path) name data"
| "dir_method os X n ctx (RemoveXattr path name) = sys_Removexattr os (dir_resolvePath n path) name"
| "dir_method os X n ctx (Truncate path len) = sys_Truncate os (dir_resolvePath n path) (int64 len)"
| "dir_method os X n ctx (Chmod path mode) = os_Chmod os (dir_resolvePath n path) (ucast mode)"
| "dir_method os X n ctx (Chown path uid gid) = sys_Chown os (dir_resolvePath n path) (int64 uid) (int64 gid)"
| "dir_method os X n ctx (Utimes path atime mtime ctime) = sys_Chtimes os (dir_resolvePath n path) atime mtime"
| "dir_method os X n ctx (UpdateExtent path fileOffset tmpSize) = ok ()"
| "dir_method os X n ctx (EnableVerity path algorithm blockSize salt sig) = fail ErrNotSupported"
| "dir_method os X n ctx (Fallocate path mode offset len) = fallocate_file os (dir_resolvePath n path) mode offset len"
| "dir_method os X n ctx (Fileattr path attr) = open_and_close os (dir_resolvePath n path)"
| "dir_method os X n ctx FinishSubvolume = dir_FinishSubvolume os n ctx"
| "dir_method os X n ctx (Subvol path u t) = ok ()"
| "dir_method os X n ctx (Snapshot path u t cu ct) = ok ()"

definition with_offset :: "('w, u64 option) io \<Rightarrow> u64 \<times> 'w \<Rightarrow> (gerr option \<times> u64 \<times> 'w) go" where
  "with_offset m s = map_option (\<lambda>(r, w). case r of
       Inl e \<Rightarrow> (Some e, fst s, w)
     | Inr None \<Rightarrow> (None, fst s, w)
     | Inr (Some off) \<Rightarrow> (None, off, w)) (m (snd s))"

definition dir_recv :: "'w os \<Rightarrow> ext \<Rightarrow> dir_config \<Rightarrow> (u64 \<times> 'w) rmethod" where
  "dir_recv os X n ctx c s = (case c of
     Subvol path uuid ctransid \<Rightarrow> with_offset (dir_Subvol os n ctx) s
   | Snapshot path uuid ctransid cloneUUID cloneCtransid \<Rightarrow> with_offset (dir_Snapshot os n ctx) s
   | _ \<Rightarrow> map_option (\<lambda>(e, w). (e, fst s, w)) (returned (dir_method os X n ctx c) (snd s)))"

definition dir_PreOp :: "(u64 \<times> 'w) hook" where
  "dir_PreOp ctx hdr attrs s =
     (if fst s > CurrentOffset ctx then Some (Some ErrSkipCommand, s) else Some (None, s))"

definition dir_PostOp :: "'w os \<Rightarrow> dir_config \<Rightarrow> (u64 \<times> 'w) hook" where
  "dir_PostOp os n ctx hdr attrs s =
     (if CurrentOffset ctx < fst s then Some (None, s)
      else map_option (\<lambda>(e, w). (e, fst s, w)) (returned (andThen (lift_go (currentOffsetPath n ctx))
        (\<lambda>path. write_offset os path (CurrentOffset ctx))) (snd s)))"

definition directory_receiver :: "'w os \<Rightarrow> ext \<Rightarrow> dir_config \<Rightarrow> (u64 \<times> 'w) receiver" where
  "directory_receiver os X n =
     \<lparr>recv = dir_recv os X n, PreOp = Some dir_PreOp, PostOp = Some (dir_PostOp os n)\<rparr>"

lemma directory_receiver_simps [simp]:
  "recv (directory_receiver os X n) = dir_recv os X n"
  "PreOp (directory_receiver os X n) = Some dir_PreOp"
  "PostOp (directory_receiver os X n) = Some (dir_PostOp os n)"
  by (simp_all add: directory_receiver_def)

section \<open>Resuming\<close>

text \<open>
  The contract of a receiver that resumes at an offset, the first component of its state: the
  commands below the offset are skipped, the beginning of a subvolume determines it, and
  \<open>PostOp\<close> has nothing to do before it is reached. It is shared with the receiver that
  writes to a remote host.
\<close>

definition skip_to :: "nat \<Rightarrow> receiveCtx \<Rightarrow> receiveCtx" where
  "skip_to i ctx = ctx\<lparr>currentOffset := of_nat i\<rparr>"

lemma skip_to_simps [simp]:
  "currentOffset (skip_to i ctx) = of_nat i" "startOffset (skip_to i ctx) = startOffset ctx"
  "honorEndCmd (skip_to i ctx) = honorEndCmd ctx" "currentSubvolInfo (skip_to i ctx) = currentSubvolInfo ctx"
  "bump (skip_to i ctx) = skip_to (Suc i) ctx"
  by (simp_all add: skip_to_def bump_def)

locale resuming =
  fixes R :: "(u64 \<times> 'w) receiver" and begins :: "ReceiveContext \<Rightarrow> ('w, u64 option) io"
    and pre post :: "(u64 \<times> 'w) hook"
  assumes PreOp_R: "PreOp R = Some pre" and PostOp_R: "PostOp R = Some post"
    and skips: "pre ctx hdr attrs s =
      (if fst s > CurrentOffset ctx then Some (Some ErrSkipCommand, s) else Some (None, s))"
    and waits: "CurrentOffset ctx < fst s \<Longrightarrow> post ctx hdr attrs s = Some (None, s)"
    and recv_Subvol: "recv R ctx (Subvol p u t) s = with_offset (begins ctx) s"
begin

text \<open>Commands below the offset are skipped: nothing happens but the counting.\<close>

lemma process_skipped:
  assumes "startOffset ctx \<le> currentOffset ctx" "currentOffset ctx < off"
  shows "process_command X R h a ctx errs (off, w) = Some (Continue (bump ctx) errs (off, w))"
  using assms
  by (simp add: process_command_def PreOp_R skips view_def counts_def Let_def not_less [symmetric])

lemma process_list_skips:
  assumes "startOffset ctx = 0" "i + length cs < 2 ^ 64" "i \<le> unat off"
  shows "process_list X R cs e (skip_to i ctx) errs (off, w)
    = process_list X R (drop (unat off - i) cs) e (skip_to (min (unat off) (i + length cs)) ctx) errs (off, w)"
  using assms(2,3)
proof (induction cs arbitrary: i)
  case (Cons c cs)
  obtain h a where c: "c = (h, a)" by (cases c)
  show ?case
  proof (cases "i = unat off")
    case False
    then have "i < unat off" using Cons.prems by simp
    then have "(of_nat i :: u64) < off"
      using Cons.prems by (simp add: word_less_nat_alt unat_of_nat take_bit_nat_eq_self)
    then have "process_command X R h a (skip_to i ctx) errs (off, w)
        = Some (Continue (skip_to (Suc i) ctx) errs (off, w))"
      using process_skipped [of "skip_to i ctx" off] assms(1) by simp
    then have "process_list X R (c # cs) e (skip_to i ctx) errs (off, w)
        = process_list X R cs e (skip_to (Suc i) ctx) errs (off, w)"
      by (simp add: c)
    also have "\<dots> = process_list X R (drop (unat off - Suc i) cs) e
        (skip_to (min (unat off) (Suc i + length cs)) ctx) errs (off, w)"
      using Cons \<open>i < unat off\<close> by simp
    also have "drop (unat off - Suc i) cs = drop (unat off - i) (c # cs)"
      using \<open>i < unat off\<close> by (simp add: drop_Cons' )
    finally show ?thesis by simp
  qed simp
qed simp

lemma deliver_Subvol:
  assumes "currentSubvolInfo ctx = None"
  shows "deliver X R (Subvol p u t) ctx (k, w) =
    (let ctx = ctx\<lparr>currentSubvolInfo := Some \<lparr>SubvolPath = p, SubvolUUID = u, SubvolCtransid = t\<rparr>\<rparr>
     in map_option (\<lambda>(e, s). (e, ctx, s)) (with_offset (begins (view ctx)) (k, w)))"
  using assms
  by (auto simp: begin_subvol_def finish_current_def call_def recv_Subvol Let_def
      split: Option.bind_splits)

lemma resumes:
  assumes "uuid_lib X" "valid_call (Subvol p u t)" "(Cmd h, a) = command_of (Subvol p u t)"
    and "startOffset ctx = 0" "currentSubvolInfo ctx = None"
    and "begins \<lparr>CurrentOffset = 0,
      CurrentSubvolume = Some \<lparr>SubvolPath = p, SubvolUUID = u, SubvolCtransid = t\<rparr>\<rparr> w = Some (Inr (Some off), w')"
    and "0 < off" "length cs + 1 < 2 ^ 64"
  shows "process_list X R ((h, a) # cs) e (skip_to 0 ctx) errs (0, w)
    = process_list X R (drop (unat off - 1) cs) e
        (skip_to (min (unat off) (length cs + 1)) (ctx\<lparr>currentSubvolInfo :=
          Some \<lparr>SubvolPath = p, SubvolUUID = u, SubvolCtransid = t\<rparr>\<rparr>)) errs (off, w')"
proof -
  let ?sv = "Some \<lparr>SubvolPath = p, SubvolUUID = u, SubvolCtransid = t\<rparr>"
  define ctx1 where "ctx1 = ctx\<lparr>currentSubvolInfo := ?sv\<rparr>"
  obtain f where f: "processFuncs (Cmd h) = Some f"
    "f X R a (skip_to 0 ctx) (0, w) = deliver X R (Subvol p u t) (skip_to 0 ctx) (0, w)"
    using handler_delivers [OF assms(1,2), of R "skip_to 0 ctx" "(0, w)"] assms(3)
    by (metis fst_conv snd_conv rcall.distinct(49))
  have notend: "Cmd h \<noteq> BTRFS_SEND_C_END"
    using command_of_END [of "Subvol p u t"] assms(3) by (metis fst_conv rcall.distinct(49))
  have c1: "(skip_to 0 ctx)\<lparr>currentSubvolInfo := ?sv\<rparr> = skip_to 0 ctx1"
    by (simp add: ctx1_def skip_to_def)
  have "deliver X R (Subvol p u t) (skip_to 0 ctx) (0, w) = Some (None, skip_to 0 ctx1, (off, w'))"
    using assms(5,6) by (simp add: deliver_Subvol with_offset_def view_def Let_def c1 del: deliver.simps)
      (simp add: ctx1_def skip_to_def)
  then have "process_command X R h a (skip_to 0 ctx) errs (0, w)
      = Some (Continue (skip_to 1 ctx1) errs (off, w'))"
    using f notend assms(4,7)
    by (simp add: process_command_def run_command_def dispatch_command_def PreOp_R skips view_def
        counts_def post_op_def PostOp_R waits)
  then have "process_list X R ((h, a) # cs) e (skip_to 0 ctx) errs (0, w)
      = process_list X R cs e (skip_to 1 ctx1) errs (off, w')"
    by simp
  also have "\<dots> = process_list X R (drop (unat off - 1) cs) e
      (skip_to (min (unat off) (1 + length cs)) ctx1) errs (off, w')"
    using assms(4,7,8)
    by (intro process_list_skips) (simp_all add: ctx1_def word_less_nat_alt Suc_le_eq)
  finally show ?thesis by (simp add: ctx1_def)
qed

end

interpretation dir: resuming "directory_receiver os X n" "dir_Subvol os n" dir_PreOp "dir_PostOp os n"
  for os X n
  by unfold_locales (simp_all add: dir_PreOp_def dir_PostOp_def dir_recv_def)

text \<open>C8:
  Resuming. A new run over a stream that begins a subvolume reads the recorded offset with
  the first command and skips all commands below it without touching the world; it goes on
  with the command at the recorded offset, which an interrupted run had already executed when
  it wrote that offset.
\<close>

theorem directory_resumes:
  assumes "uuid_lib X" "valid_call (Subvol p u t)" "(Cmd h, a) = command_of (Subvol p u t)"
    and "startOffset ctx = 0" "currentSubvolInfo ctx = None"
    and "dir_Subvol os n \<lparr>CurrentOffset = 0,
      CurrentSubvolume = Some \<lparr>SubvolPath = p, SubvolUUID = u, SubvolCtransid = t\<rparr>\<rparr> w = Some (Inr (Some off), w')"
    and "0 < off" "length cs + 1 < 2 ^ 64"
  shows "process_list X (directory_receiver os X n) ((h, a) # cs) e (skip_to 0 ctx) errs (0, w)
    = process_list X (directory_receiver os X n) (drop (unat off - 1) cs) e
        (skip_to (min (unat off) (length cs + 1)) (ctx\<lparr>currentSubvolInfo :=
          Some \<lparr>SubvolPath = p, SubvolUUID = u, SubvolCtransid = t\<rparr>\<rparr>)) errs (off, w')"
  using assms by (rule dir.resumes)

section \<open>The offset file\<close>

lemma decimal_nonempty [simp]: "decimal n \<noteq> []"
  by (subst decimal.simps) simp

lemma digit_char_simps [simp]:
  "d < 10 \<Longrightarrow> is_digit (digit_char d)" "d < 10 \<Longrightarrow> digit_value (digit_char d) = d"
  by (simp_all add: is_digit_def digit_value_def digit_char_def)

lemma decimal_digits: "list_all is_digit (decimal n)"
  by (induction n rule: decimal.induct) (subst decimal.simps, simp)

lemma decimal_value_decimal [simp]: "decimal_value (decimal n) = n"
proof (induction n rule: decimal.induct)
  case (1 n)
  then show ?case by (subst decimal.simps) (simp add: decimal_value_def)
qed

lemma length_decimal_mono: "m \<le> n \<Longrightarrow> length (decimal m) \<le> length (decimal n)"
proof (induction n arbitrary: m rule: decimal.induct)
  case (1 n)
  show ?case
  proof (cases "m < 10")
    case True
    then have "length (decimal m) = 1" by (subst decimal.simps) simp
    then show ?thesis by (simp add: Suc_le_eq)
  next
    case False
    then have "length (decimal (m div 10)) \<le> length (decimal (n div 10))"
      using 1 by (simp add: div_le_mono)
    then show ?thesis using False 1(2) by (subst (1 2) decimal.simps) simp
  qed
qed

lemma not_space_digit: "is_digit c \<Longrightarrow> c \<notin> {CHR 0x09, CHR 0x0A, CHR 0x0B, CHR 0x0C, CHR 0x0D, CHR 0x20}"
  by (auto simp: is_digit_def)

lemma Fscanf_d_decimal: "n < 2 ^ 64 \<Longrightarrow> Fscanf_d (decimal n) = Inr (of_nat n)"
proof -
  assume n: "n < 2 ^ 64"
  obtain c cs where c: "decimal n = c # cs" using decimal_nonempty by (cases "decimal n") auto
  have d: "is_digit c" "list_all is_digit (c # cs)" using decimal_digits [of n] c by auto
  have dw: "dropWhile (\<lambda>c. c \<in> {CHR 0x09, CHR 0x0B, CHR 0x0C, CHR 0x0D, CHR 0x20}) (decimal n) = decimal n"
    using not_space_digit [OF d(1)] by (simp add: c)
  have tw: "takeWhile (\<lambda>c. is_digit c \<or> c = CHR ''_'') (decimal n) = decimal n"
    using d(2) by (auto simp: c takeWhile_eq_all_conv list_all_iff)
  have "hd (decimal n) \<noteq> CHR 0x0A" using not_space_digit [OF d(1)] by (simp add: c)
  then show ?thesis
    unfolding Fscanf_d_def Let_def dw tw using n decimal_digits [of n] by simp
qed

text \<open>
  What the receiver relies on: \<open>contents\<close> is what is in the regular files of the world. Opening
  for reading fails exactly for a file that does not exist; writing at the start of a file
  replaces as many bytes as are written; directories can be made.
\<close>

definition file_contract :: "'w os \<Rightarrow> ('w \<Rightarrow> string \<Rightarrow> bytes option) \<Rightarrow> bool" where
  "file_contract os contents \<longleftrightarrow>
     (\<forall>p w. contents w p = None \<longrightarrow> (\<exists>e w'. sys_OpenFile os p O_RDONLY 0 w = Some (Inl e, w')
        \<and> IsNotExist e \<and> contents w' = contents w))
     \<and> (\<forall>p w b. contents w p = Some b \<longrightarrow> (\<exists>f w1 w2. sys_OpenFile os p O_RDONLY 0 w = Some (Inr f, w1)
        \<and> sys_ReadAll os f w1 = Some (Inr (string_of_bytes b), w2)
        \<and> contents (sys_Close (kern os) f w2) = contents w))
     \<and> (\<forall>p w data. \<exists>f w1 w2. sys_OpenFile os p (O_CREATE OR O_RDWR) 384 w = Some (Inr f, w1)
        \<and> sys_WriteFile os f data w1 = Some (Inr (), w2)
        \<and> contents (sys_Close (kern os) f w2) = (contents w)(p \<mapsto> data @ drop (length data)
             (case contents w p of None \<Rightarrow> [] | Some b \<Rightarrow> b)))
     \<and> (\<forall>p m w. \<exists>w'. sys_MkdirAll (kern os) p m w = Some (Inr (), w') \<and> contents w' = contents w)"

lemma contract_read:
  assumes "file_contract os contents" "contents w p = Some b"
  shows "\<exists>f w1 w2. sys_OpenFile os p O_RDONLY 0 w = Some (Inr f, w1)
    \<and> sys_ReadAll os f w1 = Some (Inr (string_of_bytes b), w2)
    \<and> contents (sys_Close (kern os) f w2) = contents w"
  using assms unfolding file_contract_def by blast

lemma contract_write:
  assumes "file_contract os contents"
  shows "\<exists>f w1 w2. sys_OpenFile os p (O_CREATE OR O_RDWR) 384 w = Some (Inr f, w1)
        \<and> sys_WriteFile os f data w1 = Some (Inr (), w2)
        \<and> contents (sys_Close (kern os) f w2) = (contents w)(p \<mapsto> data @ drop (length data)
             (case contents w p of None \<Rightarrow> [] | Some b \<Rightarrow> b))"
  using assms unfolding file_contract_def by blast

lemma contract_mkdir:
  assumes "file_contract os contents"
  shows "\<exists>w'. sys_MkdirAll (kern os) p m w = Some (Inr (), w') \<and> contents w' = contents w"
  using assms unfolding file_contract_def by blast

definition records :: "('w \<Rightarrow> string \<Rightarrow> bytes option) \<Rightarrow> 'w \<Rightarrow> string \<Rightarrow> u64 \<Rightarrow> bool" where
  "records contents w path off \<longleftrightarrow> contents w path = Some (bytes_of_string (decimal (unat off)))"

lemma read_recorded:
  assumes "file_contract os contents" "records contents w path off"
  shows "\<exists>w'. read_offset os path w = Some (Inr (Some off), w')"
proof -
  obtain f w1 w2 where "sys_OpenFile os path O_RDONLY 0 w = Some (Inr f, w1)"
    "sys_ReadAll os f w1 = Some (Inr (decimal (unat off)), w2)"
    using contract_read [OF assms(1) assms(2) [unfolded records_def]] by auto
  moreover have "Fscanf_d (decimal (unat off)) = Inr off"
    using Fscanf_d_decimal [of "unat off"] unsigned_less [of off] by simp
  ultimately show ?thesis
    by (simp add: read_offset_def os_Open_def andThen_def result_def closing_def lift_sum_def)
qed

lemma write_recorded:
  assumes "file_contract os contents"
    and "contents w path = None \<or> (\<exists>m \<le> off. records contents w path m)"
  shows "\<exists>w'. write_offset os path off w = Some (Inr (), w') \<and> records contents w' path off"
proof -
  let ?data = "bytes_of_string (decimal (unat off))"
  obtain f w1 w2 where w: "sys_OpenFile os path (O_CREATE OR O_RDWR) 384 w = Some (Inr f, w1)"
    "sys_WriteFile os f ?data w1 = Some (Inr (), w2)"
    "contents (sys_Close (kern os) f w2) = (contents w)(path \<mapsto> ?data @ drop (length ?data)
       (case contents w path of None \<Rightarrow> [] | Some b \<Rightarrow> b))"
    using contract_write [OF assms(1)] by blast
  have "drop (length ?data) (case contents w path of None \<Rightarrow> [] | Some b \<Rightarrow> b) = []"
    using assms(2) length_decimal_mono by (auto simp: records_def word_le_nat_alt bytes_of_string_def)
  then show ?thesis
    using w by (intro exI [where x = "sys_Close (kern os) f w2"])
      (simp add: write_offset_def andThen_def closing_def records_def)
qed

text \<open>The file tells the truth. If the file of the subvolume does not exist or holds an offset
  that is not above the current one, then \<open>PostOp\<close> leaves the current offset in it although it
  does not truncate the file, and a new run reads exactly that offset with the first command.
\<close>

theorem offset_recorded:
  assumes "file_contract os contents" "CurrentSubvolume ctx = Some sv" "k \<le> CurrentOffset ctx"
    and "path = Join [destPath n, offsetDirectory n, uuid_String n (SubvolUUID sv)]"
    and "contents w path = None \<or> (\<exists>m \<le> CurrentOffset ctx. records contents w path m)"
  shows "\<exists>w' w''. dir_PostOp os n ctx hdr attrs (k, w) = Some (None, k, w')
    \<and> records contents w' path (CurrentOffset ctx)
    \<and> dir_Subvol os n \<lparr>CurrentOffset = 0, CurrentSubvolume = Some sv\<rparr> w'
      = Some (Inr (Some (CurrentOffset ctx)), w'')"
proof -
  obtain w' where w': "write_offset os path (CurrentOffset ctx) w = Some (Inr (), w')"
    "records contents w' path (CurrentOffset ctx)"
    using write_recorded [OF assms(1,5)] by blast
  obtain w1 where w1: "sys_MkdirAll (kern os) (Dir path) 493 w' = Some (Inr (), w1)" "contents w1 = contents w'"
    using contract_mkdir [OF assms(1)] by blast
  then have "records contents w1 path (CurrentOffset ctx)"
    using w'(2) by (simp add: records_def)
  then obtain w'' where "read_offset os path w1 = Some (Inr (Some (CurrentOffset ctx)), w'')"
    using read_recorded [OF assms(1)] by blast
  then have "dir_Subvol os n \<lparr>CurrentOffset = 0, CurrentSubvolume = Some sv\<rparr> w'
      = Some (Inr (Some (CurrentOffset ctx)), w'')"
    using assms(4) w1(1) by (simp add: dir_Subvol_def currentOffsetPath_def andThen_def lift_go_def)
  moreover have "dir_PostOp os n ctx hdr attrs (k, w) = Some (None, k, w')"
    using assms(2-4) w'(1)
    by (simp add: dir_PostOp_def currentOffsetPath_def returned_def andThen_def lift_go_def
        not_less [symmetric] del: not_less)
  ultimately show ?thesis using w'(2) by blast
qed

text \<open>Without the option to honour END, a stream with an END command ends in a panic: the
  subvolume is finished and no longer current when \<open>PostOp\<close> wants to know its identifier.
\<close>

theorem directory_END_panics:
  assumes "Cmd h = BTRFS_SEND_C_END" "\<not> honorEndCmd ctx" "startOffset ctx \<le> currentOffset ctx"
    and "off \<le> currentOffset ctx"
    and "dir_FinishSubvolume os n (view ctx) w = Some (Inr (), w')"
  shows "process_command X (directory_receiver os X n) h a ctx errs (off, w) = panic"
proof -
  have "dir_recv os X n (view ctx) FinishSubvolume (off, w) = Some (None, off, w')"
    using assms(5) by (simp add: dir_recv_def returned_def)
  then show ?thesis
    using assms(1-4)
    by (simp add: process_command_def run_command_def dispatch_command_def dir_PreOp_def counts_def
        post_op_def dir_PostOp_def view_def currentOffsetPath_def returned_def andThen_def lift_go_def
        not_less [symmetric] del: not_less)
qed

section \<open>An instance\<close>

lemma sample_os_contract: "file_contract sample_os fst"
  unfolding file_contract_def
  by (auto simp: sample_os_def sample_OpenFile_def sample_WriteFile_def nop_kernel_def ok_def
      split: option.splits)

definition sample_dir :: dir_config where
  "sample_dir = \<lparr>destPath = ''/d'', offsetDirectory = ''.btrsync'', uuid_String = (\<lambda>u. ''id'')\<rparr>"

abbreviation sample_path :: string where "sample_path \<equiv> Join [''/d'', ''.btrsync'', ''id'']"

lemma offset_recorded_witness:
  "\<exists>w' w''. dir_PostOp sample_os sample_dir \<lparr>CurrentOffset = 2, CurrentSubvolume =
        Some \<lparr>SubvolPath = ''snap'', SubvolUUID = [], SubvolCtransid = 5\<rparr>\<rparr> zero_CmdHeader Map.empty (0, (Map.empty, []))
      = Some (None, 0, w')
    \<and> records fst w' sample_path 2
    \<and> dir_Subvol sample_os sample_dir \<lparr>CurrentOffset = 0, CurrentSubvolume =
        Some \<lparr>SubvolPath = ''snap'', SubvolUUID = [], SubvolCtransid = 5\<rparr>\<rparr> w' = Some (Inr (Some 2), w'')"
  using offset_recorded [OF sample_os_contract, where ctx = "\<lparr>CurrentOffset = 2, CurrentSubvolume =
        Some \<lparr>SubvolPath = ''snap'', SubvolUUID = [], SubvolCtransid = 5\<rparr>\<rparr>" and n = sample_dir and k = 0
        and w = "(Map.empty, [])" and path = sample_path
        and sv = "\<lparr>SubvolPath = ''snap'', SubvolUUID = [], SubvolCtransid = 5\<rparr>"]
  by (simp add: sample_dir_def)

lemma sample_dir_Subvol:
  "\<exists>w'. dir_Subvol sample_os sample_dir \<lparr>CurrentOffset = 0, CurrentSubvolume =
      Some \<lparr>SubvolPath = ''snap'', SubvolUUID = replicate 16 7, SubvolCtransid = 5\<rparr>\<rparr>
      ([sample_path \<mapsto> bytes_of_string (decimal (unat (2 :: u64)))], []) = Some (Inr (Some 2), w')"
proof -
  have "records fst ([sample_path \<mapsto> bytes_of_string (decimal (unat (2 :: u64)))], []) sample_path 2"
    by (simp only: records_def) simp
  then show ?thesis
    using read_recorded [OF sample_os_contract]
    by (simp add: dir_Subvol_def currentOffsetPath_def sample_dir_def lift_go_def andThen_def
        sample_os_def nop_kernel_def ok_def)
qed

lemma directory_resumes_witness:
  "\<exists>w'. process_list sample_ext (directory_receiver sample_os sample_ext sample_dir)
      ((zero_CmdHeader\<lparr>Cmd := fst (command_of (Subvol ''snap'' (replicate 16 7) 5))\<rparr>,
        snd (command_of (Subvol ''snap'' (replicate 16 7) 5))) # [(zero_CmdHeader, Map.empty)]) None
      (skip_to 0 initial_ctx) 0 (0, ([sample_path \<mapsto> bytes_of_string (decimal (unat (2 :: u64)))], []))
    = process_list sample_ext (directory_receiver sample_os sample_ext sample_dir) [] None
      (skip_to 2 (initial_ctx\<lparr>currentSubvolInfo := Some \<lparr>SubvolPath = ''snap'',
         SubvolUUID = replicate 16 7, SubvolCtransid = 5\<rparr>\<rparr>)) 0 (2, w')"
proof -
  obtain w' where w': "dir_Subvol sample_os sample_dir \<lparr>CurrentOffset = 0, CurrentSubvolume =
      Some \<lparr>SubvolPath = ''snap'', SubvolUUID = replicate 16 7, SubvolCtransid = 5\<rparr>\<rparr>
      ([sample_path \<mapsto> bytes_of_string (decimal (unat (2 :: u64)))], []) = Some (Inr (Some 2), w')"
    using sample_dir_Subvol by blast
  show ?thesis
    by (intro exI [where x = w'], subst directory_resumes [OF uuid_lib_sample _ _ _ _ w'])
      (simp_all add: initial_ctx_def numeral_2_eq_2 [symmetric])
qed

lemma directory_END_panics_witness:
  "process_command sample_ext (directory_receiver sample_os sample_ext sample_dir)
     (zero_CmdHeader\<lparr>Cmd := BTRFS_SEND_C_END\<rparr>) Map.empty
     (initial_ctx\<lparr>currentSubvolInfo := Some \<lparr>SubvolPath = ''snap'', SubvolUUID = [], SubvolCtransid = 5\<rparr>\<rparr>) 0
     (0, (Map.empty, [])) = panic"
proof -
  obtain w' where "write_offset sample_os sample_path (- 2) (Map.empty, []) = Some (Inr (), w')"
    using write_recorded [OF sample_os_contract, of "(Map.empty, [])"] by fastforce
  then show ?thesis
    by (intro directory_END_panics [where w' = w'])
      (simp_all add: initial_ctx_def dir_FinishSubvolume_def currentOffsetPath_def view_def sample_dir_def
        andThen_def lift_go_def)
qed

end
