(* ===== verification/GoText.thy ===== *)
theory GoText
  imports Btrfs Directory
begin

text \<open>
  Text as the functions of \<^verbatim>\<open>fmt\<close>, \<^verbatim>\<open>strings\<close> and \<^verbatim>\<open>encoding/base64\<close> make it for the commands that
  run on a remote host: \<^verbatim>\<open>%q\<close> (\<^verbatim>\<open>strconv.Quote\<close>), \<^verbatim>\<open>%o\<close>, base 64, \<^verbatim>\<open>strings.Contains\<close> and
  \<^verbatim>\<open>strings.TrimSpace\<close>. The main lemma tells which words a POSIX shell reads back from
  between the quotes.
\<close>

section \<open>Quoting\<close>

text \<open>The characters of a string with their bytes; an invalid byte decodes to \<open>0xFFFD\<close>.\<close>

definition rune_value :: "bytes \<Rightarrow> nat" where
  "rune_value s = (let w = rune_width s; x = unat (hd s);
       tail = foldl (\<lambda>r b. 64 * r + unat b mod 64) in
     if w = 1 then (if x < 128 then x else 0xFFFD)
     else if w = 2 then tail (x mod 32) (take 1 (tl s))
     else if w = 3 then tail (x mod 16) (take 2 (tl s))
     else tail (x mod 8) (take 3 (tl s)))"

fun rune_list :: "nat \<Rightarrow> bytes \<Rightarrow> (nat \<times> bytes) list" where
  "rune_list 0 s = []"
| "rune_list (Suc n) s =
     (if s = [] then [] else (rune_value s, take (rune_width s) s) # rune_list n (drop (rune_width s) s))"

definition runes :: "bytes \<Rightarrow> (nat \<times> bytes) list" where
  "runes s = rune_list (length s) s"

definition hex_digit :: "nat \<Rightarrow> char" where
  "hex_digit d = char_of (if d < 10 then 48 + d else 87 + d)"

fun hex :: "nat \<Rightarrow> nat \<Rightarrow> string" where
  "hex 0 n = []"
| "hex (Suc w) n = hex w (n div 16) @ [hex_digit (n mod 16)]"

text \<open>
  Which characters beyond ASCII are printable is a table of \<^verbatim>\<open>strconv\<close>, the argument \<open>print\<close>.
\<close>

definition escape_rune :: "(nat \<Rightarrow> bool) \<Rightarrow> nat \<times> bytes \<Rightarrow> string" where
  "escape_rune print rb = (case rb of (r, bs) \<Rightarrow>
     if r = 0xFFFD \<and> length bs = 1 then CHR 0x5C # CHR ''x'' # hex 2 (unat (hd bs))
     else if r = 34 \<or> r = 92 then [CHR 0x5C, char_of r]
     else if (if r < 128 then 32 \<le> r \<and> r < 127 else print r) then string_of_bytes bs
     else if r = 7 then [CHR 0x5C, CHR ''a'']
     else if r = 8 then [CHR 0x5C, CHR ''b'']
     else if r = 12 then [CHR 0x5C, CHR ''f'']
     else if r = 10 then [CHR 0x5C, CHR ''n'']
     else if r = 13 then [CHR 0x5C, CHR ''r'']
     else if r = 9 then [CHR 0x5C, CHR ''t'']
     else if r = 11 then [CHR 0x5C, CHR ''v'']
     else if r < 128 then CHR 0x5C # CHR ''x'' # hex 2 r
     else if r < 0x10000 then CHR 0x5C # CHR ''u'' # hex 4 r
     else CHR 0x5C # CHR ''U'' # hex 8 r)"

definition Quote_body :: "(nat \<Rightarrow> bool) \<Rightarrow> string \<Rightarrow> string" where
  "Quote_body print s = concat (map (escape_rune print) (runes (bytes_of_string s)))"

definition Quote :: "(nat \<Rightarrow> bool) \<Rightarrow> string \<Rightarrow> string" where
  "Quote print s = CHR 0x22 # Quote_body print s @ [CHR 0x22]"

section \<open>Numbers and bytes\<close>

fun octal :: "nat \<Rightarrow> string" where
  "octal n = (if n < 8 then [digit_char n] else octal (n div 8) @ [digit_char (n mod 8)])"

declare octal.simps [simp del]

definition base64_char :: "nat \<Rightarrow> char" where
  "base64_char d = char_of (if d < 26 then 65 + d else if d < 52 then 71 + d else if d < 62 then d - 4
     else if d = 62 then 43 else 47)"

fun base64 :: "bytes \<Rightarrow> string" where
  "base64 [] = []"
| "base64 [a] = [base64_char (unat a div 4), base64_char (unat a mod 4 * 16), CHR ''='', CHR ''='']"
| "base64 [a, b] = [base64_char (unat a div 4), base64_char (unat a mod 4 * 16 + unat b div 16),
     base64_char (unat b mod 16 * 4), CHR ''='']"
| "base64 (a # b # c # r) = base64_char (unat a div 4) # base64_char (unat a mod 4 * 16 + unat b div 16)
     # base64_char (unat b mod 16 * 4 + unat c div 64) # base64_char (unat c mod 64) # base64 r"

section \<open>Searching and trimming\<close>

fun Contains :: "string \<Rightarrow> string \<Rightarrow> bool" where
  "Contains [] t \<longleftrightarrow> t = []"
| "Contains (c # s) t \<longleftrightarrow> HasPrefix (c # s) t \<or> Contains s t"

definition TrimSpace :: "string \<Rightarrow> string" where
  "TrimSpace s = rev (dropWhile is_space (rev (dropWhile is_space s)))"

lemma Contains_append: "Contains (a @ t @ b) t"
proof (induction a)
  case Nil
  have "HasPrefix (t @ b) t" by (simp add: HasPrefix_def)
  then show ?case by (cases "t @ b") auto
qed simp

section \<open>What a shell reads\<close>

text \<open>
  The text between double quotes as POSIX defines it, from behind the opening quote: a
  backslash quotes a dollar sign, a grave accent, a double quote, a backslash and a new line
  (which is removed with it), and stands for itself otherwise; a dollar sign and a grave
  accent start an expansion (\<open>None\<close>). The result is the content and what follows the word.
\<close>

fun shell_dq :: "string \<Rightarrow> (string \<times> string) option" where
  "shell_dq [] = None"
| "shell_dq (c # s) =
     (if c = CHR 0x22 then Some ([], s)
      else if c = CHR ''$'' \<or> c = CHR 0x60 then None
      else if c = CHR 0x5C then
        (case s of
           [] \<Rightarrow> None
         | d # s' \<Rightarrow>
             if d \<in> {CHR ''$'', CHR 0x60, CHR 0x22, CHR 0x5C}
             then map_option (\<lambda>(w, r). (d # w, r)) (shell_dq s')
             else if d = CHR 0x0A then shell_dq s'
             else map_option (\<lambda>(w, r). (c # w, r)) (shell_dq s))
      else map_option (\<lambda>(w, r). (c # w, r)) (shell_dq s))"

text \<open>ASCII texts, and those of printable characters without the two that expand.\<close>

definition ascii_text :: "string \<Rightarrow> bool" where
  "ascii_text s \<longleftrightarrow> (\<forall>c\<in>set s. of_char c < (128 :: nat))"

definition shell_safe_char :: "char \<Rightarrow> bool" where
  "shell_safe_char c \<longleftrightarrow> 32 \<le> (of_char c :: nat) \<and> (of_char c :: nat) < 127 \<and> c \<noteq> CHR ''$'' \<and> c \<noteq> CHR 0x60"

definition shell_safe :: "string \<Rightarrow> bool" where
  "shell_safe s \<longleftrightarrow> (\<forall>c\<in>set s. shell_safe_char c)"

text \<open>A text that a shell reads as one word \<open>w\<close> in double quotes.\<close>

definition shell_word :: "string \<Rightarrow> string \<Rightarrow> bool" where
  "shell_word t w \<longleftrightarrow> (\<exists>b. t = CHR 0x22 # b \<and> shell_dq b = Some (w, []))"

lemma unat_of_char_byte: "unat (of_char c :: byte) = of_char c"
proof -
  have "(of_char c :: byte) = of_nat (of_char c)" by (simp add: of_nat_of_char)
  then show ?thesis by (simp add: unat_of_nat)
qed

lemma rune_list_ascii:
  "ascii_text s \<Longrightarrow> rune_list (length s) (bytes_of_string s)
    = map (\<lambda>c. (of_char c, [of_char c :: byte])) s"
proof (induction s)
  case (Cons c s)
  have c: "unat (of_char c :: byte) < 128" using Cons.prems by (simp add: ascii_text_def unat_of_char_byte)
  then have w: "rune_width (of_char c # bytes_of_string s) = 1" by (rule rune_width_ascii)
  have "bytes_of_string (c # s) = of_char c # bytes_of_string s" by (simp add: bytes_of_string_def)
  moreover have "ascii_text s" using Cons.prems by (simp add: ascii_text_def)
  ultimately show ?case using Cons.IH w c by (simp add: rune_value_def Let_def unat_of_char_byte)
qed (simp add: bytes_of_string_def)

lemma Quote_body_ascii:
  "ascii_text s \<Longrightarrow> Quote_body p s = concat (map (\<lambda>c. escape_rune p (of_char c, [of_char c])) s)"
  by (simp add: Quote_body_def runes_def rune_list_ascii o_def)

lemma string_of_bytes_char: "string_of_bytes [of_char c] = [c]"
  using string_of_bytes_of_string [of "[c]"] by (simp add: bytes_of_string_def)

lemma shell_dq_plain:
  "c \<notin> {CHR 0x22, CHR ''$'', CHR 0x60, CHR 0x5C} \<Longrightarrow>
    shell_dq (c # s) = map_option (\<lambda>(w, r). (c # w, r)) (shell_dq s)"
  by simp

lemma shell_dq_backslash:
  "d \<notin> {CHR ''$'', CHR 0x60, CHR 0x22, CHR 0x5C, CHR 0x0A} \<Longrightarrow>
    shell_dq (CHR 0x5C # d # s) = map_option (\<lambda>(w, r). (CHR 0x5C # w, r)) (shell_dq (d # s))"
  by simp

text \<open>The first character that is read back, when one is.\<close>

lemma char_34: "char_of (34 :: nat) = CHR 0x22" and char_92: "char_of (92 :: nat) = CHR 0x5C"
  by code_simp+

lemma of_char_eqD: "of_char c = (n :: nat) \<Longrightarrow> c = char_of n"
  by (metis char_of_char)

lemma escape_safe:
  assumes "shell_safe_char c"
  shows "shell_dq (escape_rune p (of_char c, [of_char c]) @ t) = map_option (\<lambda>(w, r). (c # w, r)) (shell_dq t)"
proof (cases "c = CHR 0x22 \<or> c = CHR 0x5C")
  case True
  then show ?thesis by (elim disjE) (simp_all add: escape_rune_def char_34 char_92)
next
  case False
  have n: "(of_char c :: nat) \<noteq> 34" "(of_char c :: nat) \<noteq> 92"
    using False of_char_eqD [of c 34] of_char_eqD [of c 92] by (auto simp: char_34 char_92)
  then have "escape_rune p (of_char c, [of_char c]) = [c]"
    using assms by (simp add: escape_rune_def shell_safe_char_def string_of_bytes_char)
  then show ?thesis using False assms shell_dq_plain [of c t] by (simp add: shell_safe_char_def)
qed

lemma escape_control:
  assumes "of_char c < (32 :: nat) \<or> of_char c = (127 :: nat)"
  shows "\<exists>d e. escape_rune p (of_char c, [of_char c]) = CHR 0x5C # d # e
    \<and> d \<notin> {CHR ''$'', CHR 0x60, CHR 0x22, CHR 0x5C, CHR 0x0A}"
proof -
  have n: "(of_char c :: nat) \<noteq> 34" "(of_char c :: nat) \<noteq> 92" "(of_char c :: nat) \<noteq> 0xFFFD"
      "(of_char c :: nat) < 128"
      "\<not> (32 \<le> (of_char c :: nat) \<and> (of_char c :: nat) < 127)"
    using assms by auto
  define ctl :: "nat \<Rightarrow> string" where
    "ctl r = (if r = 7 then ''a'' else if r = 8 then ''b'' else if r = 12 then ''f'' else if r = 10 then ''n''
      else if r = 13 then ''r'' else if r = 9 then ''t'' else if r = 11 then ''v'' else CHR ''x'' # hex 2 r)" for r
  have "escape_rune p (of_char c, [of_char c]) = CHR 0x5C # ctl (of_char c)"
    using assms n(1-4) by (elim disjE) (simp_all add: escape_rune_def ctl_def)
  moreover have "hd (ctl r) \<in> set ''abfnrtvx''" "ctl r \<noteq> []" for r by (simp_all add: ctl_def)
  then have "\<exists>d e. ctl r = d # e \<and> d \<in> set ''abfnrtvx''" for r by (metis list.exhaust_sel)
  then obtain d e where "ctl (of_char c) = d # e" "d \<in> set ''abfnrtvx''" by blast
  ultimately show ?thesis by (intro exI [where x = d] exI [where x = e]) auto
qed

lemma escape_unsafe:
  assumes "of_char c < (128 :: nat)" "\<not> shell_safe_char c"
  shows "shell_dq (escape_rune p (of_char c, [of_char c]) @ t) \<noteq> Some (c # w, r)"
proof (cases "c = CHR ''$'' \<or> c = CHR 0x60")
  case True
  then show ?thesis by (auto simp: escape_rune_def string_of_bytes_char [of "CHR ''$''", simplified]
      string_of_bytes_char [of "CHR 0x60", simplified])
next
  case False
  then have b: "of_char c < (32 :: nat) \<or> of_char c = (127 :: nat)"
    using assms by (auto simp: shell_safe_char_def)
  then have c: "c \<noteq> CHR 0x5C" by auto
  obtain d e where "escape_rune p (of_char c, [of_char c]) = CHR 0x5C # d # e"
    "d \<notin> {CHR ''$'', CHR 0x60, CHR 0x22, CHR 0x5C, CHR 0x0A}"
    using escape_control [OF b] by blast
  then show ?thesis using shell_dq_backslash [of d "e @ t"] c by (auto simp del: shell_dq.simps)
qed

lemma Quote_reads:
  assumes "ascii_text s"
  shows "shell_word (Quote p s) s \<longleftrightarrow> shell_safe s"
proof -
  have "ascii_text s \<Longrightarrow> shell_dq (concat (map (\<lambda>c. escape_rune p (of_char c, [of_char c])) s) @ [CHR 0x22])
      = Some (s, []) \<longleftrightarrow> shell_safe s" for s
  proof (induction s)
    case (Cons c s)
    let ?t = "concat (map (\<lambda>c. escape_rune p (of_char c, [of_char c])) s) @ [CHR 0x22]"
    have a: "of_char c < (128 :: nat)" "ascii_text s" using Cons.prems by (auto simp: ascii_text_def)
    show ?case
    proof (cases "shell_safe_char c")
      case True
      then show ?thesis using escape_safe [OF True, of p ?t] Cons.IH [OF a(2)]
        by (auto simp: shell_safe_def split: option.splits)
    next
      case False
      then show ?thesis using escape_unsafe [OF a(1) False, of p ?t s "[]"] by (auto simp: shell_safe_def)
    qed
  qed (simp add: shell_safe_def)
  from this [OF assms] show ?thesis
    by (simp add: shell_word_def Quote_def Quote_body_ascii [OF assms])
qed

lemma shell_safe_Quote: "shell_safe s \<Longrightarrow> shell_word (Quote p s) s"
proof -
  have "shell_safe_char c \<Longrightarrow> of_char c < (128 :: nat)" for c by (simp add: shell_safe_char_def)
  moreover assume "shell_safe s"
  ultimately have "ascii_text s" unfolding shell_safe_def ascii_text_def by blast
  then show ?thesis using Quote_reads \<open>shell_safe s\<close> by blast
qed



end
