(* ===== verification/Ssh.thy ===== *)
theory Ssh
  imports GoText
begin

text \<open>
  A remote host over SSH (\<^verbatim>\<open>pkg/cmd/sshutil/sshutil.go\<close>). The client of
  \<^verbatim>\<open>golang.org/x/crypto/ssh\<close> is third-party code: opening a connection and a session, and
  running a command with some bytes as its standard input, which gives its combined output
  and perhaps an error. Closing a session whose command has ended has no effect of its own.
  The errors of this theory carry the texts of the code verbatim, since some of them are
  searched for words.
\<close>

section \<open>The client\<close>

type_synonym client = nat

datatype ssh_auth = Password string | PublicKeys bytes

text \<open>Without a key (\<open>None\<close>) every host key is accepted.\<close>

record ssh_config =
  ssh_User :: string
  ssh_Auth :: "ssh_auth list"
  FixedHostKey :: "bytes option"

text \<open>
  \<open>CombinedOutput\<close> and \<open>RunOpen\<close> are \<^verbatim>\<open>Session.CombinedOutput\<close> and \<^verbatim>\<open>Session.Run\<close> in a new session;
  in the second the standard input stays open behind the given bytes. \<open>None\<close> is a command that
  does not end.
\<close>

record 'w net =
  net_Dial :: "string \<Rightarrow> ('w, nat) io"
  NewClientConn :: "nat \<Rightarrow> string \<Rightarrow> ssh_config \<Rightarrow> ('w, client) io"
  ssh_Dial :: "string \<Rightarrow> ssh_config \<Rightarrow> ('w, client) io"
  NewSession :: "client \<Rightarrow> ('w, unit) io"
  CombinedOutput :: "client \<Rightarrow> string \<Rightarrow> bytes \<Rightarrow> 'w \<Rightarrow> ((string \<times> gerr option) \<times> 'w) option"
  RunOpen :: "client \<Rightarrow> string \<Rightarrow> bytes \<Rightarrow> 'w \<Rightarrow> (gerr option \<times> 'w) option"
  CloseClient :: "client \<Rightarrow> ('w, unit) io"
  IsPrint :: "nat \<Rightarrow> bool"

text \<open>\<^verbatim>\<open>err.Error()\<close>; \<open>Errorf\<close> puts the wrapped error behind a colon.\<close>

fun Error_text :: "gerr \<Rightarrow> string" where
  "Error_text EOF = ''EOF''"
| "Error_text ErrUnexpectedEOF = ''unexpected EOF''"
| "Error_text (ErrNotExist p) = ''open '' @ p @ '': no such file or directory''"
| "Error_text (EnvErr s) = s"
| "Error_text (ErrText s) = s"
| "Error_text (Errorf m e) = m @ '': '' @ Error_text e"
| "Error_text e = []"

definition q :: "'w net \<Rightarrow> string \<Rightarrow> string" where
  "q n s = Quote (IsPrint n) s"

text \<open>
  A new session with one command; \<open>onerr\<close> makes the error that is returned from the output and
  the error of the command.
\<close>

definition session_output :: "'w net \<Rightarrow> client \<Rightarrow> string \<Rightarrow> bytes \<Rightarrow> (string \<Rightarrow> gerr \<Rightarrow> gerr) \<Rightarrow> ('w, string) io" where
  "session_output n c cmd input onerr w = map_option (\<lambda>((out, err), w).
     (case err of None \<Rightarrow> Inr out | Some e \<Rightarrow> Inl (onerr out e), w)) (CombinedOutput n c cmd input w)"

definition run_session :: "'w net \<Rightarrow> client \<Rightarrow> string \<Rightarrow> bytes \<Rightarrow> (string \<Rightarrow> gerr \<Rightarrow> gerr) \<Rightarrow> ('w, string) io" where
  "run_session n c cmd input onerr =
     andThen (NewSession n c) (\<lambda>_. session_output n c cmd input onerr)"

definition failed_to :: "string \<Rightarrow> string \<Rightarrow> string \<Rightarrow> gerr \<Rightarrow> gerr" where
  "failed_to verb path out e = Errorf (''failed to '' @ verb @ '' '' @ path @ '': '' @ out) e"

section \<open>The functions of sshutil\<close>

definition host_port :: "string \<Rightarrow> string \<Rightarrow> string" where
  "host_port hostname port = hostname @ '':'' @ (if port \<noteq> [] then port else ''22'')"

definition Dial :: "'w net \<Rightarrow> string \<Rightarrow> string \<Rightarrow> ssh_config \<Rightarrow> ('w, client) io" where
  "Dial n hostname port cfg =
     (let addr = host_port hostname port in
      andThen (net_Dial n addr) (\<lambda>conn. NewClientConn n conn addr cfg))"

definition CommandExists :: "'w net \<Rightarrow> client \<Rightarrow> string \<Rightarrow> ('w, bool) io" where
  "CommandExists n c cmd =
     andThen (NewSession n c) (\<lambda>_ w. map_option (\<lambda>((out, err), w).
       (case err of
          None \<Rightarrow> Inr (out \<noteq> [])
        | Some e \<Rightarrow> if Contains (Error_text e) ''status 1'' then Inr False
            else Inl (failed_to ''check'' cmd out e), w))
       (CombinedOutput n c (''command -v '' @ q n cmd) [] w))"

definition IsFileNotExist :: "gerr \<Rightarrow> bool" where
  "IsFileNotExist e \<longleftrightarrow> Contains (Error_text e) ''No such file or directory''"

definition FileOrDirectoryExists :: "'w net \<Rightarrow> client \<Rightarrow> string \<Rightarrow> ('w, bool) io" where
  "FileOrDirectoryExists n c path =
     andThen (run_session n c (''test -e '' @ q n path @ '' && echo -n true || echo -n false'') []
       (failed_to ''check'' path)) (\<lambda>out. ok (out = ''true''))"

definition ReadFile :: "'w net \<Rightarrow> client \<Rightarrow> string \<Rightarrow> ('w, string) io" where
  "ReadFile n c path = run_session n c (''cat '' @ q n path) [] (failed_to ''read'' path)"

definition ReadDir :: "'w net \<Rightarrow> client \<Rightarrow> string \<Rightarrow> ('w, string list) io" where
  "ReadDir n c path =
     andThen (run_session n c (''ls -1 '' @ q n path) [] (failed_to ''read'' path)) (\<lambda>out. ok (Fields out))"

definition RemoveFile :: "'w net \<Rightarrow> client \<Rightarrow> string \<Rightarrow> ('w, unit) io" where
  "RemoveFile n c path =
     andThen (run_session n c (''rm -f '' @ q n path) [] (failed_to ''remove'' path)) (\<lambda>_. ok ())"

definition MkdirAll :: "'w net \<Rightarrow> client \<Rightarrow> string \<Rightarrow> ('w, unit) io" where
  "MkdirAll n c path =
     andThen (run_session n c (''mkdir -p '' @ q n path) [] (failed_to ''create'' path)) (\<lambda>_. ok ())"

text \<open>
  The reader is copied to the standard input, which is then closed; its error is returned after
  the command has succeeded.
\<close>

definition WriteFile :: "'w net \<Rightarrow> client \<Rightarrow> string \<Rightarrow> reader \<Rightarrow> ('w, unit) io" where
  "WriteFile n c path rdr =
     andThen (run_session n c (''dd of='' @ q n path) (Rest rdr) (failed_to ''write'' path)) (\<lambda>_.
     if RErr rdr = EOF then ok () else fail (RErr rdr))"

section \<open>A host with a POSIX shell\<close>

text \<open>
  What the documentation of the shell commands says, for words in double quotes and the files
  that \<open>files\<close> shows: the output of \<^verbatim>\<open>cat\<close> is the content of an existing file, and an error with
  a message for any other; \<^verbatim>\<open>echo\<close> and \<^verbatim>\<open>dd\<close> replace the content; \<^verbatim>\<open>mkdir -p\<close> and opening
  sessions leave the files alone, and \<^verbatim>\<open>rm -f\<close> removes one.
\<close>

definition shell_contract :: "'w net \<Rightarrow> client \<Rightarrow> ('w \<Rightarrow> string \<Rightarrow> string option) \<Rightarrow> bool" where
  "shell_contract n c files \<longleftrightarrow>
     (\<forall>w. \<exists>w'. NewSession n c w = Some (Inr (), w') \<and> files w' = files w)
     \<and> (\<forall>t p w. shell_word t p \<longrightarrow>
         (case files w p of
            Some s \<Rightarrow> \<exists>w'. CombinedOutput n c (''cat '' @ t) [] w = Some ((s, None), w') \<and> files w' = files w
          | None \<Rightarrow> \<exists>e w'. CombinedOutput n c (''cat '' @ t) [] w
              = Some ((''cat: '' @ p @ '': No such file or directory'', Some e), w') \<and> files w' = files w))
     \<and> (\<forall>t p x w. shell_word t p \<longrightarrow> list_all is_digit x \<longrightarrow>
         (\<exists>w'. CombinedOutput n c (''echo '' @ x @ '' > '' @ t) [] w = Some (([], None), w')
           \<and> files w' = (files w)(p \<mapsto> x @ [CHR 0x0A])))
     \<and> (\<forall>t p b w. shell_word t p \<longrightarrow>
         (\<exists>out w'. CombinedOutput n c (''dd of='' @ t) b w = Some ((out, None), w')
           \<and> files w' = (files w)(p \<mapsto> string_of_bytes b)))
     \<and> (\<forall>t p w. shell_word t p \<longrightarrow>
         (\<exists>out w'. CombinedOutput n c (''mkdir -p '' @ t) [] w = Some ((out, None), w') \<and> files w' = files w))
     \<and> (\<forall>t p w. shell_word t p \<longrightarrow>
         (\<exists>out w'. CombinedOutput n c (''rm -f '' @ t) [] w = Some ((out, None), w')
           \<and> files w' = (files w)(p := None)))"

lemma contract_session:
  "shell_contract n c files \<Longrightarrow> \<exists>w'. NewSession n c w = Some (Inr (), w') \<and> files w' = files w"
  by (simp add: shell_contract_def)

lemma contract_cat:
  assumes "shell_contract n c files" "shell_word t p"
  shows "case files w p of
      Some s \<Rightarrow> \<exists>w'. CombinedOutput n c (''cat '' @ t) [] w = Some ((s, None), w') \<and> files w' = files w
    | None \<Rightarrow> \<exists>e w'. CombinedOutput n c (''cat '' @ t) [] w
        = Some ((''cat: '' @ p @ '': No such file or directory'', Some e), w') \<and> files w' = files w"
  using assms unfolding shell_contract_def by blast

lemma contract_echo:
  assumes "shell_contract n c files" "shell_word t p" "list_all is_digit x"
  shows "\<exists>w'. CombinedOutput n c (''echo '' @ x @ '' > '' @ t) [] w = Some (([], None), w')
    \<and> files w' = (files w)(p \<mapsto> x @ [CHR 0x0A])"
  using assms unfolding shell_contract_def by blast

lemma contract_dd:
  assumes "shell_contract n c files" "shell_word t p"
  shows "\<exists>out w'. CombinedOutput n c (''dd of='' @ t) b w = Some ((out, None), w')
    \<and> files w' = (files w)(p \<mapsto> string_of_bytes b)"
  using assms unfolding shell_contract_def by blast

lemma contract_mkdir_p:
  assumes "shell_contract n c files" "shell_word t p"
  shows "\<exists>out w'. CombinedOutput n c (''mkdir -p '' @ t) [] w = Some ((out, None), w') \<and> files w' = files w"
  using assms unfolding shell_contract_def by blast

text \<open>The functions over such a host, for paths that survive the quoting.\<close>

lemma q_word: "shell_safe p \<Longrightarrow> shell_word (q n p) p"
  by (simp add: q_def shell_safe_Quote)

lemma MkdirAll_ok:
  assumes "shell_contract n c files" "shell_safe p"
  shows "\<exists>w'. MkdirAll n c p w = Some (Inr (), w') \<and> files w' = files w"
proof -
  obtain w1 where 1: "NewSession n c w = Some (Inr (), w1)" "files w1 = files w"
    using contract_session [OF assms(1)] by blast
  obtain out w2 where "CombinedOutput n c (''mkdir -p '' @ q n p) [] w1 = Some ((out, None), w2)" "files w2 = files w1"
    using contract_mkdir_p [OF assms(1) q_word [OF assms(2)]] by blast
  then show ?thesis using 1 by (simp add: MkdirAll_def run_session_def session_output_def andThen_def ok_def)
qed

lemma ReadFile_exists:
  assumes "shell_contract n c files" "shell_safe p" "files w p = Some s"
  shows "\<exists>w'. ReadFile n c p w = Some (Inr s, w') \<and> files w' = files w"
proof -
  obtain w1 where 1: "NewSession n c w = Some (Inr (), w1)" "files w1 = files w"
    using contract_session [OF assms(1)] by blast
  obtain w2 where "CombinedOutput n c (''cat '' @ q n p) [] w1 = Some ((s, None), w2)" "files w2 = files w1"
    using contract_cat [OF assms(1) q_word [OF assms(2), of n], where w = w1] 1(2) assms(3) by auto
  then show ?thesis using 1 by (simp add: ReadFile_def run_session_def session_output_def andThen_def)
qed

lemma ReadFile_missing:
  assumes "shell_contract n c files" "shell_safe p" "files w p = None"
  shows "\<exists>e w'. ReadFile n c p w = Some (Inl e, w') \<and> IsFileNotExist e \<and> files w' = files w"
proof -
  obtain w1 where 1: "NewSession n c w = Some (Inr (), w1)" "files w1 = files w"
    using contract_session [OF assms(1)] by blast
  obtain e w2 where 2: "CombinedOutput n c (''cat '' @ q n p) [] w1
      = Some ((''cat: '' @ p @ '': No such file or directory'', Some e), w2)" "files w2 = files w1"
    using contract_cat [OF assms(1) q_word [OF assms(2), of n], where w = w1] 1(2) assms(3) by auto
  let ?e = "failed_to ''read'' p (''cat: '' @ p @ '': No such file or directory'') e"
  have "IsFileNotExist ?e"
    using Contains_append [of "''failed to read '' @ p @ '': cat: '' @ p @ '': ''" "''No such file or directory''"
        "'': '' @ Error_text e"]
    by (simp add: IsFileNotExist_def failed_to_def del: Contains.simps)
  then show ?thesis using 1 2 by (auto simp: ReadFile_def run_session_def session_output_def andThen_def)
qed

lemma WriteFile_ok:
  assumes "shell_contract n c files" "shell_safe p" "RErr r = EOF"
  shows "\<exists>w'. WriteFile n c p r w = Some (Inr (), w') \<and> files w' = (files w)(p \<mapsto> string_of_bytes (Rest r))"
proof -
  obtain w1 where 1: "NewSession n c w = Some (Inr (), w1)" "files w1 = files w"
    using contract_session [OF assms(1)] by blast
  obtain out w2 where "CombinedOutput n c (''dd of='' @ q n p) (Rest r) w1 = Some ((out, None), w2)"
      "files w2 = (files w1)(p \<mapsto> string_of_bytes (Rest r))"
    using contract_dd [OF assms(1) q_word [OF assms(2)]] by blast
  then show ?thesis using 1 assms(3) by (simp add: WriteFile_def run_session_def session_output_def andThen_def ok_def)
qed

section \<open>An instance\<close>

text \<open>A shell that knows these five commands with one quoted word.\<close>

type_synonym sample_remote = "string \<Rightarrow> string option"

definition word_after :: "string \<Rightarrow> string \<Rightarrow> string option" where
  "word_after cmd prefix =
     (if HasPrefix cmd (prefix @ [CHR 0x22]) then
        (case shell_dq (drop (length prefix + 1) cmd) of Some (p, []) \<Rightarrow> Some p | _ \<Rightarrow> None)
      else None)"

definition sample_combined :: "client \<Rightarrow> string \<Rightarrow> bytes \<Rightarrow> sample_remote \<Rightarrow> ((string \<times> gerr option) \<times> sample_remote) option" where
  "sample_combined c cmd input fs =
     (let x = takeWhile is_digit (drop 5 cmd) in
      case word_after cmd ''cat '' of
        Some p \<Rightarrow> (case fs p of
            Some s \<Rightarrow> Some ((s, None), fs)
          | None \<Rightarrow> Some ((''cat: '' @ p @ '': No such file or directory'', Some (EnvErr ''Process exited with status 1'')), fs))
      | None \<Rightarrow> (case word_after cmd (''echo '' @ x @ '' > '') of
        Some p \<Rightarrow> Some (([], None), fs(p \<mapsto> x @ [CHR 0x0A]))
      | None \<Rightarrow> (case word_after cmd ''dd of='' of
        Some p \<Rightarrow> Some (([], None), fs(p \<mapsto> string_of_bytes input))
      | None \<Rightarrow> (case word_after cmd ''rm -f '' of
        Some p \<Rightarrow> Some (([], None), fs(p := None))
      | None \<Rightarrow> Some (([], None), fs)))))"

definition sample_net :: "sample_remote net" where
  "sample_net = \<lparr>net_Dial = (\<lambda>a. ok 0), NewClientConn = (\<lambda>c a k. ok 1), ssh_Dial = (\<lambda>a k. ok 1),
     NewSession = (\<lambda>c. ok ()), CombinedOutput = sample_combined, RunOpen = (\<lambda>c cmd b w. None),
     CloseClient = (\<lambda>c. ok ()), IsPrint = (\<lambda>r. False)\<rparr>"

lemma word_after_word: "shell_word t p \<Longrightarrow> word_after (pre @ t) pre = Some p"
  by (auto simp: shell_word_def word_after_def HasPrefix_def)

lemma word_after_other:
  "length pre < length cmd \<Longrightarrow> take (length pre) cmd \<noteq> pre \<Longrightarrow> word_after cmd pre = None"
  by (auto simp: word_after_def HasPrefix_def dest: arg_cong [where f = "take (length pre)"])

lemma word_after_hd: "pre \<noteq> [] \<Longrightarrow> hd cmd \<noteq> hd pre \<Longrightarrow> word_after cmd pre = None"
  by (cases cmd; cases pre) (auto simp: word_after_def HasPrefix_def)

lemma digits_quote: "list_all is_digit x \<Longrightarrow> takeWhile is_digit (x @ CHR '' '' # s) = x"
  by (simp add: takeWhile_append2 list_all_iff is_digit_def)

lemma sample_net_contract: "shell_contract sample_net c id"
proof -
  have cat: "sample_combined c (''cat '' @ t) [] w = (case w p of
        Some s \<Rightarrow> Some ((s, None), w)
      | None \<Rightarrow> Some ((''cat: '' @ p @ '': No such file or directory'', Some (EnvErr ''Process exited with status 1'')), w))"
    if "shell_word t p" for t p w
    unfolding sample_combined_def Let_def word_after_word [OF that, of "''cat ''"] by simp
  have echo: "sample_combined c (''echo '' @ x @ '' > '' @ t) [] w = Some (([], None), w(p \<mapsto> x @ [CHR 0x0A]))"
    if "shell_word t p" "list_all is_digit x" for t p x w
  proof -
    have "takeWhile is_digit (drop 5 (''echo '' @ x @ '' > '' @ t)) = x"
      using digits_quote [OF that(2), of "''> '' @ t"] by simp
    moreover have "word_after (''echo '' @ x @ '' > '' @ t) ''cat '' = None" by (rule word_after_hd) simp_all
    moreover have "word_after (''echo '' @ x @ '' > '' @ t) (''echo '' @ x @ '' > '') = Some p"
      using word_after_word [OF that(1), of "''echo '' @ x @ '' > ''"] by simp
    ultimately show ?thesis by (simp add: sample_combined_def Let_def)
  qed
  have other: "word_after (''dd of='' @ t) ''cat '' = None" "word_after (''dd of='' @ t) (''echo '' @ x @ '' > '') = None"
    "word_after (''rm -f '' @ t) ''cat '' = None" "word_after (''rm -f '' @ t) (''echo '' @ x @ '' > '') = None"
    "word_after (''rm -f '' @ t) ''dd of='' = None"
    "word_after (''mkdir -p '' @ t) ''cat '' = None" "word_after (''mkdir -p '' @ t) (''echo '' @ x @ '' > '') = None"
    "word_after (''mkdir -p '' @ t) ''dd of='' = None" "word_after (''mkdir -p '' @ t) ''rm -f '' = None" for t x
    by (rule word_after_hd; simp)+
  have dd: "sample_combined c (''dd of='' @ t) b w = Some (([], None), w(p \<mapsto> string_of_bytes b))"
    and rm: "sample_combined c (''rm -f '' @ t) [] w = Some (([], None), w(p := None))"
    and mkdir: "sample_combined c (''mkdir -p '' @ t) [] w = Some (([], None), w)"
    if "shell_word t p" for t p b w
    unfolding sample_combined_def Let_def other word_after_word [OF that, of "''dd of=''"]
      word_after_word [OF that, of "''rm -f ''"] by simp_all
  show ?thesis
    unfolding shell_contract_def
  proof (intro conjI allI impI)
    fix t p w assume "shell_word t p"
    from cat [OF this, of w] show "case id w p of
        Some s \<Rightarrow> \<exists>w'. CombinedOutput sample_net c (''cat '' @ t) [] w = Some ((s, None), w') \<and> id w' = id w
      | None \<Rightarrow> \<exists>e w'. CombinedOutput sample_net c (''cat '' @ t) [] w
          = Some ((''cat: '' @ p @ '': No such file or directory'', Some e), w') \<and> id w' = id w"
      by (simp add: sample_net_def split: option.splits)
  qed (simp_all add: sample_net_def ok_def echo dd rm mkdir del: append.simps)
qed

end
