(* ===== verification/SshDir.thy ===== *)
theory SshDir
  imports Ssh
begin

text \<open>
  The receiver that writes a stream into a directory of a remote host
  (\<^verbatim>\<open>pkg/receive/receivers/sshdir/sshdir.go\<close>): every method is a shell command. Like the
  directory receiver it keeps the offset of the last command in a file; the theorems say when
  that file tells the truth, and which methods cannot work.
\<close>

section \<open>The receiver\<close>

text \<open>
  \<^verbatim>\<open>time.Time.Format\<close> with the layout \<^verbatim>\<open>200601021504.05\<close> depends on the local time zone and is the
  argument \<open>touch_time\<close>.
\<close>

record 'w ssh_dir =
  net :: "'w net"
  sshClient :: client
  ssh_dest :: string
  ssh_offsets :: string
  ssh_uuid :: "uuid \<Rightarrow> string"
  touch_time :: "gotime \<Rightarrow> string"
  ssh_ext :: ext

definition ssh_resolvePath :: "'w ssh_dir \<Rightarrow> string \<Rightarrow> string" where
  "ssh_resolvePath n path = Join [ssh_dest n, path]"

definition ssh_currentOffsetPath :: "'w ssh_dir \<Rightarrow> ReceiveContext \<Rightarrow> string go" where
  "ssh_currentOffsetPath n ctx = (case CurrentSubvolume ctx of
     None \<Rightarrow> panic | Some sv \<Rightarrow> Some (Join [ssh_dest n, ssh_offsets n, ssh_uuid n (SubvolUUID sv)]))"

text \<open>\<^verbatim>\<open>fmt.Errorf("%s: %s", err, out)\<close>\<close>

definition with_output :: "string \<Rightarrow> gerr \<Rightarrow> gerr" where
  "with_output out e = ErrText (Error_text e @ '': '' @ out)"

definition runCommand :: "'w ssh_dir \<Rightarrow> string \<Rightarrow> ('w, string) io" where
  "runCommand n cmd = run_session (net n) (sshClient n) cmd [] with_output"

definition runCommandWithStdin :: "'w ssh_dir \<Rightarrow> string \<Rightarrow> bytes \<Rightarrow> ('w, unit) io" where
  "runCommandWithStdin n cmd stdin =
     andThen (run_session (net n) (sshClient n) cmd stdin with_output) (\<lambda>_. ok ())"

definition run_quiet :: "'w ssh_dir \<Rightarrow> string \<Rightarrow> ('w, unit) io" where
  "run_quiet n cmd = andThen (runCommand n cmd) (\<lambda>_. ok ())"

abbreviation qp :: "'w ssh_dir \<Rightarrow> string \<Rightarrow> string" where "qp n \<equiv> q (net n)"

text \<open>No file leaves the offset as it is.\<close>

definition readCurrentOffset :: "'w ssh_dir \<Rightarrow> ReceiveContext \<Rightarrow> ('w, u64 option) io" where
  "readCurrentOffset n ctx =
     andThen (lift_go (ssh_currentOffsetPath n ctx)) (\<lambda>path.
     andThen (result (runCommand n (''cat '' @ qp n path))) (\<lambda>r.
     case r of
       Inl e \<Rightarrow> if Contains (Error_text e) ''No such file or directory'' then ok None else fail e
     | Inr out \<Rightarrow> lift_sum (map_sum id Some (Fscanf_d out))))"

definition write_remote_offset :: "'w ssh_dir \<Rightarrow> ReceiveContext \<Rightarrow> u64 \<Rightarrow> ('w, unit) io" where
  "write_remote_offset n ctx off =
     andThen (lift_go (ssh_currentOffsetPath n ctx)) (\<lambda>path.
     run_quiet n (''echo '' @ decimal (unat off) @ '' > '' @ qp n path))"

definition writeCurrentOffset :: "'w ssh_dir \<Rightarrow> ReceiveContext \<Rightarrow> ('w, unit) io" where
  "writeCurrentOffset n ctx = write_remote_offset n ctx (CurrentOffset ctx)"

definition writeFinishedOffset :: "'w ssh_dir \<Rightarrow> ReceiveContext \<Rightarrow> ('w, unit) io" where
  "writeFinishedOffset n ctx = write_remote_offset n ctx (- 2)"

definition ssh_Subvol :: "'w ssh_dir \<Rightarrow> ReceiveContext \<Rightarrow> ('w, u64 option) io" where
  "ssh_Subvol n ctx =
     andThen (lift_go (ssh_currentOffsetPath n ctx)) (\<lambda>offsetPath.
     andThen (run_quiet n (''mkdir -p '' @ qp n (Dir offsetPath))) (\<lambda>_. readCurrentOffset n ctx))"

definition ssh_write :: "'w ssh_dir \<Rightarrow> string \<Rightarrow> u64 \<Rightarrow> bytes \<Rightarrow> ('w, unit) io" where
  "ssh_write n path offset data =
     runCommandWithStdin n (''dd of='' @ qp n (ssh_resolvePath n path) @ '' bs=1 seek='' @ decimal (unat offset)
       @ '' count='' @ decimal (length data) @ '' conv=notrunc'') data"

definition ssh_chmod :: "'w ssh_dir \<Rightarrow> string \<Rightarrow> u64 \<Rightarrow> ('w, unit) io" where
  "ssh_chmod n path mode = run_quiet n (''chmod '' @ octal (unat mode) @ '' '' @ qp n (ssh_resolvePath n path))"

text \<open>\<open>Fallocate\<close> calls \<open>Chmod\<close> with the path that it has resolved already.\<close>

definition ssh_fallocate :: "'w ssh_dir \<Rightarrow> string \<Rightarrow> u32 \<Rightarrow> u64 \<Rightarrow> u64 \<Rightarrow> ('w, unit) io" where
  "ssh_fallocate n path mode offset len =
     (let path = ssh_resolvePath n path in
      andThen (run_quiet n (''fallocate -l '' @ decimal (unat len) @ '' -o '' @ decimal (unat offset) @ '' '' @ qp n path))
        (\<lambda>_. ssh_chmod n path (ucast mode)))"

definition mksock_command :: "string \<Rightarrow> string" where
  "mksock_command path = ''python -c \"import socket; socket.socket(socket.AF_UNIX, socket.SOCK_STREAM).bind(''
     @ [CHR 0x27] @ path @ [CHR 0x27] @ '')\"''"

fun ssh_method :: "'w ssh_dir \<Rightarrow> ReceiveContext \<Rightarrow> rcall \<Rightarrow> ('w, unit) io" where
  "ssh_method n ctx (Mkfile path ino) = run_quiet n (''touch '' @ qp n (ssh_resolvePath n path))"
| "ssh_method n ctx (Mkdir path ino) = run_quiet n (''mkdir '' @ qp n (ssh_resolvePath n path))"
| "ssh_method n ctx (Mknod path ino mode rdev) = run_quiet n (''mknod '' @ qp n (ssh_resolvePath n path)
     @ '' '' @ octal (unat mode) @ '' '' @ decimal (unat rdev))"
| "ssh_method n ctx (Mkfifo path ino) = run_quiet n (''mkfifo '' @ qp n (ssh_resolvePath n path))"
| "ssh_method n ctx (Mksock path ino) = run_quiet n (mksock_command (ssh_resolvePath n path))"
| "ssh_method n ctx (Symlink path ino linkTo) =
     run_quiet n (''ln -s '' @ qp n linkTo @ '' '' @ qp n (ssh_resolvePath n path))"
| "ssh_method n ctx (Rename oldPath newPath) =
     run_quiet n (''mv '' @ qp n (ssh_resolvePath n oldPath) @ '' '' @ qp n (ssh_resolvePath n newPath))"
| "ssh_method n ctx (Link path linkTo) =
     run_quiet n (''ln '' @ qp n linkTo @ '' '' @ qp n (ssh_resolvePath n path))"
| "ssh_method n ctx (Unlink path) = run_quiet n (''rm -rf '' @ qp n (ssh_resolvePath n path))"
| "ssh_method n ctx (Rmdir path) = run_quiet n (''rm -rf '' @ qp n (ssh_resolvePath n path))"
| "ssh_method n ctx (Write path offset data) = ssh_write n path offset data"
| "ssh_method n ctx (EncodedWrite path op) =
     andThen (lift_sum (Decompress (ssh_ext n) op)) (\<lambda>data. ssh_write n path (Offset op) data)"
| "ssh_method n ctx (Clone path offset len cu ct clonePath cloneOffset) = fail ErrNotSupported"
| "ssh_method n ctx (SetXattr path name data) = run_quiet n (''setfattr -n '' @ name @ '' -v 0S'' @ base64 data
     @ '' '' @ qp n (ssh_resolvePath n path))"
| "ssh_method n ctx (RemoveXattr path name) =
     run_quiet n (''setfattr -x '' @ name @ '' '' @ qp n (ssh_resolvePath n path))"
| "ssh_method n ctx (Truncate path len) =
     run_quiet n (''truncate -s '' @ decimal (unat len) @ '' '' @ qp n (ssh_resolvePath n path))"
| "ssh_method n ctx (Chmod path mode) = ssh_chmod n path mode"
| "ssh_method n ctx (Chown path uid gid) = run_quiet n (''chown '' @ decimal (unat uid) @ '':'' @ decimal (unat gid)
     @ '' '' @ qp n (ssh_resolvePath n path))"
| "ssh_method n ctx (Utimes path atime mtime ctime) =
     run_quiet n (''touch -a -m -t '' @ touch_time n mtime @ '' '' @ qp n (ssh_resolvePath n path))"
| "ssh_method n ctx (UpdateExtent path fileOffset tmpSize) = ok ()"
| "ssh_method n ctx (EnableVerity path algorithm blockSize salt sig) = fail ErrNotSupported"
| "ssh_method n ctx (Fallocate path mode offset len) = ssh_fallocate n path mode offset len"
| "ssh_method n ctx (Fileattr path attr) = ok ()"
| "ssh_method n ctx FinishSubvolume = writeFinishedOffset n ctx"
| "ssh_method n ctx (Subvol path u t) = ok ()"
| "ssh_method n ctx (Snapshot path u t cu ct) = ok ()"

definition ssh_recv :: "'w ssh_dir \<Rightarrow> (u64 \<times> 'w) rmethod" where
  "ssh_recv n ctx c s = (case c of
     Subvol path uuid ctransid \<Rightarrow> with_offset (ssh_Subvol n ctx) s
   | Snapshot path uuid ctransid cloneUUID cloneCtransid \<Rightarrow> with_offset (readCurrentOffset n ctx) s
   | _ \<Rightarrow> map_option (\<lambda>(e, w). (e, fst s, w)) (returned (ssh_method n ctx c) (snd s)))"

definition ssh_PreOp :: "(u64 \<times> 'w) hook" where
  "ssh_PreOp ctx hdr attrs s =
     (if fst s > CurrentOffset ctx then Some (Some ErrSkipCommand, s) else Some (None, s))"

definition ssh_PostOp :: "'w ssh_dir \<Rightarrow> (u64 \<times> 'w) hook" where
  "ssh_PostOp n ctx hdr attrs s =
     (if CurrentOffset ctx < fst s then Some (None, s)
      else map_option (\<lambda>(e, w). (e, fst s, w)) (returned (writeCurrentOffset n ctx) (snd s)))"

definition ssh_receiver :: "'w ssh_dir \<Rightarrow> (u64 \<times> 'w) receiver" where
  "ssh_receiver n = \<lparr>recv = ssh_recv n, PreOp = Some ssh_PreOp, PostOp = Some (ssh_PostOp n)\<rparr>"

text \<open>It resumes like the directory receiver.\<close>

interpretation remote: resuming "ssh_receiver n" "ssh_Subvol n" ssh_PreOp "ssh_PostOp n" for n
  by unfold_locales (simp_all add: ssh_receiver_def ssh_PreOp_def ssh_PostOp_def ssh_recv_def)

section \<open>The offset file\<close>

lemma Fscanf_d_line: "n < 2 ^ 64 \<Longrightarrow> Fscanf_d (decimal n @ [CHR 0x0A]) = Inr (of_nat n)"
proof -
  assume n: "n < 2 ^ 64"
  obtain c cs where c: "decimal n = c # cs" using decimal_nonempty by (cases "decimal n") auto
  have d: "is_digit c" "list_all is_digit (decimal n)" using decimal_digits [of n] c by auto
  have dw: "dropWhile (\<lambda>c. c \<in> {CHR 0x09, CHR 0x0B, CHR 0x0C, CHR 0x0D, CHR 0x20}) (decimal n @ [CHR 0x0A])
      = decimal n @ [CHR 0x0A]"
    using not_space_digit [OF d(1)] by (simp add: c)
  have nl: "\<not> is_digit (CHR 0x0A)" by (simp add: is_digit_def)
  have tw: "takeWhile (\<lambda>c. is_digit c \<or> c = CHR ''_'') (decimal n @ [CHR 0x0A]) = decimal n"
    using d(2) nl by (subst takeWhile_append2) (auto simp: list_all_iff)
  have "hd (decimal n @ [CHR 0x0A]) \<noteq> CHR 0x0A" using not_space_digit [OF d(1)] by (simp add: c)
  then show ?thesis
    unfolding Fscanf_d_def Let_def dw tw using n d(2) by simp
qed

lemma write_remote_ok:
  assumes "shell_contract (net n) (sshClient n) files" "ssh_currentOffsetPath n ctx = Some path" "shell_safe path"
  shows "\<exists>w'. write_remote_offset n ctx off w = Some (Inr (), w')
    \<and> files w' = (files w)(path \<mapsto> decimal (unat off) @ [CHR 0x0A])"
proof -
  obtain w1 where 1: "NewSession (net n) (sshClient n) w = Some (Inr (), w1)" "files w1 = files w"
    using contract_session [OF assms(1)] by blast
  obtain w2 where "CombinedOutput (net n) (sshClient n) (''echo '' @ decimal (unat off) @ '' > '' @ qp n path) [] w1
      = Some (([], None), w2)" "files w2 = (files w1)(path \<mapsto> decimal (unat off) @ [CHR 0x0A])"
    using contract_echo [OF assms(1) q_word [OF assms(3)] decimal_digits] by blast
  then show ?thesis
    using 1 assms(2) by (simp add: write_remote_offset_def run_quiet_def runCommand_def run_session_def session_output_def
        andThen_def lift_go_def ok_def)
qed

lemma read_remote_ok:
  assumes "shell_contract (net n) (sshClient n) files" "ssh_currentOffsetPath n ctx = Some path" "shell_safe path"
    and "files w path = Some (decimal (unat off) @ [CHR 0x0A])"
  shows "\<exists>w'. readCurrentOffset n ctx w = Some (Inr (Some off), w') \<and> files w' = files w"
proof -
  obtain w1 where 1: "NewSession (net n) (sshClient n) w = Some (Inr (), w1)" "files w1 = files w"
    using contract_session [OF assms(1)] by blast
  obtain w2 where "CombinedOutput (net n) (sshClient n) (''cat '' @ qp n path) [] w1
      = Some ((decimal (unat off) @ [CHR 0x0A], None), w2)" "files w2 = files w1"
    using contract_cat [OF assms(1) q_word [OF assms(3), of "net n"], where w = w1] 1(2) assms(4) by auto
  moreover have "Fscanf_d (decimal (unat off) @ [CHR 0x0A]) = Inr off"
    using Fscanf_d_line [of "unat off"] unsigned_less [of off] by simp
  ultimately show ?thesis
    using 1 assms(2) by (simp add: readCurrentOffset_def runCommand_def run_session_def session_output_def result_def
        andThen_def lift_go_def lift_sum_def)
qed

lemma ssh_Subvol_reads:
  assumes "shell_contract (net n) (sshClient n) files" "ssh_currentOffsetPath n ctx = Some path" "shell_safe path"
    and "shell_safe (Dir path)" "files w path = Some (decimal (unat off) @ [CHR 0x0A])"
  shows "\<exists>w'. ssh_Subvol n ctx w = Some (Inr (Some off), w') \<and> files w' = files w"
proof -
  obtain w1 where 1: "NewSession (net n) (sshClient n) w = Some (Inr (), w1)" "files w1 = files w"
    using contract_session [OF assms(1)] by blast
  obtain out w2 where 2: "CombinedOutput (net n) (sshClient n) (''mkdir -p '' @ qp n (Dir path)) [] w1 = Some ((out, None), w2)"
    "files w2 = files w1"
    using contract_mkdir_p [OF assms(1) q_word [OF assms(4)]] by blast
  have "files w2 path = Some (decimal (unat off) @ [CHR 0x0A])" using 1 2 assms(5) by simp
  from read_remote_ok [OF assms(1-3) this] obtain w' where
    "readCurrentOffset n ctx w2 = Some (Inr (Some off), w')" "files w' = files w2" by blast
  then show ?thesis
    using 1 2 assms(2) by (simp add: ssh_Subvol_def run_quiet_def runCommand_def run_session_def session_output_def andThen_def
        lift_go_def ok_def)
qed

text \<open>On a remote host the offset file always tells the truth: whatever it held before,
  \<open>PostOp\<close> leaves the current offset in it, and the first command of a new run reads that
  offset; so do the finished subvolumes.\<close>

theorem remote_offset_recorded:
  assumes "shell_contract (net n) (sshClient n) files" "CurrentSubvolume ctx = Some sv" "k \<le> CurrentOffset ctx"
    and "path = Join [ssh_dest n, ssh_offsets n, ssh_uuid n (SubvolUUID sv)]"
    and "shell_safe path" "shell_safe (Dir path)"
  shows "\<exists>w' w''. ssh_PostOp n ctx hdr attrs (k, w) = Some (None, k, w')
      \<and> ssh_Subvol n \<lparr>CurrentOffset = 0, CurrentSubvolume = Some sv\<rparr> w' = Some (Inr (Some (CurrentOffset ctx)), w'')
      \<and> files w'' = (files w)(path \<mapsto> decimal (unat (CurrentOffset ctx)) @ [CHR 0x0A])"
proof -
  let ?ctx0 = "\<lparr>CurrentOffset = 0, CurrentSubvolume = Some sv\<rparr>"
  have p: "ssh_currentOffsetPath n ctx = Some path" "ssh_currentOffsetPath n ?ctx0 = Some path"
    using assms(2,4) by (simp_all add: ssh_currentOffsetPath_def)
  obtain w' where w': "write_remote_offset n ctx (CurrentOffset ctx) w = Some (Inr (), w')"
    "files w' = (files w)(path \<mapsto> decimal (unat (CurrentOffset ctx)) @ [CHR 0x0A])"
    using write_remote_ok [OF assms(1) p(1) assms(5)] by blast
  have "files w' path = Some (decimal (unat (CurrentOffset ctx)) @ [CHR 0x0A])" using w' by simp
  from ssh_Subvol_reads [OF assms(1) p(2) assms(5,6) this] obtain w'' where
    "ssh_Subvol n ?ctx0 w' = Some (Inr (Some (CurrentOffset ctx)), w'')" "files w'' = files w'" by blast
  moreover have "ssh_PostOp n ctx hdr attrs (k, w) = Some (None, k, w')"
    using assms(3) w'(1) by (simp add: ssh_PostOp_def writeCurrentOffset_def returned_def
        not_less [symmetric] del: not_less)
  ultimately show ?thesis using w' by auto
qed

text \<open>A run that is resumed on a remote host skips the commands below the offset that the
  interrupted run has recorded there, and goes on with the one at that offset.\<close>

theorem remote_resumes:
  assumes "shell_contract (net n) (sshClient n) files" "uuid_lib X"
    and "valid_call (Subvol p u t)" "(Cmd h, a) = command_of (Subvol p u t)"
    and "startOffset ctx = 0" "currentSubvolInfo ctx = None" "0 < off" "length cs + 1 < 2 ^ 64"
    and "path = Join [ssh_dest n, ssh_offsets n, ssh_uuid n u]" "shell_safe path" "shell_safe (Dir path)"
    and "files w path = Some (decimal (unat off) @ [CHR 0x0A])"
  shows "\<exists>w'. files w' = files w
    \<and> process_list X (ssh_receiver n) ((h, a) # cs) e (skip_to 0 ctx) errs (0, w)
      = process_list X (ssh_receiver n) (drop (unat off - 1) cs) e
          (skip_to (min (unat off) (length cs + 1)) (ctx\<lparr>currentSubvolInfo :=
            Some \<lparr>SubvolPath = p, SubvolUUID = u, SubvolCtransid = t\<rparr>\<rparr>)) errs (off, w')"
proof -
  let ?ctx0 = "\<lparr>CurrentOffset = 0, CurrentSubvolume = Some \<lparr>SubvolPath = p, SubvolUUID = u, SubvolCtransid = t\<rparr>\<rparr>"
  have "ssh_currentOffsetPath n ?ctx0 = Some path" using assms(9) by (simp add: ssh_currentOffsetPath_def)
  from ssh_Subvol_reads [OF assms(1) this assms(10-12)] obtain w' where
    "ssh_Subvol n ?ctx0 w = Some (Inr (Some off), w')" "files w' = files w" by blast
  with remote.resumes [OF assms(2-6) this(1) assms(7,8)] show ?thesis by blast
qed

definition sample_ssh :: "sample_remote ssh_dir" where
  "sample_ssh = \<lparr>net = sample_net, sshClient = 1, ssh_dest = ''/d'', ssh_offsets = ''.btrsync'',
     ssh_uuid = (\<lambda>u. ''id''), touch_time = (\<lambda>t. ''202301010000.00''), ssh_ext = sample_ext\<rparr>"

lemma remote_offset_recorded_witness:
  "\<exists>w' w''. ssh_PostOp sample_ssh \<lparr>CurrentOffset = 2, CurrentSubvolume =
        Some \<lparr>SubvolPath = ''snap'', SubvolUUID = [], SubvolCtransid = 5\<rparr>\<rparr> zero_CmdHeader Map.empty
        (0, [''/d/.btrsync/id'' \<mapsto> ''1000'']) = Some (None, 0, w')
    \<and> ssh_Subvol sample_ssh \<lparr>CurrentOffset = 0, CurrentSubvolume =
        Some \<lparr>SubvolPath = ''snap'', SubvolUUID = [], SubvolCtransid = 5\<rparr>\<rparr> w' = Some (Inr (Some 2), w'')"
proof -
  let ?sv = "\<lparr>SubvolPath = ''snap'', SubvolUUID = [], SubvolCtransid = 5\<rparr>"
  have c: "shell_contract (net sample_ssh) (sshClient sample_ssh) id"
    using sample_net_contract by (simp add: sample_ssh_def)
  have p: "Join [''/d'', ''.btrsync'', ''id''] = ''/d/.btrsync/id''" "Dir ''/d/.btrsync/id'' = ''/d/.btrsync''" by code_simp+
  have s: "shell_safe ''/d/.btrsync/id''" "shell_safe ''/d/.btrsync''" by code_simp+
  show ?thesis
    using remote_offset_recorded [OF c, where ctx = "\<lparr>CurrentOffset = 2, CurrentSubvolume = Some ?sv\<rparr>" and k = 0
        and sv = ?sv and path = "''/d/.btrsync/id''" and w = "[''/d/.btrsync/id'' \<mapsto> ''1000'']"] p s
    by (simp add: sample_ssh_def) blast
qed

lemma remote_resumes_witness:
  "\<exists>w'. process_list sample_ext (ssh_receiver sample_ssh)
      ((zero_CmdHeader\<lparr>Cmd := fst (command_of (Subvol ''snap'' (replicate 16 7) 5))\<rparr>,
        snd (command_of (Subvol ''snap'' (replicate 16 7) 5))) # [(zero_CmdHeader, Map.empty)]) None
      (skip_to 0 initial_ctx) 0 (0, [''/d/.btrsync/id'' \<mapsto> decimal (unat (2 :: u64)) @ [CHR 0x0A]])
    = process_list sample_ext (ssh_receiver sample_ssh) [] None
      (skip_to 2 (initial_ctx\<lparr>currentSubvolInfo := Some \<lparr>SubvolPath = ''snap'',
         SubvolUUID = replicate 16 7, SubvolCtransid = 5\<rparr>\<rparr>)) 0 (2, w')"
proof -
  have c: "shell_contract (net sample_ssh) (sshClient sample_ssh) id"
    using sample_net_contract by (simp add: sample_ssh_def)
  have p: "''/d/.btrsync/id'' = Join [ssh_dest sample_ssh, ssh_offsets sample_ssh, ssh_uuid sample_ssh (replicate 16 7)]"
    unfolding sample_ssh_def ssh_dir.simps by code_simp
  have d: "Dir ''/d/.btrsync/id'' = ''/d/.btrsync''" by code_simp
  have s: "shell_safe ''/d/.btrsync/id''" "shell_safe (Dir ''/d/.btrsync/id'')" unfolding d by code_simp+
  let ?c = "command_of (Subvol ''snap'' (replicate 16 7) 5)"
  from remote_resumes [OF c uuid_lib_sample, where h = "zero_CmdHeader\<lparr>Cmd := fst ?c\<rparr>" and a = "snd ?c"
      and p = "''snap''" and u = "replicate 16 7" and t = 5 and ctx = initial_ctx and off = 2
      and cs = "[(zero_CmdHeader, Map.empty)]" and path = "''/d/.btrsync/id''" and e = None and errs = 0
      and w = "[''/d/.btrsync/id'' \<mapsto> decimal (unat (2 :: u64)) @ [CHR 0x0A]]", OF _ _ _ _ _ _ p s]
  show ?thesis by (simp add: initial_ctx_def numeral_2_eq_2 [symmetric]) blast
qed

end
