(* ===== verification/Config.thy ===== *)
theory Config
  imports GoPath
begin

text \<open>
  The configuration (\<^verbatim>\<open>pkg/cmd/config/config.go\<close>): volumes with subvolumes, mirrors, the
  resolution of settings from the subvolume over the volume and the global value to the
  default, and validation. A \<^verbatim>\<open>time.Duration\<close> is its number of nanoseconds. The lemmas show in
  which order settings are resolved, what a validated configuration guarantees, which
  mirrors a subvolume is sent to, and that the defaults are consistent.
\<close>

section \<open>Data\<close>

type_synonym duration = int

record Subvolume =
  SName :: string
  SPath :: string
  SSnapshotsDir :: string
  SSnapshotName :: string
  SSnapshotInterval :: duration
  SSnapshotMinimumRetention :: duration
  SSnapshotRetention :: duration
  SSnapshotRetentionInterval :: duration
  STimeFormat :: string
  SMirrors :: "string list"
  SExcludeMirrors :: "string list"
  SDisabled :: bool

record Volume =
  VName :: string
  VPath :: string
  VSnapshotsDir :: string
  VSnapshotInterval :: duration
  VSnapshotMinimumRetention :: duration
  VSnapshotRetention :: duration
  VSnapshotRetentionInterval :: duration
  VTimeFormat :: string
  VSubvolumes :: "Subvolume list"
  VMirrors :: "string list"
  VDisabled :: bool

record Mirror =
  MName :: string
  MPath :: string
  MFormat :: string
  MSSHUser :: string
  MSSHPassword :: string
  MSSHKeyIdentityFile :: string
  MSSHHostKey :: string
  MDisabled :: bool

record Config =
  Verbosity :: int
  Concurrency :: int
  SnapshotsDir :: string
  SnapshotInterval :: duration
  SnapshotMinimumRetention :: duration
  SnapshotRetention :: duration
  SnapshotRetentionInterval :: duration
  TimeFormat :: string
  SSHUser :: string
  SSHPassword :: string
  SSHKeyIdentityFile :: string
  SSHHostKey :: string
  Volumes :: "Volume list"
  Mirrors :: "Mirror list"
  ScanInterval :: duration

definition MirrorFormatSubvolume :: string where [simp]: "MirrorFormatSubvolume = ''subvolume''"
definition MirrorFormatDirectory :: string where [simp]: "MirrorFormatDirectory = ''directory''"
definition MirrorFormatGzip :: string where [simp]: "MirrorFormatGzip = ''gzip''"
definition MirrorFormatLzw :: string where [simp]: "MirrorFormatLzw = ''lzw''"
definition MirrorFormatZlib :: string where [simp]: "MirrorFormatZlib = ''zlib''"
definition MirrorFormatZstd :: string where [simp]: "MirrorFormatZstd = ''zstd''"

definition IsCompressed :: "string \<Rightarrow> bool" where
  "IsCompressed m \<longleftrightarrow> m = MirrorFormatGzip \<or> m = MirrorFormatLzw \<or> m = MirrorFormatZlib
     \<or> m = MirrorFormatZstd"

definition Second :: duration where "Second = 1000000000"
definition Minute :: duration where "Minute = 60 * Second"
definition Hour :: duration where "Hour = 60 * Minute"

definition DefaultSnapshotsDir :: string where "DefaultSnapshotsDir = ''btrsync_snapshots''"
definition DefaultTimeFormat :: string where "DefaultTimeFormat = ''2006-01-02_15-04-05''"
definition DefaultSnapshotInterval :: duration where "DefaultSnapshotInterval = 1 * Hour"
definition DefaultSnapshotMinimumRetention :: duration where
  "DefaultSnapshotMinimumRetention = 1 * 24 * Hour"
definition DefaultSnapshotRetention :: duration where "DefaultSnapshotRetention = 7 * 24 * Hour"
definition DefaultSnapshotRetentionInterval :: duration where
  "DefaultSnapshotRetentionInterval = 1 * 24 * Hour"
definition DefaultDaemonScanInterval :: duration where "DefaultDaemonScanInterval = 1 * Minute"

lemmas default_defs = Second_def Minute_def Hour_def DefaultSnapshotsDir_def DefaultTimeFormat_def
  DefaultSnapshotInterval_def DefaultSnapshotMinimumRetention_def DefaultSnapshotRetention_def
  DefaultSnapshotRetentionInterval_def DefaultDaemonScanInterval_def

definition NewDefaultConfig :: Config where
  "NewDefaultConfig = \<lparr>Verbosity = 0, Concurrency = 0, SnapshotsDir = DefaultSnapshotsDir,
     SnapshotInterval = DefaultSnapshotInterval,
     SnapshotMinimumRetention = DefaultSnapshotMinimumRetention,
     SnapshotRetention = DefaultSnapshotRetention,
     SnapshotRetentionInterval = DefaultSnapshotRetentionInterval,
     TimeFormat = DefaultTimeFormat, SSHUser = [], SSHPassword = [], SSHKeyIdentityFile = [],
     SSHHostKey = [], Volumes = [], Mirrors = [], ScanInterval = DefaultDaemonScanInterval\<rparr>"

section \<open>Names and lookup\<close>

definition Volume_GetName :: "Volume \<Rightarrow> string" where
  "Volume_GetName v = (if VName v \<noteq> [] then VName v else Base (VPath v))"

definition Subvolume_GetName :: "Subvolume \<Rightarrow> string" where
  "Subvolume_GetName s = (if SName s \<noteq> [] then SName s else Base (SPath s))"

definition GetSnapshotName :: "Subvolume \<Rightarrow> string \<Rightarrow> string" where
  "GetSnapshotName s volumeName =
     (if SSnapshotName s \<noteq> [] then SSnapshotName s else volumeName @ ''.'' @ Subvolume_GetName s)"

definition GetVolume :: "Config \<Rightarrow> string \<Rightarrow> Volume option" where
  "GetVolume c name = find (\<lambda>v. Volume_GetName v = name) (Volumes c)"

definition GetMirror :: "Config \<Rightarrow> string \<Rightarrow> Mirror option" where
  "GetMirror c name = find (\<lambda>m. MName m = name) (Mirrors c)"

definition GetSubvolume :: "Volume \<Rightarrow> string \<Rightarrow> Subvolume option" where
  "GetSubvolume v name = find (\<lambda>s. Subvolume_GetName s = name) (VSubvolumes v)"

definition VolumeNameInUse :: "Config \<Rightarrow> string \<Rightarrow> bool" where
  "VolumeNameInUse c name \<longleftrightarrow> list_ex (\<lambda>v. Volume_GetName v = name) (Volumes c)"

definition SubvolumeNameInUse :: "Volume \<Rightarrow> string \<Rightarrow> bool" where
  "SubvolumeNameInUse v name \<longleftrightarrow> list_ex (\<lambda>s. Subvolume_GetName s = name) (VSubvolumes v)"

fun isUnique :: "string list \<Rightarrow> string \<Rightarrow> bool" where
  "isUnique [] s = True"
| "isUnique (v # ss) s = (if v = s then False else isUnique ss s)"

section \<open>Resolution\<close>

text \<open>The lookups in front of every \<open>Resolve*\<close> function; the zero value when one fails.\<close>

definition with_subvol :: "Config \<Rightarrow> string \<Rightarrow> string \<Rightarrow> 'a \<Rightarrow> (Volume \<Rightarrow> Subvolume \<Rightarrow> 'a) \<Rightarrow> 'a" where
  "with_subvol c vol subvol zero f =
     (case GetVolume c vol of
        None \<Rightarrow> zero
      | Some v \<Rightarrow> (case GetSubvolume v subvol of None \<Rightarrow> zero | Some s \<Rightarrow> f v s))"

definition ResolveTimeFormat :: "Config \<Rightarrow> string \<Rightarrow> string \<Rightarrow> string" where
  "ResolveTimeFormat c vol subvol = with_subvol c vol subvol [] (\<lambda>v s.
     if STimeFormat s \<noteq> [] then STimeFormat s
     else if VTimeFormat v \<noteq> [] then VTimeFormat v
     else if TimeFormat c \<noteq> [] then TimeFormat c
     else DefaultTimeFormat)"

definition ResolveSnapshotPath :: "Config \<Rightarrow> string \<Rightarrow> string \<Rightarrow> string" where
  "ResolveSnapshotPath c vol subvol = with_subvol c vol subvol [] (\<lambda>v s.
     if SSnapshotsDir s \<noteq> [] then Join [VPath v, SPath s, SSnapshotsDir s]
     else if VSnapshotsDir v \<noteq> [] then Join [VPath v, VSnapshotsDir v]
     else if SnapshotsDir c \<noteq> [] then Join [VPath v, SnapshotsDir c]
     else Join [VPath v, DefaultSnapshotsDir])"

definition ResolveSnapshotInterval :: "Config \<Rightarrow> string \<Rightarrow> string \<Rightarrow> duration" where
  "ResolveSnapshotInterval c vol subvol = with_subvol c vol subvol 0 (\<lambda>v s.
     if SSnapshotInterval s \<noteq> 0 then SSnapshotInterval s
     else if VSnapshotInterval v \<noteq> 0 then VSnapshotInterval v
     else if SnapshotInterval c \<noteq> 0 then SnapshotInterval c
     else DefaultSnapshotInterval)"

definition ResolveSnapshotMinimumRetention :: "Config \<Rightarrow> string \<Rightarrow> string \<Rightarrow> duration" where
  "ResolveSnapshotMinimumRetention c vol subvol = with_subvol c vol subvol 0 (\<lambda>v s.
     if SSnapshotMinimumRetention s \<noteq> 0 then SSnapshotMinimumRetention s
     else if VSnapshotMinimumRetention v \<noteq> 0 then VSnapshotMinimumRetention v
     else if SnapshotMinimumRetention c \<noteq> 0 then SnapshotMinimumRetention c
     else DefaultSnapshotMinimumRetention)"

definition ResolveSnapshotRetention :: "Config \<Rightarrow> string \<Rightarrow> string \<Rightarrow> duration" where
  "ResolveSnapshotRetention c vol subvol = with_subvol c vol subvol 0 (\<lambda>v s.
     if SSnapshotRetention s \<noteq> 0 then SSnapshotRetention s
     else if VSnapshotRetention v \<noteq> 0 then VSnapshotRetention v
     else if SnapshotRetention c \<noteq> 0 then SnapshotRetention c
     else DefaultSnapshotRetention)"

definition ResolveSnapshotRetentionInterval :: "Config \<Rightarrow> string \<Rightarrow> string \<Rightarrow> duration" where
  "ResolveSnapshotRetentionInterval c vol subvol = with_subvol c vol subvol 0 (\<lambda>v s.
     if SSnapshotRetentionInterval s \<noteq> 0 then SSnapshotRetentionInterval s
     else if VSnapshotRetentionInterval v \<noteq> 0 then VSnapshotRetentionInterval v
     else if SnapshotRetentionInterval c \<noteq> 0 then SnapshotRetentionInterval c
     else DefaultSnapshotRetentionInterval)"

definition IsMirrorExcluded :: "Subvolume \<Rightarrow> string \<Rightarrow> bool" where
  "IsMirrorExcluded s name \<longleftrightarrow> list_ex (\<lambda>n. n = name) (SExcludeMirrors s)"

definition FilterExcludedMirrors :: "Subvolume \<Rightarrow> Mirror list \<Rightarrow> Mirror list" where
  "FilterExcludedMirrors s mm = filter (\<lambda>m. \<not> IsMirrorExcluded s (MName m)) mm"

definition ResolveMirrors :: "Config \<Rightarrow> string \<Rightarrow> string \<Rightarrow> Mirror list" where
  "ResolveMirrors c vol subvol = with_subvol c vol subvol [] (\<lambda>v s.
     FilterExcludedMirrors s (List.map_filter (GetMirror c) (VMirrors v @ SMirrors s)))"

text \<open>The four SSH settings of a mirror: nothing unless its path is an SSH URL.\<close>

definition resolve_ssh :: "Config \<Rightarrow> string \<Rightarrow> (Mirror \<Rightarrow> string) \<Rightarrow> (Config \<Rightarrow> string) \<Rightarrow> string" where
  "resolve_ssh c name own global =
     (case GetMirror c name of
        None \<Rightarrow> []
      | Some mirror \<Rightarrow>
          if \<not> HasPrefix (MPath mirror) ''ssh://'' then []
          else if own mirror \<noteq> [] then own mirror
          else if global c \<noteq> [] then global c
          else [])"

definition ResolveMirrorSSHUser :: "Config \<Rightarrow> string \<Rightarrow> string" where
  "ResolveMirrorSSHUser c name = resolve_ssh c name MSSHUser SSHUser"

definition ResolveMirrorSSHPassword :: "Config \<Rightarrow> string \<Rightarrow> string" where
  "ResolveMirrorSSHPassword c name = resolve_ssh c name MSSHPassword SSHPassword"

definition ResolveMirrorSSHKeyFile :: "Config \<Rightarrow> string \<Rightarrow> string" where
  "ResolveMirrorSSHKeyFile c name = resolve_ssh c name MSSHKeyIdentityFile SSHKeyIdentityFile"

definition ResolveMirrorSSHHostKey :: "Config \<Rightarrow> string \<Rightarrow> string" where
  "ResolveMirrorSSHHostKey c name = resolve_ssh c name MSSHHostKey SSHHostKey"

section \<open>Validation\<close>

definition Volume_Validate :: "Volume \<Rightarrow> gerr option" where
  "Volume_Validate v =
     (if Volume_GetName v = [] then Some (ErrText ''volume name or path is required'')
      else if CHR '':'' \<in> set (Volume_GetName v)
      then Some (ErrText ''volume name cannot contain a colon'')
      else if VPath v = [] then Some (ErrText ''volume path is required'')
      else None)"

definition ValidateSubvolume :: "Config \<Rightarrow> Volume \<Rightarrow> Subvolume \<Rightarrow> gerr option" where
  "ValidateSubvolume c vol subvol =
     (let volName = Volume_GetName vol;
          subvolName = Subvolume_GetName subvol
      in if subvolName = [] then Some (ErrText ''subvolume name or path is required'')
         else if CHR '':'' \<in> set subvolName
         then Some (ErrText ''subvolume name cannot contain colon'')
         else if SPath subvol = [] then Some (ErrText ''subvolume path is required'')
         else
           let snapshotDir = ResolveSnapshotPath c volName subvolName;
               snapshotInterval = ResolveSnapshotInterval c volName subvolName;
               snapshotMinRetention = ResolveSnapshotMinimumRetention c volName subvolName;
               snapshotRetention = ResolveSnapshotRetention c volName subvolName;
               snapshotRetentionInterval = ResolveSnapshotRetentionInterval c volName subvolName
           in if snapshotDir = [] then Some (ErrText ''snapshot directory required'')
              else if snapshotInterval \<ge> snapshotMinRetention
              then Some (ErrText ''snapshot interval must be less than minimum retention'')
              else if snapshotRetention \<le> snapshotMinRetention
              then Some (ErrText ''snapshot retention must be greater than minimum retention'')
              else if snapshotRetentionInterval \<ge> snapshotRetention
              then Some (ErrText ''snapshot retention interval must be less than snapshot retention'')
              else None)"

fun validate_subvolumes :: "Config \<Rightarrow> Volume \<Rightarrow> string list \<Rightarrow> Subvolume list \<Rightarrow> gerr option" where
  "validate_subvolumes c v subvolNames [] = None"
| "validate_subvolumes c v subvolNames (s # ss) =
     (if \<not> isUnique subvolNames (Subvolume_GetName s)
      then Some (ErrText ''volume has duplicate subvolume name'')
      else case ValidateSubvolume c v s of
             Some e \<Rightarrow> Some e
           | None \<Rightarrow> validate_subvolumes c v (subvolNames @ [Subvolume_GetName s]) ss)"

fun validate_volumes :: "Config \<Rightarrow> string list \<Rightarrow> Volume list \<Rightarrow> gerr option" where
  "validate_volumes c volNames [] = None"
| "validate_volumes c volNames (v # vs) =
     (if \<not> isUnique volNames (Volume_GetName v) then Some (ErrText ''duplicate volume name'')
      else case Volume_Validate v of
             Some e \<Rightarrow> Some e
           | None \<Rightarrow>
               (case validate_subvolumes c v [] (VSubvolumes v) of
                  Some e \<Rightarrow> Some e
                | None \<Rightarrow> validate_volumes c (volNames @ [Volume_GetName v]) vs))"

definition Validate :: "Config \<Rightarrow> gerr option" where
  "Validate c = validate_volumes c [] (Volumes c)"

section \<open>A configuration for examples\<close>

definition sample_subvol :: Subvolume where
  "sample_subvol = \<lparr>SName = ''root'', SPath = ''@root'', SSnapshotsDir = [], SSnapshotName = [],
     SSnapshotInterval = 0, SSnapshotMinimumRetention = 0, SSnapshotRetention = 0,
     SSnapshotRetentionInterval = 0, STimeFormat = [], SMirrors = [''usb''],
     SExcludeMirrors = [''nas''], SDisabled = False\<rparr>"

definition sample_volume :: Volume where
  "sample_volume = \<lparr>VName = ''data'', VPath = ''/mnt/data'', VSnapshotsDir = [],
     VSnapshotInterval = 0, VSnapshotMinimumRetention = 0, VSnapshotRetention = 0,
     VSnapshotRetentionInterval = 0, VTimeFormat = [], VSubvolumes = [sample_subvol],
     VMirrors = [''nas''], VDisabled = False\<rparr>"

definition sample_config :: Config where
  "sample_config = NewDefaultConfig\<lparr>Volumes := [sample_volume]\<rparr>"

lemmas sample_defs = sample_subvol_def sample_volume_def sample_config_def NewDefaultConfig_def
  default_defs

lemma sample_names [simp]: "Volume_GetName sample_volume = ''data''"
  "Subvolume_GetName sample_subvol = ''root''"
  by (simp_all add: Volume_GetName_def Subvolume_GetName_def sample_volume_def sample_subvol_def)

lemma sample_members: "sample_volume \<in> set (Volumes sample_config)"
  "sample_subvol \<in> set (VSubvolumes sample_volume)"
  by (simp_all add: sample_config_def, simp add: sample_volume_def)

section \<open>What validation guarantees\<close>

lemma isUnique_iff: "isUnique ss s \<longleftrightarrow> s \<notin> set ss"
  by (induction ss) auto

lemma find_distinct: "distinct (map f xs) \<Longrightarrow> x \<in> set xs \<Longrightarrow> find (\<lambda>y. f y = f x) xs = Some x"
  by (induction xs) auto

lemma validate_subvolumes_None: "validate_subvolumes c v ns ss = None \<longleftrightarrow>
    distinct (map Subvolume_GetName ss) \<and> set ns \<inter> Subvolume_GetName ` set ss = {}
    \<and> (\<forall>s\<in>set ss. ValidateSubvolume c v s = None)"
  by (induction ss arbitrary: ns) (auto simp: isUnique_iff split: option.splits)

lemma validate_volumes_None: "validate_volumes c ns vs = None \<longleftrightarrow>
    distinct (map Volume_GetName vs) \<and> set ns \<inter> Volume_GetName ` set vs = {}
    \<and> (\<forall>v\<in>set vs. Volume_Validate v = None \<and> validate_subvolumes c v [] (VSubvolumes v) = None)"
  by (induction vs arbitrary: ns) (auto simp: isUnique_iff split: option.splits)

lemma Validate_None: "Validate c = None \<longleftrightarrow> distinct (map Volume_GetName (Volumes c))
    \<and> (\<forall>v\<in>set (Volumes c). Volume_Validate v = None
        \<and> distinct (map Subvolume_GetName (VSubvolumes v))
        \<and> (\<forall>s\<in>set (VSubvolumes v). ValidateSubvolume c v s = None))"
  by (auto simp: Validate_def validate_volumes_None validate_subvolumes_None)

lemma lookup_distinct:
  assumes "distinct (map Volume_GetName (Volumes c))" "v \<in> set (Volumes c)"
    and "distinct (map Subvolume_GetName (VSubvolumes v))" "s \<in> set (VSubvolumes v)"
  shows "GetVolume c (Volume_GetName v) = Some v" "GetSubvolume v (Subvolume_GetName s) = Some s"
    "with_subvol c (Volume_GetName v) (Subvolume_GetName s) z f = f v s"
  using find_distinct [OF assms(1,2)] find_distinct [OF assms(3,4)]
  by (simp_all add: with_subvol_def GetVolume_def GetSubvolume_def)

lemma Validate_consistent:
  assumes "Validate c = None" "v \<in> set (Volumes c)" "s \<in> set (VSubvolumes v)"
  defines "vn \<equiv> Volume_GetName v" and "sn \<equiv> Subvolume_GetName s"
  shows "GetVolume c vn = Some v \<and> GetSubvolume v sn = Some s
    \<and> CHR '':'' \<notin> set vn \<and> CHR '':'' \<notin> set sn
    \<and> ResolveSnapshotInterval c vn sn < ResolveSnapshotMinimumRetention c vn sn
    \<and> ResolveSnapshotMinimumRetention c vn sn < ResolveSnapshotRetention c vn sn
    \<and> ResolveSnapshotRetentionInterval c vn sn < ResolveSnapshotRetention c vn sn
    \<and> ResolveSnapshotPath c vn sn \<noteq> []"
proof -
  have v: "distinct (map Volume_GetName (Volumes c))" "Volume_Validate v = None"
    "distinct (map Subvolume_GetName (VSubvolumes v))" "ValidateSubvolume c v s = None"
    using assms(1-3) by (auto simp: Validate_None)
  have "CHR '':'' \<notin> set vn"
    using v(2) by (auto simp: Volume_Validate_def vn_def split: if_splits)
  with v(4) lookup_distinct [OF v(1) assms(2) v(3) assms(3)] show ?thesis
    by (auto simp: ValidateSubvolume_def Let_def vn_def sn_def split: if_splits)
qed

text \<open>C22: A validated configuration is consistent: every volume and subvolume is found under its
  own name, names are unique and contain no colon, and the settings that are resolved for a
  subvolume satisfy interval < minimum retention < retention and retention interval <
  retention, with a snapshot directory.\<close>

theorem Validate_sound:
  assumes "Validate c = None" "v \<in> set (Volumes c)" "s \<in> set (VSubvolumes v)"
  defines "vn \<equiv> Volume_GetName v" and "sn \<equiv> Subvolume_GetName s"
  shows "GetVolume c vn = Some v \<and> GetSubvolume v sn = Some s
    \<and> CHR '':'' \<notin> set vn \<and> CHR '':'' \<notin> set sn
    \<and> ResolveSnapshotInterval c vn sn < ResolveSnapshotMinimumRetention c vn sn
    \<and> ResolveSnapshotMinimumRetention c vn sn < ResolveSnapshotRetention c vn sn
    \<and> ResolveSnapshotRetentionInterval c vn sn < ResolveSnapshotRetention c vn sn
    \<and> ResolveSnapshotPath c vn sn \<noteq> []"
  using assms(1-3) unfolding assms(4,5) by (rule Validate_consistent)

lemma sample_valid: "Validate sample_config = None"
proof -
  have "Join [''/mnt/data'', ''btrsync_snapshots''] = ''/mnt/data/btrsync_snapshots''"
    by (simp add: Join_def Clean_def rooted_def clean_comps_def clean_step.simps unsplit_def)
  then show ?thesis
    by (simp add: Validate_def sample_config_def validate_volumes.simps Volume_Validate_def
        ValidateSubvolume_def Let_def with_subvol_def GetVolume_def GetSubvolume_def
        ResolveSnapshotPath_def ResolveSnapshotInterval_def ResolveSnapshotMinimumRetention_def
        ResolveSnapshotRetention_def ResolveSnapshotRetentionInterval_def)
      (simp add: sample_volume_def ValidateSubvolume_def Let_def with_subvol_def GetVolume_def
        GetSubvolume_def ResolveSnapshotPath_def ResolveSnapshotInterval_def
        ResolveSnapshotMinimumRetention_def ResolveSnapshotRetention_def
        ResolveSnapshotRetentionInterval_def sample_subvol_def NewDefaultConfig_def default_defs
        Volume_GetName_def Subvolume_GetName_def)
qed

lemma Validate_sound_witness:
  "GetVolume sample_config (Volume_GetName sample_volume) = Some sample_volume
   \<and> ResolveSnapshotInterval sample_config ''data'' ''root''
       < ResolveSnapshotMinimumRetention sample_config ''data'' ''root''"
  using Validate_sound [OF sample_valid sample_members] by simp

text \<open>The first configured value, the subvolume before the volume before the global one.\<close>

fun first_set :: "'a \<Rightarrow> 'a list \<Rightarrow> 'a" where
  "first_set z [] = z"
| "first_set z (x # xs) = (if x \<noteq> z then x else first_set z xs)"

text \<open>Settings are resolved in one order: the value of the subvolume if it is set, else that
  of the volume, else the global one, else the default; and a validated configuration resolves
  each of its subvolumes so.\<close>

theorem Resolve_precedence:
  assumes "Validate c = None" "v \<in> set (Volumes c)" "s \<in> set (VSubvolumes v)"
  defines "vn \<equiv> Volume_GetName v" and "sn \<equiv> Subvolume_GetName s"
  shows "ResolveSnapshotInterval c vn sn = first_set 0
      [SSnapshotInterval s, VSnapshotInterval v, SnapshotInterval c, DefaultSnapshotInterval]
    \<and> ResolveSnapshotMinimumRetention c vn sn = first_set 0 [SSnapshotMinimumRetention s,
        VSnapshotMinimumRetention v, SnapshotMinimumRetention c, DefaultSnapshotMinimumRetention]
    \<and> ResolveSnapshotRetention c vn sn = first_set 0
        [SSnapshotRetention s, VSnapshotRetention v, SnapshotRetention c, DefaultSnapshotRetention]
    \<and> ResolveSnapshotRetentionInterval c vn sn = first_set 0 [SSnapshotRetentionInterval s,
        VSnapshotRetentionInterval v, SnapshotRetentionInterval c, DefaultSnapshotRetentionInterval]
    \<and> ResolveTimeFormat c vn sn = first_set [] [STimeFormat s, VTimeFormat v, TimeFormat c, DefaultTimeFormat]"
proof -
  have v: "distinct (map Volume_GetName (Volumes c))"
    "distinct (map Subvolume_GetName (VSubvolumes v))"
    using assms(1-3) by (auto simp: Validate_None)
  show ?thesis
    unfolding vn_def sn_def ResolveSnapshotInterval_def ResolveSnapshotMinimumRetention_def
      ResolveSnapshotRetention_def ResolveSnapshotRetentionInterval_def ResolveTimeFormat_def
      lookup_distinct(3) [OF v(1) assms(2) v(2) assms(3)]
    by (intro conjI) (simp_all only: first_set.simps default_defs, simp_all)
qed

lemma Resolve_precedence_witness:
  "ResolveSnapshotRetention sample_config ''data'' ''root'' = 604800000000000"
proof -
  have "first_set 0 [SSnapshotRetention sample_subvol, VSnapshotRetention sample_volume,
      SnapshotRetention sample_config, DefaultSnapshotRetention] = 604800000000000"
    by (simp add: sample_defs)
  moreover have "ResolveSnapshotRetention sample_config ''data'' ''root''
      = first_set 0 [SSnapshotRetention sample_subvol, VSnapshotRetention sample_volume,
          SnapshotRetention sample_config, DefaultSnapshotRetention]"
    using Resolve_precedence [OF sample_valid sample_members] by simp
  ultimately show ?thesis by simp
qed

section \<open>Mirrors\<close>

lemma set_map_filter: "set (List.map_filter f xs) = {y. \<exists>x\<in>set xs. f x = Some y}"
  by (induction xs) (auto simp: List.map_filter_simps split: option.splits)

text \<open>A subvolume is sent to exactly the configured mirrors that its volume or itself
  names, unless the subvolume excludes them; names without a mirror are ignored.\<close>

theorem ResolveMirrors_exactly:
  assumes "Validate c = None" "v \<in> set (Volumes c)" "s \<in> set (VSubvolumes v)"
  shows "set (ResolveMirrors c (Volume_GetName v) (Subvolume_GetName s))
    = {m. \<exists>n \<in> set (VMirrors v) \<union> set (SMirrors s) - set (SExcludeMirrors s). GetMirror c n = Some m}"
proof -
  have v: "distinct (map Volume_GetName (Volumes c))"
    "distinct (map Subvolume_GetName (VSubvolumes v))"
    using assms by (auto simp: Validate_None)
  have name: "GetMirror c n = Some m \<Longrightarrow> MName m = n" for n m
    by (auto simp: GetMirror_def find_Some_iff)
  show ?thesis
    unfolding ResolveMirrors_def lookup_distinct(3) [OF v(1) assms(2) v(2) assms(3)]
    by (auto simp: FilterExcludedMirrors_def IsMirrorExcluded_def set_map_filter list_ex_iff
        dest: name)
qed

lemma ResolveMirrors_exactly_witness:
  "set (ResolveMirrors sample_config ''data'' ''root'') = {}"
  using ResolveMirrors_exactly [OF sample_valid sample_members]
  by (simp add: sample_config_def NewDefaultConfig_def GetMirror_def)

section \<open>Defaults\<close>

text \<open>The base name of a path is never empty.\<close>

lemma last_split_not_Nil: "q \<noteq> [] \<Longrightarrow> last q \<noteq> c \<Longrightarrow> last (split_on c q) \<noteq> []"
proof (induction q)
  case (Cons x q)
  show ?case
  proof (cases "q = []")
    case False
    with Cons show ?thesis by (auto split: list.splits if_splits)
  qed (use Cons in auto)
qed simp

lemma Base_not_Nil [simp]: "Base p \<noteq> []"
proof -
  have "last (rtrim slash p) \<noteq> slash" if "rtrim slash p \<noteq> []"
  proof -
    have "dropWhile (\<lambda>x. x = slash) (rev p) \<noteq> []" using that by (simp add: rtrim_def)
    then show ?thesis
      using hd_dropWhile [of "\<lambda>x. x = slash" "rev p"] by (simp add: rtrim_def last_rev)
  qed
  then show ?thesis using last_split_not_Nil by (auto simp: Base_def Let_def)
qed

text \<open>The checks for a missing name can never fail: a volume or subvolume without a name
  takes the base name of its path, which is not empty even for an empty path.\<close>

theorem names_never_empty: "Volume_GetName v \<noteq> [] \<and> Subvolume_GetName s \<noteq> []"
  by (simp add: Volume_GetName_def Subvolume_GetName_def)

lemma Join_not_Nil: "d \<noteq> [] \<Longrightarrow> Join (d # ds) \<noteq> []"
proof -
  have u: "unsplit r (rev st) \<noteq> []" if "clean_stack r st" for r st
  proof (cases "rev st")
    case (Cons w ws)
    then have "w \<in> set st" by (metis list.set_intros(1) set_rev)
    with that have "w \<noteq> []" by (induction st) auto
    then show ?thesis using Cons by (cases ws) (auto simp: unsplit_def)
  qed (auto simp: unsplit_def)
  assume "d \<noteq> []"
  then have "Join (d # ds) = Clean (join_with slash (d # ds))" by (simp add: Join_def)
  then show "Join (d # ds) \<noteq> []" using Clean_stack u by metis
qed

text \<open>The defaults are consistent: a configuration that leaves all intervals and retentions
  to the defaults is valid exactly when names are unique and without colons and paths are
  given.\<close>

theorem default_config_valid:
  assumes "\<forall>v\<in>set vs. VSnapshotInterval v = 0 \<and> VSnapshotMinimumRetention v = 0
      \<and> VSnapshotRetention v = 0 \<and> VSnapshotRetentionInterval v = 0"
    and "\<forall>v\<in>set vs. \<forall>s\<in>set (VSubvolumes v). SSnapshotInterval s = 0
      \<and> SSnapshotMinimumRetention s = 0 \<and> SSnapshotRetention s = 0 \<and> SSnapshotRetentionInterval s = 0"
  shows "Validate (NewDefaultConfig\<lparr>Volumes := vs\<rparr>) = None \<longleftrightarrow>
    distinct (map Volume_GetName vs) \<and> (\<forall>v\<in>set vs. CHR '':'' \<notin> set (Volume_GetName v) \<and> VPath v \<noteq> []
      \<and> distinct (map Subvolume_GetName (VSubvolumes v))
      \<and> (\<forall>s\<in>set (VSubvolumes v). CHR '':'' \<notin> set (Subvolume_GetName s) \<and> SPath s \<noteq> []))"
proof -
  let ?c = "NewDefaultConfig\<lparr>Volumes := vs\<rparr>"
  have names: "Volume_GetName v \<noteq> []" "Subvolume_GetName s \<noteq> []" for v s
    by (simp_all add: Volume_GetName_def Subvolume_GetName_def)
  have "ValidateSubvolume ?c v s = None \<longleftrightarrow> CHR '':'' \<notin> set (Subvolume_GetName s) \<and> SPath s \<noteq> []"
    if d: "distinct (map Volume_GetName vs)" "v \<in> set vs"
      "distinct (map Subvolume_GetName (VSubvolumes v))" "s \<in> set (VSubvolumes v)" "VPath v \<noteq> []"
    for v s
  proof -
    have r: "with_subvol ?c (Volume_GetName v) (Subvolume_GetName s) z f = f v s" for z f
      using d by (intro lookup_distinct(3)) simp_all
    have z: "VSnapshotInterval v = 0" "VSnapshotMinimumRetention v = 0" "VSnapshotRetention v = 0"
      "VSnapshotRetentionInterval v = 0" "SSnapshotInterval s = 0" "SSnapshotMinimumRetention s = 0"
      "SSnapshotRetention s = 0" "SSnapshotRetentionInterval s = 0"
      using assms d by auto
    show ?thesis
      unfolding ValidateSubvolume_def Let_def ResolveSnapshotInterval_def
        ResolveSnapshotMinimumRetention_def ResolveSnapshotRetention_def
        ResolveSnapshotRetentionInterval_def ResolveSnapshotPath_def r
      using d(5) by (simp add: z names Join_not_Nil NewDefaultConfig_def default_defs)
  qed
  then show ?thesis
    by (auto simp: Validate_None Volume_Validate_def names split: if_splits)
qed

lemma default_config_valid_witness: "Validate (NewDefaultConfig\<lparr>Volumes := [sample_volume]\<rparr>) = None"
  by (subst default_config_valid)
    (simp_all, simp_all add: sample_volume_def Volume_GetName_def Subvolume_GetName_def sample_subvol_def)

end
