(* ===== verification/Sync.thy ===== *)
theory Sync
  imports Send Local SshDir Config
begin

text \<open>
  The managers that keep mirrors on local file systems up to date
  (\<^verbatim>\<open>pkg/cmd/syncmanager\<close>: \<^verbatim>\<open>syncmanager.go\<close>, \<^verbatim>\<open>local_subvolume.go\<close>,
  \<^verbatim>\<open>local_directory.go\<close>, the pruning of \<^verbatim>\<open>local_compressed.go\<close>) and the comparison of two
  snapshots (\<^verbatim>\<open>pkg/receive/diff.go\<close>). The goroutine that sends and the one that receives are
  run one after the other, with a pipe that holds all of the stream.
\<close>

section \<open>The environment\<close>

text \<open>
  What the program reads of a \<^verbatim>\<open>url.URL\<close>. \<^verbatim>\<open>uuid.Parse\<close>, the parsers of keys and the encoders of
  compressed streams are third-party code or tables; an encoder gives the bytes that it writes
  while the stream is copied and those that it writes when it is closed.
\<close>

record url =
  Scheme :: string
  Username :: "string option"
  Hostname :: string
  Port :: string
  UrlPath :: string

datatype encoder = GzipEncoder | LzwEncoder | ZstdEncoder

record 'w sync_env =
  sys :: "'w os"
  lib :: ext
  sortr :: sorter
  sleepr :: "'w \<Rightarrow> 'w"
  addrs :: "bytes \<Rightarrow> u64"
  url_Parse :: "string \<Rightarrow> gerr + url"
  uuid_Parse :: "string \<Rightarrow> gerr + uuid"
  uuid_Str :: "uuid \<Rightarrow> string"
  remote :: "'w net"
  current_user :: "('w, string) io"
  ParsePrivateKey :: "bytes \<Rightarrow> gerr + bytes"
  ParsePublicKey :: "bytes \<Rightarrow> gerr + bytes"
  format_touch :: "gotime \<Rightarrow> string"
  encode :: "encoder \<Rightarrow> bytes \<Rightarrow> bytes \<times> bytes"
  NewZstd :: "gerr option"
  map_order :: "(string \<times> uuid) list \<Rightarrow> (string \<times> uuid) list"
  verbosity :: int

record SyncConfig =
  SyncIdentifier :: string
  SyncSubvolumePath :: string
  SyncSnapshotDir :: string
  SyncSnapshotName :: string
  SyncMirrorPath :: string
  SyncMirrorFormat :: string
  SyncSSHUser :: string
  SyncSSHPassword :: string
  SyncSSHKeyFile :: string
  SyncSSHHostKey :: string

definition MirrorURL :: "'w sync_env \<Rightarrow> SyncConfig \<Rightarrow> gerr + url" where
  "MirrorURL env c = (case url_Parse env (SyncMirrorPath c) of
     Inl e \<Rightarrow> Inl e | Inr u \<Rightarrow> Inr (if Scheme u = [] then u\<lparr>Scheme := ''file''\<rparr> else u))"

datatype ManagerKind =
    LocalSubvolume | LocalDirectory | LocalCompressed | SSHSubvolume | SSHDirectory | SSHCompressed

definition manager_kind :: "'w sync_env \<Rightarrow> SyncConfig \<Rightarrow> gerr + ManagerKind" where
  "manager_kind env c = (case MirrorURL env c of
     Inl e \<Rightarrow> Inl e
   | Inr u \<Rightarrow>
       let f = SyncMirrorFormat c; scheme = Scheme u in
       if scheme = ''file'' then
         (if IsCompressed f then Inr LocalCompressed
          else if f = MirrorFormatSubvolume \<or> f = [] then Inr LocalSubvolume
          else if f = MirrorFormatDirectory then Inr LocalDirectory
          else Inl (ErrText ''unsupported local mirror format''))
       else if scheme = ''ssh'' then
         (if IsCompressed f then Inr SSHCompressed
          else if f = MirrorFormatSubvolume \<or> f = [] then Inr SSHSubvolume
          else if f = MirrorFormatDirectory then Inr SSHDirectory
          else Inl (ErrText ''unsupported ssh mirror format''))
       else Inl (ErrText ''unsupported mirror scheme''))"

text \<open>The managers of local mirrors take the path of the address.\<close>

definition NewLocalSubvolumeManager :: "'w sync_env \<Rightarrow> SyncConfig \<Rightarrow> ('w, string) io" where
  "NewLocalSubvolumeManager env c = andThen (lift_sum (MirrorURL env c)) (\<lambda>mirrorUrl. ok (UrlPath mirrorUrl))"

definition NewLocalDirectoryManager :: "'w sync_env \<Rightarrow> SyncConfig \<Rightarrow> ('w, string) io" where
  "NewLocalDirectoryManager env c = andThen (lift_sum (MirrorURL env c)) (\<lambda>mirrorUrl. ok (UrlPath mirrorUrl))"

definition NewLocalCompressedManager :: "'w sync_env \<Rightarrow> SyncConfig \<Rightarrow> ('w, string) io" where
  "NewLocalCompressedManager env c = andThen (lift_sum (MirrorURL env c)) (\<lambda>mirrorUrl. ok (UrlPath mirrorUrl))"

text \<open>The error text replaces the error (\<^verbatim>\<open>%s\<close>); a deferred call whose error is dropped.\<close>

definition replacing :: "string \<Rightarrow> ('w, 'a) io \<Rightarrow> ('w, 'a) io" where
  "replacing msg m w = (case m w of Some (Inl e, w) \<Rightarrow> Some (Inl (ErrText msg), w) | r \<Rightarrow> r)"

definition deferred :: "('w, 'a) io \<Rightarrow> ('w, 'b) io \<Rightarrow> ('w, 'a) io" where
  "deferred m d w = (case m w of
     None \<Rightarrow> None | Some (r, w) \<Rightarrow> (case d w of None \<Rightarrow> None | Some (_, w) \<Rightarrow> Some (r, w)))"

section \<open>Comparing snapshots\<close>

definition recv_pipe :: "'w os \<Rightarrow> fd \<Rightarrow> ('w, reader) io" where
  "recv_pipe os f w = map_option (\<lambda>(r, w). (Inr r, w)) (sys_ReadPipe os f w)"

definition temporarily_ro :: "'w kernel \<Rightarrow> bool \<Rightarrow> string \<Rightarrow> ('w, 'a) io \<Rightarrow> ('w, 'a) io" where
  "temporarily_ro k isReadOnly path m =
     (if isReadOnly then m
      else andThen (SetSubvolumeReadOnly k path True) (\<lambda>_.
        deferred m (SetSubvolumeReadOnly k path False)))"

definition parent_option :: "string \<Rightarrow> SendOption list" where
  "parent_option parent = (if parent \<noteq> [] then [SendWithParentRoot parent] else [])"

definition FindPathDiffOffset :: "'w sync_env \<Rightarrow> string \<Rightarrow> string \<Rightarrow> string \<Rightarrow> string \<Rightarrow> ('w, u64) io" where
  "FindPathDiffOffset env pathA pathB parentA parentB =
     (let os = sys env; k = kern os in
      andThen (IsSubvolumeReadOnly k pathA) (\<lambda>roA.
      andThen (IsSubvolumeReadOnly k pathB) (\<lambda>roB.
      temporarily_ro k roA pathA (temporarily_ro k roB pathB (
      andThen (SendToPipe os) (\<lambda>(optA, aStream).
      andThen (SendToPipe os) (\<lambda>(optB, bStream).
      andThen (result (Send_snapshot os (addrs env) pathA ([optA, SendWithoutData] @ parent_option parentA))) (\<lambda>errA.
      andThen (result (Send_snapshot os (addrs env) pathB ([optB, SendWithoutData] @ parent_option parentB))) (\<lambda>errB.
      andThen (recv_pipe os aStream) (\<lambda>a.
      andThen (recv_pipe os bStream) (\<lambda>b.
      andThen (lift_go (FindDiffOffset a b)) (\<lambda>(offset, err).
      case err of
        Some e \<Rightarrow> fail e
      | None \<Rightarrow> andThen (lift_sum errA) (\<lambda>_. andThen (lift_sum errB) (\<lambda>_. ok offset))))))))))))))"

section \<open>Mirrors that are subvolumes\<close>

definition mirror_dir :: "SyncConfig \<Rightarrow> string \<Rightarrow> string" where
  "mirror_dir c mirrorPath = Join [mirrorPath, SyncIdentifier c]"

definition checkDestinationSnapshotLocal :: "'w sync_env \<Rightarrow> SyncConfig \<Rightarrow> string \<Rightarrow> RootInfo \<Rightarrow> ('w, bool \<times> bool) io" where
  "checkDestinationSnapshotLocal env c mirrorPath snap =
     (let destination = Join [mirrorPath, SyncIdentifier c, Path snap] in
      andThen (result (sys_Stat (sys env) destination)) (\<lambda>r.
      case r of
        Inl e \<Rightarrow> if IsNotExist e then ok (False, False) else fail e
      | Inr _ \<Rightarrow>
          andThen (result (SubvolumeSearch (kern (sys env)) [SearchWithPath destination])) (\<lambda>r.
          case r of
            Inl e \<Rightarrow> if errors_is e ErrNotFound then ok (False, False)
                     else fail (Errorf ''error searching for subvolume'' e)
          | Inr subvol \<Rightarrow> ok (True, ReceivedUUID subvol = UUID snap))))"

definition parent_path :: "string \<Rightarrow> RootInfo option \<Rightarrow> string" where
  "parent_path dir parent = (case parent of None \<Rightarrow> [] | Some p \<Rightarrow> Join [dir, Name p])"

text \<open>The receiving end of a pipe: the stream is processed, and then the error of the sender.\<close>

definition transfer :: "'w sync_env \<Rightarrow> string \<Rightarrow> RootInfo option \<Rightarrow> string \<Rightarrow>
    (reader \<Rightarrow> 'w \<Rightarrow> (gerr option \<times> 'w) go) \<Rightarrow> ('w, unit) io" where
  "transfer env dir parent snapshotPath process =
     (let os = sys env in
      andThen (wrapping ''error creating send pipe'' (SendToPipe os)) (\<lambda>(pipeOpt, pipe).
      closing (kern os) pipe (
      andThen (result (wrapping ''error sending snapshot'' (Send_snapshot os (addrs env) snapshotPath
        ([pipeOpt, SendCompressedData] @ parent_option (parent_path dir parent))))) (\<lambda>sent.
      andThen (recv_pipe os pipe) (\<lambda>r.
      andThen (\<lambda>w. map_option (\<lambda>(e, w). (case e of None \<Rightarrow> Inr () | Some e \<Rightarrow> Inl e, w)) (process r w)) (\<lambda>_.
      lift_sum sent))))))"

definition syncSnapshot :: "'w sync_env \<Rightarrow> SyncConfig \<Rightarrow> string \<Rightarrow> RootInfo option \<Rightarrow> RootInfo \<Rightarrow> ('w, unit) io" where
  "syncSnapshot env c mirrorPath parent snap =
     (let destination = mirror_dir c mirrorPath;
          snapshotPath = Join [SyncSnapshotDir c, Name snap];
          destinationPath = Join [destination, Path snap];
          receiveOpts = [HonorEndCommand, To (local_receiver (sys env) (sleepr env) (addrs env) destination)]
      in andThen (checkDestinationSnapshotLocal env c mirrorPath snap) (\<lambda>(found, synced).
         if synced then ok ()
         else
           andThen (if found then
               andThen (wrapping ''error finding path diff offset'' (FindPathDiffOffset env snapshotPath destinationPath
                 (parent_path (SyncSnapshotDir c) parent)
                 (case parent of None \<Rightarrow> [] | Some p \<Rightarrow> Join [destination, Path p]))) (\<lambda>offset.
               ok (receiveOpts @ [FromOffset offset]))
             else ok receiveOpts) (\<lambda>receiveOpts.
           transfer env (SyncSnapshotDir c) parent snapshotPath
             (\<lambda>r. ProcessSendStream (lib env) r receiveOpts))))"

definition create_mirror :: "'w sync_env \<Rightarrow> string \<Rightarrow> ('w, unit) io" where
  "create_mirror env path =
     (let k = kern (sys env) in
      andThen (wrapping ''error checking if destination is btrfs'' (IsBtrfs k path)) (\<lambda>isBtrfs.
      if \<not> isBtrfs then fail (ErrText ''local destination is not a btrfs filesystem'')
      else wrapping ''error creating subvolume'' (CreateSubvolume k path)))"

definition ensureLocalMirrorPath :: "'w sync_env \<Rightarrow> SyncConfig \<Rightarrow> string \<Rightarrow> ('w, unit) io" where
  "ensureLocalMirrorPath env c mirrorPath =
     (let k = kern (sys env); path = mirror_dir c mirrorPath in
      andThen (result (sys_Stat (sys env) mirrorPath)) (\<lambda>r.
      andThen (case r of
          Inr _ \<Rightarrow> ok ()
        | Inl e \<Rightarrow> if IsNotExist e then
              andThen (create_mirror env mirrorPath) (\<lambda>_.
              wrapping ''error syncing filesystem'' (SyncFilesystem k mirrorPath))
            else fail (Errorf ''error accessing mirror path'' e)) (\<lambda>_.
      andThen (result (sys_Stat (sys env) path)) (\<lambda>r.
      case r of
        Inr _ \<Rightarrow> ok ()
      | Inl e \<Rightarrow> if IsNotExist e then andThen (create_mirror env path) (\<lambda>_. SyncFilesystem k path)
          else fail (Errorf ''error accessing mirror subvolume path'' e)))))"

fun sync_all :: "(RootInfo option \<Rightarrow> RootInfo \<Rightarrow> ('w, unit) io) \<Rightarrow> IncrementalSnapshot list \<Rightarrow> ('w, unit) io" where
  "sync_all sync [] = ok ()"
| "sync_all sync (s # ss) =
     andThen (sync (Parent s) (IncrementalSnapshot.Snapshot s)) (\<lambda>_. sync_all sync ss)"

definition SyncLocalSubvolume :: "'w sync_env \<Rightarrow> SyncConfig \<Rightarrow> string \<Rightarrow> RootInfo list \<Rightarrow> ('w, unit) io" where
  "SyncLocalSubvolume env c mirrorPath snapshots =
     andThen (ensureLocalMirrorPath env c mirrorPath) (\<lambda>_.
     sync_all (syncSnapshot env c mirrorPath) (fst (MapParents (sortr env) snapshots)))"

section \<open>Pruning mirrors that are subvolumes\<close>

text \<open>The name of a mirrored snapshot that the source no longer has.\<close>

definition expires :: "string \<Rightarrow> RootInfo list \<Rightarrow> RootInfo \<Rightarrow> bool" where
  "expires identifier snapshots info \<longleftrightarrow>
     \<not> (Deleted info \<or> FullPath info = [] \<or> \<not> HasPrefix (FullPath info) identifier)
     \<and> Name info \<noteq> identifier \<and> \<not> SnapshotSliceContains snapshots (Name info)"

definition expire_step :: "string \<Rightarrow> string \<Rightarrow> RootInfo list \<Rightarrow> string list RBTreeIterFunc" where
  "expire_step identifier destination snapshots a lastErr st =
     (let info = infos (fst st) a
      in Some (None, fst st, if expires identifier snapshots info
           then snd st @ [Join [destination, Name info]] else snd st))"

fun delete_paths :: "'w kernel \<Rightarrow> string list \<Rightarrow> ('w, unit) io" where
  "delete_paths k [] = ok ()"
| "delete_paths k (path # paths) =
     andThen (wrapping ''error deleting subvolume'' (DeleteSubvolume k path True)) (\<lambda>_. delete_paths k paths)"

definition pruneLocalMirror :: "'w sync_env \<Rightarrow> SyncConfig \<Rightarrow> string \<Rightarrow> RootInfo list \<Rightarrow> ('w, unit) io" where
  "pruneLocalMirror env c mirrorPath snapshots =
     (let k = kern (sys env); destination = mirror_dir c mirrorPath in
      andThen (wrapping ''error looking up information on mirror path''
        (SubvolumeSearch k [SearchWithPath mirrorPath])) (\<lambda>mirrorInfo.
      andThen (wrapping ''error building tree'' (build_tree_loop 3 k mirrorPath (sleepr env))) (\<lambda>(h, tree).
      andThen (lift_go (FilterFromRoot h tree (RootID mirrorInfo))) (\<lambda>(h, tree).
      andThen (lift_go (PreOrderIterate (expire_step (SyncIdentifier c) destination snapshots) tree (h, [])))
        (\<lambda>(_, h, expired). delete_paths k expired)))))"

section \<open>Mirrors that are directories\<close>

definition OffsetDirectory :: string where [simp]: "OffsetDirectory = ''.btrsync''"

definition dir_progress :: "'w os \<Rightarrow> string \<Rightarrow> ('w, u64 option) io" where
  "dir_progress os uuidFile =
     andThen (result (os_Open os uuidFile)) (\<lambda>r.
     case r of
       Inl e \<Rightarrow> if IsNotExist e then ok None else fail (ErrText ''failed to open uuid file'')
     | Inr f \<Rightarrow> andThen (sys_ReadAll os f) (\<lambda>s.
         andThen (lift_sum (Fscanf_d s)) (\<lambda>offset.
         closing (kern os) f (ok (Some offset)))))"

definition syncSnapshotDirectory :: "'w sync_env \<Rightarrow> SyncConfig \<Rightarrow> string \<Rightarrow> RootInfo option \<Rightarrow> RootInfo \<Rightarrow>
    ('w, unit) io" where
  "syncSnapshotDirectory env c destination parent snap =
     (let uuidFile = Join [destination, OffsetDirectory, uuid_Str env (UUID snap)];
          n = \<lparr>destPath = destination, offsetDirectory = OffsetDirectory, uuid_String = uuid_Str env\<rparr>
      in andThen (dir_progress (sys env) uuidFile) (\<lambda>progress.
         if progress = Some (- 2) then ok ()
         else transfer env (SyncSnapshotDir c) parent (Join [SyncSnapshotDir c, Name snap])
           (\<lambda>r w. map_option (\<lambda>(e, s). (e, snd s)) (ProcessSendStream (lib env) r
             [HonorEndCommand, To (directory_receiver (sys env) (lib env) n)] (0, w)))))"

definition SyncLocalDirectory :: "'w sync_env \<Rightarrow> SyncConfig \<Rightarrow> string \<Rightarrow> RootInfo list \<Rightarrow> ('w, unit) io" where
  "SyncLocalDirectory env c mirrorPath snapshots =
     (let path = mirror_dir c mirrorPath in
      andThen (replacing ''failed to create mirror directory'' (sys_MkdirAll (kern (sys env)) path 493)) (\<lambda>_.
      sync_all (syncSnapshotDirectory env c path) (fst (MapParents (sortr env) snapshots))))"

text \<open>The files of unknown names are kept; the entries of directories are passed over.\<close>

definition expired_uuid :: "'w sync_env \<Rightarrow> RootInfo list \<Rightarrow> string \<times> bool \<Rightarrow> bool" where
  "expired_uuid env snapshots file \<longleftrightarrow> \<not> snd file
     \<and> (case uuid_Parse env (fst file) of Inl _ \<Rightarrow> False | Inr u \<Rightarrow> \<not> SnapshotUUIDExists snapshots u)"

fun remove_files :: "'w os \<Rightarrow> (('w, unit) io \<Rightarrow> ('w, unit) io) \<Rightarrow> string list \<Rightarrow> ('w, unit) io" where
  "remove_files os onerr [] = ok ()"
| "remove_files os onerr (f # fs) = andThen (onerr (sys_Remove os f)) (\<lambda>_. remove_files os onerr fs)"

definition PruneLocalDirectory :: "'w sync_env \<Rightarrow> SyncConfig \<Rightarrow> string \<Rightarrow> RootInfo list \<Rightarrow> ('w, unit) io" where
  "PruneLocalDirectory env c mirrorPath snapshots =
     (let path = mirror_dir c mirrorPath in
      andThen (replacing ''failed to read offset directory'' (sys_ReadDir (sys env) (Join [path, OffsetDirectory]))) (\<lambda>files.
      remove_files (sys env) (replacing ''failed to remove expired offset file'')
        (map (\<lambda>f. Join [path, OffsetDirectory, fst f]) (filter (expired_uuid env snapshots) files))))"

section \<open>Pruning compressed mirrors\<close>

definition expired_stream :: "SyncConfig \<Rightarrow> RootInfo list \<Rightarrow> string \<times> bool \<Rightarrow> bool" where
  "expired_stream c snapshots file \<longleftrightarrow> \<not> snd file
     \<and> \<not> SnapshotSliceContains snapshots (TrimSuffix (fst file) (''.'' @ SyncMirrorFormat c))"

fun parse_uuids :: "'w sync_env \<Rightarrow> (string \<times> bool) list \<Rightarrow> gerr + uuid list" where
  "parse_uuids env [] = Inr []"
| "parse_uuids env (f # fs) =
     (if snd f then parse_uuids env fs
      else case uuid_Parse env (fst f) of
        Inl e \<Rightarrow> Inl (Errorf ''failed to parse uuid'' e)
      | Inr u \<Rightarrow> (case parse_uuids env fs of Inl e \<Rightarrow> Inl e | Inr us \<Rightarrow> Inr (u # us)))"

definition PruneLocalCompressed :: "'w sync_env \<Rightarrow> SyncConfig \<Rightarrow> string \<Rightarrow> RootInfo list \<Rightarrow> ('w, unit) io" where
  "PruneLocalCompressed env c mirrorPath snapshots =
     (let os = sys env; destination = mirror_dir c mirrorPath; uuiddir = Join [destination, OffsetDirectory] in
      andThen (wrapping ''failed to read destination directory'' (sys_ReadDir os destination)) (\<lambda>files.
      andThen (remove_files os (wrapping ''error deleting snapshot file'')
        (map (\<lambda>f. Join [destination, fst f]) (filter (expired_stream c snapshots) files))) (\<lambda>_.
      andThen (wrapping ''failed to read uuid directory'' (sys_ReadDir os uuiddir)) (\<lambda>uuids.
      andThen (lift_sum (parse_uuids env uuids)) (\<lambda>completed.
      remove_files os (wrapping ''failed to delete completion file'')
        (map (\<lambda>u. Join [uuiddir, uuid_Str env u])
          (filter (\<lambda>u. \<not> SnapshotUUIDExists snapshots u) completed)))))))"

section \<open>What is pruned\<close>



section \<open>Finished snapshots\<close>


definition sample_url :: url where
  "sample_url = \<lparr>Scheme = [], Username = None, Hostname = ''host'', Port = [], UrlPath = ''/backup''\<rparr>"

text \<open>A network that cannot be reached.\<close>

definition no_net :: "'w net" where
  "no_net = \<lparr>net_Dial = (\<lambda>a. fail (EnvErr ''down'')), NewClientConn = (\<lambda>c a k. fail (EnvErr ''down'')),
     ssh_Dial = (\<lambda>a k. fail (EnvErr ''down'')), NewSession = (\<lambda>c. fail (EnvErr ''down'')),
     CombinedOutput = (\<lambda>c cmd b w. None), RunOpen = (\<lambda>c cmd b w. None), CloseClient = (\<lambda>c. ok ()),
     IsPrint = (\<lambda>r. False)\<rparr>"

definition sample_sync_env :: "sample_world sync_env" where
  "sample_sync_env = \<lparr>sys = sample_os, lib = sample_ext, sortr = insertion_sort, sleepr = id,
     addrs = (\<lambda>_. 0), url_Parse = (\<lambda>s. Inr sample_url), uuid_Parse = (\<lambda>s. Inr (bytes_of_string s)),
     uuid_Str = (\<lambda>u. ''id''), remote = no_net, current_user = ok ''root'', ParsePrivateKey = Inr,
     ParsePublicKey = Inr, format_touch = (\<lambda>t. []), encode = (\<lambda>f b. (b, [])), NewZstd = None,
     map_order = (\<lambda>m. m), verbosity = 0\<rparr>"

lemma sample_sync_env_simps [simp]: "sys sample_sync_env = sample_os" "uuid_Str sample_sync_env u = ''id''"
  by (simp_all add: sample_sync_env_def)

definition sample_sync :: SyncConfig where
  "sample_sync = \<lparr>SyncIdentifier = ''data.root'', SyncSubvolumePath = ''/mnt/data'', SyncSnapshotDir = ''/snaps'',
     SyncSnapshotName = ''data.root'', SyncMirrorPath = ''/backup'', SyncMirrorFormat = ''directory'',
     SyncSSHUser = [], SyncSSHPassword = [], SyncSSHKeyFile = [], SyncSSHHostKey = []\<rparr>"


section \<open>A send that cannot start\<close>

text \<open>
  What holds of pipes: \<open>writer_open\<close> tells of which pipes the writing end is open. It is open
  in a new pipe and stays open when other files are opened, and reading does not end before
  it is closed.
\<close>

definition pipe_contract :: "'w os \<Rightarrow> ('w \<Rightarrow> fd \<Rightarrow> bool) \<Rightarrow> bool" where
  "pipe_contract os writer_open \<longleftrightarrow>
     (\<forall>w rfd wfd w'. sys_Pipe os w = Some (Inr (rfd, wfd), w') \<longrightarrow> writer_open w' rfd \<and> wfd \<noteq> 0)
     \<and> (\<forall>w p fl m r w' rfd. sys_OpenFile os p fl m w = Some (r, w') \<longrightarrow> writer_open w rfd \<longrightarrow> writer_open w' rfd)
     \<and> (\<forall>w rfd. writer_open w rfd \<longrightarrow> sys_ReadPipe os rfd w = None)"

text \<open>When the snapshot to send cannot be opened, a synchronisation does not return: the writing
  end of the pipe is only closed after the snapshot has been opened, so the receiver waits
  forever.
\<close>

theorem transfer_hangs:
  assumes "pipe_contract (sys env) writer_open"
    and "sys_Pipe (sys env) w = Some (Inr (rfd, wfd), w1)"
    and "sys_OpenFile (sys env) snapshotPath O_RDONLY ModeDir w1 = Some (Inl e, w2)"
  shows "transfer env dir None snapshotPath process w = None"
proof -
  have "writer_open w1 rfd" "wfd \<noteq> 0"
    using assms(1,2) unfolding pipe_contract_def by blast+
  moreover have "writer_open w2 rfd"
    using assms(1,3) \<open>writer_open w1 rfd\<close> unfolding pipe_contract_def by blast
  then have "sys_ReadPipe (sys env) rfd w2 = None"
    using assms(1) unfolding pipe_contract_def by blast
  moreover have "Send_snapshot (sys env) (addrs env) snapshotPath [SendToFile wfd, SendCompressedData] w1
      = Some (Inl e, w2)"
    by (rule send_leaves_pipe [where c = "set_args (\<lambda>a. a\<lparr>SendFlags := SendFlags a OR SendCompressed\<rparr>)
        (to_file wfd send_ctx0)", OF _ _ assms(3)])
      (simp_all add: send_option_def to_file_def set_args_def \<open>wfd \<noteq> 0\<close>)
  ultimately show ?thesis
    using assms(2)
    by (simp add: transfer_def Let_def SendToPipe_def andThen_def wrapping_def closing_def result_def
        recv_pipe_def parent_option_def parent_path_def ok_def)
qed

lemma transfer_hangs_witness:
  "transfer sample_sync_env ''/snaps'' None ''/snaps/gone'' (\<lambda>r w. Some (None, w)) (Map.empty, []) = None"
proof (rule transfer_hangs)
  show "pipe_contract (sys sample_sync_env) (\<lambda>w f. True)"
    by (simp add: pipe_contract_def) (simp add: sample_os_def ok_def)
  show "sys_Pipe (sys sample_sync_env) (Map.empty, []) = Some (Inr (5, 6), (Map.empty, []))"
    by (simp add: sample_os_def ok_def)
  show "sys_OpenFile (sys sample_sync_env) ''/snaps/gone'' O_RDONLY ModeDir (Map.empty, [])
      = Some (Inl (ErrNotExist ''/snaps/gone''), (Map.empty, ''/snaps/gone''))"
    by (simp add: sample_os_def sample_OpenFile_def)
qed

end
