(* ===== verification/SshSync.thy ===== *)
theory SshSync
  imports Sync
begin

text \<open>
  The managers of mirrors on remote hosts (\<^verbatim>\<open>pkg/cmd/syncmanager/ssh_subvolume.go\<close>,
  \<^verbatim>\<open>ssh_directory.go\<close>, and the SSH part of \<^verbatim>\<open>syncmanager_config.go\<close>). As in theory \<open>Sync\<close> the
  sender is run before the receiver.
\<close>

section \<open>Connecting\<close>

definition os_ReadFile :: "'w os \<Rightarrow> string \<Rightarrow> ('w, bytes) io" where
  "os_ReadFile os path = andThen (os_Open os path) (\<lambda>f. closing (kern os) f (
     andThen (sys_ReadAll os f) (\<lambda>s. ok (bytes_of_string s))))"

definition ssh_keys :: "'w sync_env \<Rightarrow> SyncConfig \<Rightarrow> ('w, ssh_auth list) io" where
  "ssh_keys env c =
     (if SyncSSHKeyFile c = [] then ok []
      else andThen (replacing ''failed to read ssh key file'' (os_ReadFile (sys env) (SyncSSHKeyFile c))) (\<lambda>data.
        andThen (replacing ''failed to parse ssh key file'' (lift_sum (ParsePrivateKey env data))) (\<lambda>signer.
        ok [PublicKeys signer])))"

definition ssh_host_key :: "'w sync_env \<Rightarrow> SyncConfig \<Rightarrow> ('w, bytes option) io" where
  "ssh_host_key env c =
     (if SyncSSHHostKey c = [] then ok None
      else andThen (replacing ''failed to parse ssh host key''
        (lift_sum (ParsePublicKey env (bytes_of_string (SyncSSHHostKey c))))) (\<lambda>key. ok (Some key)))"

definition SSHConfig :: "'w sync_env \<Rightarrow> SyncConfig \<Rightarrow> ('w, ssh_config) io" where
  "SSHConfig env c =
     andThen (lift_sum (MirrorURL env c)) (\<lambda>u.
     (let usr = (case Username u of Some name \<Rightarrow> name | None \<Rightarrow> SyncSSHUser c) in
      andThen (if usr = [] then current_user env else ok usr) (\<lambda>usr.
      andThen (ssh_keys env c) (\<lambda>keys.
      andThen (ssh_host_key env c) (\<lambda>key.
      ok \<lparr>ssh_User = usr,
          ssh_Auth = (if SyncSSHPassword c \<noteq> [] then [Password (SyncSSHPassword c)] else []) @ keys,
          FixedHostKey = key\<rparr>)))))"

definition dial_ssh :: "'w sync_env \<Rightarrow> SyncConfig \<Rightarrow> ('w, client) io" where
  "dial_ssh env c =
     andThen (lift_sum (MirrorURL env c)) (\<lambda>u.
     andThen (SSHConfig env c) (\<lambda>cfg.
     replacing ''failed to dial ssh server'' (ssh_Dial (remote env) (host_port (Hostname u) (Port u)) cfg)))"

definition NewSSHSubvolumeManager :: "'w sync_env \<Rightarrow> SyncConfig \<Rightarrow> ('w, client) io" where
  "NewSSHSubvolumeManager = dial_ssh"

definition NewSSHDirectoryManager :: "'w sync_env \<Rightarrow> SyncConfig \<Rightarrow> ('w, client) io" where
  "NewSSHDirectoryManager env c =
     andThen (lift_sum (MirrorURL env c)) (\<lambda>u.
     andThen (SSHConfig env c) (\<lambda>cfg.
     replacing ''failed to dial ssh server'' (Dial (remote env) (Hostname u) (Port u) cfg)))"

section \<open>Mirrors that are subvolumes\<close>

definition getLocalSnapshotPath :: "SyncConfig \<Rightarrow> RootInfo \<Rightarrow> string" where
  "getLocalSnapshotPath c snap = Join [SyncSnapshotDir c, Path snap]"

definition getRemoteSnapshotPath :: "SyncConfig \<Rightarrow> url \<Rightarrow> RootInfo \<Rightarrow> string" where
  "getRemoteSnapshotPath c u snap = Join [UrlPath u, SyncIdentifier c, Path snap]"

definition show_uuid_command :: "string \<Rightarrow> string" where
  "show_uuid_command path = ''btrfs subvolume show '' @ path @ '' | grep '' @ [CHR 0x27] @ ''Received UUID''
     @ [CHR 0x27] @ '' | awk '' @ [CHR 0x27] @ ''{print $3}'' @ [CHR 0x27]"

definition getRemoteReceivedUUID :: "'w sync_env \<Rightarrow> SyncConfig \<Rightarrow> url \<Rightarrow> client \<Rightarrow> RootInfo \<Rightarrow> ('w, uuid) io" where
  "getRemoteReceivedUUID env c u cl snap =
     andThen (run_session (remote env) cl (show_uuid_command (getRemoteSnapshotPath c u snap)) []
       (\<lambda>out. Errorf (''error running command on remote host: '' @ out))) (\<lambda>out.
     (let data = TrimSpace out in
      if data = ''-'' then ok NilUUID else lift_sum (uuid_Parse env data)))"

definition isRemoteSnapshotSynced :: "'w sync_env \<Rightarrow> SyncConfig \<Rightarrow> url \<Rightarrow> client \<Rightarrow> RootInfo \<Rightarrow> ('w, bool) io" where
  "isRemoteSnapshotSynced env c u cl snap =
     andThen (FileOrDirectoryExists (remote env) cl (getRemoteSnapshotPath c u snap)) (\<lambda>exists.
     if \<not> exists then ok False
     else andThen (getRemoteReceivedUUID env c u cl snap) (\<lambda>receivedUUID. ok (receivedUUID = UUID snap)))"

definition delete_stale :: "'w sync_env \<Rightarrow> client \<Rightarrow> string \<Rightarrow> ('w, unit) io" where
  "delete_stale env cl path =
     andThen (replacing ''failed to create ssh session'' (NewSession (remote env) cl)) (\<lambda>_.
     andThen (session_output (remote env) cl (''btrfs subvol del '' @ path) []
       (\<lambda>out e. ErrText ''failed to delete remote snapshot'')) (\<lambda>_. ok ()))"

text \<open>\<^verbatim>\<open>io.Copy\<close> reports the error with which the pipe ends.\<close>

definition copied :: "reader \<Rightarrow> string \<Rightarrow> ('w, unit) io" where
  "copied r msg = (if RErr r = EOF then ok () else fail (Errorf msg (RErr r)))"

definition receive_command :: "'w sync_env \<Rightarrow> string \<Rightarrow> string" where
  "receive_command env path =
     (if verbosity env \<ge> 3 then ''btrfs receive -v'' else ''btrfs receive'') @ '' -e '' @ Dir path"

definition run_receive :: "'w sync_env \<Rightarrow> client \<Rightarrow> string \<Rightarrow> bytes \<Rightarrow> ('w, unit) io" where
  "run_receive env cl cmd data w = map_option (\<lambda>(err, w).
     (case err of None \<Rightarrow> Inr () | Some e \<Rightarrow> Inl (Errorf ''error running btrfs receive'' e), w))
     (RunOpen (remote env) cl cmd data w)"

text \<open>The error of the remote command is returned first, then that of the sender.\<close>

definition syncBtrfs :: "'w sync_env \<Rightarrow> SyncConfig \<Rightarrow> url \<Rightarrow> client \<Rightarrow> RootInfo option \<Rightarrow> RootInfo \<Rightarrow> ('w, unit) io" where
  "syncBtrfs env c u cl parent snap =
     (let os = sys env; n = remote env; path = getRemoteSnapshotPath c u snap in
      andThen (replacing ''failed to check if remote snapshot is synced'' (isRemoteSnapshotSynced env c u cl snap)) (\<lambda>synced.
      if synced then ok ()
      else
        andThen (FileOrDirectoryExists n cl path) (\<lambda>exists.
        andThen (if exists then delete_stale env cl path else ok ()) (\<lambda>_.
        andThen (NewSession n cl) (\<lambda>_.
        andThen (wrapping ''error creating send pipe'' (SendToPipe os)) (\<lambda>(pipeOpt, pipe).
        andThen (result (wrapping ''error sending snapshot'' (Send_snapshot os (addrs env) (getLocalSnapshotPath c snap)
          ([pipeOpt, SendCompressedData]
            @ (case parent of None \<Rightarrow> [] | Some p \<Rightarrow> [SendWithParentRoot (getLocalSnapshotPath c p)]))))) (\<lambda>sent.
        andThen (recv_pipe os pipe) (\<lambda>r.
        andThen (run_receive env cl (receive_command env path) (Rest r)) (\<lambda>_.
        andThen (lift_sum sent) (\<lambda>_. copied r ''error copying send data to remote''))))))))))"

definition syncBtrsync :: "'w sync_env \<Rightarrow> SyncConfig \<Rightarrow> url \<Rightarrow> client \<Rightarrow> RootInfo option \<Rightarrow> RootInfo \<Rightarrow> ('w, unit) io" where
  "syncBtrsync = syncBtrfs"

definition SyncSSHSubvolume :: "'w sync_env \<Rightarrow> SyncConfig \<Rightarrow> url \<Rightarrow> client \<Rightarrow> RootInfo \<Rightarrow> RootInfo list \<Rightarrow> ('w, unit) io" where
  "SyncSSHSubvolume env c u cl sourceInfo snapshots =
     andThen (CommandExists (remote env) cl ''btrsync'') (\<lambda>exists.
     andThen (MkdirAll (remote env) cl (Dir (getRemoteSnapshotPath c u sourceInfo))) (\<lambda>_.
     sync_all (if exists then syncBtrsync env c u cl else syncBtrfs env c u cl)
       (fst (MapParents (sortr env) snapshots))))"

text \<open>The listing: the lines of \<^verbatim>\<open>btrfs subvol list -orR\<close>; the result is a map from names.\<close>

fun parse_listing :: "'w sync_env \<Rightarrow> string list \<Rightarrow> gerr + (string \<times> uuid) list" where
  "parse_listing env [] = Inr []"
| "parse_listing env (line # ls) =
     (if line = [] then parse_listing env ls
      else let parts = Fields line in
        if length parts < 11 then Inl (ErrText ''unexpected output from btrfs subvol list'')
        else case uuid_Parse env (parts ! 8) of
          Inl e \<Rightarrow> Inl (Errorf (''error parsing UUID'') e)
        | Inr uu \<Rightarrow> map_sum id (Cons (Base (parts ! 10), uu)) (parse_listing env ls))"

fun put_entry :: "string \<times> uuid \<Rightarrow> (string \<times> uuid) list \<Rightarrow> (string \<times> uuid) list" where
  "put_entry e [] = [e]"
| "put_entry e (x # xs) = (if fst x = fst e then e # xs else x # put_entry e xs)"

definition listRemoteSnapshots :: "'w sync_env \<Rightarrow> SyncConfig \<Rightarrow> url \<Rightarrow> client \<Rightarrow> RootInfo \<Rightarrow> ('w, (string \<times> uuid) list) io" where
  "listRemoteSnapshots env c u cl sourceInfo =
     andThen (run_session (remote env) cl (''btrfs subvol list -orR ''
         @ q (remote env) (Dir (getRemoteSnapshotPath c u sourceInfo))) []
       (\<lambda>out. Errorf (''error listing remote snapshots: '' @ out))) (\<lambda>out.
     lift_sum (map_sum id (\<lambda>es. foldl (\<lambda>m e. put_entry e m) [] es) (parse_listing env (scan_lines out))))"

definition delete_remote :: "'w sync_env \<Rightarrow> SyncConfig \<Rightarrow> url \<Rightarrow> client \<Rightarrow> string \<Rightarrow> ('w, unit) io" where
  "delete_remote env c u cl name =
     andThen (run_session (remote env) cl (''btrfs subvolume delete '' @ Join [UrlPath u, SyncIdentifier c, name]) []
       (\<lambda>out. Errorf (''failed to delete remote snapshot: '' @ out))) (\<lambda>_. ok ())"

fun each :: "('a \<Rightarrow> ('w, unit) io) \<Rightarrow> 'a list \<Rightarrow> ('w, unit) io" where
  "each f [] = ok ()"
| "each f (x # xs) = andThen (f x) (\<lambda>_. each f xs)"

text \<open>The order in which a map is traversed is not specified.\<close>

definition PruneSSHSubvolume :: "'w sync_env \<Rightarrow> SyncConfig \<Rightarrow> url \<Rightarrow> client \<Rightarrow> RootInfo \<Rightarrow> RootInfo list \<Rightarrow> ('w, unit) io" where
  "PruneSSHSubvolume env c u cl sourceInfo snapshots =
     andThen (listRemoteSnapshots env c u cl sourceInfo) (\<lambda>remoteSnapshots.
     each (\<lambda>(name, uu). if SnapshotUUIDExists snapshots uu then ok () else delete_remote env c u cl name)
       (map_order env remoteSnapshots))"

section \<open>Mirrors that are directories\<close>

definition remote_progress :: "'w sync_env \<Rightarrow> client \<Rightarrow> string \<Rightarrow> ('w, u64 option) io" where
  "remote_progress env cl uuidFile =
     andThen (result (ReadFile (remote env) cl uuidFile)) (\<lambda>r.
     case r of
       Inl e \<Rightarrow> if IsFileNotExist e then ok None else fail (ErrText ''failed to read snapshot progress file'')
     | Inr data \<Rightarrow> lift_sum (map_sum id Some (Fscanf_d data)))"

definition ssh_receiver_of :: "'w sync_env \<Rightarrow> client \<Rightarrow> string \<Rightarrow> 'w ssh_dir" where
  "ssh_receiver_of env cl destination = \<lparr>net = remote env, sshClient = cl, ssh_dest = destination,
     ssh_offsets = OffsetDirectory, ssh_uuid = uuid_Str env, touch_time = format_touch env, ssh_ext = lib env\<rparr>"

definition syncSnapshotSSH :: "'w sync_env \<Rightarrow> SyncConfig \<Rightarrow> client \<Rightarrow> string \<Rightarrow> RootInfo option \<Rightarrow> RootInfo \<Rightarrow> ('w, unit) io" where
  "syncSnapshotSSH env c cl destination parent snap =
     (let uuidFile = Join [destination, OffsetDirectory, uuid_Str env (UUID snap)] in
      andThen (remote_progress env cl uuidFile) (\<lambda>progress.
      if progress = Some (- 2) then ok ()
      else transfer env (SyncSnapshotDir c) parent (Join [SyncSnapshotDir c, Name snap])
        (\<lambda>r w. map_option (\<lambda>(e, s). (e, snd s)) (ProcessSendStream (lib env) r
          [HonorEndCommand, To (ssh_receiver (ssh_receiver_of env cl destination))] (0, w)))))"

definition SyncSSHDirectory :: "'w sync_env \<Rightarrow> SyncConfig \<Rightarrow> url \<Rightarrow> client \<Rightarrow> RootInfo list \<Rightarrow> ('w, unit) io" where
  "SyncSSHDirectory env c u cl snapshots =
     (let path = mirror_dir c (UrlPath u) in
      andThen (replacing ''failed to create mirror directory'' (MkdirAll (remote env) cl path)) (\<lambda>_.
      sync_all (syncSnapshotSSH env c cl path) (fst (MapParents (sortr env) snapshots))))"

definition prune_offset_file :: "'w sync_env \<Rightarrow> client \<Rightarrow> RootInfo list \<Rightarrow> string \<Rightarrow> string \<Rightarrow> ('w, unit) io" where
  "prune_offset_file env cl snapshots path file = (case uuid_Parse env file of
     Inl e \<Rightarrow> ok ()
   | Inr uu \<Rightarrow> if SnapshotUUIDExists snapshots uu then ok ()
       else replacing ''failed to remove offset file'' (RemoveFile (remote env) cl (Join [path, OffsetDirectory, file])))"

definition PruneSSHDirectory :: "'w sync_env \<Rightarrow> SyncConfig \<Rightarrow> url \<Rightarrow> client \<Rightarrow> RootInfo list \<Rightarrow> ('w, unit) io" where
  "PruneSSHDirectory env c u cl snapshots =
     (let path = mirror_dir c (UrlPath u) in
      andThen (replacing ''failed to list offset files'' (ReadDir (remote env) cl (Join [path, OffsetDirectory]))) (\<lambda>files.
      each (prune_offset_file env cl snapshots path) files))"

section \<open>What is pruned on a remote host\<close>

text \<open>A line of the listing, with a dash for a subvolume that was not received.\<close>

record listed =
  LId :: nat
  LGen :: nat
  LTop :: nat
  LUuid :: "uuid option"
  LPath :: string

definition uuid_field :: "'w sync_env \<Rightarrow> uuid option \<Rightarrow> string" where
  "uuid_field env uu = (case uu of None \<Rightarrow> ''-'' | Some u \<Rightarrow> uuid_Str env u)"

definition listing_words :: "'w sync_env \<Rightarrow> listed \<Rightarrow> string list" where
  "listing_words env e = [''ID'', decimal (LId e), ''gen'', decimal (LGen e), ''top'', ''level'', decimal (LTop e),
     ''received_uuid'', uuid_field env (LUuid e), ''path'', LPath e]"

definition listing :: "'w sync_env \<Rightarrow> listed list \<Rightarrow> string" where
  "listing env es = concat (map (\<lambda>e. join_with (CHR '' '') (listing_words env e) @ [CHR 0x0A]) es)"

definition word_ok :: "string \<Rightarrow> bool" where
  "word_ok w \<longleftrightarrow> w \<noteq> [] \<and> (\<forall>c\<in>set w. \<not> is_space c)"

definition listed_ok :: "'w sync_env \<Rightarrow> listed \<Rightarrow> bool" where
  "listed_ok env e \<longleftrightarrow> word_ok (LPath e) \<and> length (join_with (CHR '' '') (listing_words env e)) < 65536"

text \<open>The documented behaviour of the package \<^verbatim>\<open>uuid\<close>: a printed identifier is parsed back.\<close>

definition uuid_text :: "'w sync_env \<Rightarrow> bool" where
  "uuid_text env \<longleftrightarrow> (\<forall>u. word_ok (uuid_Str env u) \<and> uuid_Parse env (uuid_Str env u) = Inr u)
     \<and> (\<exists>e. uuid_Parse env ''-'' = Inl e)"

lemma fields_acc_last: "\<forall>c\<in>set w. \<not> is_space c \<Longrightarrow> acc @ w \<noteq> [] \<Longrightarrow> fields_acc acc w = [acc @ w]"
  by (induction w arbitrary: acc) auto

lemma fields_acc_word:
  "\<forall>c\<in>set w. \<not> is_space c \<Longrightarrow> acc @ w \<noteq> [] \<Longrightarrow>
    fields_acc acc (w @ CHR '' '' # s) = (acc @ w) # fields_acc [] s"
  by (induction w arbitrary: acc) (auto simp: is_space_def)

lemma Fields_join: "list_all word_ok ws \<Longrightarrow> Fields (join_with (CHR '' '') ws) = ws"
  unfolding Fields_def
proof (induction "CHR '' ''" ws rule: join_with.induct)
  case (2 w)
  then show ?case by (simp add: fields_acc_last word_ok_def)
next
  case (3 w v ws)
  then show ?case by (simp add: fields_acc_word word_ok_def)
qed simp

lemma word_ok_decimal: "word_ok (decimal n)"
proof -
  have "\<not> is_space c" if "is_digit c" for c
    using not_space_digit [OF that] by (simp add: is_space_def)
  then show ?thesis using decimal_digits [of n] by (auto simp: word_ok_def list_all_iff)
qed

lemma words_ok:
  assumes "uuid_text env" "listed_ok env e"
  shows "list_all word_ok (listing_words env e)"
proof -
  have "word_ok ''ID''" "word_ok ''gen''" "word_ok ''top''" "word_ok ''level''" "word_ok ''received_uuid''"
    "word_ok ''path''" "word_ok ''-''"
    by (simp_all add: word_ok_def is_space_def)
  moreover from this have "word_ok (uuid_field env (LUuid e))"
    using assms(1) by (simp add: uuid_field_def uuid_text_def split: option.splits)
  ultimately show ?thesis using assms(2) by (simp add: listing_words_def word_ok_decimal listed_ok_def)
qed

lemma set_join: "set (join_with c ws) \<subseteq> insert c (\<Union> (set ` set ws))"
  by (induction c ws rule: join_with.induct) auto

lemma last_join: "ws \<noteq> [] \<Longrightarrow> last ws \<noteq> [] \<Longrightarrow> last (join_with c ws) = last (last ws)"
proof (induction c ws rule: join_with.induct)
  case (3 c w v ws)
  have "join_with c (v # ws) \<noteq> []" using 3(3) by (cases ws) auto
  then show ?case using 3 by simp
qed simp_all

lemma split_lines:
  "\<forall>l\<in>set ls. CHR 0x0A \<notin> set l \<Longrightarrow>
    split_on (CHR 0x0A) (concat (map (\<lambda>l. l @ [CHR 0x0A]) ls)) = ls @ [[]]"
  by (induction ls) (simp_all add: split_on_append_sep)

lemma scan_lines_concat:
  assumes "\<forall>l\<in>set ls. CHR 0x0A \<notin> set l \<and> length l < 65536 \<and> (l \<noteq> [] \<longrightarrow> last l \<noteq> CHR 0x0D)"
  shows "scan_lines (concat (map (\<lambda>l. l @ [CHR 0x0A]) ls)) = ls"
proof -
  have "map (\<lambda>l. if l \<noteq> [] \<and> last l = CHR 0x0D then butlast l else l) ls = ls"
    using assms by (intro map_idI) auto
  moreover have "takeWhile (\<lambda>l. length l < 65536) ls = ls" using assms by (simp add: takeWhile_eq_all_conv)
  moreover have "split_on (CHR 0x0A) (concat (map (\<lambda>l. l @ [CHR 0x0A]) ls)) = ls @ [[]]"
    using assms by (intro split_lines) blast
  ultimately show ?thesis by (simp only: scan_lines_def Let_def last_snoc butlast_snoc simp_thms if_True)
qed

lemma scan_listing:
  assumes "uuid_text env" "list_all (listed_ok env) es"
  shows "scan_lines (listing env es) = map (\<lambda>e. join_with (CHR '' '') (listing_words env e)) es"
proof -
  let ?l = "\<lambda>e. join_with (CHR '' '') (listing_words env e)"
  have "CHR 0x0A \<notin> set (?l e) \<and> length (?l e) < 65536 \<and> (?l e \<noteq> [] \<longrightarrow> last (?l e) \<noteq> CHR 0x0D)"
    if "e \<in> set es" for e
  proof -
    have ok: "listed_ok env e" using assms(2) that by (simp add: list_all_iff)
    have w: "list_all word_ok (listing_words env e)" by (rule words_ok [OF assms(1) ok])
    have "CHR 0x0A \<notin> set (?l e)"
      using set_join [of "CHR '' ''" "listing_words env e"] w by (auto simp: list_all_iff word_ok_def is_space_def)
    moreover have "LPath e \<noteq> []" "\<not> is_space (last (LPath e))" using ok by (auto simp: listed_ok_def word_ok_def)
    then have "last (?l e) \<noteq> CHR 0x0D"
      using last_join [of "listing_words env e" "CHR '' ''"] by (auto simp: listing_words_def is_space_def)
    ultimately show ?thesis using ok by (simp add: listed_ok_def)
  qed
  then show ?thesis
    using scan_lines_concat [of "map ?l es"] by (simp add: listing_def o_def)
qed

lemma join_words_nonempty: "join_with (CHR '' '') (listing_words env e) \<noteq> []"
  by (simp add: listing_words_def)

lemma parse_line:
  assumes "uuid_text env" "listed_ok env e"
  shows "parse_listing env (join_with (CHR '' '') (listing_words env e) # ls) =
    (case LUuid e of
       None \<Rightarrow> (case uuid_Parse env ''-'' of Inl err \<Rightarrow> Inl (Errorf ''error parsing UUID'' err) | Inr u \<Rightarrow> undefined)
     | Some u \<Rightarrow> map_sum id (Cons (Base (LPath e), u)) (parse_listing env ls))"
proof -
  have f: "Fields (join_with (CHR '' '') (listing_words env e)) = listing_words env e"
    by (rule Fields_join [OF words_ok [OF assms]])
  have n: "length (listing_words env e) = 11" "listing_words env e ! 8 = uuid_field env (LUuid e)"
    "listing_words env e ! 10 = LPath e"
    by (simp_all add: listing_words_def)
  obtain err where "uuid_Parse env ''-'' = Inl err" using assms(1) by (auto simp: uuid_text_def)
  then show ?thesis
    using assms(1) by (auto simp: f n join_words_nonempty Let_def uuid_field_def uuid_text_def split: option.splits)
qed

lemma parse_listing_all:
  assumes "uuid_text env" "list_all (listed_ok env) es" "list_all (\<lambda>e. LUuid e \<noteq> None) es"
  shows "parse_listing env (map (\<lambda>e. join_with (CHR '' '') (listing_words env e)) es)
    = Inr (map (\<lambda>e. (Base (LPath e), the (LUuid e))) es)"
  using assms(2,3) by (induction es) (auto simp: parse_line [OF assms(1)] simp del: parse_listing.simps(2))

lemma parse_listing_none:
  assumes "uuid_text env" "list_all (listed_ok env) es" "\<exists>e\<in>set es. LUuid e = None"
  shows "\<exists>err. parse_listing env (map (\<lambda>e. join_with (CHR '' '') (listing_words env e)) es)
    = Inl (Errorf ''error parsing UUID'' err)"
proof -
  obtain err where u: "uuid_Parse env ''-'' = Inl err" using assms(1) by (auto simp: uuid_text_def)
  have "parse_listing env (map (\<lambda>e. join_with (CHR '' '') (listing_words env e)) es)
      = Inl (Errorf ''error parsing UUID'' err)"
    using assms(2,3) by (induction es)
      (auto simp: parse_line [OF assms(1)] u simp del: parse_listing.simps(2) split: option.splits)
  then show ?thesis by blast
qed

lemma put_entry_new: "fst e \<notin> fst ` set m \<Longrightarrow> put_entry e m = m @ [e]"
  by (induction m) auto

lemma put_entries: "distinct (map fst (m @ es)) \<Longrightarrow> foldl (\<lambda>m e. put_entry e m) m es = m @ es"
proof (induction es arbitrary: m)
  case (Cons e es)
  have "put_entry e m = m @ [e]" using Cons.prems by (intro put_entry_new) auto
  then show ?case using Cons.IH [of "m @ [e]"] Cons.prems by simp
qed simp

lemma each_filter:
  "each (\<lambda>x. if P x then ok () else f x) xs = each f (filter (\<lambda>x. \<not> P x) xs)"
  by (induction xs) auto

lemma each_map: "each f (map g xs) = each (\<lambda>x. f (g x)) xs"
  by (induction xs) simp_all

lemma list_then_prune:
  assumes "run_session (remote env) cl (''btrfs subvol list -orR ''
      @ q (remote env) (Dir (getRemoteSnapshotPath c u src))) [] (\<lambda>out. Errorf (''error listing remote snapshots: '' @ out)) w
    = Some (Inr out, w')"
  shows "PruneSSHSubvolume env c u cl src snaps w = (case parse_listing env (scan_lines out) of
      Inl e \<Rightarrow> Some (Inl e, w')
    | Inr es \<Rightarrow> each (delete_remote env c u cl) (map fst (filter (\<lambda>x. \<not> SnapshotUUIDExists snaps (snd x))
        (map_order env (foldl (\<lambda>m e. put_entry e m) [] es)))) w')"
proof -
  have "each (\<lambda>(name, uu). if SnapshotUUIDExists snaps uu then ok () else delete_remote env c u cl name) m
      = each (delete_remote env c u cl) (map fst (filter (\<lambda>x. \<not> SnapshotUUIDExists snaps (snd x)) m))" for m
    using each_filter [of "\<lambda>x. SnapshotUUIDExists snaps (snd x)" "\<lambda>x. delete_remote env c u cl (fst x)" m]
    by (simp add: each_map split_def)
  then show ?thesis
    using assms by (simp add: PruneSSHSubvolume_def listRemoteSnapshots_def andThen_def lift_sum_def split: sum.splits)
qed


text \<open>One subvolume below the mirror that was not received, which the listing shows with a dash,
  blocks pruning for good: the command fails before it deletes anything.\<close>

theorem remote_prune_blocked:
  assumes "uuid_text env" "list_all (listed_ok env) es" "\<exists>e\<in>set es. LUuid e = None"
    and "run_session (remote env) cl (''btrfs subvol list -orR ''
        @ q (remote env) (Dir (getRemoteSnapshotPath c u src))) [] (\<lambda>out. Errorf (''error listing remote snapshots: '' @ out)) w
      = Some (Inr (listing env es), w')"
  shows "\<exists>err. PruneSSHSubvolume env c u cl src snaps w = Some (Inl err, w')"
proof -
  obtain err where "parse_listing env (scan_lines (listing env es)) = Inl (Errorf ''error parsing UUID'' err)"
    unfolding scan_listing [OF assms(1,2)] using parse_listing_none [OF assms(1-3)] by blast
  then show ?thesis using list_then_prune [OF assms(4), of snaps] by simp
qed

section \<open>Finished snapshots\<close>

text \<open>What the receiver on a remote host has finished is not sent again, whatever its offset
  file held before: synchronising the snapshot reads that file and changes nothing.\<close>

theorem remote_finished_is_skipped:
  assumes "shell_contract (remote env) cl files"
    and "CurrentSubvolume ctx = Some sv" "SubvolUUID sv = UUID snap"
    and "path = Join [destination, OffsetDirectory, uuid_Str env (UUID snap)]" "shell_safe path"
  shows "\<exists>w' w''. ssh_recv (ssh_receiver_of env cl destination) ctx FinishSubvolume (k, w) = Some (None, k, w')
    \<and> syncSnapshotSSH env c cl destination parent snap w' = Some (Inr (), w'')
    \<and> files w'' = files w'"
proof -
  let ?n = "ssh_receiver_of env cl destination"
  have c: "shell_contract (net ?n) (sshClient ?n) files" using assms(1) by (simp add: ssh_receiver_of_def)
  have p: "ssh_currentOffsetPath ?n ctx = Some path"
    using assms(2-4) by (simp add: ssh_currentOffsetPath_def ssh_receiver_of_def)
  obtain w' where w': "write_remote_offset ?n ctx (- 2) w = Some (Inr (), w')"
    "files w' = (files w)(path \<mapsto> decimal (unat (- 2 :: u64)) @ [CHR 0x0A])"
    using write_remote_ok [OF c p assms(5)] by blast
  then have "files w' path = Some (decimal (unat (- 2 :: u64)) @ [CHR 0x0A])" by simp
  from ReadFile_exists [OF assms(1,5) this] obtain w'' where
    r: "ReadFile (remote env) cl path w' = Some (Inr (decimal (unat (- 2 :: u64)) @ [CHR 0x0A]), w'')" "files w'' = files w'"
    by blast
  have "Fscanf_d (decimal (unat (- 2 :: u64)) @ [CHR 0x0A]) = Inr (- 2)"
    using Fscanf_d_line [of "unat (- 2 :: u64)"] unsigned_less [of "- 2 :: u64"] by simp
  then have "remote_progress env cl path w' = Some (Inr (Some (- 2)), w'')"
    using r(1) by (simp only: remote_progress_def andThen_def result_def) (simp add: lift_sum_def)
  then have "syncSnapshotSSH env c cl destination parent snap w' = Some (Inr (), w'')"
    using assms(4) by (simp add: syncSnapshotSSH_def Let_def andThen_def ok_def)
  moreover have "ssh_recv ?n ctx FinishSubvolume (k, w) = Some (None, k, w')"
    using w'(1) by (simp add: ssh_recv_def returned_def writeFinishedOffset_def)
  ultimately show ?thesis using r(2) by blast
qed

section \<open>Instances\<close>

text \<open>Identifiers as hexadecimal digits behind a letter, and a host on which every command prints a listing.\<close>

definition unhex :: "char \<Rightarrow> nat" where
  "unhex c = (let n = of_char c in if n < 58 then n - 48 else n - 87)"

fun hex_bytes :: "string \<Rightarrow> bytes" where
  "hex_bytes (a # b # s) = of_nat (16 * unhex a + unhex b) # hex_bytes s"
| "hex_bytes s = []"

definition bytes_hex :: "bytes \<Rightarrow> string" where
  "bytes_hex u = concat (map (\<lambda>b. [hex_digit (unat b div 16), hex_digit (unat b mod 16)]) u)"

lemma unhex_digit: "d < 16 \<Longrightarrow> unhex (hex_digit d) = d"
  by (simp add: unhex_def hex_digit_def)

lemma hex_bytes_hex: "hex_bytes (bytes_hex u) = u"
proof (induction u)
  case (Cons b u)
  have "unat b < 256" using unsigned_less [of b] by simp
  then have "unat b div 16 < 16" "16 * (unat b div 16) + unat b mod 16 = unat b" by (simp_all add: less_mult_imp_div_less)
  then have "(of_nat (16 * unhex (hex_digit (unat b div 16)) + unhex (hex_digit (unat b mod 16))) :: byte) = b"
    by (simp add: unhex_digit del: of_nat_add of_nat_mult)
  then show ?case using Cons by (simp add: bytes_hex_def)
qed (simp add: bytes_hex_def)

lemma hex_digit_space: "d < 16 \<Longrightarrow> \<not> is_space (hex_digit d)"
proof -
  assume "d < 16"
  then have "48 \<le> (of_char (hex_digit d) :: nat)" by (simp add: hex_digit_def)
  then show ?thesis by (auto simp: is_space_def)
qed

definition listing_env :: "string \<Rightarrow> sample_world sync_env" where
  "listing_env out = sample_sync_env\<lparr>
     uuid_Parse := (\<lambda>s. if s = ''-'' then Inl (EnvErr ''invalid UUID'') else Inr (hex_bytes (tl s))),
     uuid_Str := (\<lambda>u. CHR ''u'' # bytes_hex u),
     remote := no_net\<lparr>NewSession := (\<lambda>c. ok ()), CombinedOutput := (\<lambda>c cmd b w. Some ((out, None), w))\<rparr>\<rparr>"

lemma listing_env_uuid: "uuid_text (listing_env out)"
proof -
  have "word_ok (CHR ''u'' # bytes_hex u)" for u
  proof -
    have "\<not> is_space c" if c: "c \<in> set (bytes_hex u)" for c
    proof -
      obtain b where "c = hex_digit (unat (b :: byte) div 16) \<or> c = hex_digit (unat b mod 16)"
        using c by (auto simp: bytes_hex_def)
      moreover have "unat b < 256" using unsigned_less [of b] by simp
      then have "unat b div 16 < 16" by (simp add: less_mult_imp_div_less)
      ultimately show ?thesis using hex_digit_space by fastforce
    qed
    then show ?thesis by (simp add: word_ok_def is_space_def)
  qed
  then show ?thesis by (simp add: uuid_text_def listing_env_def hex_bytes_hex)
qed

lemma listing_env_listing: "listing (listing_env out) es = listing (listing_env []) es"
proof -
  have "uuid_Str (listing_env out) = uuid_Str (listing_env [])" by (simp add: listing_env_def)
  then show ?thesis by (simp only: listing_def listing_words_def uuid_field_def)
qed

lemma listing_env_run:
  assumes "out = listing (listing_env []) es"
  shows "run_session (remote (listing_env out)) cl cmd [] onerr w = Some (Inr (listing (listing_env out) es), w)"
  unfolding listing_env_listing [of out] assms [symmetric]
  by (simp add: run_session_def session_output_def listing_env_def no_net_def ok_def andThen_def)

definition sample_listed :: listed where
  "sample_listed = \<lparr>LId = 256, LGen = 9, LTop = 5, LUuid = Some [1], LPath = ''backup/data.root/snap1''\<rparr>"

lemma decimal_samples: "decimal 256 = ''256''" "decimal 9 = ''9''" "decimal 5 = ''5''"
  by (simp_all add: decimal.simps digit_char_def) code_simp+

lemma sample_listed_ok:
  "listed_ok (listing_env out) sample_listed" "listed_ok (listing_env out) (sample_listed\<lparr>LUuid := None\<rparr>)"
proof -
  have "word_ok ''backup/data.root/snap1''" by (simp add: word_ok_def is_space_def)
  then show "listed_ok (listing_env out) sample_listed" "listed_ok (listing_env out) (sample_listed\<lparr>LUuid := None\<rparr>)"
    by (simp_all add: listed_ok_def listing_words_def sample_listed_def uuid_field_def listing_env_def
        decimal_samples bytes_hex_def)
qed


lemma remote_prune_blocked_witness:
  "\<exists>err. PruneSSHSubvolume (listing_env (listing (listing_env []) [sample_listed\<lparr>LUuid := None\<rparr>]))
      sample_sync sample_url 1 empty_info [] (Map.empty, []) = Some (Inl err, (Map.empty, []))"
proof -
  define out where "out = listing (listing_env []) [sample_listed\<lparr>LUuid := None\<rparr>]"
  have ok: "list_all (listed_ok (listing_env out)) [sample_listed\<lparr>LUuid := None\<rparr>]"
    "\<exists>e\<in>set [sample_listed\<lparr>LUuid := None\<rparr>]. LUuid e = None"
    using sample_listed_ok(2) by simp_all
  show ?thesis
    using remote_prune_blocked [OF listing_env_uuid ok listing_env_run [OF out_def]] unfolding out_def .
qed

text \<open>A local system on which every snapshot is a stream of one byte, next to the host of theory \<open>Ssh\<close>.\<close>

definition remote_os :: "sample_remote os" where
  "remote_os = \<lparr>kern = nop_kernel [], sys_OpenFile = (\<lambda>p f m. ok 3), sys_CloseFile = (\<lambda>f. ok ()),
     sys_Mkdir = (\<lambda>p m. ok ()), sys_Mknod = (\<lambda>p m d. ok ()), sys_Mkfifo = (\<lambda>p m. ok ()),
     sys_Socket = ok 4, sys_Bind = (\<lambda>f p. ok ()), sys_Symlink = (\<lambda>t p. ok ()), sys_Rename = (\<lambda>p q. ok ()),
     sys_Link = (\<lambda>t p. ok ()), sys_Remove = (\<lambda>p. ok ()), sys_ReadAll = (\<lambda>f. ok []),
     sys_WriteFile = (\<lambda>f d. ok ()), sys_Pwrite = (\<lambda>f d i. ok ()), sys_Setxattr = (\<lambda>p n d. ok ()),
     sys_Removexattr = (\<lambda>p n. ok ()), sys_Truncate = (\<lambda>p i. ok ()), sys_Chmod = (\<lambda>p m. ok ()),
     sys_Chown = (\<lambda>p u g. ok ()), sys_Chtimes = (\<lambda>p a m. ok ()), sys_Fallocate = (\<lambda>f m i j. ok ()),
     sys_Stat = (\<lambda>p. ok ()), sys_ReadDir = (\<lambda>p. ok []), sys_Pipe = ok (5, 6),
     sys_ReadPipe = (\<lambda>f w. Some (\<lparr>Rest = [1], RErr = EOF\<rparr>, w))\<rparr>"

definition remote_env :: "sample_remote sync_env" where
  "remote_env = \<lparr>sys = remote_os, lib = sample_ext, sortr = insertion_sort, sleepr = id, addrs = (\<lambda>_. 0),
     url_Parse = (\<lambda>s. Inr sample_url), uuid_Parse = (\<lambda>s. Inr (bytes_of_string s)), uuid_Str = (\<lambda>u. ''id''),
     remote = sample_net, current_user = ok ''root'', ParsePrivateKey = Inr, ParsePublicKey = Inr,
     format_touch = (\<lambda>t. []), encode = (\<lambda>f b. (b, [])), NewZstd = None, map_order = (\<lambda>m. m), verbosity = 0\<rparr>"

lemma remote_finished_is_skipped_witness:
  "\<exists>w' w''. ssh_recv (ssh_receiver_of remote_env 1 ''/backup'')
      \<lparr>CurrentOffset = 9, CurrentSubvolume = Some \<lparr>SubvolPath = ''snap'', SubvolUUID = NilUUID, SubvolCtransid = 5\<rparr>\<rparr>
      FinishSubvolume (0, Map.empty) = Some (None, 0, w')
    \<and> syncSnapshotSSH remote_env sample_sync 1 ''/backup'' None empty_info w' = Some (Inr (), w'') \<and> w'' = w'"
proof -
  have c: "shell_contract (remote remote_env) 1 id" using sample_net_contract by (simp add: remote_env_def)
  have p: "''/backup/.btrsync/id'' = Join [''/backup'', OffsetDirectory, uuid_Str remote_env (UUID empty_info)]"
    unfolding remote_env_def sync_env.simps by code_simp
  have s: "shell_safe ''/backup/.btrsync/id''" by code_simp
  show ?thesis
    using remote_finished_is_skipped [OF c, where snap = empty_info and ctx = "\<lparr>CurrentOffset = 9, CurrentSubvolume =
        Some \<lparr>SubvolPath = ''snap'', SubvolUUID = NilUUID, SubvolCtransid = 5\<rparr>\<rparr>", OF _ _ p s]
    by (simp add: empty_info_def)
qed

end
