(* ===== verification/Compressed.thy ===== *)
theory Compressed
  imports SshSync
begin

text \<open>
  The managers of mirrors that are compressed streams, local and remote
  (\<^verbatim>\<open>pkg/cmd/syncmanager/local_compressed.go\<close>, \<^verbatim>\<open>ssh_compressed.go\<close>); the pruning of local
  ones is in theory \<open>Sync\<close>. Sender, encoder and writer are run one after the other.
\<close>

section \<open>Encoders\<close>

text \<open>The nil encoder of any other format is closed, which panics; \<^verbatim>\<open>zlib\<close> is written like \<^verbatim>\<open>gzip\<close>.\<close>

definition new_encoder :: "'w sync_env \<Rightarrow> string \<Rightarrow> ('w, encoder option) io" where
  "new_encoder env fmt =
     (if fmt = MirrorFormatGzip then ok (Some GzipEncoder)
      else if fmt = MirrorFormatLzw then ok (Some LzwEncoder)
      else if fmt = MirrorFormatZlib then ok (Some GzipEncoder)
      else if fmt = MirrorFormatZstd then
        (case NewZstd env of None \<Rightarrow> ok (Some ZstdEncoder) | Some e \<Rightarrow> fail (ErrText ''failed to create zstd writer''))
      else ok None)"

definition stream_name :: "SyncConfig \<Rightarrow> string \<Rightarrow> RootInfo \<Rightarrow> string" where
  "stream_name c destination snap = Join [destination, Name snap @ ''.'' @ SyncMirrorFormat c]"

text \<open>The whole stream of a snapshot, sent without a parent, and the error of the sender.\<close>

definition sent_stream :: "'w sync_env \<Rightarrow> fd \<Rightarrow> SendOption \<Rightarrow> string \<Rightarrow> ('w, (gerr + unit) \<times> reader) io" where
  "sent_stream env pipe pipeOpt snapshotPath =
     andThen (result (wrapping ''error sending snapshot'' (Send_snapshot (sys env) (addrs env) snapshotPath
       [pipeOpt, SendCompressedData]))) (\<lambda>sent.
     andThen (recv_pipe (sys env) pipe) (\<lambda>r. ok (sent, r)))"

section \<open>Local mirrors\<close>

text \<open>
  What the encoder writes while the stream is copied to it, and what it writes when it is
  closed; the error of closing is dropped. \<open>encode\<close> gives both parts.
\<close>

definition copy_encoded :: "'w sync_env \<Rightarrow> fd \<Rightarrow> encoder option \<Rightarrow> reader \<Rightarrow> ('w, unit) io" where
  "copy_encoded env f enc r = (case enc of
     None \<Rightarrow> (\<lambda>w. panic)
   | Some enc \<Rightarrow> (let (written, flushed) = encode env enc (Rest r) in
       deferred (andThen (wrapping ''error copying to encoder'' (sys_WriteFile (sys env) f written)) (\<lambda>_.
           copied r ''error copying to encoder''))
         (sys_WriteFile (sys env) f flushed)))"

definition os_WriteFile :: "'w os \<Rightarrow> string \<Rightarrow> bytes \<Rightarrow> u32 \<Rightarrow> ('w, unit) io" where
  "os_WriteFile os path data perm =
     andThen (sys_OpenFile os path (O_WRONLY OR O_CREATE OR O_TRUNC) perm) (\<lambda>f.
     closing (kern os) f (sys_WriteFile os f data))"

text \<open>The error of the sender is the first in the channel.\<close>

definition write_stream :: "'w sync_env \<Rightarrow> SyncConfig \<Rightarrow> fd \<Rightarrow> string \<Rightarrow> ('w, unit) io" where
  "write_stream env c f snapshotPath =
     andThen (new_encoder env (SyncMirrorFormat c)) (\<lambda>enc.
     andThen (wrapping ''error creating send pipe'' (SendToPipe (sys env))) (\<lambda>(pipeOpt, pipe).
     closing (kern (sys env)) pipe (
     andThen (sent_stream env pipe pipeOpt snapshotPath) (\<lambda>(sent, r).
     andThen (result (copy_encoded env f enc r)) (\<lambda>written.
     andThen (lift_sum sent) (\<lambda>_. lift_sum written))))))"

definition completion_file :: "'w sync_env \<Rightarrow> string \<Rightarrow> ('w, unit) io" where
  "completion_file env uuidfile =
     andThen (replacing ''failed to create completion file directory''
       (sys_MkdirAll (kern (sys env)) (Dir uuidfile) 493)) (\<lambda>_.
     replacing ''failed to create completion file'' (os_WriteFile (sys env) uuidfile [] 420))"

definition syncSnapshotCompressed :: "'w sync_env \<Rightarrow> SyncConfig \<Rightarrow> string \<Rightarrow> RootInfo \<Rightarrow> ('w, unit) io" where
  "syncSnapshotCompressed env c destination snap =
     (let os = sys env; uuidfile = Join [destination, OffsetDirectory, uuid_Str env (UUID snap)] in
      andThen (result (sys_Stat os uuidfile)) (\<lambda>r.
      case r of
        Inr _ \<Rightarrow> ok ()
      | Inl e \<Rightarrow>
          if \<not> IsNotExist e then fail (ErrText ''failed to check for snapshot completion file'')
          else andThen (replacing ''failed to create destination file'' (os_Create os (stream_name c destination snap))) (\<lambda>f.
            closing (kern os) f (
              andThen (write_stream env c f (Join [SyncSnapshotDir c, Name snap])) (\<lambda>_.
              completion_file env uuidfile)))))"

definition SyncLocalCompressed :: "'w sync_env \<Rightarrow> SyncConfig \<Rightarrow> string \<Rightarrow> RootInfo list \<Rightarrow> ('w, unit) io" where
  "SyncLocalCompressed env c mirrorPath snapshots =
     (let path = mirror_dir c mirrorPath in
      andThen (replacing ''failed to create mirror directory'' (sys_MkdirAll (kern (sys env)) path 493)) (\<lambda>_.
      each (syncSnapshotCompressed env c path) (SortSnapshots (sortr env) snapshots SortAscending)))"

section \<open>Remote mirrors\<close>

definition NewSSHCompressedManager :: "'w sync_env \<Rightarrow> SyncConfig \<Rightarrow> ('w, client) io" where
  "NewSSHCompressedManager = dial_ssh"

text \<open>
  The encoder writes into a pipe that \<open>WriteFile\<close> reads. When no session can be opened nobody
  reads, and the encoder waits forever with its first byte; a command that fails is taken
  to have read its input.
\<close>

definition write_remote :: "'w sync_env \<Rightarrow> client \<Rightarrow> encoder option \<Rightarrow> string \<Rightarrow> reader \<Rightarrow> ('w, unit) io" where
  "write_remote env cl enc destination r = (case enc of
     None \<Rightarrow> (\<lambda>w. panic)
   | Some enc \<Rightarrow> (let (written, flushed) = encode env enc (Rest r) in
       (\<lambda>w. case NewSession (remote env) cl w of
          None \<Rightarrow> None
        | Some (Inl e, w') \<Rightarrow> if written @ flushed \<noteq> [] then None
            else Some (Inl (Errorf ''error writing to remote destination'' e), w')
        | Some (Inr _, w') \<Rightarrow>
            wrapping ''error writing to remote destination''
              (andThen (session_output (remote env) cl (''dd of='' @ q (remote env) destination) (written @ flushed)
                (failed_to ''write'' destination)) (\<lambda>_. ok ())) w')))"

definition write_remote_stream :: "'w sync_env \<Rightarrow> SyncConfig \<Rightarrow> client \<Rightarrow> string \<Rightarrow> string \<Rightarrow> ('w, unit) io" where
  "write_remote_stream env c cl destination snapshotPath =
     andThen (new_encoder env (SyncMirrorFormat c)) (\<lambda>enc.
     andThen (wrapping ''error creating send pipe'' (SendToPipe (sys env))) (\<lambda>(pipeOpt, pipe).
     closing (kern (sys env)) pipe (
     andThen (sent_stream env pipe pipeOpt snapshotPath) (\<lambda>(sent, r).
     andThen (result (write_remote env cl enc destination r)) (\<lambda>written.
     andThen (lift_sum sent) (\<lambda>_.
     andThen (copied r ''error copying to encoder'') (\<lambda>_. lift_sum written)))))))"

definition remote_completion_file :: "'w sync_env \<Rightarrow> client \<Rightarrow> string \<Rightarrow> ('w, unit) io" where
  "remote_completion_file env cl uuidfile =
     andThen (replacing ''failed to create completion file directory'' (MkdirAll (remote env) cl (Dir uuidfile))) (\<lambda>_.
     replacing ''failed to create completion file'' (WriteFile (remote env) cl uuidfile \<lparr>Rest = [], RErr = EOF\<rparr>))"

definition syncSnapshotSSHCompressed :: "'w sync_env \<Rightarrow> SyncConfig \<Rightarrow> client \<Rightarrow> string \<Rightarrow> RootInfo \<Rightarrow> ('w, unit) io" where
  "syncSnapshotSSHCompressed env c cl destination snap =
     (let uuidfile = Join [destination, OffsetDirectory, uuid_Str env (UUID snap)] in
      andThen (result (ReadFile (remote env) cl uuidfile)) (\<lambda>r.
      case r of
        Inr _ \<Rightarrow> ok ()
      | Inl e \<Rightarrow>
          if \<not> IsFileNotExist e then fail (ErrText ''failed to check for snapshot completion file'')
          else andThen (write_remote_stream env c cl (stream_name c destination snap) (Join [SyncSnapshotDir c, Name snap]))
            (\<lambda>_. remote_completion_file env cl uuidfile)))"

definition SyncSSHCompressed :: "'w sync_env \<Rightarrow> SyncConfig \<Rightarrow> url \<Rightarrow> client \<Rightarrow> RootInfo list \<Rightarrow> ('w, unit) io" where
  "SyncSSHCompressed env c u cl snapshots =
     (let path = mirror_dir c (UrlPath u) in
      andThen (replacing ''failed to create mirror directory'' (MkdirAll (remote env) cl path)) (\<lambda>_.
      each (syncSnapshotSSHCompressed env c cl path) (SortSnapshots (sortr env) snapshots SortAscending)))"

text \<open>The names are what \<^verbatim>\<open>ls\<close> prints, cut at white space; every name must be an identifier.\<close>

fun parse_all_uuids :: "'w sync_env \<Rightarrow> string list \<Rightarrow> gerr + uuid list" where
  "parse_all_uuids env [] = Inr []"
| "parse_all_uuids env (s # ss) = (case uuid_Parse env s of
     Inl e \<Rightarrow> Inl (Errorf ''failed to parse uuid'' e)
   | Inr uu \<Rightarrow> map_sum id (Cons uu) (parse_all_uuids env ss))"

definition PruneSSHCompressed :: "'w sync_env \<Rightarrow> SyncConfig \<Rightarrow> url \<Rightarrow> client \<Rightarrow> RootInfo list \<Rightarrow> ('w, unit) io" where
  "PruneSSHCompressed env c u cl snapshots =
     (let n = remote env; destination = mirror_dir c (UrlPath u); uuiddir = Join [destination, OffsetDirectory];
          expired = filter (\<lambda>f. \<not> SnapshotSliceContains snapshots (TrimSuffix f (''.'' @ SyncMirrorFormat c))) in
      andThen (wrapping ''failed to read destination directory'' (ReadDir n cl destination)) (\<lambda>files.
      andThen (each (\<lambda>f. wrapping ''error deleting snapshot file'' (RemoveFile n cl (Join [destination, f]))) (expired files)) (\<lambda>_.
      andThen (wrapping ''failed to read uuid directory'' (ReadDir n cl uuiddir)) (\<lambda>uuids.
      andThen (lift_sum (parse_all_uuids env uuids)) (\<lambda>completed.
      each (\<lambda>uu. wrapping ''failed to delete completion file'' (RemoveFile n cl (Join [uuiddir, uuid_Str env uu])))
        (filter (\<lambda>uu. \<not> SnapshotUUIDExists snapshots uu) completed))))))"

section \<open>What a remote mirror holds\<close>

text \<open>Sending a snapshot works, leaves the remote files alone and gives the stream \<open>data\<close>.\<close>

definition sends :: "'w sync_env \<Rightarrow> ('w \<Rightarrow> 'f) \<Rightarrow> string \<Rightarrow> bytes \<Rightarrow> bool" where
  "sends env files path data \<longleftrightarrow>
     (\<forall>w. \<exists>opt pipe w1 w2. SendToPipe (sys env) w = Some (Inr (opt, pipe), w1)
        \<and> sent_stream env pipe opt path w1 = Some (Inr (Inr (), \<lparr>Rest = data, RErr = EOF\<rparr>), w2)
        \<and> files w2 = files w)
     \<and> (\<forall>f w. files (sys_Close (kern (sys env)) f w) = files w)"

lemma write_remote_ok_file:
  assumes "shell_contract (remote env) cl files" "shell_safe p" "encode env enc (Rest r) = (a, b)"
  shows "\<exists>w'. write_remote env cl (Some enc) p r w = Some (Inr (), w')
    \<and> files w' = (files w)(p \<mapsto> string_of_bytes (a @ b))"
proof -
  obtain w1 where 1: "NewSession (remote env) cl w = Some (Inr (), w1)" "files w1 = files w"
    using contract_session [OF assms(1)] by blast
  obtain out w2 where "CombinedOutput (remote env) cl (''dd of='' @ q (remote env) p) (a @ b) w1 = Some ((out, None), w2)"
      "files w2 = (files w1)(p \<mapsto> string_of_bytes (a @ b))"
    using contract_dd [OF assms(1) q_word [OF assms(2)]] by blast
  then show ?thesis using 1 assms(3)
    by (simp add: write_remote_def session_output_def wrapping_def andThen_def ok_def)
qed

lemma write_remote_stream_ok:
  assumes "shell_contract (remote env) cl files" "shell_safe p" "sends env files path data"
    and "new_encoder env (SyncMirrorFormat c) = ok (Some enc)" "encode env enc data = (a, b)"
  shows "\<exists>w'. write_remote_stream env c cl p path w = Some (Inr (), w')
    \<and> files w' = (files w)(p \<mapsto> string_of_bytes (a @ b))"
proof -
  let ?r = "\<lparr>Rest = data, RErr = EOF\<rparr>"
  obtain opt pipe w1 w2 where s: "SendToPipe (sys env) w = Some (Inr (opt, pipe), w1)"
    "sent_stream env pipe opt path w1 = Some (Inr (Inr (), ?r), w2)" "files w2 = files w"
    and cl: "\<And>f w. files (sys_Close (kern (sys env)) f w) = files w"
    using assms(3) unfolding sends_def by metis
  obtain w3 where w3: "write_remote env cl (Some enc) p ?r w2 = Some (Inr (), w3)"
    "files w3 = (files w2)(p \<mapsto> string_of_bytes (a @ b))"
    using write_remote_ok_file [OF assms(1,2), of enc ?r a b w2] assms(5) by auto
  then have "write_remote_stream env c cl p path w = Some (Inr (), sys_Close (kern (sys env)) pipe w3)"
    using s by (simp add: write_remote_stream_def assms(4) andThen_def wrapping_def closing_def result_def
        copied_def lift_sum_def ok_def)
  then show ?thesis using w3(2) s(3) cl by simp
qed

lemma remote_completion_ok:
  assumes "shell_contract (remote env) cl files" "shell_safe p" "shell_safe (Dir p)"
  shows "\<exists>w'. remote_completion_file env cl p w = Some (Inr (), w') \<and> files w' = (files w)(p \<mapsto> [])"
proof -
  obtain w1 where 1: "MkdirAll (remote env) cl (Dir p) w = Some (Inr (), w1)" "files w1 = files w"
    using MkdirAll_ok [OF assms(1,3)] by blast
  obtain w2 where "WriteFile (remote env) cl p \<lparr>Rest = [], RErr = EOF\<rparr> w1 = Some (Inr (), w2)"
    "files w2 = (files w1)(p \<mapsto> [])"
    using WriteFile_ok [OF assms(1,2), of "\<lparr>Rest = [], RErr = EOF\<rparr>" w1] by (auto simp: string_of_bytes_def)
  then show ?thesis using 1 by (simp add: remote_completion_file_def replacing_def andThen_def)
qed

lemma completed_is_skipped:
  assumes "shell_contract (remote env) cl files" "uuidfile = Join [destination, OffsetDirectory, uuid_Str env (UUID snap)]"
    and "shell_safe uuidfile" "files w uuidfile = Some s"
  shows "\<exists>w'. syncSnapshotSSHCompressed env c cl destination snap w = Some (Inr (), w') \<and> files w' = files w"
proof -
  obtain w' where "ReadFile (remote env) cl uuidfile w = Some (Inr s, w')" "files w' = files w"
    using ReadFile_exists [OF assms(1,3,4)] by blast
  then show ?thesis
    using assms(2) by (simp add: syncSnapshotSSHCompressed_def Let_def andThen_def result_def ok_def)
qed


lemma length_enc_sendArgs: "length (enc_sendArgs a) = 72" "enc_sendArgs a \<noteq> []"
proof -
  show "length (enc_sendArgs a) = 72" by (simp add: enc_sendArgs_def)
  then show "enc_sendArgs a \<noteq> []" by auto
qed

lemma remote_env_sends: "sends remote_env id path [1]"
  by (simp add: sends_def remote_env_def remote_os_def SendToPipe_def sent_stream_def Send_snapshot_def
      send_option_def to_file_def set_args_def send_ctx0_def send_to_def callWriteIoctl_def nop_kernel_def
      recv_pipe_def andThen_def result_def wrapping_def closing_def ok_def lift_sum_def binary_Read_def ioctl_def Let_def length_enc_sendArgs)

definition gzip_config :: SyncConfig where
  "gzip_config = sample_sync\<lparr>SyncMirrorFormat := MirrorFormatGzip\<rparr>"


end
