(* ===== verification/Run.thy ===== *)
theory Run
  imports Compressed
begin

text \<open>
  The commands \<^verbatim>\<open>run\<close> and \<^verbatim>\<open>prune\<close> (\<^verbatim>\<open>pkg/cmd/run.go\<close>, \<^verbatim>\<open>pkg/cmd/prune.go\<close>): which snapshot
  and mirror managers they make of a configuration, what the functions that are put in the
  queue do, and in which order. How the queue runs them is an argument; theory \<open>Queue\<close> tells
  what it does.
\<close>

section \<open>What the managers are made of\<close>

definition snap_config :: "Config \<Rightarrow> Volume \<Rightarrow> Subvolume \<Rightarrow> SnapConfig" where
  "snap_config c vol subvol =
     (let volumeName = Volume_GetName vol; subvolName = Subvolume_GetName subvol
      in \<lparr>FullSubvolumePath = Join [VPath vol, SPath subvol],
          SnapshotDirectory = ResolveSnapshotPath c volumeName subvolName,
          SnapshotName = GetSnapshotName subvol volumeName,
          Interval = ResolveSnapshotInterval c volumeName subvolName,
          MinimumRetention = ResolveSnapshotMinimumRetention c volumeName subvolName,
          Retention = ResolveSnapshotRetention c volumeName subvolName,
          RetentionInterval = ResolveSnapshotRetentionInterval c volumeName subvolName,
          SnapTimeFormat = ResolveTimeFormat c volumeName subvolName\<rparr>)"

definition mirror_config :: "string \<Rightarrow> Config \<Rightarrow> Volume \<Rightarrow> Subvolume \<Rightarrow> Mirror \<Rightarrow> SyncConfig" where
  "mirror_config identifier c vol subvol mir =
     (let volumeName = Volume_GetName vol; subvolName = Subvolume_GetName subvol
      in \<lparr>SyncIdentifier = identifier,
          SyncSubvolumePath = Join [VPath vol, SPath subvol],
          SyncSnapshotDir = ResolveSnapshotPath c volumeName subvolName,
          SyncSnapshotName = GetSnapshotName subvol volumeName,
          SyncMirrorPath = MPath mir, SyncMirrorFormat = MFormat mir,
          SyncSSHUser = ResolveMirrorSSHUser c (MName mir),
          SyncSSHPassword = ResolveMirrorSSHPassword c (MName mir),
          SyncSSHKeyFile = ResolveMirrorSSHKeyFile c (MName mir),
          SyncSSHHostKey = ResolveMirrorSSHHostKey c (MName mir)\<rparr>)"

definition run_mirror_config :: "Config \<Rightarrow> Volume \<Rightarrow> Subvolume \<Rightarrow> Mirror \<Rightarrow> SyncConfig" where
  "run_mirror_config c vol subvol = mirror_config (GetSnapshotName subvol (Volume_GetName vol)) c vol subvol"

definition prune_mirror_config :: "Config \<Rightarrow> Volume \<Rightarrow> Subvolume \<Rightarrow> Mirror \<Rightarrow> SyncConfig" where
  "prune_mirror_config c vol subvol = mirror_config (Subvolume_GetName subvol) c vol subvol"

section \<open>Managers of mirrors\<close>

text \<open>A manager is its kind, its configuration, the address of its mirror, its connection and the source.\<close>

type_synonym manager = "ManagerKind \<times> SyncConfig \<times> url \<times> client \<times> SubvolInfo"
type_synonym 'w resolver = "string \<Rightarrow> string \<Rightarrow> string \<Rightarrow> 'w \<Rightarrow> (gerr + SubvolInfo) \<times> 'w"

text \<open>A local manager has no connection; its path is that of the address again.\<close>

definition connect :: "'w sync_env \<Rightarrow> SyncConfig \<Rightarrow> ManagerKind \<Rightarrow> ('w, client) io" where
  "connect env c kind = (case kind of
     SSHSubvolume \<Rightarrow> NewSSHSubvolumeManager env c
   | SSHDirectory \<Rightarrow> NewSSHDirectoryManager env c
   | SSHCompressed \<Rightarrow> NewSSHCompressedManager env c
   | LocalSubvolume \<Rightarrow> andThen (NewLocalSubvolumeManager env c) (\<lambda>_. ok 0)
   | LocalDirectory \<Rightarrow> andThen (NewLocalDirectoryManager env c) (\<lambda>_. ok 0)
   | LocalCompressed \<Rightarrow> andThen (NewLocalCompressedManager env c) (\<lambda>_. ok 0))"

definition NewManager :: "'w sync_env \<Rightarrow> 'w resolver \<Rightarrow> SyncConfig \<Rightarrow> ('w, manager) io" where
  "NewManager env resolveDetails c w =
     (case resolveDetails (SyncSubvolumePath c) (SyncSnapshotDir c) (SyncSnapshotName c) w of
        (Inl e, w) \<Rightarrow> Some (Inl (Errorf ''error resolving subvolume details'' e), w)
      | (Inr info, w) \<Rightarrow>
          (case MirrorURL env c of
             Inl e \<Rightarrow> Some (Inl e, w)
           | Inr u \<Rightarrow>
               (case manager_kind env c of
                  Inl e \<Rightarrow> Some (Inl e, w)
                | Inr kind \<Rightarrow> andThen (connect env c kind) (\<lambda>cl. ok (kind, c, u, cl, info)) w)))"

definition SyncManager :: "'w sync_env \<Rightarrow> manager \<Rightarrow> ('w, unit) io" where
  "SyncManager env m = (case m of (kind, c, u, cl, info) \<Rightarrow> (case kind of
     LocalSubvolume \<Rightarrow> SyncLocalSubvolume env c (UrlPath u) (Snapshots info)
   | LocalDirectory \<Rightarrow> SyncLocalDirectory env c (UrlPath u) (Snapshots info)
   | LocalCompressed \<Rightarrow> SyncLocalCompressed env c (UrlPath u) (Snapshots info)
   | SSHSubvolume \<Rightarrow> SyncSSHSubvolume env c u cl (RootInfo.truncate info) (Snapshots info)
   | SSHDirectory \<Rightarrow> SyncSSHDirectory env c u cl (Snapshots info)
   | SSHCompressed \<Rightarrow> SyncSSHCompressed env c u cl (Snapshots info)))"

definition PruneManager :: "'w sync_env \<Rightarrow> manager \<Rightarrow> ('w, unit) io" where
  "PruneManager env m = (case m of (kind, c, u, cl, info) \<Rightarrow> (case kind of
     LocalSubvolume \<Rightarrow> pruneLocalMirror env c (UrlPath u) (Snapshots info)
   | LocalDirectory \<Rightarrow> PruneLocalDirectory env c (UrlPath u) (Snapshots info)
   | LocalCompressed \<Rightarrow> PruneLocalCompressed env c (UrlPath u) (Snapshots info)
   | SSHSubvolume \<Rightarrow> PruneSSHSubvolume env c u cl (RootInfo.truncate info) (Snapshots info)
   | SSHDirectory \<Rightarrow> PruneSSHDirectory env c u cl (Snapshots info)
   | SSHCompressed \<Rightarrow> PruneSSHCompressed env c u cl (Snapshots info)))"

definition CloseManager :: "'w sync_env \<Rightarrow> manager \<Rightarrow> ('w, unit) io" where
  "CloseManager env m = (case m of (kind, c, u, cl, info) \<Rightarrow>
     if kind \<in> {SSHSubvolume, SSHDirectory, SSHCompressed} then CloseClient (remote env) cl else ok ())"

section \<open>The command run\<close>

text \<open>What is pushed to the queue, in this order.\<close>

definition snapshot_jobs :: "Config \<Rightarrow> (Volume \<times> Subvolume) list" where
  "snapshot_jobs c = concat (map (\<lambda>v. map (Pair v) (VSubvolumes v)) (filter (\<lambda>v. \<not> VDisabled v) (Volumes c)))"

definition sync_jobs :: "Config \<Rightarrow> (Volume \<times> Subvolume \<times> Mirror) list" where
  "sync_jobs c = concat (map (\<lambda>(v, s).
     map (\<lambda>m. (v, s, m)) (ResolveMirrors c (Volume_GetName v) (Subvolume_GetName s)))
     (filter (\<lambda>(v, s). \<not> SDisabled s) (snapshot_jobs c)))"

definition snapshot_job :: "sorter \<Rightarrow> 'w snap_env \<Rightarrow> 'w resolver \<Rightarrow> Config \<Rightarrow> Volume \<times> Subvolume \<Rightarrow> 'w \<Rightarrow>
    gerr option \<times> 'w" where
  "snapshot_job srt env resolveDetails c job w = (case job of (vol, subvol) \<Rightarrow>
     if SDisabled subvol then (None, w)
     else case New resolveDetails (snap_config c vol subvol) w of
       (Inl e, w) \<Rightarrow> (Some e, w)
     | (Inr manager, w) \<Rightarrow>
         (case EnsureMostRecentSnapshot env manager w of
            (Some e, w) \<Rightarrow> (Some e, w)
          | (None, w) \<Rightarrow> (case PruneSnapshots srt env manager w of (e, _, w) \<Rightarrow> (e, w))))"

definition sync_job :: "'w sync_env \<Rightarrow> 'w resolver \<Rightarrow> Config \<Rightarrow> Volume \<times> Subvolume \<times> Mirror \<Rightarrow> ('w, unit) io" where
  "sync_job env resolveDetails c job = (case job of (vol, subvol, mir) \<Rightarrow>
     if MDisabled mir then ok ()
     else andThen (NewManager env resolveDetails (run_mirror_config c vol subvol mir)) (\<lambda>m.
       deferred (andThen (SyncManager env m) (\<lambda>_. PruneManager env m)) (CloseManager env m)))"

text \<open>
  \<open>queue\<close> runs the functions that are pushed and gives the result of \<^verbatim>\<open>Wait\<close>.
\<close>

type_synonym 'w job = "'w \<Rightarrow> (gerr option \<times> 'w) go"

definition handleSnapshots :: "('w job list \<Rightarrow> 'w job) \<Rightarrow> sorter \<Rightarrow> 'w snap_env \<Rightarrow> 'w resolver \<Rightarrow> Config \<Rightarrow> 'w job" where
  "handleSnapshots queue srt env resolveDetails c =
     queue (map (\<lambda>j w. Some (snapshot_job srt env resolveDetails c j w)) (snapshot_jobs c))"

definition handleSync :: "('w job list \<Rightarrow> 'w job) \<Rightarrow> 'w sync_env \<Rightarrow> 'w resolver \<Rightarrow> Config \<Rightarrow> 'w job" where
  "handleSync queue env resolveDetails c =
     queue (map (\<lambda>j. returned (sync_job env resolveDetails c j)) (sync_jobs c))"

definition run_cmd :: "('w job list \<Rightarrow> 'w job) \<Rightarrow> 'w snap_env \<Rightarrow> 'w sync_env \<Rightarrow> 'w resolver \<Rightarrow> Config \<Rightarrow> 'w job" where
  "run_cmd queue senv env resolveDetails c w = do {
     (err, w) \<leftarrow> handleSnapshots queue (sortr env) senv resolveDetails c w;
     (case err of Some e \<Rightarrow> Some (Some e, w) | None \<Rightarrow> handleSync queue env resolveDetails c w) }"

text \<open>
  The daemon runs once at the start and at every tick, whatever the errors; \<open>n\<close> ticks are
  modelled. \<^verbatim>\<open>time.NewTicker\<close> panics when the interval is not positive.
\<close>

fun ticks :: "'w job \<Rightarrow> nat \<Rightarrow> 'w \<Rightarrow> 'w go" where
  "ticks r 0 w = Some w"
| "ticks r (Suc n) w = do { (_, w) \<leftarrow> r w; ticks r n w }"

definition daemon :: "Config \<Rightarrow> 'w job \<Rightarrow> nat \<Rightarrow> 'w \<Rightarrow> 'w go" where
  "daemon c r n w = do { (_, w) \<leftarrow> r w; if ScanInterval c \<le> 0 then panic else ticks r n w }"

text \<open>The daemon does not return; \<open>runDaemon\<close> is the flag.\<close>

definition NewRunCommand_RunE :: "bool \<Rightarrow> Config \<Rightarrow> 'w job \<Rightarrow> nat \<Rightarrow> 'w job" where
  "NewRunCommand_RunE runDaemon c r n w =
     (if runDaemon then map_option (Pair None) (daemon c r n w) else r w)"

section \<open>The command prune\<close>

fun prune_local :: "sorter \<Rightarrow> 'w snap_env \<Rightarrow> 'w resolver \<Rightarrow> Config \<Rightarrow> (Volume \<times> Subvolume) list \<Rightarrow> 'w \<Rightarrow>
    gerr option \<times> 'w" where
  "prune_local srt env resolveDetails c [] w = (None, w)"
| "prune_local srt env resolveDetails c ((vol, subvol) # jobs) w =
     (if SDisabled subvol then prune_local srt env resolveDetails c jobs w
      else case New resolveDetails (snap_config c vol subvol) w of
        (Inl e, w) \<Rightarrow> (Some e, w)
      | (Inr manager, w) \<Rightarrow>
          (case PruneSnapshots srt env manager w of
             (Some e, _, w) \<Rightarrow> (Some e, w)
           | (None, _, w) \<Rightarrow> prune_local srt env resolveDetails c jobs w))"

definition pruneLocalSnapshots :: "sorter \<Rightarrow> 'w snap_env \<Rightarrow> 'w resolver \<Rightarrow> Config \<Rightarrow> 'w \<Rightarrow> gerr option \<times> 'w" where
  "pruneLocalSnapshots srt env resolveDetails c = prune_local srt env resolveDetails c (snapshot_jobs c)"

fun prune_mirrors :: "'w sync_env \<Rightarrow> 'w resolver \<Rightarrow> Config \<Rightarrow>
    (Volume \<times> Subvolume \<times> Mirror) list \<Rightarrow> ('w, unit) io" where
  "prune_mirrors env resolveDetails c [] = ok ()"
| "prune_mirrors env resolveDetails c ((vol, subvol, mir) # jobs) =
     (if MDisabled mir then prune_mirrors env resolveDetails c jobs
      else andThen (NewManager env resolveDetails (prune_mirror_config c vol subvol mir)) (\<lambda>m.
        andThen (PruneManager env m) (\<lambda>_. prune_mirrors env resolveDetails c jobs)))"

definition pruneMirrors :: "'w sync_env \<Rightarrow> 'w resolver \<Rightarrow> Config \<Rightarrow> ('w, unit) io" where
  "pruneMirrors env resolveDetails c = prune_mirrors env resolveDetails c (sync_jobs c)"

definition prune_cmd :: "'w snap_env \<Rightarrow> 'w sync_env \<Rightarrow> 'w resolver \<Rightarrow> Config \<Rightarrow> 'w job" where
  "prune_cmd senv env resolveDetails c w =
     (case pruneLocalSnapshots (sortr env) senv resolveDetails c w of
        (Some e, w) \<Rightarrow> Some (Some e, w)
      | (None, w) \<Rightarrow> returned (pruneMirrors env resolveDetails c) w)"

section \<open>Properties\<close>

text \<open>The command prune looks for mirrors in the wrong place: for a subvolume without a snapshot
  name of its own, the identifier that names its directory in a mirror is another one than
  in the command run, while everything else is the same.
\<close>

theorem prune_uses_other_identifier:
  assumes "SSnapshotName s = []"
  shows "SyncIdentifier (prune_mirror_config c v s m) \<noteq> SyncIdentifier (run_mirror_config c v s m)"
    and "prune_mirror_config c v s m = (run_mirror_config c v s m)\<lparr>SyncIdentifier := Subvolume_GetName s\<rparr>"
proof -
  have "length (Volume_GetName v @ ''.'' @ Subvolume_GetName s) \<noteq> length (Subvolume_GetName s)" by simp
  then have "Volume_GetName v @ ''.'' @ Subvolume_GetName s \<noteq> Subvolume_GetName s" by metis
  then show "SyncIdentifier (prune_mirror_config c v s m) \<noteq> SyncIdentifier (run_mirror_config c v s m)"
    using assms by (simp add: prune_mirror_config_def run_mirror_config_def mirror_config_def
        GetSnapshotName_def Let_def)
qed (simp add: prune_mirror_config_def run_mirror_config_def mirror_config_def Let_def)

definition sample_mirror :: Mirror where
  "sample_mirror = \<lparr>MName = ''nas'', MPath = ''/backup'', MFormat = ''directory'', MSSHUser = [],
     MSSHPassword = [], MSSHKeyIdentityFile = [], MSSHHostKey = [], MDisabled = False\<rparr>"

lemma prune_uses_other_identifier_witness:
  "SyncIdentifier (prune_mirror_config sample_config sample_volume sample_subvol sample_mirror)
     \<noteq> SyncIdentifier (run_mirror_config sample_config sample_volume sample_subvol sample_mirror)"
  by (rule prune_uses_other_identifier(1)) (simp add: sample_subvol_def)

text \<open>The jobs are the subvolumes of the enabled volumes, each with each of its mirrors.\<close>

lemma set_snapshot_jobs:
  "(v, s) \<in> set (snapshot_jobs c) \<longleftrightarrow> v \<in> set (Volumes c) \<and> \<not> VDisabled v \<and> s \<in> set (VSubvolumes v)"
  by (auto simp: snapshot_jobs_def)

lemma set_sync_jobs:
  "(v, s, m) \<in> set (sync_jobs c) \<longleftrightarrow> (v, s) \<in> set (snapshot_jobs c) \<and> \<not> SDisabled s
     \<and> m \<in> set (ResolveMirrors c (Volume_GetName v) (Subvolume_GetName s))"
  by (force simp: sync_jobs_def)

definition volume_named :: "string \<Rightarrow> string \<Rightarrow> Volume" where
  "volume_named v s = sample_volume\<lparr>VName := v, VSubvolumes := [sample_subvol\<lparr>SName := s, SExcludeMirrors := []\<rparr>]\<rparr>"

definition colliding_config :: Config where
  "colliding_config = NewDefaultConfig\<lparr>Volumes := [volume_named ''a'' ''b.c'', volume_named ''a.b'' ''c'']\<rparr>"

lemma volume_named_fields [simp]:
  "v \<noteq> [] \<Longrightarrow> Volume_GetName (volume_named v s) = v"
  "VSubvolumes (volume_named v s) = [sample_subvol\<lparr>SName := s, SExcludeMirrors := []\<rparr>]"
  "VSnapshotInterval (volume_named v s) = 0" "VSnapshotMinimumRetention (volume_named v s) = 0"
  "VSnapshotRetention (volume_named v s) = 0" "VSnapshotRetentionInterval (volume_named v s) = 0"
  "VPath (volume_named v s) = ''/mnt/data''" "\<not> VDisabled (volume_named v s)"
  by (simp_all add: volume_named_def Volume_GetName_def sample_volume_def)

lemma colliding_valid: "Validate colliding_config = None"
  unfolding colliding_config_def
  by (subst default_config_valid) (simp_all add: sample_subvol_def Subvolume_GetName_def)

text \<open>Two subvolumes of a validated configuration can have the same identifier: names are joined
  with a dot that may also be part of a name. Their snapshots then go to the same directory
  of a mirror, where pruning one removes those of the other.
\<close>

theorem identifiers_collide:
  "\<exists>c v s v' s'. Validate c = None \<and> (v, s) \<in> set (snapshot_jobs c) \<and> (v', s') \<in> set (snapshot_jobs c)
    \<and> Volume_GetName v \<noteq> Volume_GetName v'
    \<and> (\<forall>m. SyncIdentifier (run_mirror_config c v s m) = SyncIdentifier (run_mirror_config c v' s' m))"
proof -
  let ?v = "volume_named ''a'' ''b.c''" and ?w = "volume_named ''a.b'' ''c''"
  let ?s = "sample_subvol\<lparr>SName := ''b.c'', SExcludeMirrors := []\<rparr>"
  let ?t = "sample_subvol\<lparr>SName := ''c'', SExcludeMirrors := []\<rparr>"
  have "(?v, ?s) \<in> set (snapshot_jobs colliding_config)" "(?w, ?t) \<in> set (snapshot_jobs colliding_config)"
    by (simp_all add: set_snapshot_jobs colliding_config_def)
  moreover have "SyncIdentifier (run_mirror_config colliding_config ?v ?s m)
      = SyncIdentifier (run_mirror_config colliding_config ?w ?t m)" for m
    by (simp add: run_mirror_config_def mirror_config_def Let_def GetSnapshotName_def
        Subvolume_GetName_def sample_subvol_def)
  moreover have "Volume_GetName ?v \<noteq> Volume_GetName ?w" by simp
  ultimately show ?thesis using colliding_valid by blast
qed

end
