(* ===== verification/Duration.thy ===== *)
theory Duration
  imports Config GoText "HOL-Library.Log_Nat"
begin

text \<open>
  Durations as text: the type \<^verbatim>\<open>Duration\<close> of the configuration
  (\<^verbatim>\<open>pkg/cmd/config/config.go\<close>), whose methods print and parse by \<^verbatim>\<open>time.Duration.String\<close> and
  \<^verbatim>\<open>time.ParseDuration\<close> of the standard library of Go 1.19, which are modelled first. The
  fraction of a number goes through the arithmetic of \<^verbatim>\<open>float64\<close>. The lemmas show that every
  duration is read back from each of its texts.
\<close>

section \<open>Floating point numbers\<close>

text \<open>
  Rounding of a positive number to 53 binary digits, half to even. The numbers below stay
  far from the limits of the exponent, or so far below one that nothing is left of them.
\<close>

definition round_even :: "rat \<Rightarrow> int" where
  "round_even x = (let n = \<lfloor>x\<rfloor>; r = x - of_int n
     in if r < 1 / 2 \<or> r = 1 / 2 \<and> even n then n else n + 1)"

definition exponent2 :: "rat \<Rightarrow> int" where
  "exponent2 x = (case quotient_of x of (n, d) \<Rightarrow>
     let k = int (floorlog 2 (nat n)) - int (floorlog 2 (nat d)) in if 2 powi k \<le> x then k else k - 1)"

definition fl :: "rat \<Rightarrow> rat" where
  "fl x = (if x = 0 then 0
     else let ulp = 2 powi (exponent2 x - 52) in of_int (round_even (x / ulp)) * ulp)"

lemma round_even_of_int [simp]: "round_even (of_int n) = n"
  by (simp add: round_even_def)

lemma fl_exact:
  assumes "n < 2 ^ 53"
  shows "fl (of_nat n) = of_nat n"
proof (cases "n = 0")
  case False
  define ulp :: rat where "ulp = 2 powi (exponent2 (of_nat n) - 52)"
  have "floorlog 2 n \<le> 53" using assms by (intro floorlog_leI) auto
  moreover have "quotient_of (of_nat n) = (int n, 1)" using quotient_of_int [of "int n"] by simp
  moreover have "floorlog 2 1 = 1" by (simp add: floorlog_def)
  ultimately have "exponent2 (of_nat n) \<le> 52" by (simp add: exponent2_def Let_def)
  then obtain m where m: "exponent2 (of_nat n) - 52 = - int m"
    using nonneg_int_cases [of "52 - exponent2 (of_nat n)"] by (metis diff_ge_0_iff_ge minus_diff_eq)
  then have ulp: "ulp = 1 / 2 ^ m" by (simp add: ulp_def power_int_minus divide_inverse)
  then have "of_nat n / ulp = (of_int (int (n * 2 ^ m)) :: rat)" by simp
  then have "round_even (of_nat n / ulp) = int (n * 2 ^ m)" by (metis round_even_of_int)
  then show ?thesis using False by (simp add: fl_def ulp flip: ulp_def)
qed (simp add: fl_def)

section \<open>Printing\<close>

text \<open>The digits of the fraction are put in front of the buffer, without the zeros at the end.\<close>

fun fmtFrac :: "nat \<Rightarrow> bool \<Rightarrow> nat \<Rightarrow> string \<Rightarrow> string \<times> nat" where
  "fmtFrac 0 printing v buf = (if printing then CHR ''.'' # buf else buf, v)"
| "fmtFrac (Suc i) printing v buf =
     (let digit = v mod 10; printing = (printing \<or> digit \<noteq> 0)
      in fmtFrac i printing (v div 10) (if printing then digit_char digit # buf else buf))"

definition fmtFixed :: "nat \<Rightarrow> string \<Rightarrow> nat \<Rightarrow> string" where
  "fmtFixed prec unit u = (case fmtFrac prec False u unit of (buf, u) \<Rightarrow> decimal u @ buf)"

definition micro :: string where "micro = [CHR 0xC2, CHR 0xB5, CHR ''s'']"

definition String_abs :: "nat \<Rightarrow> string" where
  "String_abs u =
     (if u < 10 ^ 9 then
        if u = 0 then ''0s''
        else if u < 10 ^ 3 then fmtFixed 0 ''ns'' u
        else if u < 10 ^ 6 then fmtFixed 3 micro u
        else fmtFixed 6 ''ms'' u
      else (case fmtFrac 9 False u ''s'' of (buf, u) \<Rightarrow>
        let buf = decimal (u mod 60) @ buf; u = u div 60
        in if u = 0 then buf
           else let buf = decimal (u mod 60) @ ''m'' @ buf; u = u div 60
             in if u = 0 then buf else decimal u @ ''h'' @ buf))"

definition time_String :: "duration \<Rightarrow> string" where
  "time_String d = (if d < 0 then ''-'' else []) @ String_abs (nat \<bar>d\<bar>)"

section \<open>Parsing\<close>

text \<open>Numbers are \<^verbatim>\<open>uint64\<close>; the bounds are checked before they can wrap around.\<close>

fun leadingInt :: "nat \<Rightarrow> string \<Rightarrow> (nat \<times> string) option" where
  "leadingInt x [] = Some (x, [])"
| "leadingInt x (c # s) =
     (if \<not> is_digit c then Some (x, c # s)
      else if x > 2 ^ 63 div 10 then None
      else let x = x * 10 + digit_value c in if x > 2 ^ 63 then None else leadingInt x s)"

fun leadingFraction :: "nat \<Rightarrow> rat \<Rightarrow> bool \<Rightarrow> string \<Rightarrow> nat \<times> rat \<times> string" where
  "leadingFraction x scale overflow [] = (x, scale, [])"
| "leadingFraction x scale overflow (c # s) =
     (if \<not> is_digit c then (x, scale, c # s)
      else if overflow \<or> x > (2 ^ 63 - 1) div 10 then leadingFraction x scale True s
      else let y = x * 10 + digit_value c
        in if y > 2 ^ 63 then leadingFraction x scale True s
           else leadingFraction y (fl (scale * 10)) False s)"

definition unitMap :: "string \<Rightarrow> nat option" where
  "unitMap = map_of [(''ns'', 1), (''us'', 10 ^ 3), (micro, 10 ^ 3),
     ([CHR 0xCE, CHR 0xBC, CHR ''s''], 10 ^ 3), (''ms'', 10 ^ 6), (''s'', 10 ^ 9),
     (''m'', 60 * 10 ^ 9), (''h'', 3600 * 10 ^ 9)]"

definition unit_char :: "char \<Rightarrow> bool" where
  "unit_char c \<longleftrightarrow> \<not> (c = CHR ''.'' \<or> is_digit c)"

definition invalid_duration :: gerr where "invalid_duration = EnvErr ''time: invalid duration''"

text \<open>One number with its unit: its nanoseconds and the rest of the text.\<close>

definition add_unit :: "nat \<Rightarrow> nat \<Rightarrow> rat \<Rightarrow> string \<Rightarrow> gerr + nat \<times> string" where
  "add_unit v f scale s =
     (let u = takeWhile unit_char s; s = dropWhile unit_char s
      in if u = [] then Inl (EnvErr ''time: missing unit in duration'')
         else case unitMap u of
           None \<Rightarrow> Inl (EnvErr ''time: unknown unit'')
         | Some unit \<Rightarrow>
             if v > 2 ^ 63 div unit then Inl invalid_duration
             else let v = v * unit;
                      v = (if f > 0 then v + nat \<lfloor>fl (fl (of_nat f) * fl (of_nat unit / scale))\<rfloor> else v)
               in if f > 0 \<and> v > 2 ^ 63 then Inl invalid_duration else Inr (v, s))"

definition parse_part :: "string \<Rightarrow> gerr + nat \<times> string" where
  "parse_part s =
     (if \<not> (hd s = CHR ''.'' \<or> is_digit (hd s)) then Inl invalid_duration
      else case leadingInt 0 s of
        None \<Rightarrow> Inl invalid_duration
      | Some (v, s') \<Rightarrow>
          let pre = (length s \<noteq> length s')
          in if s' \<noteq> [] \<and> hd s' = CHR ''.'' then
               (case leadingFraction 0 1 False (tl s') of (f, scale, s'') \<Rightarrow>
                  if \<not> pre \<and> length (tl s') = length s'' then Inl invalid_duration
                  else add_unit v f scale s'')
             else if \<not> pre then Inl invalid_duration
             else add_unit v 0 1 s')"

lemma leadingInt_rest: "leadingInt x s = Some (y, s') \<Longrightarrow> length s' \<le> length s"
  by (induction x s rule: leadingInt.induct) (fastforce simp: Let_def split: if_splits)+

lemma leadingFraction_rest: "leadingFraction x sc ov s = (y, sc', s') \<Longrightarrow> length s' \<le> length s"
  by (induction x sc ov s rule: leadingFraction.induct) (fastforce simp: Let_def split: if_splits)+

lemma add_unit_rest: "add_unit v f sc s = Inr (x, s') \<Longrightarrow> length s' < length s"
  using length_dropWhile_le [of unit_char "tl s"]
  by (cases s) (auto simp: add_unit_def Let_def less_Suc_eq_le split: if_splits option.splits)

lemma parse_part_rest:
  assumes "parse_part s = Inr (x, s')"
  shows "length s' < length s"
proof -
  obtain v r where r: "leadingInt 0 s = Some (v, r)"
    using assms by (auto simp: parse_part_def split: if_splits option.splits)
  obtain f sc q where q: "leadingFraction 0 1 False (tl r) = (f, sc, q)" by (metis prod_cases3)
  have "length r \<le> length s" "length q \<le> length r"
    using leadingInt_rest [OF r] leadingFraction_rest [OF q] by auto
  moreover have "length s' < length q \<or> length s' < length r"
    using assms r q by (auto simp: parse_part_def Let_def dest: add_unit_rest split: if_splits)
  ultimately show ?thesis by linarith
qed

text \<open>The sum is a \<^verbatim>\<open>uint64\<close>, which two parts of \<open>2 ^ 63\<close> wrap around.\<close>

function parse_parts :: "nat \<Rightarrow> string \<Rightarrow> gerr + nat" where
  "parse_parts d s =
     (if s = [] then Inr d
      else case parse_part s of
        Inl e \<Rightarrow> Inl e
      | Inr (v, s') \<Rightarrow>
          let d = (d + v) mod 2 ^ 64
          in if d > 2 ^ 63 then Inl invalid_duration else parse_parts d s')"
  by pat_completeness auto

termination by (relation "measure (\<lambda>(d, s). length s)") (auto dest: parse_part_rest)

declare parse_parts.simps [simp del]

definition ParseDuration :: "string \<Rightarrow> gerr + duration" where
  "ParseDuration orig =
     (let neg = (orig \<noteq> [] \<and> hd orig = CHR ''-'');
          s = (if orig \<noteq> [] \<and> (hd orig = CHR ''-'' \<or> hd orig = CHR ''+'') then tl orig else orig)
      in if s = ''0'' then Inr 0
         else if s = [] then Inl invalid_duration
         else case parse_parts 0 s of
           Inl e \<Rightarrow> Inl e
         | Inr d \<Rightarrow> if neg then Inr (- int d)
                    else if d > 2 ^ 63 - 1 then Inl invalid_duration
                    else Inr (int d))"

section \<open>Reading back\<close>

text \<open>The last \<open>i\<close> decimal digits of a number.\<close>

fun pad :: "nat \<Rightarrow> nat \<Rightarrow> string" where
  "pad 0 v = []"
| "pad (Suc i) v = pad i (v div 10) @ [digit_char (v mod 10)]"

lemma mod_10_Suc: "v mod 10 ^ Suc i = 10 * (v div 10 mod 10 ^ i) + v mod (10 :: nat)"
  by (simp add: mod_mult2_eq)

lemma length_pad [simp]: "length (pad i v) = i"
  by (induction i arbitrary: v) simp_all

lemma pad_digits: "list_all is_digit (pad i v)"
  by (induction i arbitrary: v) simp_all

lemma pad_value: "decimal_value (pad i v) = v mod 10 ^ i"
proof (induction i arbitrary: v)
  case (Suc i)
  show ?case
    using Suc [of "v div 10"] unfolding mod_10_Suc by (simp add: decimal_value_def)
qed (simp add: decimal_value_def)

lemma fmtFrac_True: "fmtFrac i True v buf = (CHR ''.'' # pad i v @ buf, v div 10 ^ i)"
  by (induction i arbitrary: v buf) (simp_all add: Let_def div_mult2_eq)

text \<open>The zeros at the end of the fraction are left out.\<close>

lemma fmtFrac_False:
  "\<exists>buf'. fmtFrac i False v buf = (buf', v div 10 ^ i)
    \<and> (if v mod 10 ^ i = 0 then buf' = buf
       else \<exists>n q. 0 < n \<and> n \<le> i \<and> buf' = CHR ''.'' # pad n q @ buf \<and> (q mod 10 ^ n) * 10 ^ (i - n) = v mod 10 ^ i)"
proof (induction i arbitrary: v)
  case (Suc i)
  show ?case
  proof (cases "v mod 10 = 0")
    case False
    then have "fmtFrac (Suc i) False v buf = (CHR ''.'' # pad (Suc i) v @ buf, v div 10 ^ Suc i)"
      by (simp add: fmtFrac_True div_mult2_eq)
    moreover have "v mod 10 ^ Suc i \<noteq> 0" using False unfolding mod_10_Suc by simp
    moreover have "\<exists>n q. 0 < n \<and> n \<le> Suc i \<and> CHR ''.'' # pad (Suc i) v @ buf = CHR ''.'' # pad n q @ buf
        \<and> (q mod 10 ^ n) * 10 ^ (Suc i - n) = v mod 10 ^ Suc i"
      by (rule exI [of _ "Suc i"], rule exI [of _ v]) simp
    ultimately show ?thesis by (metis (no_types, lifting))
  next
    case True
    obtain buf' where b: "fmtFrac i False (v div 10) buf = (buf', v div 10 div 10 ^ i)"
      "if v div 10 mod 10 ^ i = 0 then buf' = buf
       else \<exists>n q. 0 < n \<and> n \<le> i \<and> buf' = CHR ''.'' # pad n q @ buf \<and> (q mod 10 ^ n) * 10 ^ (i - n) = v div 10 mod 10 ^ i"
      using Suc.IH [of "v div 10"] by blast
    have m: "v mod 10 ^ Suc i = 10 * (v div 10 mod 10 ^ i)" using True mod_10_Suc [of v i] by simp
    have "fmtFrac (Suc i) False v buf = (buf', v div 10 ^ Suc i)"
      using True b(1) by (simp add: div_mult2_eq)
    moreover have "if v mod 10 ^ Suc i = 0 then buf' = buf
       else \<exists>n q. 0 < n \<and> n \<le> Suc i \<and> buf' = CHR ''.'' # pad n q @ buf
         \<and> (q mod 10 ^ n) * 10 ^ (Suc i - n) = v mod 10 ^ Suc i"
    proof (cases "v div 10 mod 10 ^ i = 0")
      case False
      then obtain n q where n: "0 < n" "n \<le> i" "buf' = CHR ''.'' # pad n q @ buf"
          "(q mod 10 ^ n) * 10 ^ (i - n) = v div 10 mod 10 ^ i"
        using b(2) by auto
      have "(q mod 10 ^ n) * 10 ^ (Suc i - n) = v mod 10 ^ Suc i"
        unfolding m using n(2,4) by (simp add: Suc_diff_le)
      moreover have "v mod 10 ^ Suc i \<noteq> 0" using False m by simp
      ultimately show ?thesis using n by (metis le_SucI)
    qed (use b(2) m in simp)
    ultimately show ?thesis by blast
  qed
qed simp

text \<open>The parts of a text.\<close>

abbreviation digits_from :: "nat \<Rightarrow> string \<Rightarrow> nat" where
  "digits_from x ds \<equiv> foldl (\<lambda>n c. 10 * n + digit_value c) x ds"

definition stops_number :: "string \<Rightarrow> bool" where
  "stops_number s \<longleftrightarrow> s = [] \<or> \<not> is_digit (hd s)"

lemma digits_from_mono: "x \<le> digits_from x ds"
proof (induction ds arbitrary: x)
  case (Cons c ds)
  show ?case using Cons [of "10 * x + digit_value c"] by simp
qed simp

lemma leadingInt_digits:
  "list_all is_digit ds \<Longrightarrow> stops_number s \<Longrightarrow> digits_from x ds \<le> 2 ^ 63
    \<Longrightarrow> leadingInt x (ds @ s) = Some (digits_from x ds, s)"
proof (induction ds arbitrary: x)
  case Nil
  then show ?case by (cases s) (auto simp: stops_number_def)
next
  case (Cons c ds)
  then have "10 * x + digit_value c \<le> 2 ^ 63"
    using digits_from_mono [of "10 * x + digit_value c" ds] by simp
  moreover from this have "x \<le> 2 ^ 63 div 10" by simp
  ultimately show ?case using Cons by (simp add: mult.commute)
qed

lemma leadingInt_decimal:
  "n \<le> 2 ^ 63 \<Longrightarrow> stops_number s \<Longrightarrow> leadingInt 0 (decimal n @ s) = Some (n, s)"
  using leadingInt_digits [OF decimal_digits, of s 0 n] decimal_value_decimal [of n]
  by (simp add: decimal_value_def)

lemma leadingFraction_digits:
  "list_all is_digit ds \<Longrightarrow> stops_number s \<Longrightarrow> digits_from x ds < 10 ^ 9 \<Longrightarrow> k + length ds \<le> 9
    \<Longrightarrow> leadingFraction x (10 ^ k) False (ds @ s) = (digits_from x ds, 10 ^ (k + length ds), s)"
proof (induction ds arbitrary: x k)
  case Nil
  then show ?case by (cases s) (auto simp: stops_number_def)
next
  case (Cons c ds)
  have b: "10 * x + digit_value c < 10 ^ 9"
    using digits_from_mono [of "10 * x + digit_value c" ds] Cons.prems(3) by simp
  have "(10 :: nat) ^ Suc k \<le> 10 ^ 9" by (rule power_increasing) (use Cons.prems(4) in simp_all)
  then have "(10 :: nat) ^ Suc k < 2 ^ 53" by simp
  from fl_exact [OF this] have "fl (10 ^ Suc k) = 10 ^ Suc k" by simp
  then have f: "fl (10 ^ k * 10) = 10 ^ Suc k" by (simp add: mult.commute)
  show ?case
    using Cons.IH [of "10 * x + digit_value c" "Suc k"] Cons.prems b f
    by (simp add: mult.commute)
qed

lemma scaled_exact:
  assumes "f * 10 ^ m < 2 ^ 53" "0 < f"
  shows "nat \<lfloor>fl (fl (of_nat f) * fl (of_nat (10 ^ (n + m)) / 10 ^ n))\<rfloor> = f * 10 ^ m"
proof -
  have "f \<le> f * 10 ^ m" "10 ^ m \<le> f * 10 ^ m" using assms(2) by simp_all
  then have "fl (of_nat f) = of_nat f" "fl (of_nat (10 ^ m)) = of_nat (10 ^ m)"
    using assms(1) by (meson fl_exact le_less_trans)+
  moreover have "of_nat (10 ^ (n + m)) / 10 ^ n = (of_nat (10 ^ m) :: rat)"
    by (simp add: power_add)
  moreover have "fl (of_nat f * of_nat (10 ^ m)) = of_nat (f * 10 ^ m)"
    using fl_exact [OF assms(1)] by simp
  ultimately have "fl (fl (of_nat f) * fl (of_nat (10 ^ (n + m)) / 10 ^ n)) = of_nat (f * 10 ^ m)"
    by simp
  then show ?thesis by (metis floor_of_nat nat_int)
qed

lemma unit_chars:
  assumes "u \<in> {''ns'', micro, ''ms'', ''s'', ''m'', ''h''}"
  shows "list_all unit_char u" "u \<noteq> []" "stops_number (u @ s)" "hd (u @ s) \<noteq> CHR ''.''" "u @ s \<noteq> []"
  using assms by (auto simp: micro_def unit_char_def is_digit_def stops_number_def)

lemma take_drop_units:
  assumes "list_all unit_char u" "s = [] \<or> \<not> unit_char (hd s)"
  shows "takeWhile unit_char (u @ s) = u" "dropWhile unit_char (u @ s) = s"
proof -
  have "takeWhile unit_char s = []" "dropWhile unit_char s = s" using assms(2) by (cases s; simp)+
  then show "takeWhile unit_char (u @ s) = u" "dropWhile unit_char (u @ s) = s"
    using assms(1) by (simp_all add: list_all_iff)
qed

lemma unitMap_simps:
  "unitMap ''ns'' = Some (10 ^ 0)" "unitMap micro = Some (10 ^ 3)" "unitMap ''ms'' = Some (10 ^ 6)"
  "unitMap ''s'' = Some (10 ^ 9)" "unitMap ''m'' = Some (60 * 10 ^ 9)" "unitMap ''h'' = Some (3600 * 10 ^ 9)"
  by (simp_all add: unitMap_def micro_def)

lemma decimal_hd: "is_digit (hd (decimal n @ s))" "decimal n @ s \<noteq> []"
  using decimal_digits [of n] decimal_nonempty [of n] by (cases "decimal n"; simp)+

lemma add_unit_whole:
  assumes "u \<in> {''ns'', micro, ''ms'', ''s'', ''m'', ''h''}" "unitMap u = Some k"
    and "s = [] \<or> is_digit (hd s)" "v \<le> 2 ^ 63 div k"
  shows "add_unit v 0 1 (u @ s) = Inr (v * k, s)"
proof -
  have "s = [] \<or> \<not> unit_char (hd s)" using assms(3) by (auto simp: unit_char_def)
  from take_drop_units [OF unit_chars(1) [OF assms(1)] this] show ?thesis
    using unit_chars(2) [OF assms(1)] assms(2,4) by (simp add: add_unit_def)
qed

text \<open>A whole number with a unit is read, whatever number follows.\<close>

lemma parse_whole:
  assumes "u \<in> {''ns'', micro, ''ms'', ''s'', ''m'', ''h''}" "unitMap u = Some k"
    and "s = [] \<or> is_digit (hd s)" "v \<le> 2 ^ 63 div k"
  shows "parse_part (decimal v @ u @ s) = Inr (v * k, s)"
proof -
  have "v \<le> 2 ^ 63" using assms(4) div_le_dividend le_trans by blast
  from leadingInt_decimal [OF this unit_chars(3) [OF assms(1)]] show ?thesis
    using add_unit_whole [OF assms] decimal_hd unit_chars(4) [OF assms(1)]
    by (simp add: parse_part_def Let_def)
qed

text \<open>A fixed point number as it is printed is read exactly.\<close>

lemma parse_fixed:
  assumes "u \<in> {''ns'', micro, ''ms'', ''s''}" "unitMap u = Some (10 ^ p)" "p \<le> 9"
    and "v * 10 ^ p + x mod 10 ^ p \<le> 2 ^ 63"
  shows "parse_part (decimal v @ fst (fmtFrac p False x u)) = Inr (v * 10 ^ p + x mod 10 ^ p, [])"
proof -
  have u: "u \<in> {''ns'', micro, ''ms'', ''s'', ''m'', ''h''}" using assms(1) by blast
  have v: "v \<le> 2 ^ 63 div 10 ^ p" using assms(4) by (simp add: less_eq_div_iff_mult_less_eq)
  then have v': "v \<le> 2 ^ 63" using div_le_dividend le_trans by blast
  obtain buf where b: "fst (fmtFrac p False x u) = buf" "if x mod 10 ^ p = 0 then buf = u
      else \<exists>n q. 0 < n \<and> n \<le> p \<and> buf = CHR ''.'' # pad n q @ u \<and> (q mod 10 ^ n) * 10 ^ (p - n) = x mod 10 ^ p"
    using fmtFrac_False [of p x u] by fastforce
  show ?thesis
  proof (cases "x mod 10 ^ p = 0")
    case True
    then show ?thesis using parse_whole [OF u assms(2), of "[]" v] v b by simp
  next
    case False
    then obtain n q where n: "0 < n" "n \<le> p" "buf = CHR ''.'' # pad n q @ u"
      "(q mod 10 ^ n) * 10 ^ (p - n) = x mod 10 ^ p" using b(2) by auto
    define f where "f = q mod 10 ^ n"
    have f0: "0 < f" using n(4) False unfolding f_def by (metis mult_0 neq0_conv)
    have "x mod 10 ^ p < 10 ^ p" by simp
    also have "(10 :: nat) ^ p \<le> 10 ^ 9" by (rule power_increasing) (use assms(3) in simp_all)
    finally have f9: "f * 10 ^ (p - n) < 10 ^ 9" unfolding n(4) [symmetric] f_def .
    then have "f < 10 ^ 9" by (rule le_less_trans [rotated]) simp
    then have lf: "leadingFraction 0 1 False (pad n q @ u) = (f, 10 ^ n, u)"
      using leadingFraction_digits [OF pad_digits, of u 0 n q 0] unit_chars(3) [OF u, of "[]"]
        pad_value [of n q] n(2) assms(3) by (simp add: decimal_value_def f_def)
    have "f * 10 ^ (p - n) < 2 ^ 53" using f9 by simp
    from scaled_exact [OF this f0, of n]
    have "nat \<lfloor>fl (fl (of_nat f) * fl (of_nat (10 ^ p) / 10 ^ n))\<rfloor> = x mod 10 ^ p"
      using n(2,4) by (simp add: f_def)
    moreover have tw: "takeWhile unit_char (u @ []) = u" "dropWhile unit_char (u @ []) = []"
      by (rule take_drop_units [OF unit_chars(1) [OF u]], simp)+
    ultimately have "add_unit v f (10 ^ n) (u @ []) = Inr (v * 10 ^ p + x mod 10 ^ p, [])"
      using unit_chars(2) [OF u] assms(2,4) v f0 unfolding add_unit_def tw by simp
    moreover have "leadingInt 0 (decimal v @ CHR ''.'' # pad n q @ u) = Some (v, CHR ''.'' # pad n q @ u)"
      by (rule leadingInt_decimal [OF v']) (simp add: stops_number_def is_digit_def)
    ultimately show ?thesis
      using lf decimal_hd n(1) by (simp add: parse_part_def b(1) n(3))
  qed
qed

lemma parse_parts_step:
  assumes "parse_part s = Inr (v, s')" "s \<noteq> []" "d + v \<le> 2 ^ 63"
  shows "parse_parts d s = parse_parts (d + v) s'"
  using assms by (subst parse_parts.simps) simp

lemma parse_parts_Nil [simp]: "parse_parts d [] = Inr d"
  by (simp add: parse_parts.simps)

lemma parse_parts_fixed:
  assumes "u \<in> {''ns'', micro, ''ms'', ''s''}" "unitMap u = Some (10 ^ p)" "p \<le> 9"
    and "d + v * 10 ^ p + x mod 10 ^ p \<le> 2 ^ 63"
  shows "parse_parts d (decimal v @ fst (fmtFrac p False x u)) = Inr (d + v * 10 ^ p + x mod 10 ^ p)"
  using parse_parts_step [OF parse_fixed [OF assms(1-3), of v x]] assms(4) decimal_hd(2) by simp

lemma parse_parts_fmtFixed:
  assumes "u \<in> {''ns'', micro, ''ms'', ''s''}" "unitMap u = Some (10 ^ p)" "p \<le> 9" "x \<le> 2 ^ 63"
  shows "parse_parts 0 (fmtFixed p u x) = Inr x"
  using parse_parts_fixed [OF assms(1-3), of 0 "x div 10 ^ p" x] fmtFrac_False [of p x u] assms(4)
  by (auto simp: fmtFixed_def div_mult_mod_eq)

lemma parse_parts_whole:
  assumes "u \<in> {''ns'', micro, ''ms'', ''s'', ''m'', ''h''}" "unitMap u = Some k" "0 < k"
    and "s = [] \<or> is_digit (hd s)" "d + v * k \<le> 2 ^ 63"
  shows "parse_parts d (decimal v @ u @ s) = parse_parts (d + v * k) s"
proof -
  have "v \<le> 2 ^ 63 div k" using assms(3,5) by (simp add: less_eq_div_iff_mult_less_eq)
  from parse_parts_step [OF parse_whole [OF assms(1,2,4) this] decimal_hd(2) assms(5)] show ?thesis .
qed

lemma sexagesimal:
  fixes u t q m h w r :: nat
  assumes "u = t * 10 ^ 9 + r" "t = q * 60 + m" "q = h * 60 + w"
  shows "u = m * 10 ^ 9 + r + q * (60 * 10 ^ 9)"
    and "u = h * (3600 * 10 ^ 9) + w * (60 * 10 ^ 9) + m * 10 ^ 9 + r"
  by (simp_all add: assms algebra_simps)

lemma parse_parts_String_abs:
  assumes "u \<le> 2 ^ 63"
  shows "parse_parts 0 (String_abs u) = Inr u"
proof (cases "u < 10 ^ 9")
  case True
  have "decimal 0 = ''0''" by code_simp
  then have "parse_parts 0 ''0s'' = Inr 0"
    using parse_parts_whole [of "''s''" "10 ^ 9" "[]" 0 0] unitMap_simps by simp
  then show ?thesis
    using True assms parse_parts_fmtFixed [of _ 0 u] parse_parts_fmtFixed [of _ 3 u] parse_parts_fmtFixed [of _ 6 u]
      unitMap_simps
    by (simp add: String_abs_def)
next
  case False
  define t where "t = u div 10 ^ 9"
  define buf where "buf = fst (fmtFrac 9 False u ''s'')"
  have f: "fmtFrac 9 False u ''s'' = (buf, t)"
    using fmtFrac_False [of 9 u "''s''"] by (auto simp: buf_def t_def)
  have secs: "parse_parts d (decimal v @ buf) = Inr (d + v * 10 ^ 9 + u mod 10 ^ 9)"
    if "d + v * 10 ^ 9 + u mod 10 ^ 9 \<le> 2 ^ 63" for d v
    using parse_parts_fixed [of "''s''" 9 d v u] unitMap_simps that by (simp add: buf_def)
  have mins: "parse_parts d (decimal v @ ''m'' @ decimal w @ buf)
      = Inr (d + v * (60 * 10 ^ 9) + w * 10 ^ 9 + u mod 10 ^ 9)"
    if "d + v * (60 * 10 ^ 9) + w * 10 ^ 9 + u mod 10 ^ 9 \<le> 2 ^ 63" for d v w
    using parse_parts_whole [of "''m''" "60 * 10 ^ 9" "decimal w @ buf" d v] unitMap_simps decimal_hd secs that
    by simp
  have hours: "parse_parts 0 (decimal v @ ''h'' @ decimal w @ ''m'' @ decimal x @ buf)
      = Inr (v * (3600 * 10 ^ 9) + w * (60 * 10 ^ 9) + x * 10 ^ 9 + u mod 10 ^ 9)"
    if "v * (3600 * 10 ^ 9) + w * (60 * 10 ^ 9) + x * 10 ^ 9 + u mod 10 ^ 9 \<le> 2 ^ 63" for v w x
    using parse_parts_whole [of "''h''" "3600 * 10 ^ 9" "decimal w @ ''m'' @ decimal x @ buf" 0 v] unitMap_simps
      decimal_hd mins that by simp
  have "u = t * 10 ^ 9 + u mod 10 ^ 9" "t = t div 60 * 60 + t mod 60"
    "t div 60 = t div 60 div 60 * 60 + t div 60 mod 60"
    unfolding t_def by (simp_all only: div_mult_mod_eq)
  note u = sexagesimal [OF this]
  consider "t div 60 = 0" | "t div 60 \<noteq> 0" "t div 60 div 60 = 0" | "t div 60 div 60 \<noteq> 0"
    by blast
  then show ?thesis
  proof cases
    case 1
    have "String_abs u = decimal (t mod 60) @ buf" using False 1 by (simp add: String_abs_def f Let_def)
    then show ?thesis using secs [of 0 "t mod 60"] u(1) 1 assms by simp
  next
    case 2
    have "String_abs u = decimal (t div 60 mod 60) @ ''m'' @ decimal (t mod 60) @ buf"
      using False 2 by (simp add: String_abs_def f Let_def)
    then show ?thesis using mins [of 0 "t div 60 mod 60" "t mod 60"] u(2) 2 assms by simp
  next
    case 3
    then have "t div 60 \<noteq> 0" by (metis div_0)
    with 3 have "String_abs u = decimal (t div 60 div 60) @ ''h'' @ decimal (t div 60 mod 60) @ ''m''
        @ decimal (t mod 60) @ buf"
      using False by (simp add: String_abs_def f Let_def)
    then show ?thesis using hours [of "t div 60 div 60" "t div 60 mod 60" "t mod 60"] u(2) assms by simp
  qed
qed

text \<open>A printed duration: plain characters, and a unit at the end.\<close>

definition plain_char :: "char \<Rightarrow> bool" where
  "plain_char c \<longleftrightarrow> is_digit c \<or> c \<in> {CHR ''.'', CHR ''m'', CHR ''h'', CHR ''-'', CHR ''n'', CHR ''s''}"

lemma decimal_plain: "list_all plain_char (decimal n)"
  using decimal_digits [of n] by (simp add: list_all_iff plain_char_def)

lemma fmtFrac_plain:
  "\<exists>a. fmtFrac i False v buf = (a @ buf, v div 10 ^ i) \<and> list_all plain_char a"
proof (cases "v mod 10 ^ i = 0")
  case True
  then show ?thesis using fmtFrac_False [of i v buf] by (intro exI [of _ "[]"]) auto
next
  case False
  then obtain n q where "fmtFrac i False v buf = ((CHR ''.'' # pad n q) @ buf, v div 10 ^ i)"
    using fmtFrac_False [of i v buf] by auto
  moreover have "list_all plain_char (CHR ''.'' # pad n q)"
    using pad_digits [of n q] by (simp add: list_all_iff plain_char_def)
  ultimately show ?thesis by blast
qed

lemma fmtFixed_plain: "\<exists>a. fmtFixed p u x = a @ u \<and> list_all plain_char a \<and> a \<noteq> [] \<and> is_digit (hd a)"
proof -
  obtain a where "fmtFrac p False x u = (a @ u, x div 10 ^ p)" "list_all plain_char a"
    using fmtFrac_plain by blast
  then show ?thesis
    using decimal_plain decimal_hd [of _ a]
    by (intro exI [of _ "decimal (x div 10 ^ p) @ a"]) (simp add: fmtFixed_def)
qed

lemma String_abs_plain:
  "\<exists>a u. String_abs x = a @ u \<and> list_all plain_char a \<and> a \<noteq> [] \<and> is_digit (hd a) \<and> u \<in> {''ns'', micro, ''ms'', ''s''}"
proof (cases "x < 10 ^ 9")
  case True
  show ?thesis
  proof (cases "x = 0")
    case True
    then show ?thesis
      by (intro exI [of _ "''0''"] exI [of _ "''s''"]) (simp add: String_abs_def plain_char_def is_digit_def)
  next
    case False
    define u where "u = (if x < 10 ^ 3 then ''ns'' else if x < 10 ^ 6 then micro else ''ms'')"
    have "\<exists>p. String_abs x = fmtFixed p u x" using True False by (auto simp: String_abs_def u_def)
    moreover have "u \<in> {''ns'', micro, ''ms'', ''s''}" by (simp add: u_def)
    ultimately show ?thesis using fmtFixed_plain by metis
  qed
next
  case False
  obtain a where a: "fmtFrac 9 False x ''s'' = (a @ ''s'', x div 10 ^ 9)" "list_all plain_char a"
    using fmtFrac_plain by blast
  define t where "t = x div 10 ^ 9"
  let ?d = "\<lambda>n. decimal n :: string"
  have "\<exists>b. String_abs x = b @ a @ ''s'' \<and> list_all plain_char b \<and> b \<noteq> [] \<and> is_digit (hd b)"
  proof -
    have p: "list_all plain_char (?d n)" "?d n \<noteq> []" "is_digit (hd (?d n @ s))" for n s
      using decimal_plain decimal_hd by auto
    have c: "plain_char (CHR ''m'')" "plain_char (CHR ''h'')" by (simp_all add: plain_char_def)
    consider "t div 60 = 0" | "t div 60 \<noteq> 0" "t div 60 div 60 = 0" | "t div 60 \<noteq> 0" "t div 60 div 60 \<noteq> 0"
      by blast
    then show ?thesis
    proof cases
      case 1
      then show ?thesis using False p(1,2) decimal_hd(1) [of _ "[]"]
        by (intro exI [of _ "?d (t mod 60)"]) (simp add: String_abs_def a(1) t_def Let_def)
    next
      case 2
      then show ?thesis using False p c
        by (intro exI [of _ "?d (t div 60 mod 60) @ ''m'' @ ?d (t mod 60)"]) (simp add: String_abs_def a(1) t_def Let_def)
    next
      case 3
      then show ?thesis using False p c
        by (intro exI [of _ "?d (t div 60 div 60) @ ''h'' @ ?d (t div 60 mod 60) @ ''m'' @ ?d (t mod 60)"])
          (simp add: String_abs_def a(1) t_def Let_def)
    qed
  qed
  then obtain b where "String_abs x = (b @ a) @ ''s''" "list_all plain_char (b @ a)" "b @ a \<noteq> []" "is_digit (hd (b @ a))"
    using a(2) by auto
  then show ?thesis by blast
qed

lemma ParseDuration_time_String:
  assumes "- (2 ^ 63) \<le> d" "d < 2 ^ 63"
  shows "ParseDuration (time_String d) = Inr d"
proof -
  define A where "A = String_abs (nat \<bar>d\<bar>)"
  have "nat \<bar>d\<bar> \<le> 2 ^ 63" using assms by (simp add: nat_le_iff)
  from parse_parts_String_abs [OF this] have p: "parse_parts 0 A = Inr (nat \<bar>d\<bar>)" by (simp add: A_def)
  obtain a u where s: "A = a @ u" "a \<noteq> []" "is_digit (hd a)" "u \<in> {''ns'', micro, ''ms'', ''s''}"
    unfolding A_def using String_abs_plain by metis
  then have h: "is_digit (hd A)" "A \<noteq> []" "A \<noteq> ''0''"
    by (auto simp: append_eq_Cons_conv micro_def)
  then have n: "hd A \<noteq> CHR ''-''" "hd A \<noteq> CHR ''+''"
    by (auto simp: is_digit_def)
  have ts: "time_String d = (if d < 0 then ''-'' else []) @ A" by (simp only: time_String_def A_def)
  show ?thesis
  proof (cases "d < 0")
    case True
    then show ?thesis using h p by (simp add: ParseDuration_def ts)
  next
    case False
    then have "\<not> nat \<bar>d\<bar> > 2 ^ 63 - 1" using assms(2) by (simp add: not_less nat_le_iff)
    then show ?thesis using False h n p by (simp add: ParseDuration_def ts)
  qed
qed

section \<open>Strings in JSON\<close>

text \<open>
  \<^verbatim>\<open>json.Unmarshal\<close> into a string: a string literal with its escapes, where a surrogate
  without its pair and an invalid byte become \<open>0xFFFD\<close>; \<^verbatim>\<open>null\<close> leaves the string empty, and
  every other text is an error.
\<close>

definition utf8 :: "nat \<Rightarrow> string" where
  "utf8 r =
     (if r < 0x80 then [char_of r]
      else if r < 0x800 then [char_of (0xC0 + r div 64), char_of (0x80 + r mod 64)]
      else if r < 0x10000 then
        [char_of (0xE0 + r div 4096), char_of (0x80 + r div 64 mod 64), char_of (0x80 + r mod 64)]
      else [char_of (0xF0 + r div 262144), char_of (0x80 + r div 4096 mod 64),
        char_of (0x80 + r div 64 mod 64), char_of (0x80 + r mod 64)])"

definition hex_value :: "char \<Rightarrow> nat option" where
  "hex_value c = (let x = of_char c :: nat in
     if 48 \<le> x \<and> x \<le> 57 then Some (x - 48)
     else if 97 \<le> x \<and> x \<le> 102 then Some (x - 87)
     else if 65 \<le> x \<and> x \<le> 70 then Some (x - 55)
     else None)"

fun hex4 :: "string \<Rightarrow> nat option" where
  "hex4 (a # b # c # d # s) = do {
     a \<leftarrow> hex_value a; b \<leftarrow> hex_value b; c \<leftarrow> hex_value c; d \<leftarrow> hex_value d;
     Some (((a * 16 + b) * 16 + c) * 16 + d) }"
| "hex4 s = None"

text \<open>The character of an escape \<^verbatim>\<open>\u\<close> and how much of the text behind it belongs to it.\<close>

definition json_u :: "string \<Rightarrow> (string \<times> nat) option" where
  "json_u s = do {
     x \<leftarrow> hex4 s;
     Some (if x < 0xD800 \<or> 0xE000 \<le> x then (utf8 x, 4)
       else case (if take 2 (drop 4 s) = [CHR 0x5C, CHR ''u''] then hex4 (drop 6 s) else None) of
           None \<Rightarrow> (utf8 0xFFFD, 4)
         | Some y \<Rightarrow>
             if x < 0xDC00 \<and> 0xDC00 \<le> y \<and> y < 0xE000
             then (utf8 (0x10000 + (x - 0xD800) * 0x400 + (y - 0xDC00)), 10)
             else (utf8 0xFFFD, 4)) }"

text \<open>One character of a literal and how much of the text it takes.\<close>

definition json_char :: "string \<Rightarrow> (string \<times> nat) option" where
  "json_char s = (let c = hd s in
     if c = CHR 0x5C then
       (case tl s of
          [] \<Rightarrow> None
        | e # r \<Rightarrow>
            if e \<in> {CHR 0x22, CHR 0x5C, CHR ''/''} then Some ([e], 2)
            else if e = CHR ''b'' then Some ([CHR 0x08], 2)
            else if e = CHR ''f'' then Some ([CHR 0x0C], 2)
            else if e = CHR ''n'' then Some ([CHR 0x0A], 2)
            else if e = CHR ''r'' then Some ([CHR 0x0D], 2)
            else if e = CHR ''t'' then Some ([CHR 0x09], 2)
            else if e = CHR ''u'' then map_option (\<lambda>(t, n). (t, n + 2)) (json_u r)
            else None)
     else if of_char c < (32 :: nat) then None
     else if of_char c < (128 :: nat) then Some ([c], 1)
     else let w = rune_width (bytes_of_string s)
       in Some (if w = 1 then utf8 0xFFFD else take w s, w))"

fun json_chars :: "nat \<Rightarrow> string \<Rightarrow> (string \<times> string) option" where
  "json_chars 0 s = None"
| "json_chars (Suc n) s =
     (if s = [] then None
      else if hd s = CHR 0x22 then Some ([], tl s)
      else do {
        (t, k) \<leftarrow> json_char s;
        (ts, r) \<leftarrow> json_chars n (drop k s);
        Some (t @ ts, r) })"

definition json_space :: "char \<Rightarrow> bool" where
  "json_space c \<longleftrightarrow> c \<in> {CHR 0x09, CHR 0x0A, CHR 0x0D, CHR 0x20}"

definition json_Unmarshal :: "string \<Rightarrow> gerr + string" where
  "json_Unmarshal b = (let s = dropWhile json_space b in
     if s \<noteq> [] \<and> hd s = CHR 0x22 then
       (case json_chars (length s) (tl s) of
          Some (t, r) \<Rightarrow> if list_all json_space r then Inr t else Inl (EnvErr ''json'')
        | None \<Rightarrow> Inl (EnvErr ''json''))
     else if take 4 s = ''null'' \<and> list_all json_space (drop 4 s) then Inr []
     else Inl (EnvErr ''json''))"

section \<open>The type of the configuration\<close>

text \<open>A method with a pointer receiver gives the new value next to its error.\<close>

definition Duration_Type :: string where "Duration_Type = ''duration''"

definition Duration_String :: "duration \<Rightarrow> string" where "Duration_String d = time_String d"

definition Duration_Set :: "string \<Rightarrow> duration \<Rightarrow> gerr option \<times> duration" where
  "Duration_Set s d = (case ParseDuration s of Inl err \<Rightarrow> (Some err, d) | Inr dur \<Rightarrow> (None, dur))"

definition Duration_MarshalJSON :: "(nat \<Rightarrow> bool) \<Rightarrow> duration \<Rightarrow> bytes" where
  "Duration_MarshalJSON print d = bytes_of_string (Quote print (time_String d))"

definition Duration_UnmarshalJSON :: "bytes \<Rightarrow> duration \<Rightarrow> gerr option \<times> duration" where
  "Duration_UnmarshalJSON b d =
     (case json_Unmarshal (string_of_bytes b) of
        Inl err \<Rightarrow> (Some err, d)
      | Inr s \<Rightarrow> (case ParseDuration s of Inl err \<Rightarrow> (Some err, d) | Inr dur \<Rightarrow> (None, dur)))"

definition Duration_MarshalText :: "duration \<Rightarrow> bytes" where
  "Duration_MarshalText d = bytes_of_string (time_String d)"

definition Duration_UnmarshalText :: "bytes \<Rightarrow> duration \<Rightarrow> gerr option \<times> duration" where
  "Duration_UnmarshalText b d =
     (case ParseDuration (string_of_bytes b) of Inl err \<Rightarrow> (Some err, d) | Inr dur \<Rightarrow> (None, dur))"

text \<open>The values that a decoder passes to its hook: strings, what the hook returns, and others.\<close>

datatype 'a hook_data = StringData string | DurationData duration | OtherData 'a

definition DurationHookFunc :: "bool \<Rightarrow> 'a hook_data \<Rightarrow> gerr + 'a hook_data" where
  "DurationHookFunc target_is_Duration data =
     (case data of
        StringData s \<Rightarrow>
          if \<not> target_is_Duration then Inr data else map_sum id DurationData (ParseDuration s)
      | _ \<Rightarrow> Inr data)"

section \<open>Every text is read back\<close>

lemma Quote_body_Cons:
  assumes "of_char c < (128 :: nat)"
  shows "Quote_body p (c # s) = escape_rune p (of_char c, [of_char c]) @ Quote_body p s"
proof -
  have "rune_width (of_char c # bytes_of_string s) = 1" "rune_value (of_char c # bytes_of_string s) = of_char c"
    using assms by (simp_all add: rune_width_ascii rune_value_def unat_of_char_byte)
  then show ?thesis by (simp add: Quote_body_def runes_def bytes_of_string_def)
qed

lemma plain_charD:
  assumes "plain_char c"
  shows "32 \<le> (of_char c :: nat)" "(of_char c :: nat) < 127" "c \<noteq> CHR 0x22" "c \<noteq> CHR 0x5C"
  using assms by (auto simp: plain_char_def is_digit_def)

lemma escape_plain:
  assumes "plain_char c"
  shows "escape_rune p (of_char c, [of_char c]) = [c]"
proof -
  have "of_char c \<noteq> (34 :: nat)" "of_char c \<noteq> (92 :: nat)"
    using assms by (auto simp: plain_char_def is_digit_def)
  then show ?thesis using plain_charD [OF assms] by (simp add: escape_rune_def string_of_bytes_char)
qed

lemma Quote_body_plain: "list_all plain_char a \<Longrightarrow> Quote_body p (a @ s) = a @ Quote_body p s"
proof (induction a)
  case (Cons c a)
  then have "(of_char c :: nat) < 128" using plain_charD(2) [of c] by simp
  with Cons show ?case by (simp add: Quote_body_Cons escape_plain)
qed simp

lemma json_chars_plain:
  "list_all plain_char a \<Longrightarrow> json_chars n s = Some (t, r) \<Longrightarrow> json_chars (length a + n) (a @ s) = Some (a @ t, r)"
proof (induction a)
  case (Cons c a)
  then show ?case using plain_charD [of c] by (simp add: json_char_def Let_def)
qed simp

lemma Quote_body_micro:
  assumes "p 0xB5"
  shows "Quote_body p micro = micro"
proof -
  have r: "runes (bytes_of_string micro) = [(0xB5, [0xC2, 0xB5]), (115, [115])]" by code_simp
  have "string_of_bytes [0xC2, 0xB5] = [CHR 0xC2, CHR 0xB5]" "string_of_bytes [115] = ''s''" by code_simp+
  then show ?thesis
    unfolding Quote_body_def r using assms by (simp add: escape_rune_def micro_def)
qed

lemma json_chars_micro: "json_chars (length micro + 2) (micro @ [CHR 0x22]) = Some (micro, [])"
  by code_simp

text \<open>A quoted text is a literal of the same string when it is plain up to a final micro unit.\<close>

lemma json_Quote:
  assumes "list_all plain_char a" "u = [] \<or> u = micro" "p 0xB5"
  shows "json_Unmarshal (Quote p (a @ u)) = Inr (a @ u)"
proof -
  have q: "Quote_body p (a @ u) = a @ u"
    using assms Quote_body_plain [of a p "[]"] Quote_body_plain [of a p micro] Quote_body_micro
    by (auto simp: Quote_body_def runes_def bytes_of_string_def)
  have "json_chars (length u + 2) (u @ [CHR 0x22]) = Some (u, [])"
    using assms(2) json_chars_micro by (elim disjE) (simp_all add: numeral_2_eq_2 del: json_chars.simps, simp)
  from json_chars_plain [OF assms(1) this]
  have "json_chars (length a + (length u + 2)) (a @ u @ [CHR 0x22]) = Some (a @ u, [])" by simp
  then show ?thesis by (simp add: json_Unmarshal_def Quote_def q json_space_def Let_def)
qed

lemma time_String_plain: "\<exists>a u. time_String d = a @ u \<and> list_all plain_char a \<and> (u = [] \<or> u = micro)"
proof -
  obtain a u where s: "String_abs (nat \<bar>d\<bar>) = a @ u" "list_all plain_char a" "u \<in> {''ns'', micro, ''ms'', ''s''}"
    using String_abs_plain by metis
  define sgn where "sgn = (if d < 0 then ''-'' else [])"
  have t: "time_String d = sgn @ a @ u" "list_all plain_char (sgn @ a)"
    using s by (auto simp: time_String_def sgn_def plain_char_def)
  show ?thesis
  proof (cases "u = micro")
    case True
    then show ?thesis using t by (intro exI [of _ "sgn @ a"] exI [of _ micro]) simp
  next
    case False
    then have "list_all plain_char u" using s(3) by (auto simp: plain_char_def)
    then show ?thesis using t by (intro exI [of _ "sgn @ a @ u"] exI [of _ "[]"]) simp
  qed
qed

text \<open>C17:
  Every duration is read back from each of its texts, with nothing lost: from the text of a
  configuration file, from the value of a flag and from a JSON string, provided that Go takes
  the micro sign, which the texts below a millisecond contain, for printable.
\<close>

theorem duration_texts_read_back:
  assumes "- (2 ^ 63) \<le> d" "d < 2 ^ 63" "print 0xB5"
  shows "Duration_UnmarshalText (Duration_MarshalText d) d0 = (None, d)
    \<and> Duration_Set (Duration_String d) d0 = (None, d)
    \<and> Duration_UnmarshalJSON (Duration_MarshalJSON print d) d0 = (None, d)
    \<and> DurationHookFunc True (StringData (Duration_String d) :: 'a hook_data) = Inr (DurationData d)"
proof -
  obtain a u where "time_String d = a @ u" "list_all plain_char a" "u = [] \<or> u = micro"
    using time_String_plain by blast
  then have "json_Unmarshal (Quote print (time_String d)) = Inr (time_String d)"
    using json_Quote assms(3) by metis
  then show ?thesis
    using ParseDuration_time_String [OF assms(1,2)]
    by (simp add: Duration_UnmarshalText_def Duration_MarshalText_def Duration_Set_def Duration_String_def
        Duration_UnmarshalJSON_def Duration_MarshalJSON_def DurationHookFunc_def)
qed

lemma duration_texts_read_back_witness:
  "Duration_UnmarshalText (Duration_MarshalText (- 1500)) 7 = (None, - 1500)
    \<and> Duration_Set (Duration_String (- 1500)) 7 = (None, - 1500)
    \<and> Duration_UnmarshalJSON (Duration_MarshalJSON (\<lambda>r. r = 0xB5) (- 1500)) 7 = (None, - 1500)
    \<and> DurationHookFunc True (StringData (Duration_String (- 1500)) :: nat hook_data) = Inr (DurationData (- 1500))"
  by (rule duration_texts_read_back) simp_all

end
