(* ===== verification/Startup.thy ===== *)
theory Startup
  imports Run Duration
begin

text \<open>
  What happens before a command runs (\<^verbatim>\<open>initConfig\<close> of \<^verbatim>\<open>pkg/cmd/root.go\<close>): the configuration
  file is found and decoded, flags that were not given take their values from the
  environment, and the configuration is validated. The library of configurations
  (\<^verbatim>\<open>viper\<close>) and that of flags (\<^verbatim>\<open>pflag\<close>) are an argument. The configuration is a variable of
  the program which flags also point to, so it is a state next to the world.
\<close>

section \<open>The libraries\<close>

text \<open>
  A set of flags is a number; \<open>FlagNames\<close> are the names in the order of \<^verbatim>\<open>VisitAll\<close>. The errors
  of \<^verbatim>\<open>BindPFlag\<close>, \<^verbatim>\<open>SetAnnotation\<close> and \<^verbatim>\<open>Set\<close> are dropped by the program.
\<close>

type_synonym flagset = nat

record 'w cli =
  UserConfigDir :: "('w, string) io"
  BindPFlag :: "string \<Rightarrow> flagset \<Rightarrow> string \<Rightarrow> 'w \<Rightarrow> 'w"
  SetConfigFile :: "string \<Rightarrow> 'w \<Rightarrow> 'w"
  AddConfigPath :: "string \<Rightarrow> 'w \<Rightarrow> 'w"
  SetConfigType :: "string \<Rightarrow> 'w \<Rightarrow> 'w"
  SetConfigName :: "string \<Rightarrow> 'w \<Rightarrow> 'w"
  ReadInConfig :: "'w \<Rightarrow> gerr option \<times> 'w"
  IsConfigFileNotFound :: "gerr \<Rightarrow> bool"
  Unmarshal :: "Config \<Rightarrow> 'w \<Rightarrow> gerr option \<times> Config"
  SetEnvPrefix :: "string \<Rightarrow> 'w \<Rightarrow> 'w"
  SetEnvKeyReplacer :: "(string \<times> string) list \<Rightarrow> 'w \<Rightarrow> 'w"
  AutomaticEnv :: "'w \<Rightarrow> 'w"
  IsSet :: "string \<Rightarrow> 'w \<Rightarrow> bool"
  GetString :: "string \<Rightarrow> 'w \<Rightarrow> string"
  FlagNames :: "flagset \<Rightarrow> string list"
  Changed :: "flagset \<Rightarrow> string \<Rightarrow> 'w \<Rightarrow> bool"
  SetAnnotation :: "flagset \<Rightarrow> string \<Rightarrow> string \<Rightarrow> string list \<Rightarrow> 'w \<Rightarrow> 'w"
  SetFlag :: "flagset \<Rightarrow> string \<Rightarrow> string \<Rightarrow> Config \<times> 'w \<Rightarrow> Config \<times> 'w"

text \<open>Annotating or setting a flag that a set does not have is an error and changes nothing.\<close>

definition pflag_contract :: "'w cli \<Rightarrow> bool" where
  "pflag_contract env \<longleftrightarrow> (\<forall>fs name. name \<notin> set (FlagNames env fs) \<longrightarrow>
     (\<forall>key vs w. SetAnnotation env fs name key vs w = w) \<and> (\<forall>val st. SetFlag env fs name val st = st))"

section \<open>Reading the configuration\<close>

definition envPrefix :: string where "envPrefix = ''BTRSYNC''"

definition BashCompOneRequiredFlag :: string where
  "BashCompOneRequiredFlag = ''cobra_annotation_bash_completion_one_required_flag''"

text \<open>\<^verbatim>\<open>cobra.CheckErr\<close> ends the process.\<close>

definition config_source :: "'w cli \<Rightarrow> string \<Rightarrow> 'w \<Rightarrow> 'w go" where
  "config_source env cfgFile w =
     (if cfgFile \<noteq> [] then Some (SetConfigFile env cfgFile w)
      else case UserConfigDir env w of
        Some (Inr cfgdir, w) \<Rightarrow>
          Some (SetConfigName env ''btrsync.toml'' (SetConfigType env ''toml''
            (AddConfigPath env ''/etc/btrsync'' (AddConfigPath env (Join [cfgdir, ''btrsync''])
            (AddConfigPath env ''.'' w)))))
      | _ \<Rightarrow> None)"

definition read_config :: "'w cli \<Rightarrow> Config \<Rightarrow> 'w \<Rightarrow> gerr option \<times> Config \<times> 'w" where
  "read_config env conf w =
     (case ReadInConfig env w of
        (None, w) \<Rightarrow> (case Unmarshal env conf w of (err, conf) \<Rightarrow> (err, conf, w))
      | (Some err, w) \<Rightarrow> (if \<not> IsConfigFileNotFound env err then Some err else None, conf, w))"

text \<open>Each flag is looked for in \<open>fs\<close> but set in \<open>own\<close>, the persistent flags of the command.\<close>

definition bind_flag :: "'w cli \<Rightarrow> flagset \<Rightarrow> flagset \<Rightarrow> string \<Rightarrow> Config \<times> 'w \<Rightarrow> Config \<times> 'w" where
  "bind_flag env own fs name st = (case st of (conf, w) \<Rightarrow>
     if \<not> Changed env fs name w \<and> IsSet env name w
     then (let w = SetAnnotation env own name BashCompOneRequiredFlag [''false''] w
       in SetFlag env own name (GetString env name w) (conf, w))
     else st)"

definition bind_flags :: "'w cli \<Rightarrow> flagset \<Rightarrow> flagset \<Rightarrow> Config \<times> 'w \<Rightarrow> Config \<times> 'w" where
  "bind_flags env own fs = fold (bind_flag env own fs) (FlagNames env fs)"

text \<open>\<open>subs\<close> are the persistent and the other flags of the subcommands.\<close>

definition bind_all :: "'w cli \<Rightarrow> flagset \<Rightarrow> (flagset \<times> flagset) list \<Rightarrow> Config \<times> 'w \<Rightarrow> Config \<times> 'w" where
  "bind_all env own subs st =
     fold (\<lambda>(pfs, fs) st. bind_flags env own fs (bind_flags env own pfs st)) subs (bind_flags env own own st)"

definition bind_pflags :: "'w cli \<Rightarrow> flagset \<Rightarrow> 'w \<Rightarrow> 'w" where
  "bind_pflags env own w =
     BindPFlag env ''verbosity'' own ''verbose'' (BindPFlag env ''snapshots_dir'' own ''snapshots-dir'' w)"

definition initConfig :: "'w cli \<Rightarrow> string \<Rightarrow> flagset \<Rightarrow> (flagset \<times> flagset) list \<Rightarrow> Config \<Rightarrow> 'w
    \<Rightarrow> (gerr option \<times> Config \<times> 'w) go" where
  "initConfig env cfgFile own subs conf w = do {
     w \<leftarrow> config_source env cfgFile (bind_pflags env own w);
     let (err, conf, w) = read_config env conf w;
     if err \<noteq> None then Some (err, conf, w)
     else do {
       let w = AutomaticEnv env (SetEnvKeyReplacer env [(''-'', ''_'')] (SetEnvPrefix env envPrefix w));
       let (conf, w) = bind_all env own subs (conf, w);
       Some (Validate conf, conf, w) } }"

section \<open>What a started command can rely on\<close>

lemma initConfig_after:
  assumes "config_source env cfgFile (bind_pflags env own w) = Some w1" "read_config env conf w1 = (err, c, w2)"
  shows "initConfig env cfgFile own subs conf w = Some (if err \<noteq> None then (err, c, w2)
    else case bind_all env own subs
        (c, AutomaticEnv env (SetEnvKeyReplacer env [(''-'', ''_'')] (SetEnvPrefix env envPrefix w2))) of
      (c, w) \<Rightarrow> (Validate c, c, w))"
  using assms by (simp add: initConfig_def Let_def split: prod.split)

lemma initConfig_valid:
  assumes "initConfig env cfgFile own subs conf w = Some (None, conf', w')"
  shows "Validate conf' = None"
proof (cases "config_source env cfgFile (bind_pflags env own w)")
  case None
  then show ?thesis using assms by (simp add: initConfig_def)
next
  case (Some w1)
  obtain err c w2 where "read_config env conf w1 = (err, c, w2)" by (metis prod_cases3)
  from assms [unfolded initConfig_after [OF Some this]] show ?thesis
    by (auto split: if_splits prod.splits)
qed

text \<open>C23:
  Every command that starts, starts with a validated configuration: the manager of the
  snapshots of every subvolume that a run or a prune visits has an interval below its minimum
  retention, which is below its retention, as is its retention interval, and it has a
  directory for the snapshots, whatever the file, the flags and the environment say.
\<close>

theorem started_jobs_consistent:
  assumes "initConfig env cfgFile own subs conf w = Some (None, conf', w')"
    and "(v, s) \<in> set (snapshot_jobs conf')"
  shows "let cfg = snap_config conf' v s in
      Interval cfg < MinimumRetention cfg \<and> MinimumRetention cfg < Retention cfg
    \<and> RetentionInterval cfg < Retention cfg \<and> SnapshotDirectory cfg \<noteq> []"
proof -
  have "v \<in> set (Volumes conf')" "s \<in> set (VSubvolumes v)"
    using assms(2) by (simp_all add: set_snapshot_jobs)
  from Validate_consistent [OF initConfig_valid [OF assms(1)] this] show ?thesis
    by (simp add: snap_config_def Let_def)
qed

text \<open>
  A command line on which no file is found and the environment sets the flag \<^verbatim>\<open>concurrency\<close> of
  the set of flags 1. The world is the list of the flags that were set.
\<close>

definition sample_cli :: "string list cli" where
  "sample_cli = \<lparr>UserConfigDir = ok ''/root/.config'', BindPFlag = (\<lambda>key fs name w. w),
     SetConfigFile = (\<lambda>f w. w), AddConfigPath = (\<lambda>p w. w), SetConfigType = (\<lambda>t w. w), SetConfigName = (\<lambda>n w. w),
     ReadInConfig = (\<lambda>w. (Some (EnvErr ''Config File Not Found''), w)), IsConfigFileNotFound = (\<lambda>e. True),
     Unmarshal = (\<lambda>c w. (None, c)), SetEnvPrefix = (\<lambda>p w. w), SetEnvKeyReplacer = (\<lambda>r w. w), AutomaticEnv = (\<lambda>w. w),
     IsSet = (\<lambda>name w. True), GetString = (\<lambda>name w. ''9''),
     FlagNames = (\<lambda>fs. if fs = 1 then [''concurrency''] else []), Changed = (\<lambda>fs name w. False),
     SetAnnotation = (\<lambda>fs name key vs w. w),
     SetFlag = (\<lambda>fs name val st. if fs = 1 \<and> name = ''concurrency'' then (fst st\<lparr>Concurrency := 9\<rparr>, name # snd st) else st)\<rparr>"

lemma pflag_sample: "pflag_contract sample_cli"
  by (auto simp: pflag_contract_def sample_cli_def)

lemma sample_start: "initConfig sample_cli [] 0 [(0, 1)] sample_config [] = Some (None, sample_config, [])"
  using sample_valid
  by (simp add: initConfig_def config_source_def read_config_def bind_all_def bind_flags_def bind_flag_def
      bind_pflags_def sample_cli_def ok_def)

lemma started_jobs_consistent_witness:
  "Interval (snap_config sample_config sample_volume sample_subvol)
    < MinimumRetention (snap_config sample_config sample_volume sample_subvol)"
  using started_jobs_consistent [OF sample_start, of sample_volume sample_subvol] sample_members
  by (simp add: set_snapshot_jobs sample_volume_def Let_def)

section \<open>Where the environment is lost\<close>

lemma bind_flags_unknown:
  assumes "pflag_contract env" "FlagNames env own = []"
  shows "bind_flags env own fs st = st"
proof -
  have "bind_flag env own fs name st = st" for name st
    using assms by (cases st) (simp add: bind_flag_def pflag_contract_def)
  then have "fold (bind_flag env own fs) names st = st" for names
    by (induction names) simp_all
  then show ?thesis by (simp add: bind_flags_def)
qed

lemma bind_all_unknown:
  assumes "pflag_contract env" "FlagNames env own = []"
  shows "bind_all env own subs st = st"
proof -
  have "fold (\<lambda>(pfs, fs) st. bind_flags env own fs (bind_flags env own pfs st)) subs st = st"
    by (induction subs) (auto simp: bind_flags_unknown [OF assms])
  then show ?thesis by (simp add: bind_all_def bind_flags_unknown [OF assms])
qed

text \<open>The environment is lost: when the command that runs has no persistent flags of its own, and
  only the command above all others has some, the configuration is that of the file or the one
  before, whatever variables are set and whatever flags the subcommands have, because the flags
  are looked for in the subcommands but set in the command.
\<close>

theorem environment_ignored:
  assumes "pflag_contract env" "FlagNames env own = []"
  shows "map_option (\<lambda>(err, conf, w). (err, conf)) (initConfig env cfgFile own subs conf w) =
    map_option (\<lambda>w. case read_config env conf w of (err, conf, w) \<Rightarrow>
        (if err \<noteq> None then err else Validate conf, conf))
      (config_source env cfgFile (bind_pflags env own w))"
proof (cases "config_source env cfgFile (bind_pflags env own w)")
  case None
  then show ?thesis by (simp add: initConfig_def)
next
  case (Some w1)
  obtain err c w2 where r: "read_config env conf w1 = (err, c, w2)" by (metis prod_cases3)
  show ?thesis
    unfolding initConfig_after [OF Some r] Some by (simp add: r bind_all_unknown [OF assms])
qed

lemma environment_ignored_witness:
  "IsSet sample_cli ''concurrency'' [] \<and> GetString sample_cli ''concurrency'' [] = ''9''
    \<and> map_option (\<lambda>(err, conf, w). (err, conf)) (initConfig sample_cli [] 0 [(0, 1)] NewDefaultConfig [])
      = Some (Validate NewDefaultConfig, NewDefaultConfig)"
proof -
  have "FlagNames sample_cli 0 = []" by (simp add: sample_cli_def)
  from environment_ignored [OF pflag_sample this, of "[]" "[(0, 1)]" NewDefaultConfig "[]"] show ?thesis
    by (simp add: sample_cli_def config_source_def read_config_def bind_pflags_def ok_def)
qed

section \<open>The interval of the daemon\<close>

text \<open>An interval that is not positive passes the validation, and the daemon panics on it after its
  first run.
\<close>

lemma resolve_ScanInterval [simp]:
  "with_subvol (c\<lparr>ScanInterval := i\<rparr>) v s z f = with_subvol c v s z f"
  "ResolveSnapshotPath (c\<lparr>ScanInterval := i\<rparr>) v s = ResolveSnapshotPath c v s"
  "ResolveSnapshotInterval (c\<lparr>ScanInterval := i\<rparr>) v s = ResolveSnapshotInterval c v s"
  "ResolveSnapshotMinimumRetention (c\<lparr>ScanInterval := i\<rparr>) v s = ResolveSnapshotMinimumRetention c v s"
  "ResolveSnapshotRetention (c\<lparr>ScanInterval := i\<rparr>) v s = ResolveSnapshotRetention c v s"
  "ResolveSnapshotRetentionInterval (c\<lparr>ScanInterval := i\<rparr>) v s = ResolveSnapshotRetentionInterval c v s"
proof -
  show w: "with_subvol (c\<lparr>ScanInterval := i\<rparr>) v s z f = with_subvol c v s z f" for z :: 'b and f
    by (simp add: with_subvol_def GetVolume_def)
  show "ResolveSnapshotPath (c\<lparr>ScanInterval := i\<rparr>) v s = ResolveSnapshotPath c v s"
    "ResolveSnapshotInterval (c\<lparr>ScanInterval := i\<rparr>) v s = ResolveSnapshotInterval c v s"
    "ResolveSnapshotMinimumRetention (c\<lparr>ScanInterval := i\<rparr>) v s = ResolveSnapshotMinimumRetention c v s"
    "ResolveSnapshotRetention (c\<lparr>ScanInterval := i\<rparr>) v s = ResolveSnapshotRetention c v s"
    "ResolveSnapshotRetentionInterval (c\<lparr>ScanInterval := i\<rparr>) v s = ResolveSnapshotRetentionInterval c v s"
    by (simp_all add: ResolveSnapshotPath_def ResolveSnapshotInterval_def ResolveSnapshotMinimumRetention_def
        ResolveSnapshotRetention_def ResolveSnapshotRetentionInterval_def with_subvol_def GetVolume_def
        split: option.split)
qed

theorem daemon_interval_unchecked:
  "Validate (c\<lparr>ScanInterval := i\<rparr>) = Validate c
    \<and> (i \<le> 0 \<longrightarrow> daemon (c\<lparr>ScanInterval := i\<rparr>) r n w = panic)"
proof
  have s: "ValidateSubvolume (c\<lparr>ScanInterval := i\<rparr>) = ValidateSubvolume c"
    by (intro ext) (simp add: ValidateSubvolume_def Let_def)
  have "validate_subvolumes (c\<lparr>ScanInterval := i\<rparr>) v names ss = validate_subvolumes c v names ss" for v names ss
    by (induction ss arbitrary: names) (simp_all add: s Let_def split: option.split)
  then have "validate_volumes (c\<lparr>ScanInterval := i\<rparr>) names vs = validate_volumes c names vs" for names vs
    by (induction vs arbitrary: names) (simp_all add: Let_def split: option.split)
  then show "Validate (c\<lparr>ScanInterval := i\<rparr>) = Validate c" by (simp add: Validate_def)
  show "i \<le> 0 \<longrightarrow> daemon (c\<lparr>ScanInterval := i\<rparr>) r n w = panic"
    by (cases "r w") (auto simp: daemon_def)
qed

end
