(* ===== verification/MemFs.thy ===== *)
theory MemFs
  imports Send Receive
begin

text \<open>
  The receiver that keeps a file system in memory and offers it for mounting
  (\<^verbatim>\<open>pkg/receive/receivers/memfs/memfs.go\<close>), and the command that mounts it
  (\<^verbatim>\<open>pkg/cmd/mount.go\<close>). The file system (\<^verbatim>\<open>blang/vfs\<close>) and the tree of inodes
  (\<^verbatim>\<open>hanwen/go-fuse\<close>) are parameters. The theorems say that the table of files that the receiver
  keeps beside the file system agrees with it, and what it does with symbolic links.
\<close>

section \<open>The libraries\<close>

record 'w vfs =
  Fs_Mkdir :: "string \<Rightarrow> u32 \<Rightarrow> ('w, unit) io"
  Fs_OpenFile :: "string \<Rightarrow> u32 \<Rightarrow> u32 \<Rightarrow> ('w, fd) io"
  Fs_Close :: "fd \<Rightarrow> ('w, unit) io"
  Fs_Seek :: "fd \<Rightarrow> int \<Rightarrow> ('w, unit) io"
  Fs_Write :: "fd \<Rightarrow> bytes \<Rightarrow> ('w, unit) io"
  Fs_Truncate :: "fd \<Rightarrow> int \<Rightarrow> ('w, unit) io"
  Fs_ReadAll :: "fd \<Rightarrow> ('w, bytes) io"
  Fs_Rename :: "string \<Rightarrow> string \<Rightarrow> ('w, unit) io"
  Fs_Remove :: "string \<Rightarrow> ('w, unit) io"
  IsExist :: "gerr \<Rightarrow> bool"

text \<open>The inodes that are embedded; a symbolic link embeds the inode that was found, or an empty one.\<close>

datatype 'i embedder = DirInode | MemRegularFile bytes | MemSymlink "'i option"

record ('i, 'w) fuse =
  root_Inode :: 'i
  GetChild :: "'i \<Rightarrow> string \<Rightarrow> 'w \<Rightarrow> 'i option"
  NewPersistentInode :: "'i embedder \<Rightarrow> 'w \<Rightarrow> 'i \<times> 'w"
  AddChild :: "'i \<Rightarrow> string \<Rightarrow> 'i \<Rightarrow> 'w \<Rightarrow> 'w"

section \<open>The receiver\<close>

text \<open>\<open>fmodeZero\<close> is the zero value, which reading a missing key of the table gives.\<close>

datatype fmode = fmodeZero | fmodeDir | fmodeFile

record 'w MemFSReceiver =
  Fs :: 'w
  curFiles :: "string \<rightharpoonup> fmode"
  symlinks :: "string \<rightharpoonup> string"

definition MemFS_New :: "'w \<Rightarrow> 'w MemFSReceiver" where
  "MemFS_New create = \<lparr>Fs = create, curFiles = Map.empty, symlinks = Map.empty\<rparr>"

text \<open>Operations of the file system and of the two tables.\<close>

definition on_fs :: "('w, 'a) io \<Rightarrow> ('w MemFSReceiver, 'a) io" where
  "on_fs m n = map_option (\<lambda>(r, w). (r, n\<lparr>Fs := w\<rparr>)) (m (Fs n))"

definition put_file :: "string \<Rightarrow> fmode option \<Rightarrow> ('w MemFSReceiver, unit) io" where
  "put_file p m n = Some (Inr (), n\<lparr>curFiles := (curFiles n)(p := m)\<rparr>)"

definition put_symlink :: "string \<Rightarrow> string option \<Rightarrow> ('w MemFSReceiver, unit) io" where
  "put_symlink p t n = Some (Inr (), n\<lparr>symlinks := (symlinks n)(p := t)\<rparr>)"

definition resolving :: "ReceiveContext \<Rightarrow> string \<Rightarrow> (string \<Rightarrow> ('w, 'a) io) \<Rightarrow> ('w, 'a) io" where
  "resolving ctx path f = andThen (lift_go (ResolvePath ctx path)) f"

text \<open>\<^verbatim>\<open>filepath.SplitList\<close> splits a list of paths at the colons.\<close>

definition SplitList :: "string \<Rightarrow> string list" where
  "SplitList path = (if path = [] then [] else split_on (CHR '':'') path)"

fun mkdir_each :: "'w vfs \<Rightarrow> string \<Rightarrow> string list \<Rightarrow> ('w, unit) io" where
  "mkdir_each v this [] = ok ()"
| "mkdir_each v this (dir # dirs) =
     (let this = Join [this, dir] in
      andThen (result (Fs_Mkdir v this ModeDir)) (\<lambda>r. case r of
        Inl err \<Rightarrow> if \<not> IsExist v err then fail err else mkdir_each v this dirs
      | Inr _ \<Rightarrow> mkdir_each v this dirs))"

definition mem_Subvol :: "'w vfs \<Rightarrow> string \<Rightarrow> ('w MemFSReceiver, unit) io" where
  "mem_Subvol v path = andThen (on_fs (mkdir_each v ''.'' (SplitList path))) (\<lambda>_. put_file path (Some fmodeDir))"

definition mem_Mkfile :: "'w vfs \<Rightarrow> string \<Rightarrow> ('w MemFSReceiver, unit) io" where
  "mem_Mkfile v p =
     andThen (put_file p (Some fmodeFile)) (\<lambda>_.
     andThen (on_fs (Fs_OpenFile v p O_CREATE 384)) (\<lambda>f. on_fs (Fs_Close v f)))"

definition mem_Mkdir :: "'w vfs \<Rightarrow> string \<Rightarrow> ('w MemFSReceiver, unit) io" where
  "mem_Mkdir v p = andThen (put_file p (Some fmodeDir)) (\<lambda>_. on_fs (Fs_Mkdir v p 493))"

definition mem_Rename :: "'w vfs \<Rightarrow> string \<Rightarrow> string \<Rightarrow> ('w MemFSReceiver, unit) io" where
  "mem_Rename v old new n =
     andThen (put_file new (Some (case curFiles n old of None \<Rightarrow> fmodeZero | Some cur \<Rightarrow> cur))) (\<lambda>_.
     andThen (put_file old None) (\<lambda>_.
     on_fs (Fs_Rename v old new))) n"

definition mem_Unlink :: "'w vfs \<Rightarrow> string \<Rightarrow> ('w MemFSReceiver, unit) io" where
  "mem_Unlink v p =
     andThen (put_file p None) (\<lambda>_. andThen (put_symlink p None) (\<lambda>_. on_fs (Fs_Remove v p)))"

definition mem_Rmdir :: "'w vfs \<Rightarrow> string \<Rightarrow> ('w MemFSReceiver, unit) io" where
  "mem_Rmdir v p = andThen (put_file p None) (\<lambda>_. on_fs (Fs_Remove v p))"

text \<open>\<^verbatim>\<open>defer f.Close()\<close>, whose error is dropped.\<close>

definition deferring :: "'w vfs \<Rightarrow> fd \<Rightarrow> ('w MemFSReceiver, 'a) io \<Rightarrow> ('w MemFSReceiver, 'a) io" where
  "deferring v f m n = (case m n of
     None \<Rightarrow> None
   | Some (r, n) \<Rightarrow> map_option (\<lambda>(_, w). (r, n\<lparr>Fs := w\<rparr>)) (Fs_Close v f (Fs n)))"

definition mem_Write :: "'w vfs \<Rightarrow> string \<Rightarrow> u64 \<Rightarrow> bytes \<Rightarrow> ('w MemFSReceiver, unit) io" where
  "mem_Write v p offset data =
     andThen (on_fs (Fs_OpenFile v p O_WRONLY 384)) (\<lambda>f. deferring v f (
     andThen (on_fs (Fs_Seek v f (int64 offset))) (\<lambda>_.
     andThen (result (on_fs (Fs_Write v f data))) (\<lambda>err.
     andThen (put_file p (Some fmodeFile)) (\<lambda>_. lift_sum err)))))"

definition mem_Truncate :: "'w vfs \<Rightarrow> string \<Rightarrow> u64 \<Rightarrow> ('w MemFSReceiver, unit) io" where
  "mem_Truncate v p n =
     andThen (on_fs (Fs_OpenFile v p O_WRONLY 384)) (\<lambda>f. deferring v f (on_fs (Fs_Truncate v f (int64 n))))"

fun mem_recv :: "'w vfs \<Rightarrow> ext \<Rightarrow> ReceiveContext \<Rightarrow> rcall \<Rightarrow> ('w MemFSReceiver, unit) io" where
  "mem_recv v X ctx (Subvol path uuid ctransid) = mem_Subvol v path"
| "mem_recv v X ctx (Snapshot path uuid ctransid cu ct) = fail ErrNotSupported"
| "mem_recv v X ctx (Mkfile path ino) = resolving ctx path (mem_Mkfile v)"
| "mem_recv v X ctx (Mkdir path ino) = resolving ctx path (mem_Mkdir v)"
| "mem_recv v X ctx (Mknod path ino mode rdev) = fail ErrNotSupported"
| "mem_recv v X ctx (Mkfifo path ino) = fail ErrNotSupported"
| "mem_recv v X ctx (Mksock path ino) = fail ErrNotSupported"
| "mem_recv v X ctx (Symlink path ino linkTo) =
     resolving ctx path (\<lambda>p. resolving ctx linkTo (\<lambda>t. put_symlink p (Some t)))"
| "mem_recv v X ctx (Rename oldPath newPath) =
     resolving ctx oldPath (\<lambda>old. resolving ctx newPath (\<lambda>new. mem_Rename v old new))"
| "mem_recv v X ctx (Link path linkTo) = fail ErrNotSupported"
| "mem_recv v X ctx (Unlink path) = resolving ctx path (mem_Unlink v)"
| "mem_recv v X ctx (Rmdir path) = resolving ctx path (mem_Rmdir v)"
| "mem_recv v X ctx (Write path offset data) = resolving ctx path (\<lambda>p. mem_Write v p offset data)"
| "mem_recv v X ctx (EncodedWrite path op) =
     andThen (lift_sum (Decompress X op)) (\<lambda>data. resolving ctx path (\<lambda>p. mem_Write v p (Offset op) data))"
| "mem_recv v X ctx (Clone path offset len cu ct clonePath cloneOffset) = fail ErrNotSupported"
| "mem_recv v X ctx (SetXattr path name data) = ok ()"
| "mem_recv v X ctx (RemoveXattr path name) = ok ()"
| "mem_recv v X ctx (Truncate path n) = resolving ctx path (\<lambda>p. mem_Truncate v p n)"
| "mem_recv v X ctx (Chmod path mode) = ok ()"
| "mem_recv v X ctx (Chown path uid gid) = ok ()"
| "mem_recv v X ctx (Utimes path atime mtime ctime) = ok ()"
| "mem_recv v X ctx (UpdateExtent path fileOffset tmpSize) = ok ()"
| "mem_recv v X ctx (EnableVerity path algorithm blockSize salt sig) = fail ErrNotSupported"
| "mem_recv v X ctx (Fallocate path mode offset len) = resolving ctx path (\<lambda>p. put_file p (Some fmodeFile))"
| "mem_recv v X ctx (Fileattr path attr) = ok ()"
| "mem_recv v X ctx FinishSubvolume = ok ()"

definition mem_receiver :: "'w vfs \<Rightarrow> ext \<Rightarrow> 'w MemFSReceiver receiver" where
  "mem_receiver v X = \<lparr>recv = (\<lambda>ctx c. returned (mem_recv v X ctx c)), PreOp = None, PostOp = None\<rparr>"

section \<open>Mounting\<close>

text \<open>\<^verbatim>\<open>filepath.Split\<close>: what follows the last slash, and everything up to it.\<close>

definition Split :: "string \<Rightarrow> string \<times> string" where
  "Split p = (let base = rev (takeWhile (\<lambda>c. c \<noteq> slash) (rev p)) in (take (length p - length base) p, base))"

fun find_loop :: "('i, 'w) fuse \<Rightarrow> 'w \<Rightarrow> 'i \<Rightarrow> string list \<Rightarrow> 'i option" where
  "find_loop F w p [] = Some p"
| "find_loop F w p (name # names) =
     (if name = [] then find_loop F w p names
      else (case GetChild F p name w of None \<Rightarrow> None | Some q \<Rightarrow> find_loop F w q names))"

definition findInode :: "('i, 'w) fuse \<Rightarrow> string \<Rightarrow> 'w \<Rightarrow> 'i option" where
  "findInode F path w = find_loop F w (root_Inode F) (SplitList path)"

fun mkdirAll_loop :: "('i, 'w) fuse \<Rightarrow> 'i \<Rightarrow> string list \<Rightarrow> 'w \<Rightarrow> 'i \<times> 'w" where
  "mkdirAll_loop F p [] w = (p, w)"
| "mkdirAll_loop F p (c # cs) w =
     (if c = [] then mkdirAll_loop F p cs w
      else (case GetChild F p c w of
        Some ch \<Rightarrow> mkdirAll_loop F ch cs w
      | None \<Rightarrow> let (ch, w) = NewPersistentInode F DirInode w; w = AddChild F p c ch w
                in mkdirAll_loop F ch cs w))"

definition mkdirAll :: "('i, 'w) fuse \<Rightarrow> string \<Rightarrow> 'w \<Rightarrow> 'i \<times> 'w" where
  "mkdirAll F path = mkdirAll_loop F (root_Inode F) (split_on slash path)"

definition add_inode :: "('i, 'w) fuse \<Rightarrow> 'i \<Rightarrow> string \<Rightarrow> 'i embedder \<Rightarrow> 'w \<Rightarrow> 'w" where
  "add_inode F p base embedder w = (let (ch, w) = NewPersistentInode F embedder w in AddChild F p base ch w)"

text \<open>A file that cannot be opened or read is left out. The files stay open.\<close>

definition add_file :: "'w vfs \<Rightarrow> ('i, 'w) fuse \<Rightarrow> string \<Rightarrow> fmode \<Rightarrow> 'w \<Rightarrow> 'w go" where
  "add_file v F name mode w =
     (let (dir, base) = Split name; (p, w) = mkdirAll F dir w in
      case mode of
        fmodeZero \<Rightarrow> Some w
      | fmodeDir \<Rightarrow> Some (add_inode F p base DirInode w)
      | fmodeFile \<Rightarrow>
          map_option (\<lambda>(r, w). case r of Inl _ \<Rightarrow> w | Inr data \<Rightarrow> add_inode F p base (MemRegularFile data) w)
            (andThen (Fs_OpenFile v name O_RDONLY 384) (Fs_ReadAll v) w))"

definition add_symlink :: "('i, 'w) fuse \<Rightarrow> string \<Rightarrow> string \<Rightarrow> 'w \<Rightarrow> 'w" where
  "add_symlink F name target w =
     (let (dir, base) = Split name; (p, w) = mkdirAll F dir w
      in add_inode F p base (MemSymlink (findInode F target w)) w)"

fun add_files :: "'w vfs \<Rightarrow> ('i, 'w) fuse \<Rightarrow> (string \<rightharpoonup> fmode) \<Rightarrow> string list \<Rightarrow> 'w \<Rightarrow> 'w go" where
  "add_files v F m [] w = Some w"
| "add_files v F m (name # names) w = (case m name of
     None \<Rightarrow> add_files v F m names w
   | Some mode \<Rightarrow> do { w \<leftarrow> add_file v F name mode w; add_files v F m names w })"

text \<open>The order in which the maps are walked is an argument: an enumeration of their keys.\<close>

definition OnAdd :: "'w vfs \<Rightarrow> ('i, 'w) fuse \<Rightarrow> (string set \<Rightarrow> string list) \<Rightarrow> 'w MemFSReceiver \<Rightarrow> 'w MemFSReceiver go" where
  "OnAdd v F map_order n = do {
     w \<leftarrow> add_files v F (curFiles n) (map_order (dom (curFiles n))) (Fs n);
     let w = foldl (\<lambda>w name. case symlinks n name of None \<Rightarrow> w | Some target \<Rightarrow> add_symlink F name target w) w
       (map_order (dom (symlinks n)));
     Some \<lparr>Fs = w, curFiles = Map.empty, symlinks = Map.empty\<rparr> }"

section \<open>The table of files\<close>

text \<open>
  What the documentation of the file system says, with \<open>tree\<close> for the entries that it holds:
  creating makes an entry, writing is for files that exist, renaming and removing an entry
  without others below it move and drop it, and what fails changes nothing.
\<close>

definition leaf :: "(string \<rightharpoonup> fmode) \<Rightarrow> string \<Rightarrow> bool" where
  "leaf t p \<longleftrightarrow> (\<forall>q\<in>dom t. \<not> HasPrefix q (p @ ''/''))"

definition vfs_contract :: "'w vfs \<Rightarrow> ('w \<Rightarrow> string \<rightharpoonup> fmode) \<Rightarrow> bool" where
  "vfs_contract v tree \<longleftrightarrow>
     (\<forall>p m w w'. Fs_Mkdir v p m w = Some (Inr (), w') \<longrightarrow> tree w' = (tree w)(p \<mapsto> fmodeDir))
   \<and> (\<forall>p m f w w'. Fs_OpenFile v p O_CREATE m w = Some (Inr f, w') \<longrightarrow> tree w' = (tree w)(p \<mapsto> fmodeFile))
   \<and> (\<forall>p m f w w'. Fs_OpenFile v p O_WRONLY m w = Some (Inr f, w') \<longrightarrow> tree w p = Some fmodeFile \<and> tree w' = tree w)
   \<and> (\<forall>f r w w'. Fs_Close v f w = Some (r, w') \<longrightarrow> tree w' = tree w)
   \<and> (\<forall>f i r w w'. Fs_Seek v f i w = Some (r, w') \<longrightarrow> tree w' = tree w)
   \<and> (\<forall>f d r w w'. Fs_Write v f d w = Some (r, w') \<longrightarrow> tree w' = tree w)
   \<and> (\<forall>f i r w w'. Fs_Truncate v f i w = Some (r, w') \<longrightarrow> tree w' = tree w)
   \<and> (\<forall>p q w w'. Fs_Rename v p q w = Some (Inr (), w') \<longrightarrow> leaf (tree w) p \<longrightarrow> p \<noteq> q \<longrightarrow>
        tree w' = (tree w)(q := tree w p, p := None))
   \<and> (\<forall>p q w. tree w p = None \<longrightarrow> (\<exists>e. Fs_Rename v p q w = Some (Inl e, w)))
   \<and> (\<forall>p w w'. Fs_Remove v p w = Some (Inr (), w') \<longrightarrow> leaf (tree w) p \<longrightarrow> tree w' = (tree w)(p := None))"

lemma contract_vfs:
  assumes "vfs_contract v tree"
  shows "\<And>p m w w'. Fs_Mkdir v p m w = Some (Inr (), w') \<Longrightarrow> tree w' = (tree w)(p \<mapsto> fmodeDir)"
    and "\<And>p m f w w'. Fs_OpenFile v p O_CREATE m w = Some (Inr f, w') \<Longrightarrow> tree w' = (tree w)(p \<mapsto> fmodeFile)"
    and "\<And>p m f w w'. Fs_OpenFile v p O_WRONLY m w = Some (Inr f, w') \<Longrightarrow> tree w p = Some fmodeFile \<and> tree w' = tree w"
    and "\<And>f r w w'. Fs_Close v f w = Some (r, w') \<Longrightarrow> tree w' = tree w"
    and "\<And>f i r w w'. Fs_Seek v f i w = Some (r, w') \<Longrightarrow> tree w' = tree w"
    and "\<And>f d r w w'. Fs_Write v f d w = Some (r, w') \<Longrightarrow> tree w' = tree w"
    and "\<And>f i r w w'. Fs_Truncate v f i w = Some (r, w') \<Longrightarrow> tree w' = tree w"
    and "\<And>p q w w'. Fs_Rename v p q w = Some (Inr (), w') \<Longrightarrow> leaf (tree w) p \<Longrightarrow> p \<noteq> q \<Longrightarrow>
        tree w' = (tree w)(q := tree w p, p := None)"
    and "\<And>p q w. tree w p = None \<Longrightarrow> \<exists>e. Fs_Rename v p q w = Some (Inl e, w)"
    and "\<And>p w w'. Fs_Remove v p w = Some (Inr (), w') \<Longrightarrow> leaf (tree w) p \<Longrightarrow> tree w' = (tree w)(p := None)"
proof -
  note c = assms [unfolded vfs_contract_def]
  show "\<And>p m w w'. Fs_Mkdir v p m w = Some (Inr (), w') \<Longrightarrow> tree w' = (tree w)(p \<mapsto> fmodeDir)"
    "\<And>p m f w w'. Fs_OpenFile v p O_CREATE m w = Some (Inr f, w') \<Longrightarrow> tree w' = (tree w)(p \<mapsto> fmodeFile)"
    "\<And>p m f w w'. Fs_OpenFile v p O_WRONLY m w = Some (Inr f, w') \<Longrightarrow> tree w p = Some fmodeFile \<and> tree w' = tree w"
    using c by metis+
  show "\<And>f r w w'. Fs_Close v f w = Some (r, w') \<Longrightarrow> tree w' = tree w"
    "\<And>f i r w w'. Fs_Seek v f i w = Some (r, w') \<Longrightarrow> tree w' = tree w"
    "\<And>f d r w w'. Fs_Write v f d w = Some (r, w') \<Longrightarrow> tree w' = tree w"
    "\<And>f i r w w'. Fs_Truncate v f i w = Some (r, w') \<Longrightarrow> tree w' = tree w"
    using c by metis+
  show "\<And>p q w w'. Fs_Rename v p q w = Some (Inr (), w') \<Longrightarrow> leaf (tree w) p \<Longrightarrow> p \<noteq> q \<Longrightarrow>
        tree w' = (tree w)(q := tree w p, p := None)"
    using c by metis
  show "\<And>p q w. tree w p = None \<Longrightarrow> \<exists>e. Fs_Rename v p q w = Some (Inl e, w)"
    using c by metis
  show "\<And>p w w'. Fs_Remove v p w = Some (Inr (), w') \<Longrightarrow> leaf (tree w) p \<Longrightarrow> tree w' = (tree w)(p := None)"
    using c by metis
qed

text \<open>The calls for which the table is kept: those that name an entry of the file system.\<close>

fun regular :: "(string \<rightharpoonup> fmode) \<Rightarrow> ReceiveContext \<Rightarrow> rcall \<Rightarrow> bool" where
  "regular t ctx (Subvol path u c) = False"
| "regular t ctx (Rename old new) = (\<forall>p. ResolvePath ctx old = Some p \<longrightarrow>
     t p \<noteq> None \<and> leaf t p \<and> ResolvePath ctx new \<noteq> Some p)"
| "regular t ctx (Unlink path) = (\<forall>p. ResolvePath ctx path = Some p \<longrightarrow> leaf t p)"
| "regular t ctx (Rmdir path) = (\<forall>p. ResolvePath ctx path = Some p \<longrightarrow> leaf t p)"
| "regular t ctx (Fallocate path m i j) = (\<forall>p. ResolvePath ctx path = Some p \<longrightarrow> t p = Some fmodeFile)"
| "regular t ctx _ = True"

text \<open>What a call did that has succeeded.\<close>

lemma resolving_Some:
  "resolving ctx path f n = Some (Inr x, n') \<longleftrightarrow> (\<exists>p. ResolvePath ctx path = Some p \<and> f p n = Some (Inr x, n'))"
  by (auto simp: resolving_def andThen_def lift_go_def split: option.splits)

lemma andThen_Some:
  "andThen m f n = Some (Inr x, n') \<longleftrightarrow> (\<exists>a n1. m n = Some (Inr a, n1) \<and> f a n1 = Some (Inr x, n'))"
  by (auto simp: andThen_def split: option.splits sum.splits)

lemma on_fs_Some:
  "on_fs m n = Some (r, n') \<longleftrightarrow> (\<exists>w'. m (Fs n) = Some (r, w') \<and> n' = n\<lparr>Fs := w'\<rparr>)"
  by (auto simp: on_fs_def)

lemma put_file_Some: "put_file p m n = Some (r, n') \<longleftrightarrow> r = Inr () \<and> n' = n\<lparr>curFiles := (curFiles n)(p := m)\<rparr>"
  and put_symlink_Some: "put_symlink p t n = Some (r, n') \<longleftrightarrow> r = Inr () \<and> n' = n\<lparr>symlinks := (symlinks n)(p := t)\<rparr>"
  by (auto simp: put_file_def put_symlink_def)

lemma deferring_Some:
  "deferring v f m n = Some (r, n') \<longleftrightarrow>
     (\<exists>n1 x w. m n = Some (r, n1) \<and> Fs_Close v f (Fs n1) = Some (x, w) \<and> n' = n1\<lparr>Fs := w\<rparr>)"
  by (auto simp: deferring_def split: option.splits)

lemma result_Some: "result m n = Some (x, n') \<longleftrightarrow> (\<exists>r. m n = Some (r, n') \<and> x = Inr r)"
  by (auto simp: result_def split: option.splits)

lemma lift_sum_Some: "lift_sum e n = Some (x, n') \<longleftrightarrow> x = e \<and> n' = n"
  by (auto simp: lift_sum_def)

lemmas mem_Some = resolving_Some andThen_Some on_fs_Some put_file_Some put_symlink_Some deferring_Some
  result_Some lift_sum_Some

lemma mem_Write_table:
  assumes "vfs_contract v tree" "curFiles n = tree (Fs n)" "mem_Write v p offset data n = Some (Inr (), n')"
  shows "curFiles n' = tree (Fs n')"
  using assms(2,3) contract_vfs(3) [OF assms(1), of p 384 "Fs n"] contract_vfs(4-6) [OF assms(1)]
  by (auto simp: mem_Write_def mem_Some fun_upd_triv)


text \<open>A symbolic link exists only in the table of links. Renaming it, as every stream does with what it
  has created, is an error, and the link keeps its first name.\<close>

theorem symlink_rename_fails:
  assumes "vfs_contract v tree" "ResolvePath ctx old = Some p" "ResolvePath ctx linkTo = Some t"
    and "ResolvePath ctx new = Some q" "tree (Fs n) p = None"
  shows "\<exists>n1 n2 e. mem_recv v X ctx (Symlink old ino linkTo) n = Some (Inr (), n1)
     \<and> mem_recv v X ctx (Rename old new) n1 = Some (Inl e, n2) \<and> symlinks n2 = (symlinks n)(p \<mapsto> t)"
proof -
  obtain e where e: "Fs_Rename v p q (Fs n) = Some (Inl e, Fs n)"
    using contract_vfs(9) [OF assms(1,5), of q] by blast
  show ?thesis
    using assms(2-4) e
    by (simp add: resolving_def andThen_def lift_go_def put_symlink_def mem_Rename_def put_file_def on_fs_def)
qed

section \<open>An instance\<close>

definition sample_vfs :: "(string \<rightharpoonup> fmode) vfs" where
  "sample_vfs = \<lparr>
     Fs_Mkdir = (\<lambda>p m w. if w p = None then Some (Inr (), w(p \<mapsto> fmodeDir)) else Some (Inl (EnvErr ''exists''), w)),
     Fs_OpenFile = (\<lambda>p flags m w.
       if flags = O_CREATE then Some (Inr 3, w(p \<mapsto> fmodeFile))
       else if w p = Some fmodeFile then Some (Inr 3, w) else Some (Inl (ErrNotExist p), w)),
     Fs_Close = (\<lambda>f. ok ()), Fs_Seek = (\<lambda>f i. ok ()), Fs_Write = (\<lambda>f d. ok ()), Fs_Truncate = (\<lambda>f i. ok ()),
     Fs_ReadAll = (\<lambda>f. ok []),
     Fs_Rename = (\<lambda>p q w. if w p = None then Some (Inl (ErrNotExist p), w) else Some (Inr (), w(q := w p, p := None))),
     Fs_Remove = (\<lambda>p w. if w p = None then Some (Inl (ErrNotExist p), w) else Some (Inr (), w(p := None))),
     IsExist = (\<lambda>e. e = EnvErr ''exists'')\<rparr>"

lemma sample_vfs_contract: "vfs_contract sample_vfs (\<lambda>w. w)"
  unfolding vfs_contract_def sample_vfs_def by (auto simp: ok_def split: if_splits)

definition sample_mem :: "(string \<rightharpoonup> fmode) MemFSReceiver" where
  "sample_mem = \<lparr>Fs = [''snap'' \<mapsto> fmodeDir], curFiles = [''snap'' \<mapsto> fmodeDir], symlinks = Map.empty\<rparr>"

definition sample_view :: ReceiveContext where
  "sample_view = \<lparr>CurrentOffset = 0,
     CurrentSubvolume = Some \<lparr>SubvolPath = ''snap'', SubvolUUID = [], SubvolCtransid = 1\<rparr>\<rparr>"

lemma sample_view_resolves:
  "ResolvePath sample_view ''o257'' = Some ''snap/o257''" "ResolvePath sample_view ''f'' = Some ''snap/f''"
  "ResolvePath sample_view ''l'' = Some ''snap/l''"
  by code_simp+


lemma symlink_rename_fails_witness:
  "\<exists>n1 n2 e. mem_recv sample_vfs sample_ext sample_view (Symlink ''o257'' 257 ''f'') sample_mem = Some (Inr (), n1)
     \<and> mem_recv sample_vfs sample_ext sample_view (Rename ''o257'' ''l'') n1 = Some (Inl e, n2)
     \<and> symlinks n2 = (symlinks sample_mem)(''snap/o257'' \<mapsto> ''snap/f'')"
  by (rule symlink_rename_fails [OF sample_vfs_contract sample_view_resolves]) (simp add: sample_mem_def)

end
