(* ===== verification/Ioctls.thy ===== *)
theory Ioctls
  imports Directory
begin

text \<open>
  The generated tables of the package btrfs and the programs that generate them: the numbers of
  the ioctls (\<^verbatim>\<open>gen/ioctlgen/main.go\<close>, \<^verbatim>\<open>pkg/btrfs/zz_ioctl_defs.go\<close>), the layouts of the
  structures (\<^verbatim>\<open>gen/ioctl_ctypes.go\<close>, \<^verbatim>\<open>pkg/btrfs/zz_ioctl_types.go\<close>) and the names of the
  constants (\<^verbatim>\<open>pkg/btrfs/zz_stringers.go\<close> and the two stringers of \<^verbatim>\<open>pkg/sendstream\<close>). The
  theorems say that the numbers are what the generator computes from the sizes of the structures,
  and that every constant is printed by its name.
\<close>

section \<open>Layouts of structures\<close>

text \<open>
  Unsigned and signed integers of a width in bits, arrays, and structures with their fields. The
  size is the one of \<^verbatim>\<open>encoding/binary\<close>, which puts the fields one behind the other.
\<close>

datatype ctype = U nat | I nat | Arr nat ctype | Struct "(string \<times> ctype) list"

fun sizeof :: "ctype \<Rightarrow> nat" where
  "sizeof (U n) = n div 8"
| "sizeof (I n) = n div 8"
| "sizeof (Arr n t) = n * sizeof t"
| "sizeof (Struct fs) = (\<Sum>f\<leftarrow>fs. sizeof (snd f))"

definition balanceArgs_layout :: ctype where
  "balanceArgs_layout = Struct [
    (''Profiles'', U 64), (''Usage'', U 64), (''Devid'', U 64), (''Pstart'', U 64), (''Pend'', U 64),
    (''Vstart'', U 64), (''Vend'', U 64), (''Target'', U 64), (''Flags'', U 64), (''Limit'', U 64),
    (''Min'', U 32), (''Max'', U 32), (''Unused'', Arr 6 (U 64))]"

definition balanceProgress_layout :: ctype where
  "balanceProgress_layout = Struct [
    (''Expected'', U 64), (''Considered'', U 64), (''Completed'', U 64)]"

definition BtrfsRootRef_layout :: ctype where
  "BtrfsRootRef_layout = Struct [
    (''Dirid'', U 64), (''Sequence'', U 64), (''Len'', U 16)]"

definition BtrfsInodeRef_layout :: ctype where
  "BtrfsInodeRef_layout = Struct [
    (''Index'', U 64), (''Len'', U 16)]"

definition BtrfsTimespec_layout :: ctype where
  "BtrfsTimespec_layout = Struct [
    (''Sec'', U 64), (''Nsec'', U 32)]"

definition cloneRangeArgs_layout :: ctype where
  "cloneRangeArgs_layout = Struct [
    (''Src_fd'', I 64), (''Src_offset'', U 64), (''Src_length'', U 64), (''Dest_offset'', U 64)]"

definition defragRangeArgs_layout :: ctype where
  "defragRangeArgs_layout = Struct [
    (''Start'', U 64), (''Len'', U 64), (''Flags'', U 64), (''Extent_thresh'', U 32),
    (''Compress_type'', U 32), (''Unused'', Arr 4 (U 32))]"

definition deviceInfoArgs_layout :: ctype where
  "deviceInfoArgs_layout = Struct [
    (''Devid'', U 64), (''Uuid'', Arr 16 (U 8)), (''Bytes_used'', U 64), (''Total_bytes'', U 64),
    (''Unused'', Arr 379 (U 64)), (''Path'', Arr 1024 (U 8))]"

definition deviceReplaceStartParams_layout :: ctype where
  "deviceReplaceStartParams_layout = Struct [
    (''Srcdevid'', U 64), (''Cont_reading_from_srcdev_mode'', U 64), (''Srcdev_name'', Arr 1025 (U 8)),
    (''Tgtdev_name'', Arr 1025 (U 8)), (''Pad_cgo_0'', Arr 6 (U 8))]"

definition deviceReplaceArgs_layout :: ctype where
  "deviceReplaceArgs_layout = Struct [
    (''Cmd'', U 64), (''Result'', U 64), (''Start'', deviceReplaceStartParams_layout),
    (''Spare'', Arr 64 (U 64))]"

definition featureFlags_layout :: ctype where
  "featureFlags_layout = Struct [
    (''Compat_flags'', U 64), (''Compat_ro_flags'', U 64), (''Incompat_flags'', U 64)]"

definition filesystemInfoArgs_layout :: ctype where
  "filesystemInfoArgs_layout = Struct [
    (''Max_id'', U 64), (''Num_devices'', U 64), (''Fsid'', Arr 16 (U 8)), (''Nodesize'', U 32),
    (''Sectorsize'', U 32), (''Clone_alignment'', U 32), (''Csum_type'', U 16), (''Csum_size'', U 16),
    (''Flags'', U 64), (''Generation'', U 64), (''Metadata_uuid'', Arr 16 (U 8)),
    (''Reserved'', Arr 944 (U 8))]"

definition fsVerityDigest_layout :: ctype where
  "fsVerityDigest_layout = Struct [
    (''Algorithm'', U 16), (''Size'', U 16)]"

definition fsVerityEnableArg_layout :: ctype where
  "fsVerityEnableArg_layout = Struct [
    (''Version'', U 32), (''Hash_algorithm'', U 32), (''Block_size'', U 32), (''Salt_size'', U 32),
    (''Salt_ptr'', U 64), (''Sig_size'', U 32), (''X__reserved1'', U 32), (''Sig_ptr'', U 64),
    (''X__reserved2'', Arr 11 (U 64))]"

definition fsVerityReadMetadataArg_layout :: ctype where
  "fsVerityReadMetadataArg_layout = Struct [
    (''Metadata_type'', U 64), (''Offset'', U 64), (''Length'', U 64), (''Buf_ptr'', U 64),
    (''X__reserved'', U 64)]"

definition getDeviceStats_layout :: ctype where
  "getDeviceStats_layout = Struct [
    (''Devid'', U 64), (''Items'', U 64), (''Flags'', U 64), (''Values'', Arr 5 (U 64)),
    (''Unused'', Arr 121 (U 64))]"

definition timespec_layout :: ctype where
  "timespec_layout = Struct [
    (''Sec'', U 64), (''Nsec'', U 32), (''Pad_cgo_0'', Arr 4 (U 8))]"

definition getSubvolumeInfoArgs_layout :: ctype where
  "getSubvolumeInfoArgs_layout = Struct [
    (''Treeid'', U 64), (''Name'', Arr 256 (I 8)), (''Parent_id'', U 64), (''Dirid'', U 64),
    (''Generation'', U 64), (''Flags'', U 64), (''Uuid'', Arr 16 (U 8)), (''Parent_uuid'', Arr 16 (U 8)),
    (''Received_uuid'', Arr 16 (U 8)), (''Ctransid'', U 64), (''Otransid'', U 64), (''Stransid'', U 64),
    (''Rtransid'', U 64), (''Ctime'', timespec_layout), (''Otime'', timespec_layout),
    (''Stime'', timespec_layout), (''Rtime'', timespec_layout), (''Reserved'', Arr 8 (U 64))]"

definition rootRef_layout :: ctype where
  "rootRef_layout = Struct [
    (''Treeid'', U 64), (''Dirid'', U 64)]"

definition getSubvolumeRootRefArgs_layout :: ctype where
  "getSubvolumeRootRefArgs_layout = Struct [
    (''Min_treeid'', U 64), (''Rootref'', Arr 255 (rootRef_layout)), (''Num_items'', U 8),
    (''Align'', Arr 7 (U 8))]"

definition inoLookupArgs_layout :: ctype where
  "inoLookupArgs_layout = Struct [
    (''Treeid'', U 64), (''Objectid'', U 64), (''Name'', Arr 4080 (I 8))]"

definition inoLookupUserArgs_layout :: ctype where
  "inoLookupUserArgs_layout = Struct [
    (''Dirid'', U 64), (''Treeid'', U 64), (''Name'', Arr 256 (I 8)), (''Path'', Arr 3824 (I 8))]"

definition inoPathArgs_layout :: ctype where
  "inoPathArgs_layout = Struct [
    (''Inum'', U 64), (''Size'', U 64), (''Reserved'', Arr 4 (U 64)), (''Fspath'', U 64)]"

definition ioctlBalanceArgs_layout :: ctype where
  "ioctlBalanceArgs_layout = Struct [
    (''Flags'', U 64), (''State'', U 64), (''Data'', balanceArgs_layout), (''Meta'', balanceArgs_layout),
    (''Sys'', balanceArgs_layout), (''Stat'', balanceProgress_layout), (''Unused'', Arr 72 (U 64))]"

definition logicalINOArgs_layout :: ctype where
  "logicalINOArgs_layout = Struct [
    (''Logical'', U 64), (''Size'', U 64), (''Reserved'', Arr 3 (U 64)), (''Flags'', U 64),
    (''Inodes'', U 64)]"

definition qgroupAssignArgs_layout :: ctype where
  "qgroupAssignArgs_layout = Struct [
    (''Assign'', U 64), (''Src'', U 64), (''Dst'', U 64)]"

definition qgroupCreateArgs_layout :: ctype where
  "qgroupCreateArgs_layout = Struct [
    (''Create'', U 64), (''Qgroupid'', U 64)]"

definition qgroupLimit_layout :: ctype where
  "qgroupLimit_layout = Struct [
    (''Flags'', U 64), (''Max_rfer'', U 64), (''Max_excl'', U 64), (''Rsv_rfer'', U 64),
    (''Rsv_excl'', U 64)]"

definition qgroupLimitArgs_layout :: ctype where
  "qgroupLimitArgs_layout = Struct [
    (''Qgroupid'', U 64), (''Lim'', qgroupLimit_layout)]"

definition quotaCTLArgs_layout :: ctype where
  "quotaCTLArgs_layout = Struct [
    (''Cmd'', U 64), (''Status'', U 64)]"

definition quotaRescanArgs_layout :: ctype where
  "quotaRescanArgs_layout = Struct [
    (''Flags'', U 64), (''Progress'', U 64), (''Reserved'', Arr 6 (U 64))]"

definition receivedSubvolArgs_layout :: ctype where
  "receivedSubvolArgs_layout = Struct [
    (''Uuid'', Arr 16 (I 8)), (''Stransid'', U 64), (''Rtransid'', U 64), (''Stime'', timespec_layout),
    (''Rtime'', timespec_layout), (''Flags'', U 64), (''Reserved'', Arr 16 (U 64))]"

definition sameArgs_layout :: ctype where
  "sameArgs_layout = Struct [
    (''Logical_offset'', U 64), (''Length'', U 64), (''Dest_count'', U 16), (''Reserved1'', U 16),
    (''Reserved2'', U 32)]"

definition scrubProgress_layout :: ctype where
  "scrubProgress_layout = Struct [
    (''Data_extents_scrubbed'', U 64), (''Tree_extents_scrubbed'', U 64), (''Data_bytes_scrubbed'', U 64),
    (''Tree_bytes_scrubbed'', U 64), (''Read_errors'', U 64), (''Csum_errors'', U 64),
    (''Verify_errors'', U 64), (''No_csum'', U 64), (''Csum_discards'', U 64), (''Super_errors'', U 64),
    (''Malloc_errors'', U 64), (''Uncorrectable_errors'', U 64), (''Corrected_errors'', U 64),
    (''Last_physical'', U 64), (''Unverified_errors'', U 64)]"

definition scrubArgs_layout :: ctype where
  "scrubArgs_layout = Struct [
    (''Devid'', U 64), (''Start'', U 64), (''End'', U 64), (''Flags'', U 64),
    (''Progress'', scrubProgress_layout), (''Unused'', Arr 109 (U 64))]"

definition SearchHeader_layout :: ctype where
  "SearchHeader_layout = Struct [
    (''Transid'', U 64), (''Objectid'', U 64), (''Offset'', U 64), (''Type'', U 32), (''Len'', U 32)]"

definition SearchParams_layout :: ctype where
  "SearchParams_layout = Struct [
    (''Tree_id'', U 64), (''Min_objectid'', U 64), (''Max_objectid'', U 64), (''Min_offset'', U 64),
    (''Max_offset'', U 64), (''Min_transid'', U 64), (''Max_transid'', U 64), (''Min_type'', U 32),
    (''Max_type'', U 32), (''Nr_items'', U 32), (''Unused'', U 32), (''Unused1'', U 64),
    (''Unused2'', U 64), (''Unused3'', U 64), (''Unused4'', U 64)]"

definition SearchArgs_layout :: ctype where
  "SearchArgs_layout = Struct [
    (''Key'', SearchParams_layout), (''Buf'', Arr 3992 (I 8))]"

definition searchArgsV2_layout :: ctype where
  "searchArgsV2_layout = Struct [
    (''Key'', SearchParams_layout), (''Size'', U 64)]"

definition sendArgs_layout :: ctype where
  "sendArgs_layout = Struct [
    (''Send_fd'', I 64), (''Clone_sources_count'', U 64), (''Clone_sources'', U 64),
    (''Parent_root'', U 64), (''Flags'', U 64), (''Version'', U 32), (''Reserved'', Arr 28 (U 8))]"

definition spaceArgs_layout :: ctype where
  "spaceArgs_layout = Struct [
    (''Space_slots'', U 64), (''Total_spaces'', U 64)]"

definition volumeArgs_layout :: ctype where
  "volumeArgs_layout = Struct [
    (''Fd'', I 64), (''Name'', Arr 4088 (I 8))]"

definition volumeArgsV2_layout :: ctype where
  "volumeArgsV2_layout = Struct [
    (''Fd'', I 64), (''Transid'', U 64), (''Flags'', U 64), (''Anon0'', Arr 32 (U 8)),
    (''Name'', Arr 4040 (I 8))]"

text \<open>The argument of encoded writes, \<^verbatim>\<open>pkg/btrfs/encoded_write.go\<close>; its first field is a pointer.\<close>

definition encodedIOArgs_layout :: ctype where
  "encodedIOArgs_layout = Struct [(''Iov'', U 64), (''Iovcnt'', U 64), (''Offset'', I 64), (''Flags'', U 64),
     (''Len'', U 64), (''Unencoded_len'', U 64), (''Unencoded_offset'', U 64), (''Compression'', U 32),
     (''Encryption'', U 32), (''Reserved'', Arr 64 (U 8))]"

section \<open>Numbers of ioctls\<close>

definition IOC_NONE :: u64 where [simp]: "IOC_NONE = 0x0"
definition IOC_WRITE :: u64 where [simp]: "IOC_WRITE = 0x1"
definition IOC_READ :: u64 where [simp]: "IOC_READ = 0x2"
definition IOC_NRBITS :: nat where [simp]: "IOC_NRBITS = 8"
definition IOC_TYPEBITS :: nat where [simp]: "IOC_TYPEBITS = 8"
definition IOC_SIZEBITS :: nat where [simp]: "IOC_SIZEBITS = 14"
definition IOC_NRSHIFT :: nat where [simp]: "IOC_NRSHIFT = 0"
definition IOC_TYPESHIFT :: nat where [simp]: "IOC_TYPESHIFT = IOC_NRSHIFT + IOC_NRBITS"
definition IOC_SIZESHIFT :: nat where [simp]: "IOC_SIZESHIFT = IOC_TYPESHIFT + IOC_TYPEBITS"
definition IOC_DIRSHIFT :: nat where [simp]: "IOC_DIRSHIFT = IOC_SIZESHIFT + IOC_SIZEBITS"
definition IOC_SIZEMASK :: u64 where [simp]: "IOC_SIZEMASK = push_bit IOC_SIZEBITS 1 - 1"
definition BTRFS_IOCTL_MAGIC :: u64 where [simp]: "BTRFS_IOCTL_MAGIC = 0x94"

definition Size :: "IoctlCmd \<Rightarrow> u64" where
  "Size c = drop_bit IOC_SIZESHIFT c AND IOC_SIZEMASK"

definition IOC :: "u64 \<Rightarrow> u64 \<Rightarrow> u64 \<Rightarrow> u64 \<Rightarrow> IoctlCmd" where
  "IOC dir t nr sz = push_bit IOC_DIRSHIFT dir OR push_bit IOC_TYPESHIFT t OR push_bit IOC_NRSHIFT nr
     OR push_bit IOC_SIZESHIFT sz"

definition IOR :: "u64 \<Rightarrow> u64 \<Rightarrow> u64 \<Rightarrow> IoctlCmd" where
  "IOR t nr sz = IOC IOC_READ t nr sz"

definition IOW :: "u64 \<Rightarrow> u64 \<Rightarrow> u64 \<Rightarrow> IoctlCmd" where
  "IOW t nr sz = IOC IOC_WRITE t nr sz"

definition IOWR :: "u64 \<Rightarrow> u64 \<Rightarrow> u64 \<Rightarrow> IoctlCmd" where
  "IOWR t nr sz = IOC (IOC_READ OR IOC_WRITE) t nr sz"

definition IO :: "u64 \<Rightarrow> u64 \<Rightarrow> IoctlCmd" where
  "IO t nr = IOC IOC_NONE t nr 0"

text \<open>
  The variables of the generator. Its sizes are those of the C compiler for the headers of
  Linux, a parameter here.
\<close>

definition ioctlgen :: "(string \<Rightarrow> u64) \<Rightarrow> (string \<times> IoctlCmd) list" where
  "ioctlgen sizeof_C = [
    (''FS_IOC_ENABLE_VERITY'', IOW 0x66 133 (sizeof_C ''struct_fsverity_enable_arg'')),
    (''FS_IOC_MEASURE_VERITY'', IOWR 0x66 134 (sizeof_C ''struct_fsverity_digest'')),
    (''FS_IOC_READ_VERITY_METADATA'', IOWR 0x66 135 (sizeof_C ''struct_fsverity_read_metadata_arg'')),
    (''BTRFS_IOC_SNAP_CREATE'', IOW BTRFS_IOCTL_MAGIC 1 (sizeof_C ''struct_btrfs_ioctl_vol_args'')),
    (''BTRFS_IOC_DEFRAG'', IOW BTRFS_IOCTL_MAGIC 2 (sizeof_C ''struct_btrfs_ioctl_vol_args'')),
    (''BTRFS_IOC_RESIZE'', IOW BTRFS_IOCTL_MAGIC 3 (sizeof_C ''struct_btrfs_ioctl_vol_args'')),
    (''BTRFS_IOC_SCAN_DEV'', IOW BTRFS_IOCTL_MAGIC 4 (sizeof_C ''struct_btrfs_ioctl_vol_args'')),
    (''BTRFS_IOC_FORGET_DEV'', IOW BTRFS_IOCTL_MAGIC 5 (sizeof_C ''struct_btrfs_ioctl_vol_args'')),
    (''BTRFS_IOC_TRANS_START'', IO BTRFS_IOCTL_MAGIC 6),
    (''BTRFS_IOC_TRANS_END'', IO BTRFS_IOCTL_MAGIC 7),
    (''BTRFS_IOC_SYNC'', IO BTRFS_IOCTL_MAGIC 8),
    (''BTRFS_IOC_CLONE'', IOW BTRFS_IOCTL_MAGIC 9 (sizeof_C ''int'')),
    (''BTRFS_IOC_ADD_DEV'', IOW BTRFS_IOCTL_MAGIC 10 (sizeof_C ''struct_btrfs_ioctl_vol_args'')),
    (''BTRFS_IOC_RM_DEV'', IOW BTRFS_IOCTL_MAGIC 11 (sizeof_C ''struct_btrfs_ioctl_vol_args'')),
    (''BTRFS_IOC_BALANCE'', IOW BTRFS_IOCTL_MAGIC 12 (sizeof_C ''struct_btrfs_ioctl_vol_args'')),
    (''BTRFS_IOC_CLONE_RANGE'', IOW BTRFS_IOCTL_MAGIC 13 (sizeof_C ''struct_btrfs_ioctl_clone_range_args'')),
    (''BTRFS_IOC_SUBVOL_CREATE'', IOW BTRFS_IOCTL_MAGIC 14 (sizeof_C ''struct_btrfs_ioctl_vol_args'')),
    (''BTRFS_IOC_SNAP_DESTROY'', IOW BTRFS_IOCTL_MAGIC 15 (sizeof_C ''struct_btrfs_ioctl_vol_args'')),
    (''BTRFS_IOC_DEFRAG_RANGE'', IOW BTRFS_IOCTL_MAGIC 16 (sizeof_C ''struct_btrfs_ioctl_defrag_range_args'')),
    (''BTRFS_IOC_TREE_SEARCH'', IOWR BTRFS_IOCTL_MAGIC 17 (sizeof_C ''struct_btrfs_ioctl_search_args'')),
    (''BTRFS_IOC_TREE_SEARCH_V2'', IOWR BTRFS_IOCTL_MAGIC 17 (sizeof_C ''struct_btrfs_ioctl_search_args_v2'')),
    (''BTRFS_IOC_INO_LOOKUP'', IOWR BTRFS_IOCTL_MAGIC 18 (sizeof_C ''struct_btrfs_ioctl_ino_lookup_args'')),
    (''BTRFS_IOC_DEFAULT_SUBVOL'', IOW BTRFS_IOCTL_MAGIC 19 (sizeof_C ''__u64'')),
    (''BTRFS_IOC_SPACE_INFO'', IOWR BTRFS_IOCTL_MAGIC 20 (sizeof_C ''struct_btrfs_ioctl_space_args'')),
    (''BTRFS_IOC_START_SYNC'', IOR BTRFS_IOCTL_MAGIC 24 (sizeof_C ''__u64'')),
    (''BTRFS_IOC_WAIT_SYNC'', IOW BTRFS_IOCTL_MAGIC 22 (sizeof_C ''__u64'')),
    (''BTRFS_IOC_SNAP_CREATE_V2'', IOW BTRFS_IOCTL_MAGIC 23 (sizeof_C ''struct_btrfs_ioctl_vol_args_v2'')),
    (''BTRFS_IOC_SUBVOL_CREATE_V2'', IOW BTRFS_IOCTL_MAGIC 24 (sizeof_C ''struct_btrfs_ioctl_vol_args_v2'')),
    (''BTRFS_IOC_SUBVOL_GETFLAGS'', IOR BTRFS_IOCTL_MAGIC 25 (sizeof_C ''__u64'')),
    (''BTRFS_IOC_SUBVOL_SETFLAGS'', IOW BTRFS_IOCTL_MAGIC 26 (sizeof_C ''__u64'')),
    (''BTRFS_IOC_SCRUB'', IOWR BTRFS_IOCTL_MAGIC 27 (sizeof_C ''struct_btrfs_ioctl_scrub_args'')),
    (''BTRFS_IOC_SCRUB_CANCEL'', IO BTRFS_IOCTL_MAGIC 28),
    (''BTRFS_IOC_SCRUB_PROGRESS'', IOWR BTRFS_IOCTL_MAGIC 29 (sizeof_C ''struct_btrfs_ioctl_scrub_args'')),
    (''BTRFS_IOC_DEV_INFO'', IOWR BTRFS_IOCTL_MAGIC 30 (sizeof_C ''struct_btrfs_ioctl_dev_info_args'')),
    (''BTRFS_IOC_FS_INFO'', IOR BTRFS_IOCTL_MAGIC 31 (sizeof_C ''struct_btrfs_ioctl_fs_info_args'')),
    (''BTRFS_IOC_BALANCE_V2'', IOWR BTRFS_IOCTL_MAGIC 32 (sizeof_C ''struct_btrfs_ioctl_balance_args'')),
    (''BTRFS_IOC_BALANCE_CTL'', IOW BTRFS_IOCTL_MAGIC 33 (sizeof_C ''int'')),
    (''BTRFS_IOC_BALANCE_PROGRESS'', IOR BTRFS_IOCTL_MAGIC 34 (sizeof_C ''struct_btrfs_ioctl_balance_args'')),
    (''BTRFS_IOC_INO_PATHS'', IOWR BTRFS_IOCTL_MAGIC 35 (sizeof_C ''struct_btrfs_ioctl_ino_path_args'')),
    (''BTRFS_IOC_LOGICAL_INO'', IOWR BTRFS_IOCTL_MAGIC 36 (sizeof_C ''struct_btrfs_ioctl_logical_ino_args'')),
    (''BTRFS_IOC_SET_RECEIVED_SUBVOL'', IOWR BTRFS_IOCTL_MAGIC 37 (sizeof_C ''struct_btrfs_ioctl_received_subvol_args'')),
    (''BTRFS_IOC_SEND'', IOW BTRFS_IOCTL_MAGIC 38 (sizeof_C ''struct_btrfs_ioctl_send_args'')),
    (''BTRFS_IOC_DEVICES_READY'', IOR BTRFS_IOCTL_MAGIC 39 (sizeof_C ''struct_btrfs_ioctl_vol_args'')),
    (''BTRFS_IOC_QUOTA_CTL'', IOWR BTRFS_IOCTL_MAGIC 40 (sizeof_C ''struct_btrfs_ioctl_quota_ctl_args'')),
    (''BTRFS_IOC_QGROUP_ASSIGN'', IOW BTRFS_IOCTL_MAGIC 41 (sizeof_C ''struct_btrfs_ioctl_qgroup_assign_args'')),
    (''BTRFS_IOC_QGROUP_CREATE'', IOW BTRFS_IOCTL_MAGIC 42 (sizeof_C ''struct_btrfs_ioctl_qgroup_create_args'')),
    (''BTRFS_IOC_QGROUP_LIMIT'', IOR BTRFS_IOCTL_MAGIC 43 (sizeof_C ''struct_btrfs_ioctl_qgroup_limit_args'')),
    (''BTRFS_IOC_QUOTA_RESCAN'', IOW BTRFS_IOCTL_MAGIC 44 (sizeof_C ''struct_btrfs_ioctl_quota_rescan_args'')),
    (''BTRFS_IOC_QUOTA_RESCAN_STATUS'', IOR BTRFS_IOCTL_MAGIC 45 (sizeof_C ''struct_btrfs_ioctl_quota_rescan_args'')),
    (''BTRFS_IOC_QUOTA_RESCAN_WAIT'', IO BTRFS_IOCTL_MAGIC 46),
    (''BTRFS_IOC_GET_DEV_STATS'', IOWR BTRFS_IOCTL_MAGIC 52 (sizeof_C ''struct_btrfs_ioctl_get_dev_stats'')),
    (''BTRFS_IOC_DEV_REPLACE'', IOWR BTRFS_IOCTL_MAGIC 53 (sizeof_C ''struct_btrfs_ioctl_dev_replace_args'')),
    (''BTRFS_IOC_FILE_EXTENT_SAME'', IOWR BTRFS_IOCTL_MAGIC 54 (sizeof_C ''struct_btrfs_ioctl_same_args'')),
    (''BTRFS_IOC_RM_DEV_V2'', IOW BTRFS_IOCTL_MAGIC 58 (sizeof_C ''struct_btrfs_ioctl_vol_args_v2'')),
    (''BTRFS_IOC_LOGICAL_INO_V2'', IOWR BTRFS_IOCTL_MAGIC 59 (sizeof_C ''struct_btrfs_ioctl_logical_ino_args'')),
    (''BTRFS_IOC_GET_SUBVOL_INFO'', IOR BTRFS_IOCTL_MAGIC 60 (sizeof_C ''struct_btrfs_ioctl_get_subvol_info_args'')),
    (''BTRFS_IOC_GET_SUBVOL_ROOTREF'', IOWR BTRFS_IOCTL_MAGIC 61 (sizeof_C ''struct_btrfs_ioctl_get_subvol_rootref_args'')),
    (''BTRFS_IOC_INO_LOOKUP_USER'', IOWR BTRFS_IOCTL_MAGIC 62 (sizeof_C ''struct_btrfs_ioctl_ino_lookup_user_args'')),
    (''BTRFS_IOC_SNAP_DESTROY_V2'', IOW BTRFS_IOCTL_MAGIC 63 (sizeof_C ''struct_btrfs_ioctl_vol_args_v2'')),
    (''BTRFS_IOC_ENCODED_READ'', IOR BTRFS_IOCTL_MAGIC 64 (sizeof_C ''struct_btrfs_ioctl_encoded_io_args'')),
    (''BTRFS_IOC_ENCODED_WRITE'', IOW BTRFS_IOCTL_MAGIC 64 (sizeof_C ''struct_btrfs_ioctl_encoded_io_args''))]"

text \<open>The constants that the package uses.\<close>

definition ioctl_constants :: "(string \<times> IoctlCmd) list" where
  "ioctl_constants = [
    (''FS_IOC_ENABLE_VERITY'', 0x40806685), (''FS_IOC_MEASURE_VERITY'', 0xc0046686),
    (''FS_IOC_READ_VERITY_METADATA'', 0xc0286687), (''BTRFS_IOC_SNAP_CREATE'', 0x50009401),
    (''BTRFS_IOC_DEFRAG'', 0x50009402), (''BTRFS_IOC_RESIZE'', 0x50009403),
    (''BTRFS_IOC_SCAN_DEV'', 0x50009404), (''BTRFS_IOC_FORGET_DEV'', 0x50009405),
    (''BTRFS_IOC_TRANS_START'', 0x9406), (''BTRFS_IOC_TRANS_END'', 0x9407), (''BTRFS_IOC_SYNC'', 0x9408),
    (''BTRFS_IOC_CLONE'', 0x40049409), (''BTRFS_IOC_ADD_DEV'', 0x5000940a),
    (''BTRFS_IOC_RM_DEV'', 0x5000940b), (''BTRFS_IOC_BALANCE'', 0x5000940c),
    (''BTRFS_IOC_CLONE_RANGE'', 0x4020940d), (''BTRFS_IOC_SUBVOL_CREATE'', 0x5000940e),
    (''BTRFS_IOC_SNAP_DESTROY'', 0x5000940f), (''BTRFS_IOC_DEFRAG_RANGE'', 0x40309410),
    (''BTRFS_IOC_TREE_SEARCH'', 0xd0009411), (''BTRFS_IOC_TREE_SEARCH_V2'', 0xc0709411),
    (''BTRFS_IOC_INO_LOOKUP'', 0xd0009412), (''BTRFS_IOC_DEFAULT_SUBVOL'', 0x40089413),
    (''BTRFS_IOC_SPACE_INFO'', 0xc0109414), (''BTRFS_IOC_START_SYNC'', 0x80089418),
    (''BTRFS_IOC_WAIT_SYNC'', 0x40089416), (''BTRFS_IOC_SNAP_CREATE_V2'', 0x50009417),
    (''BTRFS_IOC_SUBVOL_CREATE_V2'', 0x50009418), (''BTRFS_IOC_SUBVOL_GETFLAGS'', 0x80089419),
    (''BTRFS_IOC_SUBVOL_SETFLAGS'', 0x4008941a), (''BTRFS_IOC_SCRUB'', 0xc400941b),
    (''BTRFS_IOC_SCRUB_CANCEL'', 0x941c), (''BTRFS_IOC_SCRUB_PROGRESS'', 0xc400941d),
    (''BTRFS_IOC_DEV_INFO'', 0xd000941e), (''BTRFS_IOC_FS_INFO'', 0x8400941f),
    (''BTRFS_IOC_BALANCE_V2'', 0xc4009420), (''BTRFS_IOC_BALANCE_CTL'', 0x40049421),
    (''BTRFS_IOC_BALANCE_PROGRESS'', 0x84009422), (''BTRFS_IOC_INO_PATHS'', 0xc0389423),
    (''BTRFS_IOC_LOGICAL_INO'', 0xc0389424), (''BTRFS_IOC_SET_RECEIVED_SUBVOL'', 0xc0c89425),
    (''BTRFS_IOC_SEND'', 0x40489426), (''BTRFS_IOC_DEVICES_READY'', 0x90009427),
    (''BTRFS_IOC_QUOTA_CTL'', 0xc0109428), (''BTRFS_IOC_QGROUP_ASSIGN'', 0x40189429),
    (''BTRFS_IOC_QGROUP_CREATE'', 0x4010942a), (''BTRFS_IOC_QGROUP_LIMIT'', 0x8030942b),
    (''BTRFS_IOC_QUOTA_RESCAN'', 0x4040942c), (''BTRFS_IOC_QUOTA_RESCAN_STATUS'', 0x8040942d),
    (''BTRFS_IOC_QUOTA_RESCAN_WAIT'', 0x942e), (''BTRFS_IOC_GET_DEV_STATS'', 0xc4089434),
    (''BTRFS_IOC_DEV_REPLACE'', 0xca289435), (''BTRFS_IOC_FILE_EXTENT_SAME'', 0xc0189436),
    (''BTRFS_IOC_RM_DEV_V2'', 0x5000943a), (''BTRFS_IOC_LOGICAL_INO_V2'', 0xc038943b),
    (''BTRFS_IOC_GET_SUBVOL_INFO'', 0x81f8943c), (''BTRFS_IOC_GET_SUBVOL_ROOTREF'', 0xd000943d),
    (''BTRFS_IOC_INO_LOOKUP_USER'', 0xd000943e), (''BTRFS_IOC_SNAP_DESTROY_V2'', 0x5000943f),
    (''BTRFS_IOC_ENCODED_READ'', 0x80809440), (''BTRFS_IOC_ENCODED_WRITE'', 0x40809440)]"

text \<open>Which structure of C each structure of the package was generated from.\<close>

definition cgo_types :: "(string \<times> ctype) list" where
  "cgo_types = [
    (''struct_btrfs_balance_args'', balanceArgs_layout),
    (''struct_btrfs_balance_progress'', balanceProgress_layout),
    (''struct_btrfs_root_ref'', BtrfsRootRef_layout),
    (''struct_btrfs_inode_ref'', BtrfsInodeRef_layout),
    (''struct_btrfs_timespec'', BtrfsTimespec_layout),
    (''struct_btrfs_ioctl_clone_range_args'', cloneRangeArgs_layout),
    (''struct_btrfs_ioctl_defrag_range_args'', defragRangeArgs_layout),
    (''struct_btrfs_ioctl_dev_info_args'', deviceInfoArgs_layout),
    (''struct_btrfs_ioctl_dev_replace_args'', deviceReplaceArgs_layout),
    (''struct_btrfs_ioctl_dev_replace_start_params'', deviceReplaceStartParams_layout),
    (''struct_btrfs_ioctl_feature_flags'', featureFlags_layout),
    (''struct_btrfs_ioctl_fs_info_args'', filesystemInfoArgs_layout),
    (''struct_fsverity_digest'', fsVerityDigest_layout),
    (''struct_fsverity_enable_arg'', fsVerityEnableArg_layout),
    (''struct_fsverity_read_metadata_arg'', fsVerityReadMetadataArg_layout),
    (''struct_btrfs_ioctl_get_dev_stats'', getDeviceStats_layout),
    (''struct_btrfs_ioctl_get_subvol_info_args'', getSubvolumeInfoArgs_layout),
    (''struct_btrfs_ioctl_get_subvol_rootref_args'', getSubvolumeRootRefArgs_layout),
    (''struct_btrfs_ioctl_ino_lookup_args'', inoLookupArgs_layout),
    (''struct_btrfs_ioctl_ino_lookup_user_args'', inoLookupUserArgs_layout),
    (''struct_btrfs_ioctl_ino_path_args'', inoPathArgs_layout),
    (''struct_btrfs_ioctl_balance_args'', ioctlBalanceArgs_layout),
    (''struct_btrfs_ioctl_logical_ino_args'', logicalINOArgs_layout),
    (''struct_btrfs_ioctl_qgroup_assign_args'', qgroupAssignArgs_layout),
    (''struct_btrfs_ioctl_qgroup_create_args'', qgroupCreateArgs_layout),
    (''struct_btrfs_qgroup_limit'', qgroupLimit_layout),
    (''struct_btrfs_ioctl_qgroup_limit_args'', qgroupLimitArgs_layout),
    (''struct_btrfs_ioctl_quota_ctl_args'', quotaCTLArgs_layout),
    (''struct_btrfs_ioctl_quota_rescan_args'', quotaRescanArgs_layout),
    (''struct_btrfs_ioctl_received_subvol_args'', receivedSubvolArgs_layout),
    (''struct___0'', rootRef_layout),
    (''struct_btrfs_ioctl_same_args'', sameArgs_layout),
    (''struct_btrfs_ioctl_scrub_args'', scrubArgs_layout),
    (''struct_btrfs_scrub_progress'', scrubProgress_layout),
    (''struct_btrfs_ioctl_search_header'', SearchHeader_layout),
    (''struct_btrfs_ioctl_search_key'', SearchParams_layout),
    (''struct_btrfs_ioctl_search_args'', SearchArgs_layout),
    (''struct_btrfs_ioctl_search_args_v2'', searchArgsV2_layout),
    (''struct_btrfs_ioctl_send_args'', sendArgs_layout),
    (''struct_btrfs_ioctl_space_args'', spaceArgs_layout),
    (''struct_btrfs_ioctl_timespec'', timespec_layout),
    (''struct_btrfs_ioctl_vol_args'', volumeArgs_layout),
    (''struct_btrfs_ioctl_vol_args_v2'', volumeArgsV2_layout)]"

section \<open>Constants\<close>

definition object_ids :: "(string \<times> u64) list" where
  "object_ids = [
    (''RootTreeObjectID'', 0x1), (''ExtentTreeObjectID'', 0x2), (''ChunkTreeObjectID'', 0x3),
    (''DevTreeObjectID'', 0x4), (''FSTreeObjectID'', 0x5), (''RootTreeDirObjectID'', 0x6),
    (''CSumTreeObjectID'', 0x7), (''QuotaTreeObjectID'', 0x8), (''UUIDTreeObjectID'', 0x9),
    (''FreeSpaceTreeObjectID'', 0xa), (''BlockGroupTreeObjectID'', 0xb), (''DevStatsObjectID'', 0x0),
    (''BalanceObjectID'', 0xfffffffffffffffc), (''OrphanObjectID'', 0xfffffffffffffffb),
    (''TreeLogObjectID'', 0xfffffffffffffffa), (''TreeLogFixupObjectID'', 0xfffffffffffffff9),
    (''TreeRelocObjectID'', 0xfffffffffffffff8), (''DataRelocTreeObjectID'', 0xfffffffffffffff7),
    (''ExtentCSumObjectID'', 0xfffffffffffffff6), (''FreeSpaceObjectID'', 0xfffffffffffffff5),
    (''FreeInoObjectID'', 0xfffffffffffffff4), (''MultipleObjectIDs'', 0xffffffffffffff01),
    (''FirstFreeObjectID'', 0x100), (''LastFreeObjectID'', 0xffffffffffffff00), (''DevItemsObjectID'', 0x1)]"

definition search_keys :: "(string \<times> u32) list" where
  "search_keys = [
    (''DeviceItemKey'', 0xd8), (''DirItemKey'', 0x54), (''InodeRefKey'', 0xc), (''InodeItemKey'', 0x1),
    (''RootItemKey'', 0x84), (''RootRefKey'', 0x9c), (''RootBackrefKey'', 0x90)]"

definition compression_types :: "(string \<times> u32) list" where
  "compression_types = [
    (''CompressionNone'', 0x0), (''CompressionZLib'', 0x1), (''CompressionZSTD'', 0x2),
    (''CompressionLZO4k'', 0x3), (''CompressionLZO8k'', 0x4), (''CompressionLZO16k'', 0x5),
    (''CompressionLZO32k'', 0x6), (''CompressionLZO64k'', 0x7)]"

definition send_commands :: "(string \<times> SendCommand) list" where
  "send_commands = [
    (''BTRFS_SEND_C_UNSPEC'', BTRFS_SEND_C_UNSPEC), (''BTRFS_SEND_C_SUBVOL'', BTRFS_SEND_C_SUBVOL),
    (''BTRFS_SEND_C_SNAPSHOT'', BTRFS_SEND_C_SNAPSHOT), (''BTRFS_SEND_C_MKFILE'', BTRFS_SEND_C_MKFILE),
    (''BTRFS_SEND_C_MKDIR'', BTRFS_SEND_C_MKDIR), (''BTRFS_SEND_C_MKNOD'', BTRFS_SEND_C_MKNOD),
    (''BTRFS_SEND_C_MKFIFO'', BTRFS_SEND_C_MKFIFO), (''BTRFS_SEND_C_MKSOCK'', BTRFS_SEND_C_MKSOCK),
    (''BTRFS_SEND_C_SYMLINK'', BTRFS_SEND_C_SYMLINK), (''BTRFS_SEND_C_RENAME'', BTRFS_SEND_C_RENAME),
    (''BTRFS_SEND_C_LINK'', BTRFS_SEND_C_LINK), (''BTRFS_SEND_C_UNLINK'', BTRFS_SEND_C_UNLINK),
    (''BTRFS_SEND_C_RMDIR'', BTRFS_SEND_C_RMDIR), (''BTRFS_SEND_C_SET_XATTR'', BTRFS_SEND_C_SET_XATTR),
    (''BTRFS_SEND_C_REMOVE_XATTR'', BTRFS_SEND_C_REMOVE_XATTR),
    (''BTRFS_SEND_C_WRITE'', BTRFS_SEND_C_WRITE), (''BTRFS_SEND_C_CLONE'', BTRFS_SEND_C_CLONE),
    (''BTRFS_SEND_C_TRUNCATE'', BTRFS_SEND_C_TRUNCATE), (''BTRFS_SEND_C_CHMOD'', BTRFS_SEND_C_CHMOD),
    (''BTRFS_SEND_C_CHOWN'', BTRFS_SEND_C_CHOWN), (''BTRFS_SEND_C_UTIMES'', BTRFS_SEND_C_UTIMES),
    (''BTRFS_SEND_C_END'', BTRFS_SEND_C_END), (''BTRFS_SEND_C_UPDATE_EXTENT'', BTRFS_SEND_C_UPDATE_EXTENT),
    (''BTRFS_SEND_C_MAX_V1'', BTRFS_SEND_C_MAX_V1), (''BTRFS_SEND_C_FALLOCATE'', BTRFS_SEND_C_FALLOCATE),
    (''BTRFS_SEND_C_FILEATTR'', BTRFS_SEND_C_FILEATTR),
    (''BTRFS_SEND_C_ENCODED_WRITE'', BTRFS_SEND_C_ENCODED_WRITE),
    (''BTRFS_SEND_C_MAX_V2'', BTRFS_SEND_C_MAX_V2),
    (''BTRFS_SEND_C_ENABLE_VERITY'', BTRFS_SEND_C_ENABLE_VERITY),
    (''BTRFS_SEND_C_MAX_V3'', BTRFS_SEND_C_MAX_V3), (''BTRFS_SEND_C_MAX'', BTRFS_SEND_C_MAX)]"

definition send_attributes :: "(string \<times> SendAttribute) list" where
  "send_attributes = [
    (''BTRFS_SEND_A_UNSPEC'', BTRFS_SEND_A_UNSPEC), (''BTRFS_SEND_A_UUID'', BTRFS_SEND_A_UUID),
    (''BTRFS_SEND_A_CTRANSID'', BTRFS_SEND_A_CTRANSID), (''BTRFS_SEND_A_INO'', BTRFS_SEND_A_INO),
    (''BTRFS_SEND_A_SIZE'', BTRFS_SEND_A_SIZE), (''BTRFS_SEND_A_MODE'', BTRFS_SEND_A_MODE),
    (''BTRFS_SEND_A_UID'', BTRFS_SEND_A_UID), (''BTRFS_SEND_A_GID'', BTRFS_SEND_A_GID),
    (''BTRFS_SEND_A_RDEV'', BTRFS_SEND_A_RDEV), (''BTRFS_SEND_A_CTIME'', BTRFS_SEND_A_CTIME),
    (''BTRFS_SEND_A_MTIME'', BTRFS_SEND_A_MTIME), (''BTRFS_SEND_A_ATIME'', BTRFS_SEND_A_ATIME),
    (''BTRFS_SEND_A_OTIME'', BTRFS_SEND_A_OTIME), (''BTRFS_SEND_A_XATTR_NAME'', BTRFS_SEND_A_XATTR_NAME),
    (''BTRFS_SEND_A_XATTR_DATA'', BTRFS_SEND_A_XATTR_DATA), (''BTRFS_SEND_A_PATH'', BTRFS_SEND_A_PATH),
    (''BTRFS_SEND_A_PATH_TO'', BTRFS_SEND_A_PATH_TO), (''BTRFS_SEND_A_PATH_LINK'', BTRFS_SEND_A_PATH_LINK),
    (''BTRFS_SEND_A_FILE_OFFSET'', BTRFS_SEND_A_FILE_OFFSET), (''BTRFS_SEND_A_DATA'', BTRFS_SEND_A_DATA),
    (''BTRFS_SEND_A_CLONE_UUID'', BTRFS_SEND_A_CLONE_UUID),
    (''BTRFS_SEND_A_CLONE_CTRANSID'', BTRFS_SEND_A_CLONE_CTRANSID),
    (''BTRFS_SEND_A_CLONE_PATH'', BTRFS_SEND_A_CLONE_PATH),
    (''BTRFS_SEND_A_CLONE_OFFSET'', BTRFS_SEND_A_CLONE_OFFSET),
    (''BTRFS_SEND_A_CLONE_LEN'', BTRFS_SEND_A_CLONE_LEN), (''BTRFS_SEND_A_MAX_V1'', BTRFS_SEND_A_MAX_V1),
    (''BTRFS_SEND_A_FALLOCATE_MODE'', BTRFS_SEND_A_FALLOCATE_MODE),
    (''BTRFS_SEND_A_FILEATTR'', BTRFS_SEND_A_FILEATTR),
    (''BTRFS_SEND_A_UNENCODED_FILE_LEN'', BTRFS_SEND_A_UNENCODED_FILE_LEN),
    (''BTRFS_SEND_A_UNENCODED_LEN'', BTRFS_SEND_A_UNENCODED_LEN),
    (''BTRFS_SEND_A_UNENCODED_OFFSET'', BTRFS_SEND_A_UNENCODED_OFFSET),
    (''BTRFS_SEND_A_COMPRESSION'', BTRFS_SEND_A_COMPRESSION),
    (''BTRFS_SEND_A_ENCRYPTION'', BTRFS_SEND_A_ENCRYPTION), (''BTRFS_SEND_A_MAX_V2'', BTRFS_SEND_A_MAX_V2),
    (''BTRFS_SEND_A_VERITY_ALGORITHM'', BTRFS_SEND_A_VERITY_ALGORITHM),
    (''BTRFS_SEND_A_VERITY_BLOCK_SIZE'', BTRFS_SEND_A_VERITY_BLOCK_SIZE),
    (''BTRFS_SEND_A_VERITY_SALT_DATA'', BTRFS_SEND_A_VERITY_SALT_DATA),
    (''BTRFS_SEND_A_VERITY_SIG_DATA'', BTRFS_SEND_A_VERITY_SIG_DATA),
    (''BTRFS_SEND_A_MAX_V3'', BTRFS_SEND_A_MAX_V3), (''BTRFS_SEND_A_MAX'', BTRFS_SEND_A_MAX)]"

section \<open>Names of constants\<close>

definition FormatInt :: "int \<Rightarrow> string" where
  "FormatInt n = (if n < 0 then ''-'' @ decimal (nat (- n)) else decimal (nat n))"

definition slice :: "string \<Rightarrow> nat \<Rightarrow> nat \<Rightarrow> string" where
  "slice s a b = take (b - a) (drop a s)"

definition index_slice :: "string \<Rightarrow> nat list \<Rightarrow> nat \<Rightarrow> string" where
  "index_slice s index i = slice s (index ! i) (index ! (i + 1))"

definition IoctlCmd_name :: string where
  "IoctlCmd_name =
    ''BTRFS_IOC_TRANS_STARTBTRFS_IOC_TRANS_ENDBTRFS_IOC_SYNCBTRFS_IOC_SCRUB_CANCELBTRFS_IOC_QUOT'' @
    ''A_RESCAN_WAITBTRFS_IOC_CLONEBTRFS_IOC_BALANCE_CTLBTRFS_IOC_DEFAULT_SUBVOLBTRFS_IOC_WAIT_SY'' @
    ''NCBTRFS_IOC_SUBVOL_SETFLAGSBTRFS_IOC_QGROUP_CREATEBTRFS_IOC_QGROUP_ASSIGNBTRFS_IOC_CLONE_R'' @
    ''ANGEBTRFS_IOC_DEFRAG_RANGEBTRFS_IOC_QUOTA_RESCANBTRFS_IOC_SENDFS_IOC_ENABLE_VERITYBTRFS_IO'' @
    ''C_ENCODED_WRITEBTRFS_IOC_SNAP_CREATEBTRFS_IOC_DEFRAGBTRFS_IOC_RESIZEBTRFS_IOC_SCAN_DEVBTRF'' @
    ''S_IOC_FORGET_DEVBTRFS_IOC_ADD_DEVBTRFS_IOC_RM_DEVBTRFS_IOC_BALANCEBTRFS_IOC_SUBVOL_CREATEB'' @
    ''TRFS_IOC_SNAP_DESTROYBTRFS_IOC_SNAP_CREATE_V2BTRFS_IOC_SUBVOL_CREATE_V2BTRFS_IOC_RM_DEV_V2'' @
    ''BTRFS_IOC_SNAP_DESTROY_V2BTRFS_IOC_START_SYNCBTRFS_IOC_SUBVOL_GETFLAGSBTRFS_IOC_QGROUP_LIM'' @
    ''ITBTRFS_IOC_QUOTA_RESCAN_STATUSBTRFS_IOC_ENCODED_READBTRFS_IOC_GET_SUBVOL_INFOBTRFS_IOC_FS'' @
    ''_INFOBTRFS_IOC_BALANCE_PROGRESSBTRFS_IOC_DEVICES_READYFS_IOC_MEASURE_VERITYBTRFS_IOC_SPACE'' @
    ''_INFOBTRFS_IOC_QUOTA_CTLBTRFS_IOC_FILE_EXTENT_SAMEFS_IOC_READ_VERITY_METADATABTRFS_IOC_INO'' @
    ''_PATHSBTRFS_IOC_LOGICAL_INOBTRFS_IOC_LOGICAL_INO_V2BTRFS_IOC_TREE_SEARCH_V2BTRFS_IOC_SET_R'' @
    ''ECEIVED_SUBVOLBTRFS_IOC_SCRUBBTRFS_IOC_SCRUB_PROGRESSBTRFS_IOC_BALANCE_V2BTRFS_IOC_GET_DEV'' @
    ''_STATSBTRFS_IOC_DEV_REPLACEBTRFS_IOC_TREE_SEARCHBTRFS_IOC_INO_LOOKUPBTRFS_IOC_DEV_INFOBTRF'' @
    ''S_IOC_GET_SUBVOL_ROOTREFBTRFS_IOC_INO_LOOKUP_USER''"

definition IoctlCmd_map :: "(IoctlCmd \<times> nat \<times> nat) list" where
  "IoctlCmd_map = [
    (37894, 0, 21), (37895, 21, 40), (37896, 40, 54), (37916, 54, 76), (37934, 76, 103),
    (1074041865, 103, 118), (1074041889, 118, 139), (1074304019, 139, 163), (1074304022, 163, 182),
    (1074304026, 182, 207), (1074828330, 207, 230), (1075352617, 230, 253), (1075876877, 253, 274),
    (1076925456, 274, 296), (1077974060, 296, 318), (1078498342, 318, 332), (1082156677, 332, 352),
    (1082168384, 352, 375), (1342215169, 375, 396), (1342215170, 396, 412), (1342215171, 412, 428),
    (1342215172, 428, 446), (1342215173, 446, 466), (1342215178, 466, 483), (1342215179, 483, 499),
    (1342215180, 499, 516), (1342215182, 516, 539), (1342215183, 539, 561), (1342215191, 561, 585),
    (1342215192, 585, 611), (1342215226, 611, 630), (1342215231, 630, 655), (2148045848, 655, 675),
    (2148045849, 675, 700), (2150667307, 700, 722), (2151715885, 722, 751), (2155910208, 751, 773),
    (2180551740, 773, 798), (2214630431, 798, 815), (2214630434, 815, 841), (2415957031, 841, 864),
    (3221513862, 864, 885), (3222311956, 885, 905), (3222311976, 905, 924), (3222836278, 924, 950),
    (3223873159, 950, 977), (3224933411, 977, 996), (3224933412, 996, 1017), (3224933435, 1017, 1041),
    (3228603409, 1041, 1065), (3234370597, 1065, 1094), (3288372251, 1094, 1109), (3288372253, 1109, 1133),
    (3288372256, 1133, 1153), (3288896564, 1153, 1176), (3391657013, 1176, 1197), (3489698833, 1197, 1218),
    (3489698834, 1218, 1238), (3489698846, 1238, 1256), (3489698877, 1256, 1284), (3489698878, 1284, 1309)]"

definition ObjectID_name_0 :: string where
  "ObjectID_name_0 =
    ''DevStatsObjectIDRootTreeObjectIDExtentTreeObjectIDChunkTreeObjectIDDevTreeObjectIDFSTreeOb'' @
    ''jectIDRootTreeDirObjectIDCSumTreeObjectIDQuotaTreeObjectIDUUIDTreeObjectIDFreeSpaceTreeObj'' @
    ''ectIDBlockGroupTreeObjectID''"

definition ObjectID_name_1 :: string where
  "ObjectID_name_1 =
    ''FirstFreeObjectID''"

definition ObjectID_name_2 :: string where
  "ObjectID_name_2 =
    ''LastFreeObjectIDMultipleObjectIDs''"

definition ObjectID_name_3 :: string where
  "ObjectID_name_3 =
    ''FreeInoObjectIDFreeSpaceObjectIDExtentCSumObjectIDDataRelocTreeObjectIDTreeRelocObjectIDTr'' @
    ''eeLogFixupObjectIDTreeLogObjectIDOrphanObjectIDBalanceObjectID''"

definition ObjectID_index_0 :: "nat list" where
  "ObjectID_index_0 = [
    0, 16, 32, 50, 67, 82, 96, 115, 131, 148, 164, 185, 207]"

definition ObjectID_index_2 :: "nat list" where
  "ObjectID_index_2 = [
    0, 16, 33]"

definition ObjectID_index_3 :: "nat list" where
  "ObjectID_index_3 = [
    0, 15, 32, 50, 71, 88, 108, 123, 137, 152]"

definition SearchKey_name_0 :: string where
  "SearchKey_name_0 =
    ''InodeItemKey''"

definition SearchKey_name_1 :: string where
  "SearchKey_name_1 =
    ''InodeRefKey''"

definition SearchKey_name_2 :: string where
  "SearchKey_name_2 =
    ''DirItemKey''"

definition SearchKey_name_3 :: string where
  "SearchKey_name_3 =
    ''RootItemKey''"

definition SearchKey_name_4 :: string where
  "SearchKey_name_4 =
    ''RootBackrefKey''"

definition SearchKey_name_5 :: string where
  "SearchKey_name_5 =
    ''RootRefKey''"

definition SearchKey_name_6 :: string where
  "SearchKey_name_6 =
    ''DeviceItemKey''"

definition CompressionType_name :: string where
  "CompressionType_name =
    ''CompressionNoneCompressionZLibCompressionZSTDCompressionLZO4kCompressionLZO8kCompressionLZ'' @
    ''O16kCompressionLZO32kCompressionLZO64k''"

definition CompressionType_index :: "nat list" where
  "CompressionType_index = [
    0, 15, 30, 45, 61, 77, 94, 111, 128]"

definition SendCommand_name :: string where
  "SendCommand_name =
    ''BTRFS_SEND_C_UNSPECBTRFS_SEND_C_SUBVOLBTRFS_SEND_C_SNAPSHOTBTRFS_SEND_C_MKFILEBTRFS_SEND_C'' @
    ''_MKDIRBTRFS_SEND_C_MKNODBTRFS_SEND_C_MKFIFOBTRFS_SEND_C_MKSOCKBTRFS_SEND_C_SYMLINKBTRFS_SE'' @
    ''ND_C_RENAMEBTRFS_SEND_C_LINKBTRFS_SEND_C_UNLINKBTRFS_SEND_C_RMDIRBTRFS_SEND_C_SET_XATTRBTR'' @
    ''FS_SEND_C_REMOVE_XATTRBTRFS_SEND_C_WRITEBTRFS_SEND_C_CLONEBTRFS_SEND_C_TRUNCATEBTRFS_SEND_'' @
    ''C_CHMODBTRFS_SEND_C_CHOWNBTRFS_SEND_C_UTIMESBTRFS_SEND_C_ENDBTRFS_SEND_C_UPDATE_EXTENTBTRF'' @
    ''S_SEND_C_FALLOCATEBTRFS_SEND_C_FILEATTRBTRFS_SEND_C_ENCODED_WRITEBTRFS_SEND_C_ENABLE_VERIT'' @
    ''Y''"

definition SendCommand_index :: "nat list" where
  "SendCommand_index = [
    0, 19, 38, 59, 78, 96, 114, 133, 152, 172, 191, 208, 227, 245, 267, 292, 310, 328, 349, 367, 385, 404,
    420, 446, 468, 489, 515, 541]"

definition SendAttribute_name :: string where
  "SendAttribute_name =
    ''BTRFS_SEND_A_UNSPECBTRFS_SEND_A_UUIDBTRFS_SEND_A_CTRANSIDBTRFS_SEND_A_INOBTRFS_SEND_A_SIZE'' @
    ''BTRFS_SEND_A_MODEBTRFS_SEND_A_UIDBTRFS_SEND_A_GIDBTRFS_SEND_A_RDEVBTRFS_SEND_A_CTIMEBTRFS_'' @
    ''SEND_A_MTIMEBTRFS_SEND_A_ATIMEBTRFS_SEND_A_OTIMEBTRFS_SEND_A_XATTR_NAMEBTRFS_SEND_A_XATTR_'' @
    ''DATABTRFS_SEND_A_PATHBTRFS_SEND_A_PATH_TOBTRFS_SEND_A_PATH_LINKBTRFS_SEND_A_FILE_OFFSETBTR'' @
    ''FS_SEND_A_DATABTRFS_SEND_A_CLONE_UUIDBTRFS_SEND_A_CLONE_CTRANSIDBTRFS_SEND_A_CLONE_PATHBTR'' @
    ''FS_SEND_A_CLONE_OFFSETBTRFS_SEND_A_CLONE_LENBTRFS_SEND_A_FALLOCATE_MODEBTRFS_SEND_A_FILEAT'' @
    ''TRBTRFS_SEND_A_UNENCODED_FILE_LENBTRFS_SEND_A_UNENCODED_LENBTRFS_SEND_A_UNENCODED_OFFSETBT'' @
    ''RFS_SEND_A_COMPRESSIONBTRFS_SEND_A_ENCRYPTIONBTRFS_SEND_A_VERITY_ALGORITHMBTRFS_SEND_A_VER'' @
    ''ITY_BLOCK_SIZEBTRFS_SEND_A_VERITY_SALT_DATABTRFS_SEND_A_VERITY_SIG_DATA''"

definition SendAttribute_index :: "nat list" where
  "SendAttribute_index = [
    0, 19, 36, 57, 73, 90, 107, 123, 139, 156, 174, 192, 210, 228, 251, 274, 291, 311, 333, 357, 374, 397,
    424, 447, 472, 494, 521, 542, 573, 599, 628, 652, 675, 704, 734, 763, 791]"

definition IoctlCmd_String :: "IoctlCmd \<Rightarrow> string" where
  "IoctlCmd_String i = (case map_of IoctlCmd_map i of
     Some (a, b) \<Rightarrow> slice IoctlCmd_name a b
   | None \<Rightarrow> ''IoctlCmd('' @ FormatInt (sint i) @ '')'')"

definition ObjectID_String :: "u64 \<Rightarrow> string" where
  "ObjectID_String i =
     (if i \<le> 11 then index_slice ObjectID_name_0 ObjectID_index_0 (unat i)
      else if i = 256 then ObjectID_name_1
      else if 18446744073709551360 \<le> i \<and> i \<le> 18446744073709551361 then
        index_slice ObjectID_name_2 ObjectID_index_2 (unat (i - 18446744073709551360))
      else if 18446744073709551604 \<le> i \<and> i \<le> 18446744073709551612 then
        index_slice ObjectID_name_3 ObjectID_index_3 (unat (i - 18446744073709551604))
      else ''ObjectID('' @ FormatInt (sint i) @ '')'')"

definition ObjectID_IntString :: "u64 \<Rightarrow> string" where
  "ObjectID_IntString i = FormatInt (uint i)"

definition SearchKey_String :: "u32 \<Rightarrow> string" where
  "SearchKey_String i =
     (if i = 1 then SearchKey_name_0
      else if i = 12 then SearchKey_name_1
      else if i = 84 then SearchKey_name_2
      else if i = 132 then SearchKey_name_3
      else if i = 144 then SearchKey_name_4
      else if i = 156 then SearchKey_name_5
      else if i = 216 then SearchKey_name_6
      else ''SearchKey('' @ FormatInt (uint i) @ '')'')"

definition CompressionType_String :: "u32 \<Rightarrow> string" where
  "CompressionType_String i =
     (if i \<ge> of_nat (length CompressionType_index - 1)
      then ''CompressionType('' @ FormatInt (uint i) @ '')''
      else index_slice CompressionType_name CompressionType_index (unat i))"

definition SendCommand_String :: "SendCommand \<Rightarrow> string" where
  "SendCommand_String i =
     (if i \<ge> of_nat (length SendCommand_index - 1)
      then ''SendCommand('' @ FormatInt (uint i) @ '')''
      else index_slice SendCommand_name SendCommand_index (unat i))"

definition SendAttribute_String :: "SendAttribute \<Rightarrow> string" where
  "SendAttribute_String i =
     (if i \<ge> of_nat (length SendAttribute_index - 1)
      then ''SendAttribute('' @ FormatInt (uint i) @ '')''
      else index_slice SendAttribute_name SendAttribute_index (unat i))"

section \<open>The generated numbers\<close>

text \<open>
  The sizes of the structures by the names of C, with the two basic types that the commands use
  and the hand-written \<^verbatim>\<open>encodedIOArgs\<close>, which the generator knows from C only.
\<close>

definition C_sizes :: "string \<Rightarrow> u64" where
  "C_sizes n = (case map_of cgo_types n of
     Some t \<Rightarrow> of_nat (sizeof t)
   | None \<Rightarrow> if n = ''int'' then 4 else if n = ''__u64'' then 8
       else if n = ''struct_btrfs_ioctl_encoded_io_args'' then of_nat (sizeof encodedIOArgs_layout) else 0)"

text \<open>The sizes of the layouts.\<close>

lemma layout_sizes:
  "sizeof balanceArgs_layout = 136"
  "sizeof balanceProgress_layout = 24"
  "sizeof BtrfsRootRef_layout = 18"
  "sizeof BtrfsInodeRef_layout = 10"
  "sizeof BtrfsTimespec_layout = 12"
  "sizeof cloneRangeArgs_layout = 32"
  "sizeof defragRangeArgs_layout = 48"
  "sizeof deviceInfoArgs_layout = 4096"
  "sizeof deviceReplaceArgs_layout = 2600"
  "sizeof deviceReplaceStartParams_layout = 2072"
  "sizeof featureFlags_layout = 24"
  "sizeof filesystemInfoArgs_layout = 1024"
  "sizeof fsVerityDigest_layout = 4"
  "sizeof fsVerityEnableArg_layout = 128"
  "sizeof fsVerityReadMetadataArg_layout = 40"
  "sizeof getDeviceStats_layout = 1032"
  "sizeof getSubvolumeInfoArgs_layout = 504"
  "sizeof getSubvolumeRootRefArgs_layout = 4096"
  "sizeof inoLookupArgs_layout = 4096"
  "sizeof inoLookupUserArgs_layout = 4096"
  "sizeof inoPathArgs_layout = 56"
  "sizeof ioctlBalanceArgs_layout = 1024"
  "sizeof logicalINOArgs_layout = 56"
  "sizeof qgroupAssignArgs_layout = 24"
  "sizeof qgroupCreateArgs_layout = 16"
  "sizeof qgroupLimit_layout = 40"
  "sizeof qgroupLimitArgs_layout = 48"
  "sizeof quotaCTLArgs_layout = 16"
  "sizeof quotaRescanArgs_layout = 64"
  "sizeof receivedSubvolArgs_layout = 200"
  "sizeof rootRef_layout = 16"
  "sizeof sameArgs_layout = 24"
  "sizeof scrubArgs_layout = 1024"
  "sizeof scrubProgress_layout = 120"
  "sizeof SearchHeader_layout = 32"
  "sizeof SearchParams_layout = 104"
  "sizeof SearchArgs_layout = 4096"
  "sizeof searchArgsV2_layout = 112"
  "sizeof sendArgs_layout = 72"
  "sizeof spaceArgs_layout = 16"
  "sizeof timespec_layout = 16"
  "sizeof volumeArgs_layout = 4096"
  "sizeof volumeArgsV2_layout = 4096"
  "sizeof encodedIOArgs_layout = 128"
  by (simp_all add: balanceArgs_layout_def balanceProgress_layout_def BtrfsRootRef_layout_def BtrfsInodeRef_layout_def
    BtrfsTimespec_layout_def cloneRangeArgs_layout_def defragRangeArgs_layout_def deviceInfoArgs_layout_def
    deviceReplaceArgs_layout_def deviceReplaceStartParams_layout_def featureFlags_layout_def
    filesystemInfoArgs_layout_def fsVerityDigest_layout_def fsVerityEnableArg_layout_def
    fsVerityReadMetadataArg_layout_def getDeviceStats_layout_def getSubvolumeInfoArgs_layout_def
    getSubvolumeRootRefArgs_layout_def inoLookupArgs_layout_def inoLookupUserArgs_layout_def
    inoPathArgs_layout_def ioctlBalanceArgs_layout_def logicalINOArgs_layout_def
    qgroupAssignArgs_layout_def qgroupCreateArgs_layout_def qgroupLimit_layout_def
    qgroupLimitArgs_layout_def quotaCTLArgs_layout_def quotaRescanArgs_layout_def
    receivedSubvolArgs_layout_def rootRef_layout_def sameArgs_layout_def scrubArgs_layout_def
    scrubProgress_layout_def SearchHeader_layout_def SearchParams_layout_def SearchArgs_layout_def
    searchArgsV2_layout_def sendArgs_layout_def spaceArgs_layout_def timespec_layout_def
    volumeArgs_layout_def volumeArgsV2_layout_def encodedIOArgs_layout_def)

lemma sizes_of_C [simp]:
  "C_sizes ''struct_fsverity_enable_arg'' = 128"
  "C_sizes ''struct_fsverity_digest'' = 4"
  "C_sizes ''struct_fsverity_read_metadata_arg'' = 40"
  "C_sizes ''struct_btrfs_ioctl_vol_args'' = 4096"
  "C_sizes ''int'' = 4"
  "C_sizes ''struct_btrfs_ioctl_clone_range_args'' = 32"
  "C_sizes ''struct_btrfs_ioctl_defrag_range_args'' = 48"
  "C_sizes ''struct_btrfs_ioctl_search_args'' = 4096"
  "C_sizes ''struct_btrfs_ioctl_search_args_v2'' = 112"
  "C_sizes ''struct_btrfs_ioctl_ino_lookup_args'' = 4096"
  "C_sizes ''__u64'' = 8"
  "C_sizes ''struct_btrfs_ioctl_space_args'' = 16"
  "C_sizes ''struct_btrfs_ioctl_vol_args_v2'' = 4096"
  "C_sizes ''struct_btrfs_ioctl_scrub_args'' = 1024"
  "C_sizes ''struct_btrfs_ioctl_dev_info_args'' = 4096"
  "C_sizes ''struct_btrfs_ioctl_fs_info_args'' = 1024"
  "C_sizes ''struct_btrfs_ioctl_balance_args'' = 1024"
  "C_sizes ''struct_btrfs_ioctl_ino_path_args'' = 56"
  "C_sizes ''struct_btrfs_ioctl_logical_ino_args'' = 56"
  "C_sizes ''struct_btrfs_ioctl_received_subvol_args'' = 200"
  "C_sizes ''struct_btrfs_ioctl_send_args'' = 72"
  "C_sizes ''struct_btrfs_ioctl_quota_ctl_args'' = 16"
  "C_sizes ''struct_btrfs_ioctl_qgroup_assign_args'' = 24"
  "C_sizes ''struct_btrfs_ioctl_qgroup_create_args'' = 16"
  "C_sizes ''struct_btrfs_ioctl_qgroup_limit_args'' = 48"
  "C_sizes ''struct_btrfs_ioctl_quota_rescan_args'' = 64"
  "C_sizes ''struct_btrfs_ioctl_get_dev_stats'' = 1032"
  "C_sizes ''struct_btrfs_ioctl_dev_replace_args'' = 2600"
  "C_sizes ''struct_btrfs_ioctl_same_args'' = 24"
  "C_sizes ''struct_btrfs_ioctl_get_subvol_info_args'' = 504"
  "C_sizes ''struct_btrfs_ioctl_get_subvol_rootref_args'' = 4096"
  "C_sizes ''struct_btrfs_ioctl_ino_lookup_user_args'' = 4096"
  "C_sizes ''struct_btrfs_ioctl_encoded_io_args'' = 128"
  by (simp_all add: C_sizes_def cgo_types_def layout_sizes)

text \<open>The numbers of the ioctls that the package uses are the ones that the generator computes
  from the sizes of the structures of the package: directions, numbers and sizes of all of them
  agree.\<close>

lemma ioctl_numbers: "ioctlgen C_sizes = ioctl_constants"
  by (simp add: ioctlgen_def ioctl_constants_def IOC_def IOR_def IOW_def IOWR_def IO_def)

section \<open>The names of constants\<close>

text \<open>The stringer puts the names one behind the other and keeps the offsets between them.\<close>

fun offsets :: "nat \<Rightarrow> string list \<Rightarrow> nat list" where
  "offsets a [] = [a]"
| "offsets a (s # ss) = a # offsets (a + length s) ss"

lemma offsets_0 [simp]: "offsets a ss ! 0 = a" by (cases ss) simp_all

lemma slice_offsets:
  "i < length ss \<Longrightarrow> slice (p @ concat ss) (offsets (length p) ss ! i) (offsets (length p) ss ! Suc i) = ss ! i"
proof (induction ss arbitrary: p i)
  case (Cons s ss)
  show ?case
  proof (cases i)
    case 0
    then show ?thesis by (simp add: slice_def)
  next
    case (Suc j)
    then show ?thesis using Cons.IH [of j "p @ s"] Cons.prems by simp
  qed
qed simp

lemma index_slice_concat:
  assumes "name = concat ss" "index = offsets 0 ss" "i < length ss"
  shows "index_slice name index i = ss ! i"
  using slice_offsets [OF assms(3), of "[]"] assms by (simp add: index_slice_def)

lemma slices_concat:
  "map (\<lambda>(v, a, b). (v, slice (p @ concat ss) a b))
     (zip vs (zip (offsets (length p) ss) (tl (offsets (length p) ss)))) = zip vs ss"
proof (induction ss arbitrary: p vs)
  case (Cons s ss)
  obtain os where os: "offsets (length p + length s) ss = (length p + length s) # os"
    by (cases ss) simp_all
  show ?case
  proof (cases vs)
    case (Cons v vs')
    then show ?thesis using Cons.IH [of "p @ s" vs'] os by (simp add: slice_def)
  qed simp
qed (cases vs; simp)

definition CompressionType_names :: "string list" where
  "CompressionType_names = [
    ''CompressionNone'', ''CompressionZLib'', ''CompressionZSTD'', ''CompressionLZO4k'',
    ''CompressionLZO8k'', ''CompressionLZO16k'', ''CompressionLZO32k'', ''CompressionLZO64k'']"

lemma CompressionType_tables:
  "CompressionType_name = concat CompressionType_names" "CompressionType_index = offsets 0 CompressionType_names"
  "length CompressionType_names = 8" "length CompressionType_index = 9"
  by (simp_all add: CompressionType_name_def CompressionType_index_def CompressionType_names_def)

lemma CompressionType_String_names: "unat i < 8 \<Longrightarrow> CompressionType_String i = CompressionType_names ! unat i"
  using index_slice_concat [OF CompressionType_tables(1,2), of "unat i"]
  by (simp add: CompressionType_String_def CompressionType_tables(3,4) word_le_nat_alt)

definition SendCommand_names :: "string list" where
  "SendCommand_names = [
    ''BTRFS_SEND_C_UNSPEC'', ''BTRFS_SEND_C_SUBVOL'', ''BTRFS_SEND_C_SNAPSHOT'', ''BTRFS_SEND_C_MKFILE'',
    ''BTRFS_SEND_C_MKDIR'', ''BTRFS_SEND_C_MKNOD'', ''BTRFS_SEND_C_MKFIFO'', ''BTRFS_SEND_C_MKSOCK'',
    ''BTRFS_SEND_C_SYMLINK'', ''BTRFS_SEND_C_RENAME'', ''BTRFS_SEND_C_LINK'', ''BTRFS_SEND_C_UNLINK'',
    ''BTRFS_SEND_C_RMDIR'', ''BTRFS_SEND_C_SET_XATTR'', ''BTRFS_SEND_C_REMOVE_XATTR'',
    ''BTRFS_SEND_C_WRITE'', ''BTRFS_SEND_C_CLONE'', ''BTRFS_SEND_C_TRUNCATE'', ''BTRFS_SEND_C_CHMOD'',
    ''BTRFS_SEND_C_CHOWN'', ''BTRFS_SEND_C_UTIMES'', ''BTRFS_SEND_C_END'', ''BTRFS_SEND_C_UPDATE_EXTENT'',
    ''BTRFS_SEND_C_FALLOCATE'', ''BTRFS_SEND_C_FILEATTR'', ''BTRFS_SEND_C_ENCODED_WRITE'',
    ''BTRFS_SEND_C_ENABLE_VERITY'']"

lemma SendCommand_tables:
  "SendCommand_name = concat SendCommand_names" "SendCommand_index = offsets 0 SendCommand_names"
  "length SendCommand_names = 27" "length SendCommand_index = 28"
  by (simp_all add: SendCommand_name_def SendCommand_index_def SendCommand_names_def)

lemma SendCommand_String_names: "unat i < 27 \<Longrightarrow> SendCommand_String i = SendCommand_names ! unat i"
  using index_slice_concat [OF SendCommand_tables(1,2), of "unat i"]
  by (simp add: SendCommand_String_def SendCommand_tables(3,4) word_le_nat_alt)

definition SendAttribute_names :: "string list" where
  "SendAttribute_names = [
    ''BTRFS_SEND_A_UNSPEC'', ''BTRFS_SEND_A_UUID'', ''BTRFS_SEND_A_CTRANSID'', ''BTRFS_SEND_A_INO'',
    ''BTRFS_SEND_A_SIZE'', ''BTRFS_SEND_A_MODE'', ''BTRFS_SEND_A_UID'', ''BTRFS_SEND_A_GID'',
    ''BTRFS_SEND_A_RDEV'', ''BTRFS_SEND_A_CTIME'', ''BTRFS_SEND_A_MTIME'', ''BTRFS_SEND_A_ATIME'',
    ''BTRFS_SEND_A_OTIME'', ''BTRFS_SEND_A_XATTR_NAME'', ''BTRFS_SEND_A_XATTR_DATA'',
    ''BTRFS_SEND_A_PATH'', ''BTRFS_SEND_A_PATH_TO'', ''BTRFS_SEND_A_PATH_LINK'',
    ''BTRFS_SEND_A_FILE_OFFSET'', ''BTRFS_SEND_A_DATA'', ''BTRFS_SEND_A_CLONE_UUID'',
    ''BTRFS_SEND_A_CLONE_CTRANSID'', ''BTRFS_SEND_A_CLONE_PATH'', ''BTRFS_SEND_A_CLONE_OFFSET'',
    ''BTRFS_SEND_A_CLONE_LEN'', ''BTRFS_SEND_A_FALLOCATE_MODE'', ''BTRFS_SEND_A_FILEATTR'',
    ''BTRFS_SEND_A_UNENCODED_FILE_LEN'', ''BTRFS_SEND_A_UNENCODED_LEN'', ''BTRFS_SEND_A_UNENCODED_OFFSET'',
    ''BTRFS_SEND_A_COMPRESSION'', ''BTRFS_SEND_A_ENCRYPTION'', ''BTRFS_SEND_A_VERITY_ALGORITHM'',
    ''BTRFS_SEND_A_VERITY_BLOCK_SIZE'', ''BTRFS_SEND_A_VERITY_SALT_DATA'', ''BTRFS_SEND_A_VERITY_SIG_DATA'']"

lemma SendAttribute_tables:
  "SendAttribute_name = concat SendAttribute_names" "SendAttribute_index = offsets 0 SendAttribute_names"
  "length SendAttribute_names = 36" "length SendAttribute_index = 37"
  by (simp_all add: SendAttribute_name_def SendAttribute_index_def SendAttribute_names_def)

lemma SendAttribute_String_names: "unat i < 36 \<Longrightarrow> SendAttribute_String i = SendAttribute_names ! unat i"
  using index_slice_concat [OF SendAttribute_tables(1,2), of "unat i"]
  by (simp add: SendAttribute_String_def SendAttribute_tables(3,4) word_le_nat_alt)

definition ObjectID_names_0 :: "string list" where
  "ObjectID_names_0 = [
    ''DevStatsObjectID'', ''RootTreeObjectID'', ''ExtentTreeObjectID'', ''ChunkTreeObjectID'',
    ''DevTreeObjectID'', ''FSTreeObjectID'', ''RootTreeDirObjectID'', ''CSumTreeObjectID'',
    ''QuotaTreeObjectID'', ''UUIDTreeObjectID'', ''FreeSpaceTreeObjectID'', ''BlockGroupTreeObjectID'']"

definition ObjectID_names_2 :: "string list" where
  "ObjectID_names_2 = [
    ''LastFreeObjectID'', ''MultipleObjectIDs'']"

definition ObjectID_names_3 :: "string list" where
  "ObjectID_names_3 = [
    ''FreeInoObjectID'', ''FreeSpaceObjectID'', ''ExtentCSumObjectID'', ''DataRelocTreeObjectID'',
    ''TreeRelocObjectID'', ''TreeLogFixupObjectID'', ''TreeLogObjectID'', ''OrphanObjectID'',
    ''BalanceObjectID'']"

lemma ObjectID_tables:
  "ObjectID_name_0 = concat ObjectID_names_0" "ObjectID_index_0 = offsets 0 ObjectID_names_0"
  "ObjectID_name_2 = concat ObjectID_names_2" "ObjectID_index_2 = offsets 0 ObjectID_names_2"
  "ObjectID_name_3 = concat ObjectID_names_3" "ObjectID_index_3 = offsets 0 ObjectID_names_3"
  by (simp_all add: ObjectID_name_0_def ObjectID_index_0_def ObjectID_names_0_def ObjectID_name_2_def
      ObjectID_index_2_def ObjectID_names_2_def ObjectID_name_3_def ObjectID_index_3_def ObjectID_names_3_def)

lemma ObjectID_names:
  "i < length ObjectID_names_0 \<Longrightarrow> index_slice ObjectID_name_0 ObjectID_index_0 i = ObjectID_names_0 ! i"
  "i < length ObjectID_names_2 \<Longrightarrow> index_slice ObjectID_name_2 ObjectID_index_2 i = ObjectID_names_2 ! i"
  "i < length ObjectID_names_3 \<Longrightarrow> index_slice ObjectID_name_3 ObjectID_index_3 i = ObjectID_names_3 ! i"
  by (rule index_slice_concat; simp add: ObjectID_tables)+

lemmas SearchKey_names = SearchKey_name_0_def SearchKey_name_1_def SearchKey_name_2_def SearchKey_name_3_def
  SearchKey_name_4_def SearchKey_name_5_def SearchKey_name_6_def

definition IoctlCmd_names :: "string list" where
  "IoctlCmd_names = [
    ''BTRFS_IOC_TRANS_START'', ''BTRFS_IOC_TRANS_END'', ''BTRFS_IOC_SYNC'', ''BTRFS_IOC_SCRUB_CANCEL'',
    ''BTRFS_IOC_QUOTA_RESCAN_WAIT'', ''BTRFS_IOC_CLONE'', ''BTRFS_IOC_BALANCE_CTL'',
    ''BTRFS_IOC_DEFAULT_SUBVOL'', ''BTRFS_IOC_WAIT_SYNC'', ''BTRFS_IOC_SUBVOL_SETFLAGS'',
    ''BTRFS_IOC_QGROUP_CREATE'', ''BTRFS_IOC_QGROUP_ASSIGN'', ''BTRFS_IOC_CLONE_RANGE'',
    ''BTRFS_IOC_DEFRAG_RANGE'', ''BTRFS_IOC_QUOTA_RESCAN'', ''BTRFS_IOC_SEND'', ''FS_IOC_ENABLE_VERITY'',
    ''BTRFS_IOC_ENCODED_WRITE'', ''BTRFS_IOC_SNAP_CREATE'', ''BTRFS_IOC_DEFRAG'', ''BTRFS_IOC_RESIZE'',
    ''BTRFS_IOC_SCAN_DEV'', ''BTRFS_IOC_FORGET_DEV'', ''BTRFS_IOC_ADD_DEV'', ''BTRFS_IOC_RM_DEV'',
    ''BTRFS_IOC_BALANCE'', ''BTRFS_IOC_SUBVOL_CREATE'', ''BTRFS_IOC_SNAP_DESTROY'',
    ''BTRFS_IOC_SNAP_CREATE_V2'', ''BTRFS_IOC_SUBVOL_CREATE_V2'', ''BTRFS_IOC_RM_DEV_V2'',
    ''BTRFS_IOC_SNAP_DESTROY_V2'', ''BTRFS_IOC_START_SYNC'', ''BTRFS_IOC_SUBVOL_GETFLAGS'',
    ''BTRFS_IOC_QGROUP_LIMIT'', ''BTRFS_IOC_QUOTA_RESCAN_STATUS'', ''BTRFS_IOC_ENCODED_READ'',
    ''BTRFS_IOC_GET_SUBVOL_INFO'', ''BTRFS_IOC_FS_INFO'', ''BTRFS_IOC_BALANCE_PROGRESS'',
    ''BTRFS_IOC_DEVICES_READY'', ''FS_IOC_MEASURE_VERITY'', ''BTRFS_IOC_SPACE_INFO'',
    ''BTRFS_IOC_QUOTA_CTL'', ''BTRFS_IOC_FILE_EXTENT_SAME'', ''FS_IOC_READ_VERITY_METADATA'',
    ''BTRFS_IOC_INO_PATHS'', ''BTRFS_IOC_LOGICAL_INO'', ''BTRFS_IOC_LOGICAL_INO_V2'',
    ''BTRFS_IOC_TREE_SEARCH_V2'', ''BTRFS_IOC_SET_RECEIVED_SUBVOL'', ''BTRFS_IOC_SCRUB'',
    ''BTRFS_IOC_SCRUB_PROGRESS'', ''BTRFS_IOC_BALANCE_V2'', ''BTRFS_IOC_GET_DEV_STATS'',
    ''BTRFS_IOC_DEV_REPLACE'', ''BTRFS_IOC_TREE_SEARCH'', ''BTRFS_IOC_INO_LOOKUP'', ''BTRFS_IOC_DEV_INFO'',
    ''BTRFS_IOC_GET_SUBVOL_ROOTREF'', ''BTRFS_IOC_INO_LOOKUP_USER'']"

definition IoctlCmd_values :: "IoctlCmd list" where
  "IoctlCmd_values = [
    37894, 37895, 37896, 37916, 37934, 1074041865, 1074041889, 1074304019, 1074304022, 1074304026,
    1074828330, 1075352617, 1075876877, 1076925456, 1077974060, 1078498342, 1082156677, 1082168384,
    1342215169, 1342215170, 1342215171, 1342215172, 1342215173, 1342215178, 1342215179, 1342215180,
    1342215182, 1342215183, 1342215191, 1342215192, 1342215226, 1342215231, 2148045848, 2148045849,
    2150667307, 2151715885, 2155910208, 2180551740, 2214630431, 2214630434, 2415957031, 3221513862,
    3222311956, 3222311976, 3222836278, 3223873159, 3224933411, 3224933412, 3224933435, 3228603409,
    3234370597, 3288372251, 3288372253, 3288372256, 3288896564, 3391657013, 3489698833, 3489698834,
    3489698846, 3489698877, 3489698878]"

lemma IoctlCmd_tables:
  "IoctlCmd_name = concat IoctlCmd_names"
  "IoctlCmd_map = zip IoctlCmd_values (zip (offsets 0 IoctlCmd_names) (tl (offsets 0 IoctlCmd_names)))"
  by (simp_all add: IoctlCmd_name_def IoctlCmd_map_def IoctlCmd_names_def IoctlCmd_values_def)

lemma IoctlCmd_String_names:
  assumes "i < 61"
  shows "IoctlCmd_String (IoctlCmd_values ! i) = IoctlCmd_names ! i"
proof -
  have "zip IoctlCmd_values IoctlCmd_names = map (\<lambda>(v, ab). (v, case ab of (a, b) \<Rightarrow> slice IoctlCmd_name a b)) IoctlCmd_map"
    unfolding IoctlCmd_tables using slices_concat [of "[]" IoctlCmd_names IoctlCmd_values]
    by (simp add: case_prod_unfold)
  then have *: "map_of (zip IoctlCmd_values IoctlCmd_names) c
      = map_option (\<lambda>(a, b). slice IoctlCmd_name a b) (map_of IoctlCmd_map c)" for c
    by (simp add: map_of_map)
  have "length IoctlCmd_values = 61" "length IoctlCmd_names = 61"
    by (simp_all add: IoctlCmd_values_def IoctlCmd_names_def)
  moreover have "successively (<) IoctlCmd_values" by (simp add: IoctlCmd_values_def)
  then have "distinct IoctlCmd_values"
    by (simp add: successively_conv_sorted_wrt strict_sorted_iff)
  ultimately have "map_of (zip IoctlCmd_values IoctlCmd_names) (IoctlCmd_values ! i) = Some (IoctlCmd_names ! i)"
    using assms by (intro map_of_zip_nth) simp_all
  then show ?thesis unfolding * by (auto simp: IoctlCmd_String_def)
qed

text \<open>The constants in the order of the package are these places of the sorted table.\<close>

definition IoctlCmd_places :: "nat list" where
  "IoctlCmd_places = [
    16, 41, 45, 18, 19, 20, 21, 22, 0, 1, 2, 5, 23, 24, 25, 12, 26, 27, 13, 56, 49, 57, 7, 42, 32, 8, 28,
    29, 33, 9, 51, 3, 52, 58, 38, 53, 6, 39, 46, 47, 50, 15, 40, 43, 11, 10, 34, 14, 35, 4, 54, 55, 44, 30,
    48, 37, 59, 60, 31, 36, 17]"

lemma ioctl_constants_places:
  "ioctl_constants = map (\<lambda>i. (IoctlCmd_names ! i, IoctlCmd_values ! i)) IoctlCmd_places"
  by (simp add: ioctl_constants_def IoctlCmd_places_def IoctlCmd_names_def IoctlCmd_values_def)

text \<open>Every constant is printed by its own name. The exceptions are the constants that repeat the
  number of another one and are printed by the name of that: the maxima of the versions of the
  stream, and the identifier of the device items, which is printed as the one of the root tree.\<close>

theorem constant_names:
  "filter (\<lambda>(n, c). IoctlCmd_String c \<noteq> n) ioctl_constants = []
   \<and> filter (\<lambda>(n, c). ObjectID_String c \<noteq> n) object_ids = [(''DevItemsObjectID'', 1)]
   \<and> filter (\<lambda>(n, c). SearchKey_String c \<noteq> n) search_keys = []
   \<and> filter (\<lambda>(n, c). CompressionType_String c \<noteq> n) compression_types = []
   \<and> map fst (filter (\<lambda>(n, c). SendCommand_String c \<noteq> n) send_commands)
     = [''BTRFS_SEND_C_MAX_V1'', ''BTRFS_SEND_C_MAX_V2'', ''BTRFS_SEND_C_MAX_V3'', ''BTRFS_SEND_C_MAX'']
   \<and> map fst (filter (\<lambda>(n, c). SendAttribute_String c \<noteq> n) send_attributes)
     = [''BTRFS_SEND_A_MAX_V1'', ''BTRFS_SEND_A_MAX_V2'', ''BTRFS_SEND_A_MAX_V3'', ''BTRFS_SEND_A_MAX'']"
proof (intro conjI)
  show "filter (\<lambda>(n, c). IoctlCmd_String c \<noteq> n) ioctl_constants = []"
  proof -
    have "\<forall>i\<in>set IoctlCmd_places. i < 61" by (simp add: IoctlCmd_places_def)
    then show ?thesis by (auto simp: ioctl_constants_places filter_empty_conv IoctlCmd_String_names)
  qed
  show "filter (\<lambda>(n, c). ObjectID_String c \<noteq> n) object_ids = [(''DevItemsObjectID'', 1)]"
    by (simp add: object_ids_def ObjectID_String_def ObjectID_names ObjectID_name_1_def
        ObjectID_names_0_def ObjectID_names_2_def ObjectID_names_3_def)
  show "filter (\<lambda>(n, c). SearchKey_String c \<noteq> n) search_keys = []"
    by (simp add: search_keys_def SearchKey_String_def SearchKey_names)
  show "filter (\<lambda>(n, c). CompressionType_String c \<noteq> n) compression_types = []"
    by (simp add: compression_types_def CompressionType_String_names CompressionType_names_def)
  show "map fst (filter (\<lambda>(n, c). SendCommand_String c \<noteq> n) send_commands)
     = [''BTRFS_SEND_C_MAX_V1'', ''BTRFS_SEND_C_MAX_V2'', ''BTRFS_SEND_C_MAX_V3'', ''BTRFS_SEND_C_MAX'']"
    by (simp add: send_commands_def SendCommand_String_names SendCommand_names_def)
  show "map fst (filter (\<lambda>(n, c). SendAttribute_String c \<noteq> n) send_attributes)
     = [''BTRFS_SEND_A_MAX_V1'', ''BTRFS_SEND_A_MAX_V2'', ''BTRFS_SEND_A_MAX_V3'', ''BTRFS_SEND_A_MAX'']"
    by (simp add: send_attributes_def SendAttribute_String_names SendAttribute_names_def)
qed
end
