(* ===== verification/Generate.thy ===== *)
theory Generate
  imports Config Ioctls
begin

text \<open>
  Generating a configuration from the subvolumes of the mounted file systems
  (\<^verbatim>\<open>pkg/cmd/config.go\<close>). Regular expressions, the clock and the encoder of TOML are
  parameters; the flags of the command are arguments. The theorems say which subvolumes are
  generated, and that the entry for the root of a volume makes the configuration invalid.
\<close>

record 'w gen_env =
  gkern :: "'w kernel"
  Compile :: "string \<Rightarrow> gerr + (string \<Rightarrow> bool)"
  unix_now :: "'w \<Rightarrow> int \<times> 'w"
  toml_lines :: "Config \<Rightarrow> gerr + string list"

section \<open>The expressions\<close>

fun compile_all :: "(string \<Rightarrow> gerr + (string \<Rightarrow> bool)) \<Rightarrow> string \<Rightarrow> string list \<Rightarrow> gerr + (string \<Rightarrow> bool) list" where
  "compile_all compile msg [] = Inr []"
| "compile_all compile msg (e # es) = (case compile e of
     Inl err \<Rightarrow> Inl (ErrText msg)
   | Inr re \<Rightarrow> (case compile_all compile msg es of Inl err \<Rightarrow> Inl err | Inr res \<Rightarrow> Inr (re # res)))"

text \<open>
  The loop that is to find out whether the root is included. It breaks at a match, but each
  expression before it that does not match has emptied the list.
\<close>

fun include_root :: "(string \<Rightarrow> bool) list \<Rightarrow> string \<Rightarrow> Subvolume list \<Rightarrow> Subvolume list" where
  "include_root [] rootName subvols = subvols"
| "include_root (e # es) rootName subvols = (if e rootName then subvols else include_root es rootName [])"

fun exclude_root :: "(string \<Rightarrow> bool) list \<Rightarrow> string \<Rightarrow> Subvolume list \<Rightarrow> Subvolume list" where
  "exclude_root [] rootName subvols = subvols"
| "exclude_root (e # es) rootName subvols = (if e rootName then [] else exclude_root es rootName subvols)"

section \<open>The subvolumes of a volume\<close>

definition named_subvolume :: "string \<Rightarrow> string \<Rightarrow> Subvolume" where
  "named_subvolume name path = \<lparr>SName = name, SPath = path, SSnapshotsDir = [], SSnapshotName = [],
     SSnapshotInterval = 0, SSnapshotMinimumRetention = 0, SSnapshotRetention = 0,
     SSnapshotRetentionInterval = 0, STimeFormat = [], SMirrors = [], SExcludeMirrors = [], SDisabled = False\<rparr>"

definition empty_volume :: "string \<Rightarrow> string \<Rightarrow> Volume" where
  "empty_volume name mount = \<lparr>VName = name, VPath = mount, VSnapshotsDir = [], VSnapshotInterval = 0,
     VSnapshotMinimumRetention = 0, VSnapshotRetention = 0, VSnapshotRetentionInterval = 0, VTimeFormat = [],
     VSubvolumes = [], VMirrors = [], VDisabled = False\<rparr>"

partial_function (option) full_path :: "heap \<Rightarrow> RBRoot \<Rightarrow> string \<Rightarrow> addr option \<Rightarrow> string option" where
  "full_path h tree fullpath parent =
     (if parent = None then Some fullpath
      else do {
        above \<leftarrow> LookupRoot h tree (RefTree (infos h (the parent)));
        full_path h tree (Join [Path (infos h (the parent)), fullpath]) above })"

text \<open>A name that is in use gets the time as a suffix.\<close>

definition unused_name :: "'w gen_env \<Rightarrow> bool \<Rightarrow> string \<Rightarrow> 'w \<Rightarrow> string \<times> 'w" where
  "unused_name env used name w =
     (if used then (case unix_now env w of (t, w) \<Rightarrow> (name @ ''-'' @ FormatInt t, w)) else (name, w))"

definition generate_step :: "'w gen_env \<Rightarrow> (string \<Rightarrow> bool) list \<Rightarrow> (string \<Rightarrow> bool) list \<Rightarrow> Volume \<Rightarrow> RBRoot \<Rightarrow>
    ('w \<times> Subvolume list) RBTreeIterFunc" where
  "generate_step env incl excl volume tree info lastErr st = (case st of (h, w, subvols) \<Rightarrow>
     if Deleted (infos h info) \<or> Path (infos h info) = [] then Some (None, st)
     else if ParentUUID (infos h info) \<noteq> NilUUID then Some (None, st)
     else do {
       parent \<leftarrow> LookupRoot h tree (RefTree (infos h info));
       fullpath \<leftarrow> full_path h tree (Path (infos h info)) parent;
       if incl \<noteq> [] \<and> \<not> list_ex (\<lambda>e. e fullpath) incl then Some (None, st)
       else if list_ex (\<lambda>e. e fullpath) excl then Some (None, st)
       else (case unused_name env (SubvolumeNameInUse volume (Base fullpath)) (Base fullpath) w of
          (name, w) \<Rightarrow> Some (None, h, w, subvols @ [named_subvolume name fullpath])) })"

definition subvolumes_of :: "'w gen_env \<Rightarrow> (string \<Rightarrow> bool) list \<Rightarrow> (string \<Rightarrow> bool) list \<Rightarrow> Volume \<Rightarrow>
    ('w, Subvolume list) io" where
  "subvolumes_of env incl excl volume =
     andThen (BuildRBTree (gkern env) (VPath volume)) (\<lambda>(h, tree) w.
     let rootName = VName volume @ ''-root'';
         subvols = [named_subvolume rootName []];
         subvols = (if incl \<noteq> [] then include_root incl rootName subvols else subvols);
         subvols = exclude_root excl rootName subvols
     in do {
       (_, h, w, subvols) \<leftarrow> InOrderIterate (generate_step env incl excl volume tree) tree (h, w, subvols);
       Some (Inr subvols, w) })"

section \<open>The configuration\<close>

definition volume_name :: "'w gen_env \<Rightarrow> Config \<Rightarrow> string \<Rightarrow> 'w \<Rightarrow> string \<times> 'w" where
  "volume_name env conf mount =
     (let name = (if mount = ''/'' then ''root'' else Base mount)
      in unused_name env (VolumeNameInUse conf name) name)"

fun volumes_loop :: "'w gen_env \<Rightarrow> (string \<Rightarrow> bool) list \<Rightarrow> (string \<Rightarrow> bool) list \<Rightarrow> Config \<Rightarrow> string list \<Rightarrow>
    ('w, Config) io" where
  "volumes_loop env incl excl conf [] w = ok conf w"
| "volumes_loop env incl excl conf (mount # mounts) w = (case volume_name env conf mount w of (name, w) \<Rightarrow>
     let volume = empty_volume name mount in
     andThen (subvolumes_of env incl excl volume) (\<lambda>subvols.
     let volume = volume\<lparr>VSubvolumes := subvols\<rparr>;
         conf = (if VSubvolumes volume \<noteq> [] then conf\<lparr>Volumes := Volumes conf @ [volume]\<rparr> else conf)
     in volumes_loop env incl excl conf mounts) w)"

definition generated_config :: "'w gen_env \<Rightarrow> string list \<Rightarrow> string list \<Rightarrow> string list \<Rightarrow> ('w, Config) io" where
  "generated_config env includeExprs excludeExprs mounts =
     andThen (lift_sum (compile_all (Compile env) ''failed to compile include expression'' includeExprs)) (\<lambda>incl.
     andThen (lift_sum (compile_all (Compile env) ''failed to compile exclude expression'' excludeExprs)) (\<lambda>excl.
     andThen (if mounts = [] then andThen (ListBtrfsMounts (gkern env)) (\<lambda>ms. ok (map MountPath ms)) else ok mounts)
       (\<lambda>mounts. volumes_loop env incl excl NewDefaultConfig mounts)))"

text \<open>The tables of subvolumes are indented in the text, one level deeper for each of them.\<close>

fun indented :: "nat \<Rightarrow> string list \<Rightarrow> string" where
  "indented indent [] = []"
| "indented indent (t # ts) =
     (let indent = (if t = [] then 0 else indent);
          indent = (if HasPrefix t ''[[volumes.subvolumes'' then indent + 1 else indent)
      in concat (replicate indent ''    '') @ t @ [CHR 0x0A] @ indented indent ts)"

definition generateConfig :: "'w gen_env \<Rightarrow> string list \<Rightarrow> string list \<Rightarrow> string list \<Rightarrow> ('w, string) io" where
  "generateConfig env includeExprs excludeExprs mounts =
     andThen (generated_config env includeExprs excludeExprs mounts) (\<lambda>conf.
     andThen (lift_sum (toml_lines env conf)) (\<lambda>ls. ok (indented 0 ls)))"

section \<open>What is generated\<close>

text \<open>What the callback of a traversal preserves holds at its end.\<close>

lemma inOrderIterate_keeps:
  assumes "\<And>a e st e' st'. P (snd st) \<Longrightarrow> f a e st = Some (e', st') \<Longrightarrow> P (snd st')"
    and "inOrderIterate f node e st = Some (e', st')" "P (snd st)"
  shows "P (snd st')"
proof -
  define Q where "Q = (\<lambda>(g :: 'a RBTreeIterFunc) (n :: addr) (e :: gerr option) (st :: heap \<times> 'a)
     (r :: gerr option \<times> heap \<times> 'a). g = f \<longrightarrow> P (snd st) \<longrightarrow> P (snd (snd r)))"
  have "Q f node e st (e', st')"
  proof (rule inOrderIterate.raw_induct [OF _ assms(2)])
    fix iter g m e st r
    assume IH: "\<And>f m e st r. iter f m e st = Some r \<Longrightarrow> Q f m e st r"
      and r: "(case RBLeft (nodes (fst st) m) of None \<Rightarrow> Some (e, False, st)
          | Some l \<Rightarrow> iter g l e st \<bind> (\<lambda>(e, st). Some (e, stops e, st))) \<bind>
        (\<lambda>(lastErr, stop, st). if stop then Some (lastErr, st) else
          g (Info (nodes (fst st) m)) lastErr st \<bind> (\<lambda>(lastErr, st).
            if stops lastErr then Some (lastErr, st)
            else case RBRight (nodes (fst st) m) of None \<Rightarrow> Some (lastErr, st) | Some r \<Rightarrow> iter g r lastErr st))
        = Some r"
    show "Q g m e st r"
      unfolding Q_def
    proof (intro impI)
      assume g: "g = f" and P: "P (snd st)"
      have iter: "P (snd st2)" if "iter f l e1 st1 = Some (e2, st2)" "P (snd st1)" for l e1 st1 e2 st2
        using IH [OF that(1)] that(2) by (simp add: Q_def)
      obtain e1 stop st1 where 1: "(case RBLeft (nodes (fst st) m) of None \<Rightarrow> Some (e, False, st)
          | Some l \<Rightarrow> iter f l e st \<bind> (\<lambda>(e, st). Some (e, stops e, st))) = Some (e1, stop, st1)"
        using r unfolding g by (cases "case RBLeft (nodes (fst st) m) of None \<Rightarrow> Some (e, False, st)
          | Some l \<Rightarrow> iter f l e st \<bind> (\<lambda>(e, st). Some (e, stops e, st))") auto
      have P1: "P (snd st1)"
        using 1 P iter [of _ e st e1 st1] by (cases "RBLeft (nodes (fst st) m)") (auto split: Option.bind_splits)
      show "P (snd (snd r))"
      proof (cases stop)
        case True
        then show ?thesis using r P1 unfolding g 1 by auto
      next
        case False
        then obtain e2 st2 where 2: "f (Info (nodes (fst st1) m)) e1 st1 = Some (e2, st2)"
          using r unfolding g 1 by (cases "f (Info (nodes (fst st1) m)) e1 st1") auto
        have P2: "P (snd st2)" using assms(1) [OF P1 2] .
        show ?thesis
        proof (cases "stops e2 \<or> RBRight (nodes (fst st2) m) = None")
          case True
          then show ?thesis using r P2 False unfolding g 1 by (auto simp: 2 split: if_splits)
        next
          case False
          then obtain l where "iter f l e2 st2 = Some r"
            using r \<open>\<not> stop\<close> unfolding g 1 by (auto simp: 2)
          then show ?thesis using iter [of l e2 st2 "fst r" "snd r"] P2 by simp
        qed
      qed
    qed
  qed
  then show ?thesis using assms(3) by (simp add: Q_def)
qed

text \<open>
  What is generated for a volume: the entry of the root, where the expressions select its name,
  and behind it the full paths of subvolumes that they select, under their last components.
\<close>

definition selected :: "(string \<Rightarrow> bool) list \<Rightarrow> (string \<Rightarrow> bool) list \<Rightarrow> string \<Rightarrow> bool" where
  "selected incl excl s \<longleftrightarrow> (incl = [] \<or> list_ex (\<lambda>e. e s) incl) \<and> \<not> list_ex (\<lambda>e. e s) excl"

definition root_entry :: "(string \<Rightarrow> bool) list \<Rightarrow> (string \<Rightarrow> bool) list \<Rightarrow> string \<Rightarrow> Subvolume list" where
  "root_entry incl excl name =
     exclude_root excl (name @ ''-root'')
       (if incl \<noteq> [] then include_root incl (name @ ''-root'') [named_subvolume (name @ ''-root'') []]
        else [named_subvolume (name @ ''-root'') []])"

definition chosen :: "(string \<Rightarrow> bool) list \<Rightarrow> (string \<Rightarrow> bool) list \<Rightarrow> Subvolume \<Rightarrow> bool" where
  "chosen incl excl s \<longleftrightarrow> selected incl excl (SPath s) \<and> s = named_subvolume (Base (SPath s)) (SPath s)"

lemma named_subvolume_simps [simp]: "SName (named_subvolume n p) = n" "SPath (named_subvolume n p) = p"
  by (simp_all add: named_subvolume_def)

lemma chosen_name: "chosen incl excl s \<Longrightarrow> SName s = Base (SPath s) \<and> selected incl excl (SPath s)"
  unfolding chosen_def by (metis named_subvolume_simps(1))

definition follows :: "(Subvolume \<Rightarrow> bool) \<Rightarrow> Subvolume list \<Rightarrow> Subvolume list \<Rightarrow> bool" where
  "follows Q start subvols \<longleftrightarrow> (\<exists>more. subvols = start @ more \<and> (\<forall>s\<in>set more. Q s))"

lemma follows_refl: "follows Q start start"
  by (auto simp: follows_def)

lemma follows_snoc: "follows Q start subvols \<Longrightarrow> Q s \<Longrightarrow> follows Q start (subvols @ [s])"
  unfolding follows_def by (elim exE conjE) (intro exI [of _ "_ @ [s]"], auto)

lemma generate_step_keeps:
  assumes "follows (chosen incl excl) start (snd (snd st))" "VSubvolumes volume = []"
    and "generate_step env incl excl volume tree a e st = Some (e', st')"
  shows "follows (chosen incl excl) start (snd (snd st'))"
proof -
  obtain h w subvols where st: "st = (h, w, subvols)" by (cases st) auto
  have "snd (snd st') = subvols
      \<or> (\<exists>fp. selected incl excl fp \<and> snd (snd st') = subvols @ [named_subvolume (Base fp) fp])"
    using assms(2,3) unfolding st generate_step_def selected_def
    by (auto simp: unused_name_def SubvolumeNameInUse_def split: if_splits Option.bind_splits)
  then show ?thesis
    using assms(1) follows_snoc [of "chosen incl excl" start subvols] unfolding st
    by (auto simp: chosen_def named_subvolume_def)
qed

lemma subvolumes_of_follows:
  assumes "subvolumes_of env incl excl volume w = Some (Inr subvols, w')" "VSubvolumes volume = []"
  shows "follows (chosen incl excl) (root_entry incl excl (VName volume)) subvols"
proof -
  obtain h tree w1 e h2 where it: "InOrderIterate (generate_step env incl excl volume tree) tree (h, w1,
      root_entry incl excl (VName volume)) = Some (e, h2, w', subvols)"
    using assms(1) unfolding root_entry_def
    by (auto simp: subvolumes_of_def andThen_def Let_def split: option.splits sum.splits prod.splits Option.bind_splits)
  show ?thesis
  proof (cases tree)
    case None
    then show ?thesis using it by (simp add: InOrderIterate_def follows_refl)
  next
    case (Some n)
    then have "inOrderIterate (generate_step env incl excl volume tree) n None
        (h, w1, root_entry incl excl (VName volume)) = Some (e, h2, w', subvols)"
      using it by (simp add: InOrderIterate_def)
    from inOrderIterate_keeps [where P = "\<lambda>p. follows (chosen incl excl) (root_entry incl excl (VName volume)) (snd p)", OF
        generate_step_keeps [OF _ assms(2)] this]
    show ?thesis by (simp add: follows_refl)
  qed
qed

lemma include_root_cases:
  "include_root es r subvols = [] \<or> include_root es r subvols = subvols \<and> (es = [] \<or> hd es r)"
proof (induction es arbitrary: subvols)
  case (Cons e es)
  then show ?case using Cons.IH [of "[]"] by auto
qed simp

lemma exclude_root_eq: "exclude_root es r subvols = (if list_ex (\<lambda>e. e r) es then [] else subvols)"
  by (induction es) auto

lemma root_entry_cases:
  "root_entry incl excl name = []
   \<or> root_entry incl excl name = [named_subvolume (name @ ''-root'') []] \<and> selected incl excl (name @ ''-root'')"
  using include_root_cases [of incl "name @ ''-root''" "[named_subvolume (name @ ''-root'') []]"]
  by (cases incl) (auto simp: root_entry_def exclude_root_eq selected_def)

text \<open>The volumes of the configuration.\<close>

definition from_mount :: "(string \<Rightarrow> bool) list \<Rightarrow> (string \<Rightarrow> bool) list \<Rightarrow> Volume \<Rightarrow> bool" where
  "from_mount incl excl v \<longleftrightarrow> VSubvolumes v \<noteq> []
     \<and> follows (chosen incl excl) (root_entry incl excl (VName v)) (VSubvolumes v)"

lemma volumes_loop_from_mount:
  assumes "volumes_loop env incl excl conf mounts w = Some (Inr conf', w')"
  shows "\<exists>vs. Volumes conf' = Volumes conf @ vs \<and> (\<forall>v\<in>set vs. from_mount incl excl v)
    \<and> (incl = [] \<and> excl = [] \<longrightarrow> length vs = length mounts)"
  using assms
proof (induction mounts arbitrary: conf w)
  case Nil
  then show ?case by (auto simp: ok_def)
next
  case (Cons mount mounts)
  obtain name w1 where n: "volume_name env conf mount w = (name, w1)" by (cases "volume_name env conf mount w")
  then obtain subvols w2 where s: "subvolumes_of env incl excl (empty_volume name mount) w1 = Some (Inr subvols, w2)"
    and rest: "volumes_loop env incl excl (if subvols \<noteq> [] then conf\<lparr>Volumes := Volumes conf @
        [(empty_volume name mount)\<lparr>VSubvolumes := subvols\<rparr>]\<rparr> else conf) mounts w2 = Some (Inr conf', w')"
    using Cons.prems by (auto simp: andThen_def Let_def split: option.splits sum.splits)
  have f: "follows (chosen incl excl) (root_entry incl excl name) subvols"
    using subvolumes_of_follows [OF s] by (simp add: empty_volume_def)
  have ne: "subvols \<noteq> []" if "incl = []" "excl = []"
    using f that by (auto simp: follows_def root_entry_def)
  have v: "subvols \<noteq> [] \<Longrightarrow> from_mount incl excl ((empty_volume name mount)\<lparr>VSubvolumes := subvols\<rparr>)"
    using f by (simp add: from_mount_def empty_volume_def)
  obtain vs where vs: "Volumes conf' = Volumes (if subvols \<noteq> [] then conf\<lparr>Volumes := Volumes conf @
        [(empty_volume name mount)\<lparr>VSubvolumes := subvols\<rparr>]\<rparr> else conf) @ vs"
      "\<forall>v\<in>set vs. from_mount incl excl v" "incl = [] \<and> excl = [] \<longrightarrow> length vs = length mounts"
    using Cons.IH [OF rest] by (elim exE conjE) (rule that)
  show ?case
  proof (cases "subvols = []")
    case True
    then show ?thesis using vs ne by (intro exI [of _ vs]) auto
  next
    case False
    then show ?thesis using vs v by (intro exI [of _ "(empty_volume name mount)\<lparr>VSubvolumes := subvols\<rparr> # vs"]) auto
  qed
qed

text \<open>C31: Every subvolume of a generated configuration is the entry of a root whose name the expressions
  select, or a subvolume whose full path they select, named after the last component of the
  path. So nothing is generated that an exclude expression matches.\<close>

theorem generated_selected:
  assumes "generated_config env includeExprs excludeExprs mounts w = Some (Inr conf, w')"
    and "compile_all (Compile env) ''failed to compile include expression'' includeExprs = Inr incl"
    and "compile_all (Compile env) ''failed to compile exclude expression'' excludeExprs = Inr excl"
    and "v \<in> set (Volumes conf)" "s \<in> set (VSubvolumes v)"
  shows "SPath s = [] \<and> SName s = VName v @ ''-root'' \<and> selected incl excl (SName s)
    \<or> SName s = Base (SPath s) \<and> selected incl excl (SPath s)"
proof -
  obtain ms w1 where "volumes_loop env incl excl NewDefaultConfig ms w1 = Some (Inr conf, w')"
    using assms(1-3) by (auto simp: generated_config_def andThen_def lift_sum_def split: option.splits sum.splits)
  from volumes_loop_from_mount [OF this] have "from_mount incl excl v"
    using assms(4) by (auto simp: NewDefaultConfig_def)
  then obtain more where more: "VSubvolumes v = root_entry incl excl (VName v) @ more" "\<forall>s\<in>set more. chosen incl excl s"
    unfolding from_mount_def follows_def by blast
  show ?thesis
  proof (cases "s \<in> set more")
    case True
    then show ?thesis using more(2) chosen_name by blast
  next
    case False
    then have "s \<in> set (root_entry incl excl (VName v))" using assms(5) more(1) by simp
    then show ?thesis using root_entry_cases [of incl excl "VName v"] by auto
  qed
qed

lemma Validate_root:
  assumes "Volumes conf = v # vs" "VSubvolumes v = named_subvolume (name @ ''-root'') [] # ss"
  shows "Validate conf \<noteq> None"
  using assms
  by (simp add: Validate_def ValidateSubvolume_def named_subvolume_def Subvolume_GetName_def Let_def split: option.split)

text \<open>A configuration that is generated without expressions is never valid: its first volume begins
  with the entry for its root, which has no path, and every subvolume needs one.\<close>

theorem generated_root_invalid:
  assumes "generated_config env [] [] (m # mounts) w = Some (Inr conf, w')"
  shows "Validate conf \<noteq> None"
proof -
  have "volumes_loop env [] [] NewDefaultConfig (m # mounts) w = Some (Inr conf, w')"
    using assms by (simp add: generated_config_def lift_sum_def andThen_def ok_def)
  from volumes_loop_from_mount [OF this] obtain v vs where v: "Volumes conf = v # vs" "from_mount [] [] v"
    by (auto simp: NewDefaultConfig_def length_Suc_conv)
  then obtain ss where "VSubvolumes v = named_subvolume (VName v @ ''-root'') [] # ss"
    by (auto simp: from_mount_def follows_def root_entry_def)
  then show ?thesis using Validate_root [OF v(1)] by blast
qed

section \<open>An instance\<close>

text \<open>A file system without subvolumes, and expressions that are compared with the whole text.\<close>

definition sample_gen_env :: "unit gen_env" where
  "sample_gen_env = \<lparr>gkern = batch_kernel [], Compile = (\<lambda>e. Inr (\<lambda>s. s = e)), unix_now = (\<lambda>w. (0, w)),
     toml_lines = (\<lambda>c. Inr [])\<rparr>"

lemma batch_kernel_root_id: "\<exists>i. lookupRootIDFromFd (batch_kernel []) f w = Some (Inr i, w)"
  by (simp add: lookupRootIDFromFd_def ino_lookup_def callWriteIoctl_def ioctl_def wrapping_def andThen_def lift_sum_def
      batch_kernel_def ok_def Let_def binary_Read_def enc_items_def)

lemma batch_kernel_tree:
  "BuildRBTree (batch_kernel [] :: unit kernel) p () = Some (Inr (empty_heap, newRBRoot), ())"
proof -
  obtain i where i: "lookupRootIDFromFd (batch_kernel [] :: unit kernel) 3 () = Some (Inr i, ())"
    using batch_kernel_root_id [where f = 3 and w = "()"] by (elim exE) (rule that)
  have c: "search_contract (batch_kernel [] :: unit kernel) 3 []"
    by (rule batch_kernel_contract) simp_all
  have "walkBtrfsTreeFd (batch_kernel [] :: unit kernel) 3 p build_step ((), empty_heap, newRBRoot)
      = Some (None, (), empty_heap, newRBRoot)" for p
    unfolding walkBtrfsTreeFd_def walk_loop_visit [OF c] by simp
  moreover have "sys_Open (batch_kernel [] :: unit kernel) p w = Some (Inr 3, w)"
    "sys_Close (batch_kernel [] :: unit kernel) f w = w" for p f w
    by (simp_all add: batch_kernel_def ok_def)
  ultimately show ?thesis
    using i by (simp add: BuildRBTree_def andThen_def closing_def wrapping_def ok_def resolveFullPaths_def newRBRoot_def
        PreOrderIterate_def)
qed

lemma sample_generated:
  "generated_config sample_gen_env [] [''home''] [''/data''] () = Some (Inr (NewDefaultConfig\<lparr>Volumes :=
     [(empty_volume ''data'' ''/data'')\<lparr>VSubvolumes := [named_subvolume ''data-root'' []]\<rparr>]\<rparr>), ())"
  "generated_config sample_gen_env [] [] [''/data''] () = Some (Inr (NewDefaultConfig\<lparr>Volumes :=
     [(empty_volume ''data'' ''/data'')\<lparr>VSubvolumes := [named_subvolume ''data-root'' []]\<rparr>]\<rparr>), ())"
proof -
  have b: "Base ''/data'' = ''data''" by code_simp
  show "generated_config sample_gen_env [] [''home''] [''/data''] () = Some (Inr (NewDefaultConfig\<lparr>Volumes :=
     [(empty_volume ''data'' ''/data'')\<lparr>VSubvolumes := [named_subvolume ''data-root'' []]\<rparr>]\<rparr>), ())"
    "generated_config sample_gen_env [] [] [''/data''] () = Some (Inr (NewDefaultConfig\<lparr>Volumes :=
     [(empty_volume ''data'' ''/data'')\<lparr>VSubvolumes := [named_subvolume ''data-root'' []]\<rparr>]\<rparr>), ())"
    by (simp_all add: generated_config_def sample_gen_env_def lift_sum_def andThen_def ok_def volume_name_def b
        unused_name_def VolumeNameInUse_def NewDefaultConfig_def subvolumes_of_def batch_kernel_tree empty_volume_def
        exclude_root_eq InOrderIterate_def newRBRoot_def)
qed

lemma generated_selected_witness:
  "selected [] [\<lambda>s. s = ''home''] ''data-root'' \<or> selected [] [\<lambda>s. s = ''home''] []"
  using generated_selected [OF sample_generated(1), of "[]" "[\<lambda>s. s = ''home'']"
      "(empty_volume ''data'' ''/data'')\<lparr>VSubvolumes := [named_subvolume ''data-root'' []]\<rparr>" "named_subvolume ''data-root'' []"]
  by (auto simp: sample_gen_env_def)

lemma generated_root_invalid_witness:
  "Validate (NewDefaultConfig\<lparr>Volumes :=
     [(empty_volume ''data'' ''/data'')\<lparr>VSubvolumes := [named_subvolume ''data-root'' []]\<rparr>]\<rparr>) \<noteq> None"
  by (rule generated_root_invalid [OF sample_generated(2)])

end
