(* ===== verification/Cli.thy ===== *)
theory Cli
  imports MemFs Generate Local
begin

text \<open>
  The commands \<^verbatim>\<open>send\<close>, \<^verbatim>\<open>receive\<close>, \<^verbatim>\<open>mount\<close> and \<^verbatim>\<open>tree\<close> (\<^verbatim>\<open>pkg/cmd/\<close>). Flags and
  arguments are arguments of the definitions, \<open>args\<close> is not empty (\<^verbatim>\<open>cobra.MinimumNArgs(1)\<close>), and
  logging is left out. A process that ends with an error on its way (\<^verbatim>\<open>logger.Fatal\<close>) has failed.
\<close>

section \<open>Sending and receiving\<close>

definition Stdin :: fd where [simp]: "Stdin = 0"
definition Stdout :: fd where [simp]: "Stdout = 1"

definition send_dest :: "'w os \<Rightarrow> bool \<Rightarrow> string \<Rightarrow> string list \<Rightarrow> ('w, fd) io" where
  "send_dest os stdout_is_terminal sendfile args =
     (if sendfile \<noteq> [] then os_Create os sendfile
      else if length args = 1 then
        if stdout_is_terminal then fail (ErrText ''stdout is a terminal, please specify an output file'')
        else ok Stdout
      else fail (ErrText ''must specify an output file''))"

definition send_cmd :: "'w os \<Rightarrow> (bytes \<Rightarrow> u64) \<Rightarrow> bool \<Rightarrow> bool \<Rightarrow> string \<Rightarrow> bool \<Rightarrow> string list \<Rightarrow> ('w, unit) io" where
  "send_cmd os addr stdout_is_terminal forcesend sendfile compressed args =
     (let k = kern os; src = hd args in
      andThen (IsSubvolumeReadOnly k src) (\<lambda>isReadonly.
      andThen (if isReadonly then ok ()
        else if \<not> forcesend then fail (ErrText ''source subvolume must be readonly'')
        else SetSubvolumeReadOnly k src True) (\<lambda>_.
      andThen (send_dest os stdout_is_terminal sendfile args) (\<lambda>dest.
      closing k dest (Send_snapshot os addr src
        (SendToFile dest # (if compressed then [SendCompressedData] else [])))))))"

text \<open>The bytes that the stream gives until its end are read before they are processed.\<close>

definition read_stream :: "'w os \<Rightarrow> fd \<Rightarrow> ('w, reader) io" where
  "read_stream os f w = map_option (\<lambda>(r, w). (Inr r, w)) (sys_ReadPipe os f w)"

definition process_stream :: "ext \<Rightarrow> 'w Option list \<Rightarrow> reader \<Rightarrow> ('w, unit) io" where
  "process_stream X opts r w =
     map_option (\<lambda>(e, w). (case e of None \<Rightarrow> Inr () | Some e \<Rightarrow> Inl e, w)) (ProcessSendStream X r opts w)"

definition receive_cmd :: "'w os \<Rightarrow> ('w \<Rightarrow> 'w) \<Rightarrow> (bytes \<Rightarrow> u64) \<Rightarrow> ext \<Rightarrow> string \<Rightarrow> string list \<Rightarrow> ('w, unit) io" where
  "receive_cmd os sleep addr X receivefile args =
     andThen (if receivefile \<noteq> [] then os_Open os receivefile else ok Stdin) (\<lambda>src.
     andThen (read_stream os src) (\<lambda>stream.
     process_stream X [HonorEndCommand, To (local_receiver os sleep addr (hd args))] stream))"

section \<open>Mounting\<close>

text \<open>
  \<open>served\<close> mounts the file system, waits for a signal and unmounts it. Mounting calls \<open>OnAdd\<close>.
  The receiver has the system of the library as its state, apart from the one of the process.
\<close>

definition mount_cmd :: "'w os \<Rightarrow> (string \<Rightarrow> 'w \<Rightarrow> bool) \<Rightarrow> (string \<Rightarrow> 'v MemFSReceiver \<Rightarrow> ('w, unit) io) \<Rightarrow>
    'v vfs \<Rightarrow> ('i, 'v) fuse \<Rightarrow> (string set \<Rightarrow> string list) \<Rightarrow> 'v \<Rightarrow> ext \<Rightarrow> string \<Rightarrow> string \<Rightarrow> ('w, unit) io" where
  "mount_cmd os is_dir served v F map_order create X src dest =
     andThen (wrapping ''cannot mount'' (sys_Stat os dest)) (\<lambda>_ w.
     (if \<not> is_dir dest w then fail (ErrText ''cannot mount: not a directory'')
      else andThen (os_Open os src) (\<lambda>snap.
        andThen (read_stream os snap) (\<lambda>stream.
        andThen (lift_go (ProcessSendStream X stream [HonorEndCommand, To (mem_receiver v X)] (MemFS_New create)))
          (\<lambda>(err, fs). case err of
            Some e \<Rightarrow> fail e
          | None \<Rightarrow> andThen (sys_CloseFile os snap) (\<lambda>_. andThen (lift_go (OnAdd v F map_order fs)) (served dest)))))) w)"

section \<open>The tree of subvolumes\<close>

text \<open>
  \<^verbatim>\<open>xlab/treeprint\<close>: nodes are found by the text that was added to them, and added below
  another node or, without one, below the root.
\<close>

record ('n, 't) treeprint =
  NewWithRoot :: "BtrfsMount \<Rightarrow> 't"
  FindByMeta :: "'t \<Rightarrow> string \<Rightarrow> 'n option"
  AddMetaNode :: "'n option \<Rightarrow> string \<Rightarrow> string \<Rightarrow> 't \<Rightarrow> 't"
  tree_String :: "'t \<Rightarrow> string"

definition tree_step :: "('n, 't) treeprint \<Rightarrow> 't RBTreeIterFunc" where
  "tree_step T info lastErr st = (case st of (h, tree) \<Rightarrow>
     let i = infos h info in
     if RefTree i = 0 \<or> RootID i = FSTreeObjectID then Some (None, st)
     else let key = '' '' @ ObjectID_IntString (RootID i);
              lookupKey = '' '' @ ObjectID_IntString (RefTree i)
          in Some (None, h, AddMetaNode T (FindByMeta T tree lookupKey) key (Path i) tree))"

definition tree_cmd :: "'w kernel \<Rightarrow> ('n, 't) treeprint \<Rightarrow> string list \<Rightarrow> ('w, string) io" where
  "tree_cmd k T args =
     (let path = hd args in
      andThen (FindRootMount k path) (\<lambda>rootMount.
      andThen (SubvolumeSearch k [SearchWithRootMount (MountPath rootMount), SearchWithPath path]) (\<lambda>subvol.
      andThen (BuildRBTree k path) (\<lambda>(h, rbtree).
      andThen (lift_go (FilterFromRoot h rbtree (RootID subvol))) (\<lambda>(h, rbtree).
      andThen (lift_go (InOrderIterate (tree_step T) rbtree (h, NewWithRoot T rootMount))) (\<lambda>(_, _, tree).
      ok (tree_String T tree)))))))"

section \<open>What the commands do\<close>

text \<open>C30: The command \<^verbatim>\<open>receive\<close> does what the specification of streams says: the calls that were written
  into its input are delivered to the local receiver in their order, up to the first END, and
  what follows it in the input, valid or not, has no effect.\<close>

theorem receive_cmd_delivers:
  assumes "uuid_lib X" "writes_calls ws calls" "FinishSubvolume \<in> set calls"
    and "sys_ReadPipe os Stdin w = Some (\<lparr>Rest = stream_of ws @ junk, RErr = e\<rparr>, w1)"
  shows "receive_cmd os sleep addr X [] [dest] w
    = map_option (\<lambda>(err, ctx, w). (case err of None \<Rightarrow> Inr () | Some e \<Rightarrow> Inl e, w))
        (run_calls X (local_receiver os sleep addr dest) calls None (initial_ctx\<lparr>honorEndCmd := True\<rparr>) 0 w1)"
proof -
  have "receive_loop X (local_receiver os sleep addr dest) (NewScanner \<lparr>Rest = stream_of ws @ junk, RErr = e\<rparr> False)
      (initial_ctx\<lparr>honorEndCmd := True\<rparr>) 0 w1
    = run_calls X (local_receiver os sleep addr dest) calls None (initial_ctx\<lparr>honorEndCmd := True\<rparr>) 0 w1"
    by (rule receive_loop_honoured_stream [OF assms(1,2) _ _ assms(3)]) simp_all
  then show ?thesis
    using assms(4)
    by (simp add: receive_cmd_def andThen_def ok_def read_stream_def process_stream_def ProcessSendStream_def To_def
        HonorEndCommand_def initial_ctx_def option.map_comp comp_def case_prod_unfold split: Option.bind_split option.split)
qed

definition stream_os :: "reader \<Rightarrow> sample_world os" where
  "stream_os r = sample_os\<lparr>sys_ReadPipe := (\<lambda>f w. Some (r, w))\<rparr>"

lemma receive_cmd_delivers_witness:
  "receive_cmd (stream_os \<lparr>Rest = stream_of sample_written @ [1, 2, 3], RErr = EOF\<rparr>) (\<lambda>w. w) (\<lambda>_. 0) sample_ext [] [''/d'']
      (Map.empty, [])
    = map_option (\<lambda>(err, ctx, w). (case err of None \<Rightarrow> Inr () | Some e \<Rightarrow> Inl e, w))
        (run_calls sample_ext (local_receiver (stream_os \<lparr>Rest = stream_of sample_written @ [1, 2, 3], RErr = EOF\<rparr>)
          (\<lambda>w. w) (\<lambda>_. 0) ''/d'') sample_calls None (initial_ctx\<lparr>honorEndCmd := True\<rparr>) 0 (Map.empty, []))"
  by (rule receive_cmd_delivers [OF uuid_lib_sample sample_writes])
    (simp_all add: sample_calls_def stream_os_def)

text \<open>A subvolume that can be written to is not sent without being forced.\<close>

lemma send_refuses_writable:
  "IsSubvolumeReadOnly (kern os) src w = Some (Inr False, w') \<Longrightarrow>
     send_cmd os addr term False sendfile compressed (src # args) w
       = Some (Inl (ErrText ''source subvolume must be readonly''), w')"
  by (simp add: send_cmd_def Let_def andThen_def fail_def)

end
