(* ===== verification/CommandLine.thy ===== *)
theory CommandLine
  imports Startup Cli
begin

text \<open>
  The commands of the program and their flags (\<^verbatim>\<open>pkg/cmd/root.go\<close> and the functions \<^verbatim>\<open>New...Command\<close> of
  \<^verbatim>\<open>pkg/cmd\<close>), and what happens when one of them is executed: its arguments are counted, \<open>initConfig\<close>
  runs, and the function of the command gets the configuration. The descriptions for the help are
  left out. The library of commands (\<^verbatim>\<open>cobra\<close>) finds the command and parses its flags, so a command
  and its arguments without flags are given.
\<close>

section \<open>Commands and flags\<close>

datatype flag_type = StringFlag | BoolFlag | CountFlag | IntFlag | StringArrayFlag | DurationFlag

text \<open>A flag without a shorthand has an empty one; the default is the text that the library shows.\<close>

record flag =
  FlagName :: string
  Shorthand :: string
  FlagType :: flag_type
  DefValue :: string

datatype arg_rule = AnyArgs | MinimumNArgs nat | ExactArgs nat

text \<open>The functions of the commands; a command that only holds others has none.\<close>

datatype action = NoAction | RunAction | SendAction | ReceiveAction | PruneAction | TreeAction | MountAction
  | TestAction | ShowAction | GenerateAction

datatype cobra_command = CobraCommand (Use: string) (Args: arg_rule) (RunE: action)
  (PersistentFlags: "flag list") (Flags: "flag list") (Commands: "cobra_command list")

text \<open>What the library promises of its rules for arguments: the error of a rule, if there is one.\<close>

type_synonym validator = "arg_rule \<Rightarrow> string list \<Rightarrow> gerr option"

definition cobra_contract :: "validator \<Rightarrow> bool" where
  "cobra_contract validate \<longleftrightarrow> (\<forall>n args. validate (MinimumNArgs n) args = None \<longrightarrow> n \<le> length args)
     \<and> (\<forall>n args. validate (ExactArgs n) args = None \<longrightarrow> length args = n)"

definition VarP :: "flag_type \<Rightarrow> string \<Rightarrow> string \<Rightarrow> string \<Rightarrow> flag" where
  "VarP t name shorthand def = \<lparr>FlagName = name, Shorthand = shorthand, FlagType = t, DefValue = def\<rparr>"

section \<open>The commands of the program\<close>

definition NewRunCommand :: cobra_command where
  "NewRunCommand = CobraCommand ''run'' AnyArgs RunAction []
     [VarP BoolFlag ''daemon'' ''d'' ''false'',
      VarP DurationFlag ''scan-interval'' [] (Duration_String (ScanInterval NewDefaultConfig)),
      VarP IntFlag ''concurrency'' [] ''1''] []"

definition NewSendCommand :: cobra_command where
  "NewSendCommand = CobraCommand ''send [flags] <subvolumes>...'' (MinimumNArgs 1) SendAction []
     [VarP BoolFlag ''force'' ''f'' ''false'', VarP StringFlag ''output'' ''o'' [],
      VarP BoolFlag ''compressed'' ''z'' ''false''] []"

definition NewReceiveCommand :: cobra_command where
  "NewReceiveCommand = CobraCommand ''receive [flags] <dest>'' (MinimumNArgs 1) ReceiveAction []
     [VarP StringFlag ''file'' ''f'' []] []"

definition NewPruneCommand :: cobra_command where
  "NewPruneCommand = CobraCommand ''prune'' AnyArgs PruneAction [] [] []"

definition NewTreeCommand :: cobra_command where
  "NewTreeCommand = CobraCommand ''tree [flags] <volume>'' (MinimumNArgs 1) TreeAction [] [] []"

definition NewMountCommand :: cobra_command where
  "NewMountCommand = CobraCommand ''mount [file] [mountpoint]'' (ExactArgs 2) MountAction [] [] []"

definition NewConfigCommand :: cobra_command where
  "NewConfigCommand = CobraCommand ''config'' AnyArgs NoAction [] []
     [CobraCommand ''test'' AnyArgs TestAction [] [] [],
      CobraCommand ''show'' AnyArgs ShowAction [] [] [],
      CobraCommand ''generate'' AnyArgs GenerateAction []
        [VarP StringArrayFlag ''mount'' ''m'' ''[]'', VarP StringArrayFlag ''include'' ''i'' ''[]'',
         VarP StringArrayFlag ''exclude'' ''e'' ''[]''] []]"

definition NewRootCommand :: cobra_command where
  "NewRootCommand = CobraCommand ''btrsync [flags] <source> <destination>'' AnyArgs NoAction
     [VarP StringFlag ''config'' ''c'' [], VarP CountFlag ''verbose'' ''v'' ''0''] []
     [NewRunCommand, NewSendCommand, NewReceiveCommand, NewPruneCommand, NewTreeCommand, NewMountCommand,
      NewConfigCommand]"

lemmas command_defs = NewRunCommand_def NewSendCommand_def NewReceiveCommand_def NewPruneCommand_def
  NewTreeCommand_def NewMountCommand_def NewConfigCommand_def NewRootCommand_def

text \<open>The commands below a command, with the flags that they inherit.\<close>

fun all_commands :: "flag list \<Rightarrow> cobra_command \<Rightarrow> (flag list \<times> cobra_command) list" where
  "all_commands inherited (CobraCommand use args run persistent flags subs) =
     (inherited, CobraCommand use args run persistent flags subs)
     # concat (map (all_commands (inherited @ persistent)) subs)"

text \<open>The name of a command is the first word of its usage.\<close>

definition command_name :: "cobra_command \<Rightarrow> string" where
  "command_name c = takeWhile (\<lambda>x. x \<noteq> CHR '' '') (Use c)"

section \<open>Executing a command\<close>

text \<open>
  The library validates the arguments, runs the persistent function before all commands, which is \<open>initConfig\<close>,
  and then the function of the command. \<open>handlers\<close> are these functions; \<open>own\<close> and \<open>subs\<close> are the sets of flags that
  \<open>initConfig\<close> visits. A command without a function prints its help.
\<close>

definition execute_command :: "'w cli \<Rightarrow> validator \<Rightarrow> (action \<Rightarrow> Config \<Rightarrow> string list \<Rightarrow> 'w \<Rightarrow> (gerr option \<times> 'w) go) \<Rightarrow>
    string \<Rightarrow> flagset \<Rightarrow> (flagset \<times> flagset) list \<Rightarrow> cobra_command \<Rightarrow> string list \<Rightarrow> Config \<Rightarrow> 'w \<Rightarrow>
    (gerr option \<times> 'w) go" where
  "execute_command env validate handlers cfgFile own subs c args conf w =
     (if RunE c = NoAction then Some (None, w)
      else case validate (Args c) args of
        Some e \<Rightarrow> Some (Some e, w)
      | None \<Rightarrow> do {
          (err, conf, w) \<leftarrow> initConfig env cfgFile own subs conf w;
          if err \<noteq> None then Some (err, w) else handlers (RunE c) conf args w })"

text \<open>
  The configuration is a variable of the program. Declaring the flags for its fields \<^verbatim>\<open>Concurrency\<close> and
  \<^verbatim>\<open>Verbosity\<close> sets them to the defaults of the flags.
\<close>

definition declared_conf :: Config where
  "declared_conf = NewDefaultConfig\<lparr>Concurrency := 1, Verbosity := 0\<rparr>"

text \<open>The status with which the process ends.\<close>

definition Execute :: "(gerr option \<times> 'w) go \<Rightarrow> (nat \<times> 'w) go" where
  "Execute r = map_option (\<lambda>(err, w). (if err \<noteq> None then 1 else 0, w)) r"

text \<open>How many of its arguments the function of a command reads without asking whether they are there.\<close>

fun indexes :: "action \<Rightarrow> nat" where
  "indexes SendAction = 1"
| "indexes ReceiveAction = 1"
| "indexes TreeAction = 1"
| "indexes MountAction = 2"
| "indexes a = 0"

text \<open>The process: \<open>given\<close> are the flags of the command line, which are set before the command runs.\<close>

definition main_cmd :: "'w cli \<Rightarrow> validator \<Rightarrow> (action \<Rightarrow> Config \<Rightarrow> string list \<Rightarrow> 'w \<Rightarrow> (gerr option \<times> 'w) go) \<Rightarrow>
    string \<Rightarrow> flagset \<Rightarrow> (flagset \<times> flagset) list \<Rightarrow> cobra_command \<Rightarrow> string list \<Rightarrow> (Config \<Rightarrow> Config) \<Rightarrow> 'w \<Rightarrow> (nat \<times> 'w) go" where
  "main_cmd env validate handlers cfgFile own subs c args given w =
     Execute (execute_command env validate handlers cfgFile own subs c args (given declared_conf) w)"

section \<open>The commands are well formed\<close>

lemma program_commands: "all_commands [] NewRootCommand = (let g = PersistentFlags NewRootCommand in
    ([], NewRootCommand) # map (Pair g) (Commands NewRootCommand) @ map (Pair g) (Commands NewConfigCommand))"
  by (simp add: command_defs Let_def)

text \<open>Flags of one command never have the same name or shorthand, which the library would answer with a panic,
  none of them takes the name or the shorthand of the help, and commands are told apart by their names.\<close>

theorem flags_distinct:
  "list_all (\<lambda>(inherited, c).
      let fs = Flags c @ PersistentFlags c @ inherited;
          names = map FlagName fs; shorthands = filter (\<lambda>s. s \<noteq> []) (map Shorthand fs)
      in distinct names \<and> distinct shorthands \<and> ''help'' \<notin> set names \<and> ''h'' \<notin> set shorthands
        \<and> distinct (map command_name (Commands c)))
    (all_commands [] NewRootCommand)"
  by (simp add: command_defs VarP_def command_name_def) auto

lemma enough_arguments:
  "cobra_contract validate \<Longrightarrow> (inherited, c) \<in> set (all_commands [] NewRootCommand) \<Longrightarrow>
     validate (Args c) args = None \<Longrightarrow> indexes (RunE c) \<le> length args"
  by (auto simp: program_commands command_defs Let_def cobra_contract_def)

lemma no_persistent_flags:
  "(inherited, c) \<in> set (all_commands [] NewRootCommand) \<Longrightarrow> RunE c \<noteq> NoAction \<Longrightarrow> PersistentFlags c = []"
  by (auto simp: program_commands command_defs Let_def)

section \<open>What every command can rely on\<close>

lemma execute_cases:
  assumes "execute_command env validate handlers cfgFile own subs c args conf w = Some (err, w')" "RunE c \<noteq> NoAction"
  obtains "err \<noteq> None"
  | conf1 w1 where "validate (Args c) args = None" "initConfig env cfgFile own subs conf w = Some (None, conf1, w1)"
      "handlers (RunE c) conf1 args w1 = Some (err, w')"
proof (cases "validate (Args c) args")
  case None
  then show ?thesis using assms that by (auto simp: execute_command_def split: if_splits Option.bind_splits)
next
  case (Some e)
  then have "err = Some e" using assms by (simp add: execute_command_def)
  then show ?thesis using that(1) by simp
qed


text \<open>The environment reaches the configuration of no command, since only the command above all others
  has persistent flags, and that one has no function.\<close>

theorem environment_never_used:
  assumes "pflag_contract env" "(inherited, c) \<in> set (all_commands [] NewRootCommand)" "RunE c \<noteq> NoAction"
    and "FlagNames env own = map FlagName (PersistentFlags c)"
  shows "map_option (\<lambda>(err, conf, w). (err, conf)) (initConfig env cfgFile own subs conf w) =
    map_option (\<lambda>w. case read_config env conf w of (err, conf, w) \<Rightarrow>
        (if err \<noteq> None then err else Validate conf, conf))
      (config_source env cfgFile (bind_pflags env own w))"
  using environment_ignored [OF assms(1)] no_persistent_flags [OF assms(2,3)] assms(4) by simp

text \<open>A file that does not pass the validation stops every command, also the one that generates a new file.\<close>

theorem invalid_file_stops_all:
  assumes "pflag_contract env" "(inherited, c) \<in> set (all_commands [] NewRootCommand)" "RunE c \<noteq> NoAction"
    and "FlagNames env own = map FlagName (PersistentFlags c)"
    and "\<And>w. ReadInConfig env w = (None, w) \<and> Unmarshal env conf w = (None, invalid)" "Validate invalid = Some e"
    and "Execute (execute_command env validate handlers cfgFile own subs c args conf w) = Some (status, w')"
  shows "status = 1"
proof (rule ccontr)
  assume "status \<noteq> 1"
  then have "execute_command env validate handlers cfgFile own subs c args conf w = Some (None, w')"
    using assms(7) by (auto simp: Execute_def split: if_splits)
  from this assms(3) show False
  proof (cases rule: execute_cases)
    case (2 conf1 w1)
    then show False
      using environment_never_used [OF assms(1-4), of cfgFile subs conf w] assms(5,6)
      by (cases "config_source env cfgFile (bind_pflags env own w)") (auto simp: read_config_def)
  qed simp
qed

definition sample_validator :: validator where
  "sample_validator r args = (case r of
     AnyArgs \<Rightarrow> None
   | MinimumNArgs n \<Rightarrow> if n \<le> length args then None else Some (ErrText ''too few arguments'')
   | ExactArgs n \<Rightarrow> if length args = n then None else Some (ErrText ''wrong number of arguments''))"

lemma cobra_sample: "cobra_contract sample_validator"
  by (auto simp: cobra_contract_def sample_validator_def split: if_splits)


end
