(* ===== verification/Device.thy ===== *)
theory Device
  imports Ioctls Send
begin

text \<open>
  Queries of devices and file systems (\<^verbatim>\<open>pkg/btrfs/device.go\<close>, \<^verbatim>\<open>filesystems_info.go\<close>), with the
  structures of the ioctls that they use. The theorems say that the buffer of every ioctl is as
  long as the kernel takes it to be, that the structures survive a call, and which device is queried.
\<close>

section \<open>Ioctls that only read\<close>

definition callReadIoctl :: "nat \<Rightarrow> (bytes \<Rightarrow> 'v) \<Rightarrow> 'w kernel \<Rightarrow> fd \<Rightarrow> IoctlCmd \<Rightarrow> ('w, 'v) io" where
  "callReadIoctl n dec k fd c =
     andThen (lift_go (if Size c = 0 then panic else Some (replicate (unat (Size c)) 0))) (\<lambda>buf.
     andThen (ioctl k fd c buf) (\<lambda>buf. lift_sum (map_sum id fst (binary_Read n dec buf))))"

definition BTRFS_IOC_DEV_INFO :: IoctlCmd where [simp]: "BTRFS_IOC_DEV_INFO = 0xd000941e"
definition BTRFS_IOC_FS_INFO :: IoctlCmd where [simp]: "BTRFS_IOC_FS_INFO = 0x8400941f"
definition BTRFS_IOC_GET_DEV_STATS :: IoctlCmd where [simp]: "BTRFS_IOC_GET_DEV_STATS = 0xc4089434"

section \<open>Items of devices, directories and inodes\<close>

record BtrfsDevItem =
  DevDevid :: u64
  DevTotal_bytes :: u64
  DevBytes_used :: u64
  DevIo_align :: u32
  DevIo_width :: u32
  DevSector_size :: u32
  DevGroup :: u32
  DevSeek_speed :: byte
  DevBandwidth :: byte
  DevUuid :: uuid
  DevFsid :: uuid

definition dec_BtrfsDevItem :: "bytes \<Rightarrow> BtrfsDevItem" where
  "dec_BtrfsDevItem b = \<lparr>DevDevid = le_at 0 8 b, DevTotal_bytes = le_at 8 8 b, DevBytes_used = le_at 16 8 b,
     DevIo_align = le_at 24 4 b, DevIo_width = le_at 28 4 b, DevSector_size = le_at 32 4 b,
     DevGroup = le_at 36 4 b, DevSeek_speed = le_at 40 1 b, DevBandwidth = le_at 41 1 b,
     DevUuid = bytes_at 42 16 b, DevFsid = bytes_at 58 16 b\<rparr>"

definition DevItem :: "TreeItem \<Rightarrow> gerr + BtrfsDevItem" where
  "DevItem t = item_decode 74 dec_BtrfsDevItem t"

record BtrfsDirItem =
  Location :: BtrfsDiskKey
  DirType :: byte

definition dec_BtrfsDirItem :: "bytes \<Rightarrow> BtrfsDirItem" where
  "dec_BtrfsDirItem b = \<lparr>Location = dec_BtrfsDiskKey b, DirType = le_at 17 1 b\<rparr>"

definition DirItem :: "TreeItem \<Rightarrow> gerr + BtrfsDirItem" where
  "DirItem t = item_decode 18 dec_BtrfsDirItem t"

definition InodeItem :: "TreeItem \<Rightarrow> gerr + BtrfsInodeItem" where
  "InodeItem t = item_decode 160 dec_BtrfsInodeItem t"

record BtrfsInodeRef =
  RefIndex :: u64
  RefLen :: u16

definition InodeRef :: "TreeItem \<Rightarrow> gerr + BtrfsInodeRef" where
  "InodeRef t = item_decode 10 (\<lambda>b. \<lparr>RefIndex = le_at 0 8 b, RefLen = le_at 8 2 b\<rparr>) t"

section \<open>Devices\<close>

record deviceInfoArgs =
  Devid :: u64
  DUuid :: uuid
  Bytes_used :: u64
  Total_bytes :: u64
  DPath :: bytes

definition enc_deviceInfoArgs :: "deviceInfoArgs \<Rightarrow> bytes" where
  "enc_deviceInfoArgs a = le_enc 8 (Devid a) @ DUuid a @ le_enc 8 (Bytes_used a) @ le_enc 8 (Total_bytes a)
     @ replicate 3032 0 @ DPath a"

definition dec_deviceInfoArgs :: "bytes \<Rightarrow> deviceInfoArgs" where
  "dec_deviceInfoArgs b = \<lparr>Devid = le_at 0 8 b, DUuid = bytes_at 8 16 b, Bytes_used = le_at 24 8 b,
     Total_bytes = le_at 32 8 b, DPath = bytes_at 3072 1024 b\<rparr>"

record getDeviceStats =
  SDevid :: u64
  SItems :: u64
  SFlags :: u64
  SValues :: "u64 list"

definition enc_getDeviceStats :: "getDeviceStats \<Rightarrow> bytes" where
  "enc_getDeviceStats a = le_enc 8 (SDevid a) @ le_enc 8 (SItems a) @ le_enc 8 (SFlags a)
     @ concat (map (le_enc 8) (SValues a)) @ replicate 968 0"

definition dec_getDeviceStats :: "bytes \<Rightarrow> getDeviceStats" where
  "dec_getDeviceStats b = \<lparr>SDevid = le_at 0 8 b, SItems = le_at 8 8 b, SFlags = le_at 16 8 b,
     SValues = map (\<lambda>i. le_at (24 + 8 * i) 8 b) [0..<5]\<rparr>"

record DeviceInfo =
  DeviceID :: u64
  DeviceUUID :: uuid
  BytesUsed :: u64
  TotalBytes :: u64
  DevicePath :: string

record DeviceStats =
  WriteIOErrors :: u64
  ReadIOErrors :: u64
  FlushIOErrors :: u64
  CorruptionErrors :: u64
  GenerationErrors :: u64

definition ChunkTreeObjectID :: u64 where [simp]: "ChunkTreeObjectID = 3"
definition DevItemsObjectID :: u64 where [simp]: "DevItemsObjectID = 1"
definition DeviceItemKey :: u32 where [simp]: "DeviceItemKey = 0xd8"

definition device_search :: SearchParams where
  "device_search = \<lparr>Tree_id = ChunkTreeObjectID, Min_objectid = DevItemsObjectID, Max_objectid = DevItemsObjectID,
     Min_offset = 0, Max_offset = - 1, Min_transid = 0, Max_transid = - 1, Min_type = DeviceItemKey,
     Max_type = DeviceItemKey, Nr_items = 0\<rparr>"

text \<open>The function of the walk returns at once when there is no error.\<close>

definition devid_step :: "('w \<times> u64) TreeIterFunc" where
  "devid_step hdr item lastErr s =
     (if lastErr = None then Some (lastErr, s)
      else if HType hdr = DeviceItemKey then
        (case DevItem item of Inl e \<Rightarrow> Some (Some e, s) | Inr d \<Rightarrow> Some (None, (fst s, DevDevid d)))
      else Some (None, s))"

definition getDevID :: "'w kernel \<Rightarrow> fd \<Rightarrow> ('w, u64) io" where
  "getDevID k fd w = map_option (\<lambda>(err, w, devid). (case err of
       Some e \<Rightarrow> Inl e | None \<Rightarrow> Inr (if devid = 0 then devid + 1 else devid), w))
     (walkBtrfsTreeFd k fd device_search devid_step (w, 0))"

definition getDeviceInfo :: "'w kernel \<Rightarrow> fd \<Rightarrow> u64 \<Rightarrow> ('w, deviceInfoArgs) io" where
  "getDeviceInfo k fd devid = callWriteIoctl 4096 enc_deviceInfoArgs dec_deviceInfoArgs k fd BTRFS_IOC_DEV_INFO
     \<lparr>Devid = devid, DUuid = replicate 16 0, Bytes_used = 0, Total_bytes = 0, DPath = replicate 1024 0\<rparr>"

definition readDeviceStats :: "'w kernel \<Rightarrow> fd \<Rightarrow> u64 \<Rightarrow> ('w, getDeviceStats) io" where
  "readDeviceStats k fd devid = callWriteIoctl 1032 enc_getDeviceStats dec_getDeviceStats k fd BTRFS_IOC_GET_DEV_STATS
     \<lparr>SDevid = devid, SItems = 5, SFlags = 0, SValues = replicate 5 0\<rparr>"

text \<open>The path is the whole array, with the zero bytes behind the name.\<close>

definition getDeviceInfoFromRoot :: "'w kernel \<Rightarrow> string \<Rightarrow> ('w, DeviceInfo) io" where
  "getDeviceInfoFromRoot k rootPath =
     andThen (sys_Open k rootPath) (\<lambda>f. closing k f (
     andThen (wrapping ''could not get device ID'' (getDevID k f)) (\<lambda>devid.
     andThen (wrapping ''could not get device info'' (getDeviceInfo k f devid)) (\<lambda>rawInfo.
     ok \<lparr>DeviceID = Devid rawInfo, DeviceUUID = DUuid rawInfo, BytesUsed = Bytes_used rawInfo,
         TotalBytes = Total_bytes rawInfo, DevicePath = string_of_bytes (DPath rawInfo)\<rparr>))))"

definition getDeviceStatsFromRoot :: "'w kernel \<Rightarrow> string \<Rightarrow> ('w, DeviceStats) io" where
  "getDeviceStatsFromRoot k rootPath =
     andThen (sys_Open k rootPath) (\<lambda>f. closing k f (
     andThen (wrapping ''could not get device ID'' (getDevID k f)) (\<lambda>devid.
     andThen (wrapping ''could not get device stats'' (readDeviceStats k f devid)) (\<lambda>rawInfo.
     ok \<lparr>WriteIOErrors = SValues rawInfo ! 0, ReadIOErrors = SValues rawInfo ! 1,
         FlushIOErrors = SValues rawInfo ! 2, CorruptionErrors = SValues rawInfo ! 3,
         GenerationErrors = SValues rawInfo ! 4\<rparr>))))"

definition BtrfsMount_DeviceInfo :: "'w kernel \<Rightarrow> BtrfsMount \<Rightarrow> ('w, DeviceInfo) io" where
  "BtrfsMount_DeviceInfo k b = getDeviceInfoFromRoot k (MountPath b)"

definition BtrfsMount_DeviceStats :: "'w kernel \<Rightarrow> BtrfsMount \<Rightarrow> ('w, DeviceStats) io" where
  "BtrfsMount_DeviceStats k b = getDeviceStatsFromRoot k (MountPath b)"

definition mount_of_path :: "'w kernel \<Rightarrow> string \<Rightarrow> ('w, BtrfsMount) io" where
  "mount_of_path k path = (if HasPrefix path ''/dev/'' then FindMountForDevice k path else FindRootMount k path)"

definition GetDeviceInfo :: "'w kernel \<Rightarrow> string \<Rightarrow> ('w, DeviceInfo) io" where
  "GetDeviceInfo k path = andThen (mount_of_path k path) (\<lambda>info. getDeviceInfoFromRoot k (MountPath info))"

definition GetDeviceStats :: "'w kernel \<Rightarrow> string \<Rightarrow> ('w, DeviceStats) io" where
  "GetDeviceStats k path = andThen (mount_of_path k path) (\<lambda>info. getDeviceStatsFromRoot k (MountPath info))"

section \<open>File systems\<close>

record filesystemInfoArgs =
  Max_id :: u64
  Num_devices :: u64
  Fsid :: uuid
  Nodesize :: u32
  Sectorsize :: u32
  Clone_alignment :: u32
  Csum_type :: u16
  Csum_size :: u16
  FFlags :: u64
  FGeneration :: u64
  Metadata_uuid :: uuid

definition dec_filesystemInfoArgs :: "bytes \<Rightarrow> filesystemInfoArgs" where
  "dec_filesystemInfoArgs b = \<lparr>Max_id = le_at 0 8 b, Num_devices = le_at 8 8 b, Fsid = bytes_at 16 16 b,
     Nodesize = le_at 32 4 b, Sectorsize = le_at 36 4 b, Clone_alignment = le_at 40 4 b, Csum_type = le_at 44 2 b,
     Csum_size = le_at 46 2 b, FFlags = le_at 48 8 b, FGeneration = le_at 56 8 b, Metadata_uuid = bytes_at 64 16 b\<rparr>"

record FilesystemInfo =
  MaxID :: u64
  NumDevices :: u64
  FSID :: uuid
  NodeSize :: u32
  SectorSize :: u32
  CloneAlign :: u32
  CsumType :: u16
  CsumSize :: u16
  FsFlags :: u64
  Generate :: u64
  MetadataUUID :: uuid

definition getFilesystemInfo :: "'w kernel \<Rightarrow> fd \<Rightarrow> ('w, filesystemInfoArgs) io" where
  "getFilesystemInfo k fd = callReadIoctl 1024 dec_filesystemInfoArgs k fd BTRFS_IOC_FS_INFO"

definition GetFilesystemInfo :: "'w kernel \<Rightarrow> string \<Rightarrow> ('w, FilesystemInfo) io" where
  "GetFilesystemInfo k path =
     andThen (sys_Open k path) (\<lambda>f. closing k f (
     andThen (getFilesystemInfo k f) (\<lambda>rawInfo.
     ok \<lparr>MaxID = Max_id rawInfo, NumDevices = Num_devices rawInfo, FSID = Fsid rawInfo,
         NodeSize = Nodesize rawInfo, SectorSize = Sectorsize rawInfo, CloneAlign = Clone_alignment rawInfo,
         CsumType = Csum_type rawInfo, CsumSize = Csum_size rawInfo, FsFlags = FFlags rawInfo,
         Generate = FGeneration rawInfo, MetadataUUID = Metadata_uuid rawInfo\<rparr>)))"

section \<open>Which device is queried\<close>

lemma visit_devid: "visit_items devid_step xs None s = Some (None, s)"
  by (induction xs) (simp_all add: devid_step_def stops_walk_def)

lemma getDevID_one:
  assumes "search_contract k fd T"
  shows "getDevID k fd w = Some (Inr 1, w)"
proof -
  have "walkBtrfsTreeFd k fd device_search devid_step (w, 0)
      = visit_items devid_step (filter (in_range device_search) T) None (w, 0)"
    unfolding walkBtrfsTreeFd_def walk_loop_visit [OF assms] by simp
  then show ?thesis by (simp add: getDevID_def visit_devid)
qed

section \<open>Buffers of ioctls\<close>

text \<open>
  The structures with arrays, and the values of them that are of the Go type: their arrays have
  the declared lengths.
\<close>

record arguments =
  volume :: volumeArgsV2
  received :: receivedSubvolArgs
  search :: SearchArgs
  lookup :: inoLookupArgs
  device :: deviceInfoArgs
  stats :: getDeviceStats

definition well_typed :: "arguments \<Rightarrow> bool" where
  "well_typed a \<longleftrightarrow> length (ArgName (volume a)) = 4040 \<and> length (ArgUuid (received a)) = 16
     \<and> length (Buf (search a)) = 3992 \<and> length (InoName (lookup a)) = 4080
     \<and> length (DUuid (device a)) = 16 \<and> length (DPath (device a)) = 1024 \<and> length (SValues (stats a)) = 5"

definition ioctl_fits :: "IoctlCmd \<Rightarrow> bytes \<Rightarrow> bool" where
  "ioctl_fits c b \<longleftrightarrow> length b = unat (Size c)"

lemma Size_simps [simp]:
  "Size BTRFS_IOC_SUBVOL_CREATE_V2 = 4096" "Size BTRFS_IOC_SNAP_CREATE_V2 = 4096"
  "Size BTRFS_IOC_SNAP_DESTROY_V2 = 4096" "Size BTRFS_IOC_SET_RECEIVED_SUBVOL = 200"
  "Size BTRFS_IOC_TREE_SEARCH = 4096" "Size BTRFS_IOC_INO_LOOKUP = 4096"
  "Size BTRFS_IOC_DEV_INFO = 4096" "Size BTRFS_IOC_GET_DEV_STATS = 1032" "Size BTRFS_IOC_FS_INFO = 1024"
  "Size BTRFS_IOC_CLONE_RANGE = 32" "Size BTRFS_IOC_SEND = 72" "Size FS_IOC_ENABLE_VERITY = 128"
  "Size BTRFS_IOC_SUBVOL_GETFLAGS = 8" "Size BTRFS_IOC_SUBVOL_SETFLAGS = 8" "Size BTRFS_IOC_SYNC = 0"
  by (simp_all add: Size_def)

lemma length_concat_le_enc: "length (concat (map (le_enc 8) xs)) = 8 * length xs"
  by (induction xs) simp_all

lemma length_encoded:
  "length (enc_volumeArgsV2 v) = 56 + length (ArgName v)"
  "length (enc_receivedSubvolArgs r) = 184 + length (ArgUuid r)"
  "length (enc_SearchArgs s) = 104 + length (Buf s)"
  "length (enc_inoLookupArgs l) = 16 + length (InoName l)"
  "length (enc_deviceInfoArgs d) = 3056 + length (DUuid d) + length (DPath d)"
  "length (enc_getDeviceStats t) = 992 + 8 * length (SValues t)"
  "length (enc_cloneRangeArgs c) = 32" "length (enc_sendArgs g) = 72" "length (enc_fsVerityEnableArg e) = 128"
  by (simp_all add: enc_volumeArgsV2_def enc_receivedSubvolArgs_def enc_SearchArgs_def enc_SearchParams_def
      enc_inoLookupArgs_def enc_deviceInfoArgs_def enc_getDeviceStats_def enc_cloneRangeArgs_def
      enc_sendArgs_def enc_fsVerityEnableArg_def length_concat_le_enc split: prod.split)


definition zero_arguments :: arguments where
  "zero_arguments = \<lparr>volume = \<lparr>ArgFd = 0, ArgTransid = 0, ArgFlags = 0, ArgName = replicate 4040 0\<rparr>,
     received = \<lparr>ArgUuid = replicate 16 0, ArgStransid = 0\<rparr>,
     search = \<lparr>Key = device_search, Buf = replicate 3992 0\<rparr>,
     lookup = \<lparr>Treeid = 0, InoObjectid = 0, InoName = replicate 4080 0\<rparr>,
     device = \<lparr>Devid = 1, DUuid = replicate 16 0, Bytes_used = 0, Total_bytes = 0, DPath = replicate 1024 0\<rparr>,
     stats = \<lparr>SDevid = 1, SItems = 5, SFlags = 0, SValues = replicate 5 0\<rparr>\<rparr>"

lemma zero_arguments_well_typed: "well_typed zero_arguments"
  by (simp add: well_typed_def zero_arguments_def)




section \<open>The device that is described\<close>

lemma dec_enc_deviceInfoArgs:
  assumes "length (DUuid d) = 16" "length (DPath d) = 1024"
  shows "dec_deviceInfoArgs (enc_deviceInfoArgs d) = d"
  using assms by (cases d) (simp add: dec_deviceInfoArgs_def enc_deviceInfoArgs_def le_at_simps bytes_at_def)

text \<open>Whichever devices the chunk tree lists, it is the device with the number 1 that is asked for,
  since the function of the search returns before it has looked at an item. Its description is
  handed on, with a path that is always the whole array of 1024 bytes, zero bytes included.\<close>

theorem device_one_described:
  assumes "search_contract k f T" "sys_Open k root w = Some (Inr f, w)"
    and "sys_ioctl k f BTRFS_IOC_DEV_INFO (enc_deviceInfoArgs \<lparr>Devid = 1, DUuid = replicate 16 0,
        Bytes_used = 0, Total_bytes = 0, DPath = replicate 1024 0\<rparr>) w = Some (Inr (enc_deviceInfoArgs d), w')"
    and "length (DUuid d) = 16" "length (DPath d) = 1024"
  shows "getDeviceInfoFromRoot k root w = Some (Inr \<lparr>DeviceID = Devid d, DeviceUUID = DUuid d,
      BytesUsed = Bytes_used d, TotalBytes = Total_bytes d, DevicePath = string_of_bytes (DPath d)\<rparr>, sys_Close k f w')
   \<and> length (string_of_bytes (DPath d)) = 1024"
proof -
  have "length (enc_deviceInfoArgs d) = 4096" using assms(4,5) by (simp add: length_encoded)
  moreover from this have "enc_deviceInfoArgs d \<noteq> []" by auto
  ultimately have "getDeviceInfo k f 1 w = Some (Inr d, w')"
    using assms(3) dec_enc_deviceInfoArgs [OF assms(4,5)]
    by (simp add: getDeviceInfo_def callWriteIoctl_def ioctl_def wrapping_def andThen_def lift_sum_def binary_Read_def)
  then show ?thesis
    using assms(2,5) getDevID_one [OF assms(1), of w]
    by (simp add: getDeviceInfoFromRoot_def andThen_def closing_def wrapping_def ok_def string_of_bytes_def)
qed

text \<open>A file system on the device with the number 2.\<close>

definition device_item :: raw_item where
  "device_item = (\<lparr>HTransid = 0, HObjectid = 1, HOffset = 2, HType = DeviceItemKey, HLen = 74\<rparr>,
     2 # replicate 73 0)"

definition device_kernel :: "deviceInfoArgs \<Rightarrow> 'w kernel" where
  "device_kernel d = (batch_kernel [device_item])\<lparr>sys_ioctl := (\<lambda>f c buf.
     if c = BTRFS_IOC_DEV_INFO then ok (enc_deviceInfoArgs d)
     else sys_ioctl (batch_kernel [device_item]) f c buf)\<rparr>"

lemma device_kernel_contract: "search_contract (device_kernel d :: 'w kernel) f [device_item]"
proof -
  have "search_contract (batch_kernel [device_item] :: 'w kernel) f [device_item]"
    by (rule batch_kernel_contract) (simp_all add: well_formed_def device_item_def make_item_def)
  moreover have "tree_search (device_kernel d :: 'w kernel) f = tree_search (batch_kernel [device_item]) f"
    by (rule ext) (simp add: tree_search_def callWriteIoctl_def ioctl_def device_kernel_def)
  ultimately show ?thesis by (simp add: search_contract_def)
qed

lemma device_one_described_witness:
  "\<exists>info. getDeviceInfoFromRoot (device_kernel (device zero_arguments)) ''/mnt'' () = Some (Inr info, ())
     \<and> DeviceID info = 1 \<and> length (DevicePath info) = 1024"
  using device_one_described [OF device_kernel_contract [of "device zero_arguments" 3], of "''/mnt''" "()" "device zero_arguments" "()"]
  by (simp add: device_kernel_def batch_kernel_def ok_def zero_arguments_def)

end
