(* ===== verification/Pipes.thy ===== *)
theory Pipes
  imports ReceiveSpec
begin

text \<open>
  The two senders of \<^verbatim>\<open>FindPathDiffOffset\<close> (\<^verbatim>\<open>pkg/receive/diff.go\<close>) and the comparison of their streams
  as the goroutines that they are: each sender writes into a pipe of bounded capacity and closes it at the
  end; the comparison asks for bytes, of one stream at a time, until it has its result; then
  the wait group waits for the senders, while nobody reads. The locale \<open>stream_reader\<close> proves for any
  number of senders and any reader that every interleaving gives the reader what it reads when the streams are
  complete before it starts, that every run ends, and when it can return; the interpretation is
  the reader that \<open>FindDiffOffset\<close> is. So the sequential model in \<open>Sync\<close> has the right results, and
  the theorems here show what it leaves out.

  The senders begin behind the point where \<^verbatim>\<open>Send\<close> has opened its snapshot, and fail only when nobody
  can read their pipe any more. A capacity counts bytes; that of Linux is at least 4096 and usually 65536.
\<close>

section \<open>Pipes and goroutines\<close>

text \<open>
  \<open>Unsent\<close> is what the kernel still has to write for a sender, \<open>Got\<close> what was read from its pipe,
  and \<open>AtEOF\<close> tells that the reader has seen the end; \<open>WOpen\<close> and \<open>ROpen\<close> that the two ends are open.
  A sender has finished when it has closed its end, and \<open>Broken\<close> when it did so with the error of a broken pipe.
\<close>

record conn =
  Unsent :: bytes
  Buffer :: bytes
  Got :: bytes
  WOpen :: bool
  ROpen :: bool
  AtEOF :: bool
  Broken :: bool

datatype reading = Reading | Waiting | Failed | Returned

type_synonym stream_view = "nat \<Rightarrow> bytes \<times> bool"
type_synonym goroutines = "(nat \<Rightarrow> conn) \<times> reading"

text \<open>What a reader does next: read a byte of a stream, stop with a result, or end with an error or a panic.\<close>

datatype choice = ReadByte nat | Stop | Fail

definition view_of :: "(nat \<Rightarrow> conn) \<Rightarrow> stream_view" where
  "view_of c = (\<lambda>i. (Got (c i), AtEOF (c i)))"

definition started :: "(nat \<Rightarrow> bytes) \<Rightarrow> goroutines" where
  "started streams =
     (\<lambda>i. \<lparr>Unsent = streams i, Buffer = [], Got = [], WOpen = True, ROpen = True, AtEOF = False,
        Broken = False\<rparr>, Reading)"

text \<open>
  The steps: a sender writes a byte, closes its pipe at the end, or fails because nobody can read
  it any more; the reader reads a byte, sees the end of a stream, stops or fails; \<^verbatim>\<open>wg.Wait\<close> returns
  when all senders have finished. While it waits the files of the reading ends are garbage, and the
  runtime may collect and so close them, at any time or never.
\<close>

inductive xstep :: "nat \<Rightarrow> nat \<Rightarrow> (stream_view \<Rightarrow> choice) \<Rightarrow> goroutines \<Rightarrow> goroutines \<Rightarrow> bool"
  for cap n :: nat and "next" :: "stream_view \<Rightarrow> choice" where
  write_byte: "i < n \<Longrightarrow> WOpen (c i) \<Longrightarrow> ROpen (c i) \<Longrightarrow> Unsent (c i) = b # bs \<Longrightarrow> length (Buffer (c i)) < cap \<Longrightarrow>
    xstep cap n next (c, m) (c(i := c i\<lparr>Unsent := bs, Buffer := Buffer (c i) @ [b]\<rparr>), m)"
| broken_pipe: "i < n \<Longrightarrow> WOpen (c i) \<Longrightarrow> \<not> ROpen (c i) \<Longrightarrow> Unsent (c i) \<noteq> [] \<Longrightarrow>
    xstep cap n next (c, m) (c(i := c i\<lparr>WOpen := False, Broken := True\<rparr>), m)"
| close_pipe: "i < n \<Longrightarrow> WOpen (c i) \<Longrightarrow> Unsent (c i) = [] \<Longrightarrow>
    xstep cap n next (c, m) (c(i := c i\<lparr>WOpen := False\<rparr>), m)"
| read_byte: "next (view_of c) = ReadByte i \<Longrightarrow> Buffer (c i) = b # bs \<Longrightarrow>
    xstep cap n next (c, Reading) (c(i := c i\<lparr>Buffer := bs, Got := Got (c i) @ [b]\<rparr>), Reading)"
| see_end: "next (view_of c) = ReadByte i \<Longrightarrow> Buffer (c i) = [] \<Longrightarrow> \<not> WOpen (c i) \<Longrightarrow>
    xstep cap n next (c, Reading) (c(i := c i\<lparr>AtEOF := True\<rparr>), Reading)"
| stop_reading: "next (view_of c) = Stop \<Longrightarrow> xstep cap n next (c, Reading) (c, Waiting)"
| fail_reading: "next (view_of c) = Fail \<Longrightarrow> xstep cap n next (c, Reading) (c, Failed)"
| collect: "i < n \<Longrightarrow> ROpen (c i) \<Longrightarrow>
    xstep cap n next (c, Waiting) (c(i := c i\<lparr>ROpen := False\<rparr>), Waiting)"
| waited: "(\<And>i. i < n \<Longrightarrow> \<not> WOpen (c i)) \<Longrightarrow> xstep cap n next (c, Waiting) (c, Returned)"

inductive xreach :: "nat \<Rightarrow> nat \<Rightarrow> (stream_view \<Rightarrow> choice) \<Rightarrow> goroutines \<Rightarrow> goroutines \<Rightarrow> bool"
  for cap n :: nat and "next" :: "stream_view \<Rightarrow> choice" and s0 :: goroutines where
  xreach_refl: "xreach cap n next s0 s0"
| xreach_step: "xreach cap n next s0 s \<Longrightarrow> xstep cap n next s s' \<Longrightarrow> xreach cap n next s0 s'"

section \<open>Complete streams\<close>

text \<open>The reader over streams that are complete: one request, and as many as it makes.\<close>

definition advance_view :: "(nat \<Rightarrow> bytes) \<Rightarrow> nat \<Rightarrow> stream_view \<Rightarrow> stream_view" where
  "advance_view streams i v =
     (let k = length (fst (v i))
      in v(i := if k < length (streams i) then (fst (v i) @ [streams i ! k], False) else (fst (v i), True)))"

fun seq_run :: "(nat \<Rightarrow> bytes) \<Rightarrow> (stream_view \<Rightarrow> choice) \<Rightarrow> nat \<Rightarrow> stream_view \<Rightarrow> stream_view" where
  "seq_run streams next 0 v = v"
| "seq_run streams next (Suc k) v =
     (case next v of ReadByte i \<Rightarrow> seq_run streams next k (advance_view streams i v) | _ \<Rightarrow> v)"

definition view0 :: stream_view where "view0 = (\<lambda>_. ([], False))"

definition seq_view :: "nat \<Rightarrow> (nat \<Rightarrow> bytes) \<Rightarrow> (stream_view \<Rightarrow> choice) \<Rightarrow> stream_view" where
  "seq_view n streams next = seq_run streams next (\<Sum>i<n. length (streams i) + 1) view0"

text \<open>What is read of every stream is a beginning of it, and all of it at its end.\<close>

definition partly_read :: "nat \<Rightarrow> (nat \<Rightarrow> bytes) \<Rightarrow> stream_view \<Rightarrow> bool" where
  "partly_read n streams v \<longleftrightarrow> (\<forall>i<n. \<exists>xs. streams i = fst (v i) @ xs \<and> (snd (v i) \<longrightarrow> xs = []))"

section \<open>Readers\<close>

locale stream_reader =
  fixes n :: nat and "next" :: "stream_view \<Rightarrow> choice"
  assumes asks: "next v = ReadByte i \<Longrightarrow> i < n \<and> \<not> snd (v i)"
begin

subsection \<open>Enough requests\<close>

definition todo :: "(nat \<Rightarrow> bytes) \<Rightarrow> stream_view \<Rightarrow> nat" where
  "todo streams v = (\<Sum>i<n. (length (streams i) - length (fst (v i))) + (if snd (v i) then 0 else 1))"

lemma todo_advance:
  assumes "next v = ReadByte i"
  shows "todo streams (advance_view streams i v) < todo streams v"
proof -
  have i: "i \<in> {..<n}" "\<not> snd (v i)" using asks [OF assms] by simp_all
  show ?thesis
    unfolding todo_def
  proof (rule sum_strict_mono_ex1)
    show "\<exists>j\<in>{..<n}. (length (streams j) - length (fst (advance_view streams i v j))) + (if snd (advance_view streams i v j) then 0 else 1)
        < (length (streams j) - length (fst (v j))) + (if snd (v j) then 0 else 1)"
      using i by (intro bexI [of _ i]) (auto simp: advance_view_def Let_def)
  qed (auto simp: advance_view_def Let_def)
qed

lemma seq_run_stops: "todo streams v \<le> k \<Longrightarrow> next (seq_run streams next k v) \<noteq> ReadByte i"
proof (induction k arbitrary: v)
  case 0
  show ?case
  proof
    assume "next (seq_run streams next 0 v) = ReadByte i"
    then show False using todo_advance [of v i streams] 0 by simp
  qed
next
  case (Suc k)
  show ?case
  proof (cases "next v")
    case (ReadByte j)
    then have "todo streams (advance_view streams j v) \<le> k" using todo_advance [OF ReadByte, of streams] Suc.prems by simp
    then show ?thesis using Suc.IH ReadByte by simp
  qed simp_all
qed

lemma seq_view_stops: "next (seq_view n streams next) \<noteq> ReadByte i"
  unfolding seq_view_def by (rule seq_run_stops) (simp add: todo_def view0_def)

lemma seq_run_add: "seq_run streams next (j + k) v = seq_run streams next k (seq_run streams next j v)"
proof (induction j arbitrary: v)
  case (Suc j)
  have "seq_run streams next k v = v" if "\<And>i. next v \<noteq> ReadByte i" for k
    using that by (cases k) (simp_all split: choice.split)
  then show ?case using Suc by (cases "next v") simp_all
qed simp

lemma seq_run_final:
  assumes "\<And>i. next (seq_run streams next k view0) \<noteq> ReadByte i"
  shows "seq_run streams next k view0 = seq_view n streams next"
proof -
  define N where "N = (\<Sum>i<n. length (streams i) + 1)"
  have stay: "seq_run streams next j v = v" if "\<And>i. next v \<noteq> ReadByte i" for j v
    using that by (cases j) (simp_all split: choice.split)
  have N: "seq_view n streams next = seq_run streams next N view0" by (simp only: seq_view_def N_def)
  have "seq_run streams next k view0 = seq_run streams next (k + N) view0"
    by (simp only: seq_run_add stay [OF assms])
  also have "\<dots> = seq_run streams next (N + k) view0" by (simp only: add.commute)
  also have "\<dots> = seq_run streams next N view0"
    unfolding seq_run_add N [symmetric] by (rule stay) (rule seq_view_stops)
  finally show ?thesis by (simp only: N)
qed

subsection \<open>Every interleaving\<close>

text \<open>The bytes of a stream are where they are supposed to be, and the reader is at one of its requests.\<close>

definition conn_ok :: "nat \<Rightarrow> bytes \<Rightarrow> reading \<Rightarrow> conn \<Rightarrow> bool" where
  "conn_ok cap bs m k \<longleftrightarrow> Got k @ Buffer k @ Unsent k = bs \<and> length (Buffer k) \<le> cap
     \<and> (\<not> WOpen k \<and> \<not> Broken k \<longrightarrow> Unsent k = []) \<and> (AtEOF k \<longrightarrow> Got k = bs)
     \<and> (Broken k \<longrightarrow> \<not> ROpen k) \<and> (\<not> ROpen k \<longrightarrow> m = Waiting \<or> m = Returned) \<and> (m = Returned \<longrightarrow> \<not> WOpen k)"

definition running_ok :: "nat \<Rightarrow> (nat \<Rightarrow> bytes) \<Rightarrow> goroutines \<Rightarrow> bool" where
  "running_ok cap streams s \<longleftrightarrow> (\<forall>i<n. conn_ok cap (streams i) (snd s) (fst s i))
     \<and> (\<exists>k. view_of (fst s) = seq_run streams next k view0)
     \<and> (snd s = Waiting \<or> snd s = Returned \<longrightarrow> next (view_of (fst s)) = Stop)
     \<and> (snd s = Failed \<longrightarrow> next (view_of (fst s)) = Fail)"

lemma started_ok: "running_ok cap streams (started streams)"
  by (auto simp: running_ok_def conn_ok_def started_def view_of_def view0_def intro: exI [of _ 0])

lemma view_of_upd [simp]:
  "view_of (c(i := k)) = (view_of c)(i := (Got k, AtEOF k))"
  "Got (c i) = g \<Longrightarrow> AtEOF (c i) = e \<Longrightarrow> (view_of c)(i := (g, e)) = view_of c"
  by (auto simp: view_of_def)

lemma seq_run_Suc_end:
  "next (seq_run streams next k v) = ReadByte i \<Longrightarrow>
     seq_run streams next (Suc k) v = advance_view streams i (seq_run streams next k v)"
  using seq_run_add [of streams k 1 v] by simp

lemma xstep_conn:
  assumes "xstep cap n next s s'" "running_ok cap streams s" "j < n"
  shows "conn_ok cap (streams j) (snd s') (fst s' j)"
proof -
  have ok: "conn_ok cap (streams j) (snd s) (fst s j)" using assms(2,3) by (simp add: running_ok_def)
  show ?thesis
    using assms(1)
  proof (cases rule: xstep.cases)
    case (read_byte c i b bs)
    then show ?thesis using ok asks [OF read_byte(3)] by (auto simp: conn_ok_def view_of_def)
  qed (use ok assms(3) in \<open>auto simp: conn_ok_def\<close>)
qed

lemma xstep_view:
  assumes "xstep cap n next s s'" "running_ok cap streams s"
  shows "view_of (fst s') = view_of (fst s)
    \<or> (\<exists>i. next (view_of (fst s)) = ReadByte i \<and> view_of (fst s') = advance_view streams i (view_of (fst s)))"
  using assms(1)
proof (cases rule: xstep.cases)
  case (read_byte c i b bs)
  have i: "i < n" "\<not> AtEOF (c i)" using asks [OF read_byte(3)] by (simp_all add: view_of_def)
  then have "Got (c i) @ b # bs @ Unsent (c i) = streams i"
    using assms(2) read_byte by (auto simp: running_ok_def conn_ok_def)
  from this [symmetric] have "advance_view streams i (view_of c) = (view_of c)(i := (Got (c i) @ [b], AtEOF (c i)))"
    using i by (simp add: advance_view_def Let_def view_of_def)
  then show ?thesis using read_byte by simp
next
  case (see_end c i)
  have i: "i < n" "\<not> AtEOF (c i)" using asks [OF see_end(3)] by (simp_all add: view_of_def)
  then have "Got (c i) = streams i"
    using assms(2) see_end by (auto simp: running_ok_def conn_ok_def)
  then have "advance_view streams i (view_of c) = (view_of c)(i := (Got (c i), True))"
    by (simp add: advance_view_def Let_def view_of_def)
  then show ?thesis using see_end by simp
qed simp_all

lemma xstep_ok:
  assumes "xstep cap n next s s'" "running_ok cap streams s"
  shows "running_ok cap streams s'"
proof -
  obtain k where k: "view_of (fst s) = seq_run streams next k view0"
    using assms(2) by (auto simp: running_ok_def)
  have view: "\<exists>k. view_of (fst s') = seq_run streams next k view0"
    using xstep_view [OF assms] seq_run_Suc_end [of streams k view0] by (metis k)
  have phase: "(snd s' = Waiting \<or> snd s' = Returned \<longrightarrow> next (view_of (fst s')) = Stop)
     \<and> (snd s' = Failed \<longrightarrow> next (view_of (fst s')) = Fail)"
    using assms(1)
  proof (cases rule: xstep.cases)
  qed (use assms(2) in \<open>simp_all add: running_ok_def\<close>)
  show ?thesis
    using xstep_conn [OF assms] view phase by (simp add: running_ok_def)
qed

lemma xreach_ok: "xreach cap n next (started streams) s \<Longrightarrow> running_ok cap streams s"
  by (induction rule: xreach.induct) (auto simp: started_ok intro: xstep_ok)

subsection \<open>Termination and progress\<close>

definition conn_work :: "conn \<Rightarrow> nat" where
  "conn_work k = 2 * length (Unsent k) + length (Buffer k) + of_bool (WOpen k) + of_bool (ROpen k)
     + of_bool (\<not> AtEOF k)"

definition work :: "goroutines \<Rightarrow> nat" where
  "work s = (\<Sum>i<n. conn_work (fst s i)) + (case snd s of Reading \<Rightarrow> 2 | Waiting \<Rightarrow> 1 | _ \<Rightarrow> 0)"

lemma work_upd:
  assumes "i < n" "conn_work k < conn_work (c i)"
  shows "work (c(i := k), m) < work (c, m)"
proof -
  have "(\<Sum>j<n. conn_work ((c(i := k)) j)) < (\<Sum>j<n. conn_work (c j))"
    by (rule sum_strict_mono_ex1) (use assms in \<open>auto intro!: bexI [of _ i]\<close>)
  then show ?thesis by (simp add: work_def del: fun_upd_apply)
qed

lemma xstep_work: "xstep cap n next s s' \<Longrightarrow> work s' < work s"
proof (induction rule: xstep.induct)
  case (read_byte c i b bs)
  then show ?case using asks [OF read_byte(1)] by (intro work_upd) (simp_all add: conn_work_def)
next
  case (see_end c i)
  then show ?case using asks [OF see_end(1)] by (intro work_upd) (simp_all add: conn_work_def view_of_def)
next
  case (broken_pipe i c m)
  then show ?case by (intro work_upd) (simp_all add: conn_work_def)
next
  case (close_pipe i c m)
  then show ?case by (intro work_upd) (simp_all add: conn_work_def)
next
  case (write_byte i c b bs m)
  then show ?case by (intro work_upd) (simp_all add: conn_work_def)
next
  case (collect i c)
  then show ?case by (intro work_upd) (simp_all add: conn_work_def)
qed (simp_all add: work_def)

theorem always_ends: "wfp (\<lambda>s' s. xstep cap n next s s')"
  by (rule wfp_if_convertible_to_nat [of _ work]) (rule xstep_work)

definition open_ends :: "goroutines \<Rightarrow> bool" where
  "open_ends s \<longleftrightarrow> (\<forall>i<n. ROpen (fst s i))"

definition stuck :: "nat \<Rightarrow> goroutines \<Rightarrow> bool" where
  "stuck cap s \<longleftrightarrow> snd s = Waiting \<and> (\<exists>i<n. Unsent (fst s i) \<noteq> [] \<and> length (Buffer (fst s i)) = cap)"

lemma sender_moves:
  assumes "i < n" "WOpen (c i)" "ROpen (c i)"
    and "Unsent (c i) = [] \<or> length (Buffer (c i)) < cap"
  shows "\<exists>k. ROpen k \<and> xstep cap n next (c, m) (c(i := k), m)"
proof (cases "Unsent (c i)")
  case Nil
  show ?thesis by (rule exI, rule conjI [OF _ close_pipe]) (use Nil assms in simp_all)
next
  case (Cons b us)
  show ?thesis by (rule exI, rule conjI [OF _ write_byte]) (use Cons assms in simp_all)
qed

lemma progress:
  assumes "running_ok cap streams s" "open_ends s" "0 < cap" "snd s = Reading \<or> snd s = Waiting" "\<not> stuck cap s"
  shows "\<exists>s'. xstep cap n next s s' \<and> open_ends s'"
proof -
  obtain c m where s: "s = (c, m)" by (cases s)
  have ok: "conn_ok cap (streams i) m (c i)" "ROpen (c i)" if "i < n" for i
    using assms(1,2) that by (auto simp: running_ok_def open_ends_def s)
  have sender: "\<exists>s'. xstep cap n next s s' \<and> open_ends s'"
    if "i < n" "WOpen (c i)" "Unsent (c i) = [] \<or> length (Buffer (c i)) < cap" for i
    using sender_moves [where c = c and i = i, OF that(1,2) ok(2) [OF that(1)] that(3)] assms(2)
    by (fastforce simp: s open_ends_def)
  consider "m = Waiting" | "m = Reading" "next (view_of c) = Stop" | "m = Reading" "next (view_of c) = Fail"
    | i where "m = Reading" "next (view_of c) = ReadByte i"
    using assms(4) by (cases "next (view_of c)") (auto simp: s)
  then show ?thesis
  proof cases
    case 1
    show ?thesis
    proof (cases "\<exists>i<n. WOpen (c i)")
      case True
      then obtain i where i: "i < n" "WOpen (c i)" by blast
      then have "Unsent (c i) = [] \<or> length (Buffer (c i)) < cap"
        using assms(5) 1 ok(1) [OF i(1)] by (auto simp: stuck_def s conn_ok_def le_less)
      then show ?thesis using sender [OF i] by blast
    next
      case False
      then have "xstep cap n next s (c, Returned)" unfolding s 1 by (intro waited) blast
      then show ?thesis using assms(2) by (auto simp: open_ends_def s)
    qed
  next
    case 2
    then have "xstep cap n next s (c, Waiting)" unfolding s by (simp add: stop_reading)
    then show ?thesis using assms(2) by (auto simp: open_ends_def s)
  next
    case 3
    then have "xstep cap n next s (c, Failed)" unfolding s by (simp add: fail_reading)
    then show ?thesis using assms(2) by (auto simp: open_ends_def s)
  next
    case (4 i)
    note i = asks [OF 4(2)]
    show ?thesis
    proof (cases "Buffer (c i)")
      case (Cons b bs)
      then have "xstep cap n next s (c(i := c i\<lparr>Buffer := bs, Got := Got (c i) @ [b]\<rparr>), Reading)"
        unfolding s 4(1) using 4(2) by (intro read_byte)
      then show ?thesis using assms(2) by (auto simp: open_ends_def s)
    next
      case Nil
      show ?thesis
      proof (cases "WOpen (c i)")
        case True
        then show ?thesis using sender [of i] i Nil assms(3) by simp
      next
        case False
        then have "xstep cap n next s (c(i := c i\<lparr>AtEOF := True\<rparr>), Reading)"
          unfolding s 4(1) using 4(2) Nil by (intro see_end)
        then show ?thesis using assms(2) by (auto simp: open_ends_def s)
      qed
    qed
  qed
qed

lemma running_partly: "running_ok cap streams s \<Longrightarrow> partly_read n streams (view_of (fst s))"
  unfolding running_ok_def partly_read_def conn_ok_def view_of_def
  by (metis append_self_conv fst_conv snd_conv)

text \<open>The rest of every stream fits into its pipe when the reader has what it needs.\<close>

definition rest_fits :: "nat \<Rightarrow> (nat \<Rightarrow> bytes) \<Rightarrow> bool" where
  "rest_fits cap streams \<longleftrightarrow> (\<forall>i<n. length (streams i) \<le> length (fst (seq_view n streams next i)) + cap)"

lemma running_view:
  assumes "running_ok cap streams s" "snd s \<noteq> Reading"
  shows "view_of (fst s) = seq_view n streams next"
proof -
  obtain k where "view_of (fst s) = seq_run streams next k view0" "\<And>i. next (view_of (fst s)) \<noteq> ReadByte i"
    using assms by (cases "snd s") (auto simp: running_ok_def)
  then show ?thesis using seq_run_final by simp
qed

lemma stuck_overfull:
  assumes "running_ok cap streams s" "stuck cap s"
  shows "\<not> rest_fits cap streams"
proof -
  obtain i where i: "i < n" "Unsent (fst s i) \<noteq> []" "length (Buffer (fst s i)) = cap" "snd s = Waiting"
    using assms(2) by (auto simp: stuck_def)
  then have "streams i = Got (fst s i) @ Buffer (fst s i) @ Unsent (fst s i)"
    using assms(1) by (simp add: running_ok_def conn_ok_def)
  then have "length (streams i) > length (Got (fst s i)) + cap" using i by simp
  moreover have "Got (fst s i) = fst (seq_view n streams next i)"
    using running_view [OF assms(1)] i(4) by (metis fst_conv reading.distinct(1) view_of_def)
  ultimately show ?thesis using i(1) by (auto simp: rest_fits_def)
qed

lemma xreach_prepend: "xreach cap n next s' t \<Longrightarrow> xstep cap n next s s' \<Longrightarrow> xreach cap n next s t"
  by (induction rule: xreach.induct) (auto intro: xreach.intros)

text \<open>Whatever has happened so far, the senders and the reader can finish, if the runtime does not
  close the pipes under the senders.\<close>

theorem can_finish:
  assumes "rest_fits cap streams" "0 < cap" "next (seq_view n streams next) = Stop"
    and "running_ok cap streams s" "open_ends s"
  shows "\<exists>c. xreach cap n next s (c, Returned) \<and> open_ends (c, Returned)"
  using assms(4,5)
proof (induction s rule: measure_induct_rule [of work])
  case (less s)
  show ?case
  proof (cases "snd s")
    case Returned
    then show ?thesis using less.prems by (intro exI [of _ "fst s"]) (metis prod.collapse xreach_refl)
  next
    case Failed
    then show ?thesis using less.prems(1) running_view [OF less.prems(1)] assms(3) by (auto simp: running_ok_def)
  next
    case Waiting
    then obtain s' where "xstep cap n next s s'" "open_ends s'"
      using progress [OF less.prems assms(2)] stuck_overfull [OF less.prems(1)] assms(1) by blast
    then show ?thesis using less.IH [OF xstep_work xstep_ok] less.prems(1) by (blast intro: xreach_prepend)
  next
    case Reading
    then obtain s' where "xstep cap n next s s'" "open_ends s'"
      using progress [OF less.prems assms(2)] stuck_overfull [OF less.prems(1)] assms(1) by blast
    then show ?thesis using less.IH [OF xstep_work xstep_ok] less.prems(1) by (blast intro: xreach_prepend)
  qed
qed

text \<open>Without an error of a sender it returns only when everything fitted.\<close>

theorem finished_fits:
  assumes "xreach cap n next (started streams) (c, Returned)" "\<And>i. i < n \<Longrightarrow> \<not> Broken (c i)"
  shows "rest_fits cap streams \<and> next (seq_view n streams next) = Stop"
proof -
  note ok = xreach_ok [OF assms(1)]
  have v: "view_of c = seq_view n streams next" using running_view [OF ok] by simp
  have "length (streams i) \<le> length (fst (seq_view n streams next i)) + cap" if "i < n" for i
  proof -
    have "conn_ok cap (streams i) Returned (c i)" using ok that by (simp add: running_ok_def)
    then have "streams i = Got (c i) @ Buffer (c i)" "length (Buffer (c i)) \<le> cap"
      using assms(2) [OF that] by (auto simp: conn_ok_def)
    then show ?thesis by (simp flip: v add: view_of_def)
  qed
  then show ?thesis using ok v by (simp add: rest_fits_def running_ok_def)
qed

theorem returns_iff:
  assumes "0 < cap"
  shows "(\<exists>c. xreach cap n next (started streams) (c, Returned) \<and> (\<forall>i<n. \<not> Broken (c i)))
    \<longleftrightarrow> rest_fits cap streams \<and> next (seq_view n streams next) = Stop"
proof
  assume *: "rest_fits cap streams \<and> next (seq_view n streams next) = Stop"
  have "open_ends (started streams)" by (simp add: open_ends_def started_def)
  then obtain c where c: "xreach cap n next (started streams) (c, Returned)" "open_ends (c, Returned)"
    using can_finish [of cap streams "started streams"] * assms started_ok by blast
  then have "\<forall>i<n. \<not> Broken (c i)"
    using xreach_ok [OF c(1)] by (auto simp: running_ok_def conn_ok_def open_ends_def)
  then show "\<exists>c. xreach cap n next (started streams) (c, Returned) \<and> (\<forall>i<n. \<not> Broken (c i))" using c(1) by blast
qed (use finished_fits in blast)

end

section \<open>What a reader concludes from the beginning of a stream\<close>

text \<open>
  The scanner over what was read so far: it reports \<open>blocked i\<close> when it needs more of stream \<open>i\<close>.
  When it does not, it does the same on the complete stream.
\<close>

definition blocked :: "nat \<Rightarrow> gerr" where "blocked i = EnvErr (replicate i CHR ''b'')"

definition so_far :: "stream_view \<Rightarrow> nat \<Rightarrow> reader" where
  "so_far v i = \<lparr>Rest = fst (v i), RErr = if snd (v i) then EOF else blocked i\<rparr>"

definition complete :: "bytes \<Rightarrow> reader" where
  "complete bs = \<lparr>Rest = bs, RErr = EOF\<rparr>"

definition more_of :: "bool \<Rightarrow> nat \<Rightarrow> reader \<Rightarrow> reader \<Rightarrow> bool" where
  "more_of live i r r' \<longleftrightarrow> (if live then RErr r = blocked i \<and> (\<exists>xs. Rest r' = Rest r @ xs) else r' = r)"

definition more_scan :: "bool \<Rightarrow> nat \<Rightarrow> Scanner \<Rightarrow> Scanner \<Rightarrow> bool" where
  "more_scan live i s s' \<longleftrightarrow> (\<exists>r. s' = s\<lparr>Reader := r\<rparr> \<and> more_of live i (Reader s) r)"

lemma blocked_not_EOF [simp]: "blocked i \<noteq> EOF" "EOF \<noteq> blocked i" "errors_is (blocked i) EOF \<longleftrightarrow> False"
  by (simp_all add: blocked_def)

lemma blocked_inj [simp]: "blocked i = blocked j \<longleftrightarrow> i = j"
  by (metis blocked_def gerr.inject(3) length_replicate)

lemma ReadFull_more:
  assumes "ReadFull k r = (x, r1)" "more_of live i r r'"
  shows "live \<and> x = Inl (blocked i) \<or> (\<exists>r1'. ReadFull k r' = (x, r1') \<and> more_of live i r1 r1')"
proof (cases live)
  case True
  then obtain xs where "RErr r = blocked i" "Rest r' = Rest r @ xs" using assms(2) by (auto simp: more_of_def)
  then show ?thesis using assms(1) True by (auto simp: ReadFull_def more_of_def split: if_splits)
qed (use assms in \<open>auto simp: more_of_def\<close>)

lemma scanner_read_more:
  assumes "scanner_read k s = (x, s1)" "more_scan live i s s'"
  shows "live \<and> x = Inl (blocked i) \<or> (\<exists>s1'. scanner_read k s' = (x, s1') \<and> more_scan live i s1 s1')"
proof -
  obtain r' where r': "s' = s\<lparr>Reader := r'\<rparr>" "more_of live i (Reader s) r'"
    using assms(2) by (auto simp: more_scan_def)
  obtain x1 r1 where r1: "ReadFull k (Reader s) = (x1, r1)" by (cases "ReadFull k (Reader s)")
  then have x: "x1 = x" "s1 = s\<lparr>Reader := r1\<rparr>" using assms(1) by (auto simp: scanner_read_def)
  from ReadFull_more [OF r1 r'(2)] show ?thesis
  proof (elim disjE exE conjE)
    fix r1' assume "ReadFull k r' = (x1, r1')" "more_of live i r1 r1'"
    then show ?thesis by (intro disjI2 exI [of _ "s1\<lparr>Reader := r1'\<rparr>"])
      (auto simp: scanner_read_def r'(1) x more_scan_def)
  qed (simp add: x)
qed

lemma more_scan_upd [simp]:
  "more_scan live i s s' \<Longrightarrow> more_scan live i (s\<lparr>headerParsed := b\<rparr>) (s'\<lparr>headerParsed := b\<rparr>)"
  "more_scan live i s s' \<Longrightarrow> more_scan live i (s\<lparr>scanErr := e\<rparr>) (s'\<lparr>scanErr := e\<rparr>)"
  "more_scan live i s s' \<Longrightarrow> more_scan live i (s\<lparr>curHdr := h, curAttrs := a\<rparr>) (s'\<lparr>curHdr := h, curAttrs := a\<rparr>)"
  by (cases s, auto simp: more_scan_def)+

lemma more_scan_same:
  "more_scan live i s s' \<Longrightarrow> headerParsed s' = headerParsed s \<and> scanErr s' = scanErr s
     \<and> ignoreChecksums s' = ignoreChecksums s \<and> curHdr s' = curHdr s \<and> curAttrs s' = curAttrs s"
  by (auto simp: more_scan_def)

lemma readHeader_more:
  assumes "readHeader s = (h, e, s1)" "more_scan live i s s'"
  shows "live \<and> e = Some (blocked i) \<or> (\<exists>s1'. readHeader s' = (h, e, s1') \<and> more_scan live i s1 s1')"
proof -
  obtain x t where x: "scanner_read 17 s = (x, t)" by (cases "scanner_read 17 s")
  from scanner_read_more [OF x assms(2)] show ?thesis
  proof (elim disjE exE conjE)
    fix t' assume "scanner_read 17 s' = (x, t')" "more_scan live i t t'"
    then show ?thesis using assms(1) x by (cases x) (auto simp: readHeader_def Let_def split: if_splits)
  qed (use assms(1) x in \<open>simp add: readHeader_def\<close>)
qed

lemma readCommandAttributes_more:
  assumes "readCommandAttributes hdr s = r" "more_scan live i s s'"
  shows "live \<and> (\<exists>s1. r = Some (Inl (blocked i), s1)) \<or> r = None \<and> readCommandAttributes hdr s' = None
    \<or> (\<exists>x s1 s1'. r = Some (x, s1) \<and> readCommandAttributes hdr s' = Some (x, s1') \<and> more_scan live i s1 s1')"
proof -
  obtain x t where x: "scanner_read (unat (Len hdr)) s = (x, t)" by (cases "scanner_read (unat (Len hdr)) s")
  from scanner_read_more [OF x assms(2)] show ?thesis
  proof (elim disjE exE conjE)
    fix t' assume t': "scanner_read (unat (Len hdr)) s' = (x, t')" "more_scan live i t t'"
    show ?thesis
      using assms(1) x t' more_scan_same [OF t'(2)]
      by (cases x) (auto simp: readCommandAttributes_def split: option.splits Option.bind_splits)
  qed (use assms(1) x in \<open>auto simp: readCommandAttributes_def\<close>)
qed

lemma ReadCommand_more:
  assumes "more_scan live i s s'"
  shows "live \<and> (\<exists>s1. ReadCommand s = Some (Inl (blocked i), s1)) \<or> ReadCommand s = None \<and> ReadCommand s' = None
    \<or> (\<exists>x s1 s1'. ReadCommand s = Some (x, s1) \<and> ReadCommand s' = Some (x, s1') \<and> more_scan live i s1 s1')"
proof -
  obtain x t where x: "scanner_read 10 s = (x, t)" by (cases "scanner_read 10 s")
  from scanner_read_more [OF x assms] show ?thesis
  proof (elim disjE exE conjE)
    fix t' assume t': "scanner_read 10 s' = (x, t')" "more_scan live i t t'"
    show ?thesis
    proof (cases x)
      case (Inr b)
      then show ?thesis
        using x t' readCommandAttributes_more [OF refl t'(2), of "dec_CmdHeader b"]
        by (auto simp: ReadCommand_def readCommandHeader_def)
    qed (use x t' in \<open>simp add: ReadCommand_def readCommandHeader_def\<close>)
  qed (use x in \<open>simp add: ReadCommand_def readCommandHeader_def\<close>)
qed

lemma Scan_body:
  "scanErr s = None \<Longrightarrow> (if headerParsed s then (zero_StreamHeader, None, s) else readHeader s) = (h, e, t) \<Longrightarrow>
     Scan s = (case e of Some err \<Rightarrow> Some (False, t\<lparr>scanErr := Some err\<rparr>)
       | None \<Rightarrow> do {
           (res, u) \<leftarrow> ReadCommand t;
           case res of
             Inl err \<Rightarrow> Some (False, u\<lparr>scanErr := if CmdHeader_IsZero (curHdr u) then Some err
                 else if Cmd (curHdr u) = BTRFS_SEND_C_END \<and> errors_is err EOF then None else Some err\<rparr>)
           | Inr (hdr, attrs) \<Rightarrow> Some (True, u\<lparr>curHdr := hdr, curAttrs := attrs\<rparr>) })"
  by (auto simp: Scan_def Let_def split: if_splits option.split sum.split Option.bind_split)

lemma Scan_more:
  assumes "more_scan live i s s'"
  shows "live \<and> (\<exists>s1. Scan s = Some (False, s1) \<and> Err s1 = Some (blocked i)) \<or> Scan s = None \<and> Scan s' = None
    \<or> (\<exists>b s1 s1'. Scan s = Some (b, s1) \<and> Scan s' = Some (b, s1') \<and> more_scan live i s1 s1')"
proof (cases "scanErr s")
  case (Some y)
  then show ?thesis using assms more_scan_same [OF assms] by (auto simp: Scan_def)
next
  case ok: None
  note same = more_scan_same [OF assms]
  obtain h e t where h: "(if headerParsed s then (zero_StreamHeader, None, s) else readHeader s) = (h, e, t)"
    by (metis prod_cases3)
  have "live \<and> e = Some (blocked i) \<or> (\<exists>t'. (if headerParsed s' then (zero_StreamHeader, None, s')
      else readHeader s') = (h, e, t') \<and> more_scan live i t t')"
    using h assms readHeader_more [OF _ assms] same by (auto split: if_splits)
  then show ?thesis
  proof (elim disjE exE conjE)
    fix t' assume t': "(if headerParsed s' then (zero_StreamHeader, None, s') else readHeader s') = (h, e, t')"
      "more_scan live i t t'"
    have "scanErr s' = None" using ok same by simp
    note body = Scan_body [OF ok h] Scan_body [OF this t'(1)]
    show ?thesis
    proof (cases e)
      case None
      from ReadCommand_more [OF t'(2)]
      show ?thesis
      proof (elim disjE exE conjE)
        fix x u u' assume u: "ReadCommand t = Some (x, u)" "ReadCommand t' = Some (x, u')" "more_scan live i u u'"
        show ?thesis
          unfolding body using u None more_scan_same [OF u(3)] by (cases x) auto
      qed (use None in \<open>simp_all add: body Err_def\<close>)
    qed (use t'(2) in \<open>auto simp: body\<close>)
  qed (simp add: Scan_body [OF ok h] Err_def)
qed

definition agree :: "CmdHeader \<Rightarrow> CmdHeader \<Rightarrow> bool" where
  "agree c d \<longleftrightarrow> Cmd c = Cmd d \<and> (begins_subvol c \<or> Crc c = Crc d \<and> Len c = Len d)"

lemma diff_loop_step:
  "Scan a = Some (True, a1) \<Longrightarrow> Scan b = Some (y, b1) \<Longrightarrow>
     diff_loop a b off = (if \<not> y then Some (off, Err b1)
       else if agree (curHdr a1) (curHdr b1) then diff_loop a1 b1 (off + 1) else Some (off, None))"
  by (subst diff_loop.simps) (auto simp: Command_def agree_def)

lemma diff_loop_more:
  assumes "more_scan la 0 a a'" "more_scan lb 1 b b'"
  shows "la \<and> (\<exists>k. diff_loop a b off = Some (k, Some (blocked 0)))
    \<or> lb \<and> (\<exists>k. diff_loop a b off = Some (k, Some (blocked 1))) \<or> diff_loop a' b' off = diff_loop a b off"
  using assms
proof (induction "length (Rest (Reader a))" arbitrary: a b a' b' off rule: less_induct)
  case less
  from Scan_more [OF less(2)] show ?case
  proof (elim disjE exE conjE)
    fix x a1 a1' assume a: "Scan a = Some (x, a1)" "Scan a' = Some (x, a1')" "more_scan la 0 a1 a1'"
    show ?case
    proof (cases x)
      case True
      note a' = a [unfolded eqTrueI [OF True]]
      from Scan_more [OF less(3)] show ?thesis
      proof (elim disjE exE conjE)
        fix y b1 b1' assume b: "Scan b = Some (y, b1)" "Scan b' = Some (y, b1')" "more_scan lb 1 b1 b1'"
        have same: "curHdr a1' = curHdr a1" "curHdr b1' = curHdr b1" "Err b1' = Err b1"
          using more_scan_same [OF a(3)] more_scan_same [OF b(3)] by (simp_all add: Err_def)
        show ?thesis
          unfolding diff_loop_step [OF a'(1) b(1)] diff_loop_step [OF a'(2) b(2)] same
          using less(1) [OF Scan_progress [OF a'(1)] a(3) b(3)] by simp
      next
        fix b1 assume b: lb "Scan b = Some (False, b1)" "Err b1 = Some (blocked 1)"
        show ?thesis unfolding diff_loop_step [OF a'(1) b(2)] using b by simp
      next
        assume "Scan b = None" "Scan b' = None"
        then show ?thesis using a' by (simp add: diff_loop.simps [of a b] diff_loop.simps [of a' b'])
      qed
    next
      case False
      then show ?thesis using a more_scan_same [OF a(3)] 
        by (simp add: diff_loop.simps [of a b] diff_loop.simps [of a' b'] Err_def)
    qed
  qed (simp_all add: diff_loop.simps [of a b] diff_loop.simps [of a' b'])
qed

section \<open>Comparing two streams as they arrive\<close>

definition diff_choice :: "stream_view \<Rightarrow> choice" where
  "diff_choice v =
     (case FindDiffOffset (so_far v 0) (so_far v 1) of
        None \<Rightarrow> Fail
      | Some (offset, None) \<Rightarrow> Stop
      | Some (offset, Some e) \<Rightarrow>
          if e = blocked 0 \<and> \<not> snd (v 0) then ReadByte 0
          else if e = blocked 1 \<and> \<not> snd (v 1) then ReadByte 1
          else Fail)"

interpretation diff: stream_reader 2 diff_choice
  by unfold_locales (auto simp: diff_choice_def split: option.splits prod.splits if_splits)

lemma partly_read_scan:
  "partly_read n streams v \<Longrightarrow> i < n \<Longrightarrow>
     more_scan (\<not> snd (v i)) i (NewScanner (so_far v i) False) (NewScanner (complete (streams i)) False)"
  by (auto simp: partly_read_def more_scan_def more_of_def NewScanner_def so_far_def complete_def)

lemma diff_choice_complete:
  assumes "partly_read 2 streams v" "\<And>i. diff_choice v \<noteq> ReadByte i"
  shows "FindDiffOffset (so_far v 0) (so_far v 1) = FindDiffOffset (complete (streams 0)) (complete (streams 1))"
proof -
  have "\<not> snd (v i) \<Longrightarrow> i < 2 \<Longrightarrow> FindDiffOffset (so_far v 0) (so_far v 1) \<noteq> Some (k, Some (blocked i))" for i k
    using assms(2) [of i] by (auto simp: diff_choice_def less_2_cases_iff)
  from this [of 0] this [of 1] show ?thesis
    using diff_loop_more [OF partly_read_scan [OF assms(1)] partly_read_scan [OF assms(1)], of 0]
    by (auto simp: FindDiffOffset_def)
qed

lemma diff_complete:
  assumes "xreach cap 2 diff_choice (started streams) (c, m)" "m \<noteq> Reading"
  shows "FindDiffOffset (so_far (view_of c) 0) (so_far (view_of c) 1)
    = FindDiffOffset (complete (streams 0)) (complete (streams 1))"
proof -
  note ok = diff.xreach_ok [OF assms(1)]
  have "diff_choice (view_of c) \<noteq> ReadByte i" for i
    using ok assms(2) by (cases m) (auto simp: diff.running_ok_def)
  then show ?thesis using diff_choice_complete diff.running_partly [OF ok] by simp
qed

lemma seq_partly: "partly_read 2 streams (seq_view 2 streams diff_choice)"
proof -
  have "partly_read 2 streams v \<Longrightarrow> partly_read 2 streams (advance_view streams i v)" for v i
    by (auto simp: partly_read_def advance_view_def Let_def) (metis Cons_nth_drop_Suc append_eq_conv_conj self_append_conv)
  then have "partly_read 2 streams v \<Longrightarrow> partly_read 2 streams (seq_run streams diff_choice k v)" for k v
    by (induction k arbitrary: v) (auto split: choice.split)
  moreover have "partly_read 2 streams view0" by (simp add: partly_read_def view0_def)
  ultimately show ?thesis unfolding seq_view_def by blast
qed

lemma seq_stops_iff:
  "diff_choice (seq_view 2 streams diff_choice) = Stop
     \<longleftrightarrow> (\<exists>offset. FindDiffOffset (complete (streams 0)) (complete (streams 1)) = Some (offset, None))"
  unfolding diff_choice_complete [OF seq_partly diff.seq_view_stops, symmetric]
  by (auto simp: diff_choice_def split: option.splits)

text \<open>Nothing is read beyond beginnings of the streams that show the difference.\<close>

definition unended :: "(nat \<Rightarrow> bytes) \<Rightarrow> stream_view" where
  "unended p = (\<lambda>i. (p i, False))"

lemma reads_within:
  assumes "FindDiffOffset (so_far (unended p) 0) (so_far (unended p) 1) = Some (offset, None)"
    and "\<And>i. i < 2 \<Longrightarrow> \<exists>xs. p i = fst (v i) @ xs" "\<And>i. \<not> snd (v i)" "diff_choice v = ReadByte j"
  shows "length (fst (v j)) < length (p j)"
proof (rule ccontr)
  assume "\<not> length (fst (v j)) < length (p j)"
  then have pj: "fst (v j) = p j" using assms(2) diff.asks [OF assms(4)] by fastforce
  have more: "more_scan (i \<noteq> j) i (NewScanner (so_far v i) False) (NewScanner (so_far (unended p) i) False)"
    if "i < 2" for i
    using that assms(2,3) pj by (auto simp: more_scan_def more_of_def NewScanner_def so_far_def unended_def)
  have "\<exists>k. FindDiffOffset (so_far v 0) (so_far v 1) = Some (k, Some (blocked j))"
    using assms(4) by (auto simp: diff_choice_def split: option.splits if_splits)
  then show False
    using diff_loop_more [OF more [of 0] more [of 1], of 0] assms(1) by (auto simp: FindDiffOffset_def)
qed

lemma seq_reads_within:
  assumes "FindDiffOffset (so_far (unended p) 0) (so_far (unended p) 1) = Some (offset, None)"
    and "\<And>i. i < 2 \<Longrightarrow> \<exists>xs. streams i = p i @ xs" "i < 2"
  shows "length (fst (seq_view 2 streams diff_choice i)) \<le> length (p i)"
proof -
  let ?ok = "\<lambda>v. \<forall>i. \<not> snd (v i) \<and> (i < 2 \<longrightarrow> (\<exists>xs. p i = fst (v i) @ xs))"
  have step: "?ok (advance_view streams j v)" if v: "?ok v" "diff_choice v = ReadByte j" for v j
  proof -
    have j: "j < 2" using diff.asks [OF v(2)] by simp
    have less: "length (fst (v j)) < length (p j)" by (rule reads_within [OF assms(1)]) (use v in auto)
    obtain xs ys where p: "p j = fst (v j) @ xs" "streams j = p j @ ys" using v(1) assms(2) j by metis
    then obtain x zs where "xs = x # zs" using less by (cases xs) auto
    then show ?thesis using v(1) p by (auto simp: advance_view_def Let_def nth_append)
  qed
  have run: "?ok v \<Longrightarrow> ?ok (seq_run streams diff_choice k v)" for k v
    by (induction k arbitrary: v) (auto simp: step split: choice.split)
  have "?ok (seq_view 2 streams diff_choice)"
    unfolding seq_view_def by (rule run) (simp add: view0_def)
  then show ?thesis using assms(3) by fastforce
qed

lemma differing_beginnings:
  assumes "list_all valid_written as" "list_all Writer.fits as" "list_all valid_written bs" "list_all Writer.fits bs"
    and "common_prefix (map delivered as) (map delivered bs) < min (length as) (length bs)"
  shows "\<exists>offset. FindDiffOffset \<lparr>Rest = stream_of as, RErr = e\<rparr> \<lparr>Rest = stream_of bs, RErr = e'\<rparr> = Some (offset, None)"
proof -
  have scans: "\<exists>err. scan_all (NewScanner \<lparr>Rest = stream_of ws, RErr = e\<rparr> False) = Some (map delivered ws, err)"
    if "list_all valid_written ws" "list_all Writer.fits ws" for ws e
    by (simp add: stream_of_def scan_all_new scan_all_wire [OF that])
  obtain ea eb where "scan_all (NewScanner \<lparr>Rest = stream_of as, RErr = e\<rparr> False) = Some (map delivered as, ea)"
    "scan_all (NewScanner \<lparr>Rest = stream_of bs, RErr = e'\<rparr> False) = Some (map delivered bs, eb)"
    using scans [OF assms(1,2)] scans [OF assms(3,4)] by blast
  from diff_loop_common [OF this, where off = 0] assms(5) show ?thesis
    by (simp add: FindDiffOffset_def)
qed

section \<open>Properties\<close>

text \<open>C36: However the two senders of \<open>FindPathDiffOffset\<close> and the comparison of their streams are
  interleaved, and whatever the capacity of the pipes: when the comparison ends, it has
  computed from what it has read the result of \<open>FindDiffOffset\<close> on the complete streams.\<close>

theorem diff_any_interleaving:
  assumes "xreach cap 2 diff_choice (started streams) (c, m)" "m \<noteq> Reading"
  shows "FindDiffOffset (so_far (view_of c) 0) (so_far (view_of c) 1)
    = FindDiffOffset (complete (streams 0)) (complete (streams 1))"
  using assms by (rule diff_complete)

text \<open>C24: After the comparison \<open>FindPathDiffOffset\<close> can return without an error exactly when the comparison
  succeeds and what is left of each of the streams fits into its pipe: nobody reads the rest, so a
  sender with more to write is blocked while the wait group waits for it, or fails once
  the runtime has collected the reading end.\<close>

theorem diff_returns_iff:
  assumes "0 < cap"
  shows "(\<exists>c. xreach cap 2 diff_choice (started streams) (c, Returned) \<and> \<not> Broken (c 0) \<and> \<not> Broken (c 1))
    \<longleftrightarrow> (\<exists>offset. FindDiffOffset (complete (streams 0)) (complete (streams 1)) = Some (offset, None))
      \<and> length (streams 0) \<le> length (fst (seq_view 2 streams diff_choice 0)) + cap
      \<and> length (streams 1) \<le> length (fst (seq_view 2 streams diff_choice 1)) + cap"
  using diff.returns_iff [OF assms, of streams]
  by (auto simp: seq_stops_iff diff.rest_fits_def less_2_cases_iff)

definition sample_streams :: "nat \<Rightarrow> bytes" where
  "sample_streams i = (if i = 0 then stream_of sample_written else stream_of two_written)"

lemma sample_streams_differ:
  "FindDiffOffset (complete (sample_streams 0)) (complete (sample_streams 1)) = Some (1, None)"
  using diff_loop_common [OF scan_stream [OF sample_writes] scan_stream [OF two_writes], where off = 0]
  by (simp add: FindDiffOffset_def complete_def sample_streams_def sample_differs)

lemma sample_streams_short: "length (sample_streams i) \<le> 65536"
  by (simp add: sample_streams_def stream_of_def enc_StreamHeader_def stream_header_def sample_written_def
      two_written_def sample_calls_def two_calls_def new_defs Let_def attr_defs payload_def data_chunk_def
      length_attr_chunk sample_uuid_def insert_commute)

text \<open>C32: Two streams that differ at one of their first commands, and of which one is longer after
  the difference than the pipe holds, are never compared successfully by \<open>FindPathDiffOffset\<close>: whatever
  the interleaving, it returns no offset.\<close>

theorem diff_never_returns:
  assumes "list_all valid_written as" "list_all Writer.fits as" "list_all valid_written bs" "list_all Writer.fits bs"
    and "common_prefix (map delivered as) (map delivered bs) < min (length as) (length bs)"
    and "streams 0 = stream_of as @ restA" "streams 1 = stream_of bs @ restB" "cap < max (length restA) (length restB)"
  shows "\<not> (\<exists>c. xreach cap 2 diff_choice (started streams) (c, Returned) \<and> \<not> Broken (c 0) \<and> \<not> Broken (c 1))"
proof
  assume "\<exists>c. xreach cap 2 diff_choice (started streams) (c, Returned) \<and> \<not> Broken (c 0) \<and> \<not> Broken (c 1)"
  then have fits: "diff.rest_fits cap streams"
    using diff.finished_fits by (auto simp: less_2_cases_iff)
  let ?p = "\<lambda>i::nat. stream_of (if i = 0 then as else bs)"
  obtain offset where o: "FindDiffOffset (so_far (unended ?p) 0) (so_far (unended ?p) 1) = Some (offset, None)"
    using differing_beginnings [OF assms(1-5)] by (auto simp: so_far_def unended_def)
  have "\<exists>xs. streams i = ?p i @ xs" if "i < 2" for i
    using that assms(6,7) by (auto simp: less_2_cases_iff)
  from seq_reads_within [OF o this, of 0] seq_reads_within [OF o this, of 1]
    fits [unfolded diff.rest_fits_def, rule_format, of 0] fits [unfolded diff.rest_fits_def, rule_format, of 1] assms(6-8)
  show False by simp
qed

text \<open>No interleaving goes on for ever: it ends with a result, with an error, or blocked.\<close>

theorem diff_ends: "wfp (\<lambda>s' s. xstep cap 2 diff_choice s s')"
  by (rule diff.always_ends)

text \<open>The two sample streams differ early, fit into the pipes of Linux, and do not when
  something long follows.\<close>

lemma diff_returns_iff_witness:
  "(0 :: nat) < 65536 \<and> (\<exists>c. xreach 65536 2 diff_choice (started sample_streams) (c, Returned)
     \<and> \<not> Broken (c 0) \<and> \<not> Broken (c 1))"
  using diff_returns_iff [of 65536 sample_streams] sample_streams_differ sample_streams_short
  by (simp add: trans_le_add2)

lemma diff_any_interleaving_witness:
  "\<exists>c. xreach 65536 2 diff_choice (started sample_streams) (c, Returned)
     \<and> FindDiffOffset (so_far (view_of c) 0) (so_far (view_of c) 1) = Some (1, None)"
proof -
  have "diff.rest_fits 65536 sample_streams" by (simp add: diff.rest_fits_def trans_le_add2 sample_streams_short)
  moreover have "diff_choice (seq_view 2 sample_streams diff_choice) = Stop"
    using sample_streams_differ by (simp add: seq_stops_iff)
  ultimately obtain c where c: "xreach 65536 2 diff_choice (started sample_streams) (c, Returned)"
    using diff.returns_iff [of 65536 sample_streams] by auto
  then show ?thesis
    using diff_any_interleaving [OF c] sample_streams_differ by (intro exI [of _ c]) simp
qed

definition long_streams :: "nat \<Rightarrow> bytes" where
  "long_streams i = sample_streams i @ (if i = 0 then [] else replicate 65537 0)"

lemma diff_never_returns_witness:
  "\<not> (\<exists>c. xreach 65536 2 diff_choice (started long_streams) (c, Returned) \<and> \<not> Broken (c 0) \<and> \<not> Broken (c 1))"
  using diff_never_returns [of sample_written two_written long_streams "[]" "replicate 65537 0" 65536]
    sample_writes two_writes sample_differs
  by (simp add: writes_calls_def long_streams_def sample_streams_def)

end
