(* ===== verification/Codegen.thy ===== *)
theory Codegen
  imports Ioctls GoText
begin

text \<open>
  What the generators of \<^verbatim>\<open>gen/\<close> print: the program \<^verbatim>\<open>gen/ioctlgen/main.go\<close>, whose output is
  \<^verbatim>\<open>pkg/btrfs/zz_ioctl_defs.go\<close>, and the declarations by which the stringers make the compiler check
  that their tables are up to date. A text is the list of its lines.
\<close>

section \<open>Formatting\<close>

definition tabs :: "nat \<Rightarrow> string \<Rightarrow> string" where
  "tabs n s = replicate n CHR 0x09 @ s"

fun hexadecimal :: "nat \<Rightarrow> string" where
  "hexadecimal n = (if n < 16 then [hex_digit n] else hexadecimal (n div 16) @ [hex_digit (n mod 16)])"

declare hexadecimal.simps [simp del]

text \<open>The verb \<^verbatim>\<open>%02x\<close>, and \<^verbatim>\<open>fmt.Sprintf\<close> for formats with no other verb; it also returns the arguments that are left.\<close>

definition hex02 :: "u64 \<Rightarrow> string" where
  "hex02 n = (let s = hexadecimal (unat n) in replicate (2 - length s) CHR ''0'' @ s)"

fun Sprintf_x :: "string \<Rightarrow> u64 list \<Rightarrow> string \<times> u64 list" where
  "Sprintf_x [] xs = ([], xs)"
| "Sprintf_x (c # s) xs =
     (if take 4 (c # s) = ''%02x''
      then let (v, ys) = (case xs of [] \<Rightarrow> (''%!x(MISSING)'', []) | x # xs \<Rightarrow> (hex02 x, xs));
               (t, zs) = Sprintf_x (drop 3 s) ys
           in (v @ t, zs)
      else let (t, zs) = Sprintf_x s xs in (c # t, zs))"

fun Sprintf_lines :: "string list \<Rightarrow> u64 list \<Rightarrow> string list" where
  "Sprintf_lines [] xs = []"
| "Sprintf_lines (l # ls) xs = (let (t, ys) = Sprintf_x l xs in t # Sprintf_lines ls ys)"

section \<open>The generator of the numbers of ioctls\<close>

definition ioctlgen_head :: "string list" where
  "ioctlgen_head = [
    '''',
    ''/*'',
    ''This file is part of btrsync.'',
    '''',
    ''Btrsync is free software: you can redistribute it and/or modify it under the terms of the'',
    ''GNU Lesser General Public License as published by the Free Software Foundation, either'',
    ''version 3 of the License, or (at your option) any later version.'',
    '''',
    ''Btrsync is distributed in the hope that it will be useful, but WITHOUT ANY WARRANTY;'',
    ''without even the implied warranty of MERCHANTABILITY or FITNESS FOR A PARTICULAR PURPOSE.'',
    ''See the GNU Lesser General Public License for more details.'',
    '''',
    ''You should have received a copy of the GNU Lesser General Public License along with btrsync.'',
    ''If not, see <https://www.gnu.org/licenses/>.'',
    ''*/'',
    '''',
    ''// Code generated by gen/ioctlgen/main.go; DO NOT EDIT.'',
    '''',
    ''package btrfs'',
    '''',
    ''// Generic ioctl constants'',
    ''const ('',
    tabs 1 ''IOC_NONE  = 0x0'',
    tabs 1 ''IOC_WRITE = 0x1'',
    tabs 1 ''IOC_READ  = 0x2'',
    '''',
    tabs 1 ''IOC_NRBITS   = 8'',
    tabs 1 ''IOC_TYPEBITS = 8'',
    '''',
    tabs 1 ''IOC_SIZEBITS = 14'',
    tabs 1 ''IOC_DIRBITS  = 2'',
    '''',
    tabs 1 ''IOC_NRSHIFT   = 0'',
    tabs 1 ''IOC_TYPESHIFT = IOC_NRSHIFT + IOC_NRBITS'',
    tabs 1 ''IOC_SIZESHIFT = IOC_TYPESHIFT + IOC_TYPEBITS'',
    tabs 1 ''IOC_DIRSHIFT  = IOC_SIZESHIFT + IOC_SIZEBITS'',
    '''',
    tabs 1 ''IOC_NRMASK   = ((1 << IOC_NRBITS) - 1)'',
    tabs 1 ''IOC_TYPEMASK = ((1 << IOC_TYPEBITS) - 1)'',
    tabs 1 ''IOC_SIZEMASK = ((1 << IOC_SIZEBITS) - 1)'',
    tabs 1 ''IOC_DIRMASK  = ((1 << IOC_DIRBITS) - 1)'',
    '')'',
    '''',
    ''// BTRFS ioctl constants'',
    ''const ('',
    tabs 1 ''BTRFS_IOCTL_MAGIC uintptr = 0x94'',
    '')'',
    '''',
    ''// IoctlCmd is a type cast of uintptr to make it more clear that it is an ioctl.'',
    ''type IoctlCmd uintptr'',
    '''',
    ''func (c IoctlCmd) Size() uintptr {'',
    tabs 1 ''return (uintptr(c) >> IOC_SIZESHIFT) & IOC_SIZEMASK'',
    ''}'']"

definition ioctlgen_format :: "string list" where
  "ioctlgen_format = [
    '''',
    ''// Fsverity ioctl commands'',
    ''const ('',
    tabs 1 ''FS_IOC_ENABLE_VERITY        IoctlCmd = 0x%02x'',
    tabs 1 ''FS_IOC_MEASURE_VERITY       IoctlCmd = 0x%02x'',
    tabs 1 ''FS_IOC_READ_VERITY_METADATA IoctlCmd = 0x%02x'',
    '')'',
    '''',
    ''// BTRFS ioctl commands'',
    ''const ('',
    tabs 1 ''BTRFS_IOC_SNAP_CREATE         IoctlCmd = 0x%02x'',
    tabs 1 ''BTRFS_IOC_DEFRAG              IoctlCmd = 0x%02x'',
    tabs 1 ''BTRFS_IOC_RESIZE              IoctlCmd = 0x%02x'',
    tabs 1 ''BTRFS_IOC_SCAN_DEV            IoctlCmd = 0x%02x'',
    tabs 1 ''BTRFS_IOC_FORGET_DEV          IoctlCmd = 0x%02x'',
    tabs 1 ''BTRFS_IOC_TRANS_START         IoctlCmd = 0x%02x'',
    tabs 1 ''BTRFS_IOC_TRANS_END           IoctlCmd = 0x%02x'',
    tabs 1 ''BTRFS_IOC_SYNC                IoctlCmd = 0x%02x'',
    tabs 1 ''BTRFS_IOC_CLONE               IoctlCmd = 0x%02x'',
    tabs 1 ''BTRFS_IOC_ADD_DEV             IoctlCmd = 0x%02x'',
    tabs 1 ''BTRFS_IOC_RM_DEV              IoctlCmd = 0x%02x'',
    tabs 1 ''BTRFS_IOC_BALANCE             IoctlCmd = 0x%02x'',
    tabs 1 ''BTRFS_IOC_CLONE_RANGE         IoctlCmd = 0x%02x'',
    tabs 1 ''BTRFS_IOC_SUBVOL_CREATE       IoctlCmd = 0x%02x'',
    tabs 1 ''BTRFS_IOC_SNAP_DESTROY        IoctlCmd = 0x%02x'',
    tabs 1 ''BTRFS_IOC_DEFRAG_RANGE        IoctlCmd = 0x%02x'',
    tabs 1 ''BTRFS_IOC_TREE_SEARCH         IoctlCmd = 0x%02x'',
    tabs 1 ''BTRFS_IOC_TREE_SEARCH_V2      IoctlCmd = 0x%02x'',
    tabs 1 ''BTRFS_IOC_INO_LOOKUP          IoctlCmd = 0x%02x'',
    tabs 1 ''BTRFS_IOC_DEFAULT_SUBVOL      IoctlCmd = 0x%02x'',
    tabs 1 ''BTRFS_IOC_SPACE_INFO          IoctlCmd = 0x%02x'',
    tabs 1 ''BTRFS_IOC_START_SYNC          IoctlCmd = 0x%02x'',
    tabs 1 ''BTRFS_IOC_WAIT_SYNC           IoctlCmd = 0x%02x'',
    tabs 1 ''BTRFS_IOC_SNAP_CREATE_V2      IoctlCmd = 0x%02x'',
    tabs 1 ''BTRFS_IOC_SUBVOL_CREATE_V2    IoctlCmd = 0x%02x'',
    tabs 1 ''BTRFS_IOC_SUBVOL_GETFLAGS     IoctlCmd = 0x%02x'',
    tabs 1 ''BTRFS_IOC_SUBVOL_SETFLAGS     IoctlCmd = 0x%02x'',
    tabs 1 ''BTRFS_IOC_SCRUB               IoctlCmd = 0x%02x'',
    tabs 1 ''BTRFS_IOC_SCRUB_CANCEL        IoctlCmd = 0x%02x'',
    tabs 1 ''BTRFS_IOC_SCRUB_PROGRESS      IoctlCmd = 0x%02x'',
    tabs 1 ''BTRFS_IOC_DEV_INFO            IoctlCmd = 0x%02x'',
    tabs 1 ''BTRFS_IOC_FS_INFO             IoctlCmd = 0x%02x'',
    tabs 1 ''BTRFS_IOC_BALANCE_V2          IoctlCmd = 0x%02x'',
    tabs 1 ''BTRFS_IOC_BALANCE_CTL         IoctlCmd = 0x%02x'',
    tabs 1 ''BTRFS_IOC_BALANCE_PROGRESS    IoctlCmd = 0x%02x'',
    tabs 1 ''BTRFS_IOC_INO_PATHS           IoctlCmd = 0x%02x'',
    tabs 1 ''BTRFS_IOC_LOGICAL_INO         IoctlCmd = 0x%02x'',
    tabs 1 ''BTRFS_IOC_SET_RECEIVED_SUBVOL IoctlCmd = 0x%02x'',
    tabs 1 ''BTRFS_IOC_SEND                IoctlCmd = 0x%02x'',
    tabs 1 ''BTRFS_IOC_DEVICES_READY       IoctlCmd = 0x%02x'',
    tabs 1 ''BTRFS_IOC_QUOTA_CTL           IoctlCmd = 0x%02x'',
    tabs 1 ''BTRFS_IOC_QGROUP_ASSIGN       IoctlCmd = 0x%02x'',
    tabs 1 ''BTRFS_IOC_QGROUP_CREATE       IoctlCmd = 0x%02x'',
    tabs 1 ''BTRFS_IOC_QGROUP_LIMIT        IoctlCmd = 0x%02x'',
    tabs 1 ''BTRFS_IOC_QUOTA_RESCAN        IoctlCmd = 0x%02x'',
    tabs 1 ''BTRFS_IOC_QUOTA_RESCAN_STATUS IoctlCmd = 0x%02x'',
    tabs 1 ''BTRFS_IOC_QUOTA_RESCAN_WAIT   IoctlCmd = 0x%02x'',
    tabs 1 ''BTRFS_IOC_GET_DEV_STATS       IoctlCmd = 0x%02x'',
    tabs 1 ''BTRFS_IOC_DEV_REPLACE         IoctlCmd = 0x%02x'',
    tabs 1 ''BTRFS_IOC_FILE_EXTENT_SAME    IoctlCmd = 0x%02x'',
    tabs 1 ''BTRFS_IOC_RM_DEV_V2           IoctlCmd = 0x%02x'',
    tabs 1 ''BTRFS_IOC_LOGICAL_INO_V2      IoctlCmd = 0x%02x'',
    tabs 1 ''BTRFS_IOC_GET_SUBVOL_INFO     IoctlCmd = 0x%02x'',
    tabs 1 ''BTRFS_IOC_GET_SUBVOL_ROOTREF  IoctlCmd = 0x%02x'',
    tabs 1 ''BTRFS_IOC_INO_LOOKUP_USER     IoctlCmd = 0x%02x'',
    tabs 1 ''BTRFS_IOC_SNAP_DESTROY_V2     IoctlCmd = 0x%02x'',
    tabs 1 ''BTRFS_IOC_ENCODED_READ        IoctlCmd = 0x%02x'',
    tabs 1 ''BTRFS_IOC_ENCODED_WRITE       IoctlCmd = 0x%02x'',
    '')'']"

text \<open>The arguments of the format, which the compiler resolves by name.\<close>

definition ioctlgen_args :: "string list" where
  "ioctlgen_args = [
    ''FS_IOC_ENABLE_VERITY'', ''FS_IOC_MEASURE_VERITY'', ''FS_IOC_READ_VERITY_METADATA'',
    ''BTRFS_IOC_SNAP_CREATE'', ''BTRFS_IOC_DEFRAG'', ''BTRFS_IOC_RESIZE'', ''BTRFS_IOC_SCAN_DEV'',
    ''BTRFS_IOC_FORGET_DEV'', ''BTRFS_IOC_TRANS_START'', ''BTRFS_IOC_TRANS_END'',
    ''BTRFS_IOC_SYNC'', ''BTRFS_IOC_CLONE'', ''BTRFS_IOC_ADD_DEV'', ''BTRFS_IOC_RM_DEV'',
    ''BTRFS_IOC_BALANCE'', ''BTRFS_IOC_CLONE_RANGE'', ''BTRFS_IOC_SUBVOL_CREATE'',
    ''BTRFS_IOC_SNAP_DESTROY'', ''BTRFS_IOC_DEFRAG_RANGE'', ''BTRFS_IOC_TREE_SEARCH'',
    ''BTRFS_IOC_TREE_SEARCH_V2'', ''BTRFS_IOC_INO_LOOKUP'', ''BTRFS_IOC_DEFAULT_SUBVOL'',
    ''BTRFS_IOC_SPACE_INFO'', ''BTRFS_IOC_START_SYNC'', ''BTRFS_IOC_WAIT_SYNC'',
    ''BTRFS_IOC_SNAP_CREATE_V2'', ''BTRFS_IOC_SUBVOL_CREATE_V2'', ''BTRFS_IOC_SUBVOL_GETFLAGS'',
    ''BTRFS_IOC_SUBVOL_SETFLAGS'', ''BTRFS_IOC_SCRUB'', ''BTRFS_IOC_SCRUB_CANCEL'',
    ''BTRFS_IOC_SCRUB_PROGRESS'', ''BTRFS_IOC_DEV_INFO'', ''BTRFS_IOC_FS_INFO'',
    ''BTRFS_IOC_BALANCE_V2'', ''BTRFS_IOC_BALANCE_CTL'', ''BTRFS_IOC_BALANCE_PROGRESS'',
    ''BTRFS_IOC_INO_PATHS'', ''BTRFS_IOC_LOGICAL_INO'', ''BTRFS_IOC_SET_RECEIVED_SUBVOL'',
    ''BTRFS_IOC_SEND'', ''BTRFS_IOC_DEVICES_READY'', ''BTRFS_IOC_QUOTA_CTL'',
    ''BTRFS_IOC_QGROUP_ASSIGN'', ''BTRFS_IOC_QGROUP_CREATE'', ''BTRFS_IOC_QGROUP_LIMIT'',
    ''BTRFS_IOC_QUOTA_RESCAN'', ''BTRFS_IOC_QUOTA_RESCAN_STATUS'', ''BTRFS_IOC_QUOTA_RESCAN_WAIT'',
    ''BTRFS_IOC_GET_DEV_STATS'', ''BTRFS_IOC_DEV_REPLACE'', ''BTRFS_IOC_FILE_EXTENT_SAME'',
    ''BTRFS_IOC_RM_DEV_V2'', ''BTRFS_IOC_LOGICAL_INO_V2'', ''BTRFS_IOC_GET_SUBVOL_INFO'',
    ''BTRFS_IOC_GET_SUBVOL_ROOTREF'', ''BTRFS_IOC_INO_LOOKUP_USER'', ''BTRFS_IOC_SNAP_DESTROY_V2'',
    ''BTRFS_IOC_ENCODED_READ'', ''BTRFS_IOC_ENCODED_WRITE'']"

definition ioctlgen_main :: "(string \<Rightarrow> u64) \<Rightarrow> string list" where
  "ioctlgen_main sizeof_C = ioctlgen_head @ Sprintf_lines ioctlgen_format
     (map (\<lambda>n. case map_of (ioctlgen sizeof_C) n of Some c \<Rightarrow> c | None \<Rightarrow> 0) ioctlgen_args) @ [[]]"

text \<open>The file as it is in the repository.\<close>

definition zz_ioctl_defs :: "string list" where
  "zz_ioctl_defs = [
    ''/*'',
    ''This file is part of btrsync.'',
    '''',
    ''Btrsync is free software: you can redistribute it and/or modify it under the terms of the'',
    ''GNU Lesser General Public License as published by the Free Software Foundation, either'',
    ''version 3 of the License, or (at your option) any later version.'',
    '''',
    ''Btrsync is distributed in the hope that it will be useful, but WITHOUT ANY WARRANTY;'',
    ''without even the implied warranty of MERCHANTABILITY or FITNESS FOR A PARTICULAR PURPOSE.'',
    ''See the GNU Lesser General Public License for more details.'',
    '''',
    ''You should have received a copy of the GNU Lesser General Public License along with btrsync.'',
    ''If not, see <https://www.gnu.org/licenses/>.'',
    ''*/'',
    '''',
    ''// Code generated by gen/ioctlgen/main.go; DO NOT EDIT.'',
    '''',
    ''package btrfs'',
    '''',
    ''// Generic ioctl constants'',
    ''const ('',
    tabs 1 ''IOC_NONE  = 0x0'',
    tabs 1 ''IOC_WRITE = 0x1'',
    tabs 1 ''IOC_READ  = 0x2'',
    '''',
    tabs 1 ''IOC_NRBITS   = 8'',
    tabs 1 ''IOC_TYPEBITS = 8'',
    '''',
    tabs 1 ''IOC_SIZEBITS = 14'',
    tabs 1 ''IOC_DIRBITS  = 2'',
    '''',
    tabs 1 ''IOC_NRSHIFT   = 0'',
    tabs 1 ''IOC_TYPESHIFT = IOC_NRSHIFT + IOC_NRBITS'',
    tabs 1 ''IOC_SIZESHIFT = IOC_TYPESHIFT + IOC_TYPEBITS'',
    tabs 1 ''IOC_DIRSHIFT  = IOC_SIZESHIFT + IOC_SIZEBITS'',
    '''',
    tabs 1 ''IOC_NRMASK   = ((1 << IOC_NRBITS) - 1)'',
    tabs 1 ''IOC_TYPEMASK = ((1 << IOC_TYPEBITS) - 1)'',
    tabs 1 ''IOC_SIZEMASK = ((1 << IOC_SIZEBITS) - 1)'',
    tabs 1 ''IOC_DIRMASK  = ((1 << IOC_DIRBITS) - 1)'',
    '')'',
    '''',
    ''// BTRFS ioctl constants'',
    ''const ('',
    tabs 1 ''BTRFS_IOCTL_MAGIC uintptr = 0x94'',
    '')'',
    '''',
    ''// IoctlCmd is a type cast of uintptr to make it more clear that it is an ioctl.'',
    ''type IoctlCmd uintptr'',
    '''',
    ''func (c IoctlCmd) Size() uintptr {'',
    tabs 1 ''return (uintptr(c) >> IOC_SIZESHIFT) & IOC_SIZEMASK'',
    ''}'',
    '''',
    ''// Fsverity ioctl commands'',
    ''const ('',
    tabs 1 ''FS_IOC_ENABLE_VERITY        IoctlCmd = 0x40806685'',
    tabs 1 ''FS_IOC_MEASURE_VERITY       IoctlCmd = 0xc0046686'',
    tabs 1 ''FS_IOC_READ_VERITY_METADATA IoctlCmd = 0xc0286687'',
    '')'',
    '''',
    ''// BTRFS ioctl commands'',
    ''const ('',
    tabs 1 ''BTRFS_IOC_SNAP_CREATE         IoctlCmd = 0x50009401'',
    tabs 1 ''BTRFS_IOC_DEFRAG              IoctlCmd = 0x50009402'',
    tabs 1 ''BTRFS_IOC_RESIZE              IoctlCmd = 0x50009403'',
    tabs 1 ''BTRFS_IOC_SCAN_DEV            IoctlCmd = 0x50009404'',
    tabs 1 ''BTRFS_IOC_FORGET_DEV          IoctlCmd = 0x50009405'',
    tabs 1 ''BTRFS_IOC_TRANS_START         IoctlCmd = 0x9406'',
    tabs 1 ''BTRFS_IOC_TRANS_END           IoctlCmd = 0x9407'',
    tabs 1 ''BTRFS_IOC_SYNC                IoctlCmd = 0x9408'',
    tabs 1 ''BTRFS_IOC_CLONE               IoctlCmd = 0x40049409'',
    tabs 1 ''BTRFS_IOC_ADD_DEV             IoctlCmd = 0x5000940a'',
    tabs 1 ''BTRFS_IOC_RM_DEV              IoctlCmd = 0x5000940b'',
    tabs 1 ''BTRFS_IOC_BALANCE             IoctlCmd = 0x5000940c'',
    tabs 1 ''BTRFS_IOC_CLONE_RANGE         IoctlCmd = 0x4020940d'',
    tabs 1 ''BTRFS_IOC_SUBVOL_CREATE       IoctlCmd = 0x5000940e'',
    tabs 1 ''BTRFS_IOC_SNAP_DESTROY        IoctlCmd = 0x5000940f'',
    tabs 1 ''BTRFS_IOC_DEFRAG_RANGE        IoctlCmd = 0x40309410'',
    tabs 1 ''BTRFS_IOC_TREE_SEARCH         IoctlCmd = 0xd0009411'',
    tabs 1 ''BTRFS_IOC_TREE_SEARCH_V2      IoctlCmd = 0xc0709411'',
    tabs 1 ''BTRFS_IOC_INO_LOOKUP          IoctlCmd = 0xd0009412'',
    tabs 1 ''BTRFS_IOC_DEFAULT_SUBVOL      IoctlCmd = 0x40089413'',
    tabs 1 ''BTRFS_IOC_SPACE_INFO          IoctlCmd = 0xc0109414'',
    tabs 1 ''BTRFS_IOC_START_SYNC          IoctlCmd = 0x80089418'',
    tabs 1 ''BTRFS_IOC_WAIT_SYNC           IoctlCmd = 0x40089416'',
    tabs 1 ''BTRFS_IOC_SNAP_CREATE_V2      IoctlCmd = 0x50009417'',
    tabs 1 ''BTRFS_IOC_SUBVOL_CREATE_V2    IoctlCmd = 0x50009418'',
    tabs 1 ''BTRFS_IOC_SUBVOL_GETFLAGS     IoctlCmd = 0x80089419'',
    tabs 1 ''BTRFS_IOC_SUBVOL_SETFLAGS     IoctlCmd = 0x4008941a'',
    tabs 1 ''BTRFS_IOC_SCRUB               IoctlCmd = 0xc400941b'',
    tabs 1 ''BTRFS_IOC_SCRUB_CANCEL        IoctlCmd = 0x941c'',
    tabs 1 ''BTRFS_IOC_SCRUB_PROGRESS      IoctlCmd = 0xc400941d'',
    tabs 1 ''BTRFS_IOC_DEV_INFO            IoctlCmd = 0xd000941e'',
    tabs 1 ''BTRFS_IOC_FS_INFO             IoctlCmd = 0x8400941f'',
    tabs 1 ''BTRFS_IOC_BALANCE_V2          IoctlCmd = 0xc4009420'',
    tabs 1 ''BTRFS_IOC_BALANCE_CTL         IoctlCmd = 0x40049421'',
    tabs 1 ''BTRFS_IOC_BALANCE_PROGRESS    IoctlCmd = 0x84009422'',
    tabs 1 ''BTRFS_IOC_INO_PATHS           IoctlCmd = 0xc0389423'',
    tabs 1 ''BTRFS_IOC_LOGICAL_INO         IoctlCmd = 0xc0389424'',
    tabs 1 ''BTRFS_IOC_SET_RECEIVED_SUBVOL IoctlCmd = 0xc0c89425'',
    tabs 1 ''BTRFS_IOC_SEND                IoctlCmd = 0x40489426'',
    tabs 1 ''BTRFS_IOC_DEVICES_READY       IoctlCmd = 0x90009427'',
    tabs 1 ''BTRFS_IOC_QUOTA_CTL           IoctlCmd = 0xc0109428'',
    tabs 1 ''BTRFS_IOC_QGROUP_ASSIGN       IoctlCmd = 0x40189429'',
    tabs 1 ''BTRFS_IOC_QGROUP_CREATE       IoctlCmd = 0x4010942a'',
    tabs 1 ''BTRFS_IOC_QGROUP_LIMIT        IoctlCmd = 0x8030942b'',
    tabs 1 ''BTRFS_IOC_QUOTA_RESCAN        IoctlCmd = 0x4040942c'',
    tabs 1 ''BTRFS_IOC_QUOTA_RESCAN_STATUS IoctlCmd = 0x8040942d'',
    tabs 1 ''BTRFS_IOC_QUOTA_RESCAN_WAIT   IoctlCmd = 0x942e'',
    tabs 1 ''BTRFS_IOC_GET_DEV_STATS       IoctlCmd = 0xc4089434'',
    tabs 1 ''BTRFS_IOC_DEV_REPLACE         IoctlCmd = 0xca289435'',
    tabs 1 ''BTRFS_IOC_FILE_EXTENT_SAME    IoctlCmd = 0xc0189436'',
    tabs 1 ''BTRFS_IOC_RM_DEV_V2           IoctlCmd = 0x5000943a'',
    tabs 1 ''BTRFS_IOC_LOGICAL_INO_V2      IoctlCmd = 0xc038943b'',
    tabs 1 ''BTRFS_IOC_GET_SUBVOL_INFO     IoctlCmd = 0x81f8943c'',
    tabs 1 ''BTRFS_IOC_GET_SUBVOL_ROOTREF  IoctlCmd = 0xd000943d'',
    tabs 1 ''BTRFS_IOC_INO_LOOKUP_USER     IoctlCmd = 0xd000943e'',
    tabs 1 ''BTRFS_IOC_SNAP_DESTROY_V2     IoctlCmd = 0x5000943f'',
    tabs 1 ''BTRFS_IOC_ENCODED_READ        IoctlCmd = 0x80809440'',
    tabs 1 ''BTRFS_IOC_ENCODED_WRITE       IoctlCmd = 0x40809440'',
    '')'']"

section \<open>The checks of the stringers\<close>

text \<open>The compiler accepts an index into an array of length one only when constant and number agree.\<close>

definition IoctlCmd_checks :: "(string \<times> int) list" where
  "IoctlCmd_checks = [
    (''FS_IOC_ENABLE_VERITY'', 1082156677), (''FS_IOC_MEASURE_VERITY'', 3221513862),
    (''FS_IOC_READ_VERITY_METADATA'', 3223873159), (''BTRFS_IOC_SNAP_CREATE'', 1342215169),
    (''BTRFS_IOC_DEFRAG'', 1342215170), (''BTRFS_IOC_RESIZE'', 1342215171),
    (''BTRFS_IOC_SCAN_DEV'', 1342215172), (''BTRFS_IOC_FORGET_DEV'', 1342215173), (''BTRFS_IOC_TRANS_START'', 37894),
    (''BTRFS_IOC_TRANS_END'', 37895), (''BTRFS_IOC_SYNC'', 37896),
    (''BTRFS_IOC_CLONE'', 1074041865), (''BTRFS_IOC_ADD_DEV'', 1342215178), (''BTRFS_IOC_RM_DEV'', 1342215179),
    (''BTRFS_IOC_BALANCE'', 1342215180), (''BTRFS_IOC_CLONE_RANGE'', 1075876877),
    (''BTRFS_IOC_SUBVOL_CREATE'', 1342215182), (''BTRFS_IOC_SNAP_DESTROY'', 1342215183),
    (''BTRFS_IOC_DEFRAG_RANGE'', 1076925456), (''BTRFS_IOC_TREE_SEARCH'', 3489698833),
    (''BTRFS_IOC_TREE_SEARCH_V2'', 3228603409), (''BTRFS_IOC_INO_LOOKUP'', 3489698834),
    (''BTRFS_IOC_DEFAULT_SUBVOL'', 1074304019), (''BTRFS_IOC_SPACE_INFO'', 3222311956),
    (''BTRFS_IOC_START_SYNC'', 2148045848), (''BTRFS_IOC_WAIT_SYNC'', 1074304022),
    (''BTRFS_IOC_SNAP_CREATE_V2'', 1342215191), (''BTRFS_IOC_SUBVOL_CREATE_V2'', 1342215192),
    (''BTRFS_IOC_SUBVOL_GETFLAGS'', 2148045849), (''BTRFS_IOC_SUBVOL_SETFLAGS'', 1074304026),
    (''BTRFS_IOC_SCRUB'', 3288372251), (''BTRFS_IOC_SCRUB_CANCEL'', 37916),
    (''BTRFS_IOC_SCRUB_PROGRESS'', 3288372253), (''BTRFS_IOC_DEV_INFO'', 3489698846),
    (''BTRFS_IOC_FS_INFO'', 2214630431), (''BTRFS_IOC_BALANCE_V2'', 3288372256),
    (''BTRFS_IOC_BALANCE_CTL'', 1074041889), (''BTRFS_IOC_BALANCE_PROGRESS'', 2214630434),
    (''BTRFS_IOC_INO_PATHS'', 3224933411), (''BTRFS_IOC_LOGICAL_INO'', 3224933412),
    (''BTRFS_IOC_SET_RECEIVED_SUBVOL'', 3234370597), (''BTRFS_IOC_SEND'', 1078498342),
    (''BTRFS_IOC_DEVICES_READY'', 2415957031), (''BTRFS_IOC_QUOTA_CTL'', 3222311976),
    (''BTRFS_IOC_QGROUP_ASSIGN'', 1075352617), (''BTRFS_IOC_QGROUP_CREATE'', 1074828330),
    (''BTRFS_IOC_QGROUP_LIMIT'', 2150667307), (''BTRFS_IOC_QUOTA_RESCAN'', 1077974060),
    (''BTRFS_IOC_QUOTA_RESCAN_STATUS'', 2151715885), (''BTRFS_IOC_QUOTA_RESCAN_WAIT'', 37934),
    (''BTRFS_IOC_GET_DEV_STATS'', 3288896564), (''BTRFS_IOC_DEV_REPLACE'', 3391657013),
    (''BTRFS_IOC_FILE_EXTENT_SAME'', 3222836278), (''BTRFS_IOC_RM_DEV_V2'', 1342215226),
    (''BTRFS_IOC_LOGICAL_INO_V2'', 3224933435), (''BTRFS_IOC_GET_SUBVOL_INFO'', 2180551740),
    (''BTRFS_IOC_GET_SUBVOL_ROOTREF'', 3489698877), (''BTRFS_IOC_INO_LOOKUP_USER'', 3489698878),
    (''BTRFS_IOC_SNAP_DESTROY_V2'', 1342215231), (''BTRFS_IOC_ENCODED_READ'', 2155910208),
    (''BTRFS_IOC_ENCODED_WRITE'', 1082168384)]"

definition ObjectID_checks :: "(string \<times> int) list" where
  "ObjectID_checks = [
    (''RootTreeObjectID'', 1), (''ExtentTreeObjectID'', 2), (''ChunkTreeObjectID'', 3),
    (''DevTreeObjectID'', 4), (''FSTreeObjectID'', 5), (''RootTreeDirObjectID'', 6),
    (''CSumTreeObjectID'', 7), (''QuotaTreeObjectID'', 8), (''UUIDTreeObjectID'', 9),
    (''FreeSpaceTreeObjectID'', 10), (''BlockGroupTreeObjectID'', 11), (''DevStatsObjectID'', 0),
    (''BalanceObjectID'', 18446744073709551612), (''OrphanObjectID'', 18446744073709551611),
    (''TreeLogObjectID'', 18446744073709551610), (''TreeLogFixupObjectID'', 18446744073709551609),
    (''TreeRelocObjectID'', 18446744073709551608),
    (''DataRelocTreeObjectID'', 18446744073709551607), (''ExtentCSumObjectID'', 18446744073709551606),
    (''FreeSpaceObjectID'', 18446744073709551605), (''FreeInoObjectID'', 18446744073709551604),
    (''MultipleObjectIDs'', 18446744073709551361), (''FirstFreeObjectID'', 256),
    (''LastFreeObjectID'', 18446744073709551360), (''DevItemsObjectID'', 1)]"

definition SearchKey_checks :: "(string \<times> int) list" where
  "SearchKey_checks = [
    (''DeviceItemKey'', 216), (''DirItemKey'', 84), (''InodeRefKey'', 12), (''InodeItemKey'', 1),
    (''RootItemKey'', 132), (''RootRefKey'', 156), (''RootBackrefKey'', 144)]"

definition CompressionType_checks :: "(string \<times> int) list" where
  "CompressionType_checks = [
    (''CompressionNone'', 0), (''CompressionZLib'', 1), (''CompressionZSTD'', 2),
    (''CompressionLZO4k'', 3), (''CompressionLZO8k'', 4), (''CompressionLZO16k'', 5),
    (''CompressionLZO32k'', 6), (''CompressionLZO64k'', 7)]"

definition SendCommand_checks :: "(string \<times> int) list" where
  "SendCommand_checks = [
    (''BTRFS_SEND_C_UNSPEC'', 0), (''BTRFS_SEND_C_SUBVOL'', 1), (''BTRFS_SEND_C_SNAPSHOT'', 2),
    (''BTRFS_SEND_C_MKFILE'', 3), (''BTRFS_SEND_C_MKDIR'', 4), (''BTRFS_SEND_C_MKNOD'', 5),
    (''BTRFS_SEND_C_MKFIFO'', 6), (''BTRFS_SEND_C_MKSOCK'', 7), (''BTRFS_SEND_C_SYMLINK'', 8),
    (''BTRFS_SEND_C_RENAME'', 9), (''BTRFS_SEND_C_LINK'', 10), (''BTRFS_SEND_C_UNLINK'', 11),
    (''BTRFS_SEND_C_RMDIR'', 12), (''BTRFS_SEND_C_SET_XATTR'', 13),
    (''BTRFS_SEND_C_REMOVE_XATTR'', 14), (''BTRFS_SEND_C_WRITE'', 15), (''BTRFS_SEND_C_CLONE'', 16),
    (''BTRFS_SEND_C_TRUNCATE'', 17), (''BTRFS_SEND_C_CHMOD'', 18), (''BTRFS_SEND_C_CHOWN'', 19), (''BTRFS_SEND_C_UTIMES'', 20),
    (''BTRFS_SEND_C_END'', 21), (''BTRFS_SEND_C_UPDATE_EXTENT'', 22), (''BTRFS_SEND_C_MAX_V1'', 22),
    (''BTRFS_SEND_C_FALLOCATE'', 23), (''BTRFS_SEND_C_FILEATTR'', 24),
    (''BTRFS_SEND_C_ENCODED_WRITE'', 25), (''BTRFS_SEND_C_MAX_V2'', 25),
    (''BTRFS_SEND_C_ENABLE_VERITY'', 26), (''BTRFS_SEND_C_MAX_V3'', 26), (''BTRFS_SEND_C_MAX'', 26)]"

definition SendAttribute_checks :: "(string \<times> int) list" where
  "SendAttribute_checks = [
    (''BTRFS_SEND_A_UNSPEC'', 0), (''BTRFS_SEND_A_UUID'', 1), (''BTRFS_SEND_A_CTRANSID'', 2),
    (''BTRFS_SEND_A_INO'', 3), (''BTRFS_SEND_A_SIZE'', 4), (''BTRFS_SEND_A_MODE'', 5),
    (''BTRFS_SEND_A_UID'', 6), (''BTRFS_SEND_A_GID'', 7), (''BTRFS_SEND_A_RDEV'', 8),
    (''BTRFS_SEND_A_CTIME'', 9), (''BTRFS_SEND_A_MTIME'', 10), (''BTRFS_SEND_A_ATIME'', 11),
    (''BTRFS_SEND_A_OTIME'', 12), (''BTRFS_SEND_A_XATTR_NAME'', 13),
    (''BTRFS_SEND_A_XATTR_DATA'', 14), (''BTRFS_SEND_A_PATH'', 15), (''BTRFS_SEND_A_PATH_TO'', 16),
    (''BTRFS_SEND_A_PATH_LINK'', 17), (''BTRFS_SEND_A_FILE_OFFSET'', 18), (''BTRFS_SEND_A_DATA'', 19),
    (''BTRFS_SEND_A_CLONE_UUID'', 20), (''BTRFS_SEND_A_CLONE_CTRANSID'', 21),
    (''BTRFS_SEND_A_CLONE_PATH'', 22), (''BTRFS_SEND_A_CLONE_OFFSET'', 23),
    (''BTRFS_SEND_A_CLONE_LEN'', 24), (''BTRFS_SEND_A_MAX_V1'', 24),
    (''BTRFS_SEND_A_FALLOCATE_MODE'', 25), (''BTRFS_SEND_A_FILEATTR'', 26),
    (''BTRFS_SEND_A_UNENCODED_FILE_LEN'', 27), (''BTRFS_SEND_A_UNENCODED_LEN'', 28),
    (''BTRFS_SEND_A_UNENCODED_OFFSET'', 29), (''BTRFS_SEND_A_COMPRESSION'', 30),
    (''BTRFS_SEND_A_ENCRYPTION'', 31), (''BTRFS_SEND_A_MAX_V2'', 31),
    (''BTRFS_SEND_A_VERITY_ALGORITHM'', 32), (''BTRFS_SEND_A_VERITY_BLOCK_SIZE'', 33),
    (''BTRFS_SEND_A_VERITY_SALT_DATA'', 34), (''BTRFS_SEND_A_VERITY_SIG_DATA'', 35),
    (''BTRFS_SEND_A_MAX_V3'', 35), (''BTRFS_SEND_A_MAX'', 35)]"

section \<open>Lemmas\<close>

lemma ioctlgen_args_names: "ioctlgen_args = map fst ioctl_constants"
  by (simp add: ioctlgen_args_def ioctl_constants_def)

lemma Sprintf_x_plain [simp]:
  "c \<noteq> CHR ''%'' \<Longrightarrow> Sprintf_x (c # s) xs = apfst ((#) c) (Sprintf_x s xs)"
  by (cases "Sprintf_x s xs") simp

lemma Sprintf_x_verb [simp]:
  "Sprintf_x (CHR ''%'' # CHR ''0'' # CHR ''2'' # CHR ''x'' # s) (x # xs) = apfst ((@) (hex02 x)) (Sprintf_x s xs)"
  by (cases "Sprintf_x s xs") (simp add: Sprintf_x.simps(2) [of "CHR ''%''"])

lemmas [simp del] = Sprintf_x.simps(2)

lemma hex_digits [simp]:
  "hex_digit 0 = CHR ''0''" "hex_digit (Suc 0) = CHR ''1''" "hex_digit 2 = CHR ''2''" "hex_digit 3 = CHR ''3''"
  "hex_digit 4 = CHR ''4''" "hex_digit 5 = CHR ''5''" "hex_digit 6 = CHR ''6''" "hex_digit 7 = CHR ''7''"
  "hex_digit 8 = CHR ''8''" "hex_digit 9 = CHR ''9''" "hex_digit 10 = CHR ''a''" "hex_digit 11 = CHR ''b''"
  "hex_digit 12 = CHR ''c''" "hex_digit 13 = CHR ''d''" "hex_digit 14 = CHR ''e''" "hex_digit 15 = CHR ''f''"
  by (simp_all add: hex_digit_def char_of_def bit_iff_odd)

lemma Sprintf_declarations:
  "Sprintf_lines ioctlgen_format (map snd ioctl_constants) = drop 54 ([] # zz_ioctl_defs)"
  by (simp add: ioctlgen_format_def ioctl_constants_def zz_ioctl_defs_def tabs_def hex02_def hexadecimal.simps)

lemma head_lines: "ioctlgen_head = take 54 ([] # zz_ioctl_defs)"
  by (simp add: ioctlgen_head_def zz_ioctl_defs_def)

lemma arguments_by_name:
  "distinct (map fst ps) \<Longrightarrow>
     map (\<lambda>n. case map_of ps n of Some c \<Rightarrow> c | None \<Rightarrow> d) (map fst ps) = map snd ps"
  by (auto simp: map_of_eq_Some_iff split: option.split dest: eq_key_imp_eq_value)

lemma distinct_names: "distinct (map fst ioctl_constants)"
proof -
  have "distinct (map (drop 10) (map fst ioctl_constants))" by (simp add: ioctl_constants_def)
  then show ?thesis by (simp only: distinct_map)
qed

lemma ioctlgen_main_output:
  assumes "ioctlgen sizeof_C = ioctl_constants"
  shows "ioctlgen_main sizeof_C = [[]] @ zz_ioctl_defs @ [[]]"
  unfolding ioctlgen_main_def assms ioctlgen_args_names arguments_by_name [OF distinct_names]
    Sprintf_declarations head_lines by (simp only: append_take_drop_id append.simps append_assoc [symmetric])

section \<open>Properties\<close>


text \<open>The numbers that the stringers make the compiler check are those of all the constants of the
  package, in the order of their declarations, so every index is zero and no constant is forgotten.\<close>

theorem stringers_current:
  "IoctlCmd_checks = map (\<lambda>(n, c). (n, uint c)) ioctl_constants"
  "ObjectID_checks = map (\<lambda>(n, c). (n, uint c)) object_ids"
  "SearchKey_checks = map (\<lambda>(n, c). (n, uint c)) search_keys"
  "CompressionType_checks = map (\<lambda>(n, c). (n, uint c)) compression_types"
  "SendCommand_checks = map (\<lambda>(n, c). (n, uint c)) send_commands"
  "SendAttribute_checks = map (\<lambda>(n, c). (n, uint c)) send_attributes"
  by (simp_all add: IoctlCmd_checks_def ioctl_constants_def ObjectID_checks_def object_ids_def SearchKey_checks_def
      search_keys_def CompressionType_checks_def compression_types_def SendCommand_checks_def send_commands_def
      SendAttribute_checks_def send_attributes_def)

end
